(* ===== verification/Prelude.thy ===== *)
theory Prelude
  imports Main "HOL-Library.AList" "HOL-Library.Char_ord" "HOL-Library.List_Lexorder"
begin

section \<open>Shared vocabulary of the development\<close>

text \<open>
  What every component theory needs: results of fallible code as sums (\<open>Inl\<close> is the raised
  error), Python's insertion-ordered dictionaries as association lists, the string methods the
  source uses, and the generic lemmas about them. Python strings are lists of code points; a
  HOL \<open>char\<close> has 256 values, so the code points modelled are those below 256 (Latin-1), and the
  character classes below are Python's on that range.
\<close>

named_theorems result_simps \<open>unfolding of the result combinators\<close>
named_theorems inv_intros \<open>preservation of component invariants\<close>
named_theorems fail_closed \<open>facts that say what a success guarantees\<close>

subsection \<open>Results\<close>

definition bindE :: "'e + 'a \<Rightarrow> ('a \<Rightarrow> 'e + 'b) \<Rightarrow> 'e + 'b" where
  "bindE m f = (case m of Inl e \<Rightarrow> Inl e | Inr x \<Rightarrow> f x)"

lemma bindE_simps [simp, result_simps]:
  "bindE (Inl e) f = Inl e"
  "bindE (Inr x) f = f x"
  by (simp_all add: bindE_def)

lemma bindE_Inr [result_simps]: "bindE m f = Inr y \<longleftrightarrow> (\<exists>x. m = Inr x \<and> f x = Inr y)"
  by (cases m) auto

lemma bindE_Inl: "bindE m f = Inl e \<longleftrightarrow> m = Inl e \<or> (\<exists>x. m = Inr x \<and> f x = Inl e)"
  by (cases m) auto

lemma bindE_cong [fundef_cong]:
  "m = m' \<Longrightarrow> (\<And>x. m' = Inr x \<Longrightarrow> f x = g x) \<Longrightarrow> bindE m f = bindE m' g"
  by (cases m') (auto simp: bindE_def)

text \<open>A loop that stops at the first error, the comprehension of the source.\<close>

fun mapE :: "('a \<Rightarrow> 'e + 'b) \<Rightarrow> 'a list \<Rightarrow> 'e + 'b list" where
  "mapE f [] = Inr []"
| "mapE f (x # xs) = bindE (f x) (\<lambda>y. bindE (mapE f xs) (\<lambda>ys. Inr (y # ys)))"

lemma mapE_cong [fundef_cong]:
  "xs = ys \<Longrightarrow> (\<And>x. x \<in> set ys \<Longrightarrow> f x = g x) \<Longrightarrow> mapE f xs = mapE g ys"
  by (induction ys arbitrary: xs) auto

lemma mapE_Inr_iff: "mapE f xs = Inr ys \<longleftrightarrow> list_all2 (\<lambda>x y. f x = Inr y) xs ys"
proof (induction xs arbitrary: ys)
  case (Cons x xs)
  then show ?case by (cases ys) (auto simp: bindE_Inr)
qed auto

lemma mapE_id: "mapE f xs = Inr ys \<Longrightarrow> (\<And>x y. x \<in> set xs \<Longrightarrow> f x = Inr y \<Longrightarrow> y = x) \<Longrightarrow> ys = xs"
  by (induction xs arbitrary: ys) (auto simp: bindE_Inr)

lemma mapE_in: "mapE f xs = Inr ys \<Longrightarrow> x \<in> set xs \<Longrightarrow> \<exists>y \<in> set ys. f x = Inr y"
  by (induction xs arbitrary: ys) (auto simp: bindE_Inr)

lemma mapE_in_result: "mapE f xs = Inr ys \<Longrightarrow> y \<in> set ys \<Longrightarrow> \<exists>x \<in> set xs. f x = Inr y"
  by (induction xs arbitrary: ys) (auto simp: bindE_Inr)

lemma mapE_length: "mapE f xs = Inr ys \<Longrightarrow> length ys = length xs"
  by (induction xs arbitrary: ys) (auto simp: bindE_Inr)

lemma mapE_fails: "mapE f xs = Inl e \<Longrightarrow> \<exists>x \<in> set xs. f x = Inl e"
  by (induction xs) (auto simp: bindE_Inl)

text \<open>A loop that threads a state and stops at the first error.\<close>

fun foldE :: "('s \<Rightarrow> 'a \<Rightarrow> 'e + 's) \<Rightarrow> 's \<Rightarrow> 'a list \<Rightarrow> 'e + 's" where
  "foldE f s [] = Inr s"
| "foldE f s (x # xs) = bindE (f s x) (\<lambda>s'. foldE f s' xs)"

lemma foldE_invariant:
  "foldE f s xs = Inr s' \<Longrightarrow> P s \<Longrightarrow> (\<And>t x t'. x \<in> set xs \<Longrightarrow> P t \<Longrightarrow> f t x = Inr t' \<Longrightarrow> P t') \<Longrightarrow> P s'"
proof (induction xs arbitrary: s)
  case (Cons x xs)
  from Cons.prems(1) obtain t where t: "f s x = Inr t" "foldE f t xs = Inr s'"
    by (auto simp: bindE_Inr)
  with Cons.prems(2,3) have "P t" by (meson list.set_intros(1))
  show ?case
  proof (rule Cons.IH [OF t(2) \<open>P t\<close>])
    fix u y u'
    assume "y \<in> set xs" "P u" "f u y = Inr u'"
    then show "P u'" using Cons.prems(3) [of y u u'] by simp
  qed
qed simp

subsection \<open>Dictionaries\<close>

text \<open>
  A Python dictionary keeps its keys in insertion order, and assigning to a present key keeps
  the key's position: \<^term>\<open>AList.update\<close>. \<open>dget\<close> is \<open>d.get(k)\<close>.
\<close>

type_synonym ('k, 'v) dict = "('k \<times> 'v) list"

abbreviation dget :: "('k, 'v) dict \<Rightarrow> 'k \<Rightarrow> 'v option" where
  "dget d k \<equiv> map_of d k"

abbreviation dset :: "'k \<Rightarrow> 'v \<Rightarrow> ('k, 'v) dict \<Rightarrow> ('k, 'v) dict" where
  "dset k v d \<equiv> AList.update k v d"

abbreviation dkeys :: "('k, 'v) dict \<Rightarrow> 'k list" where
  "dkeys d \<equiv> map fst d"

definition dwf :: "('k, 'v) dict \<Rightarrow> bool" where
  "dwf d \<longleftrightarrow> distinct (dkeys d)"

definition dget_or :: "('k, 'v) dict \<Rightarrow> 'k \<Rightarrow> 'v \<Rightarrow> 'v" where
  "dget_or d k v = (case dget d k of None \<Rightarrow> v | Some x \<Rightarrow> x)"

lemma dwf_Nil [simp, inv_intros]: "dwf []"
  by (simp add: dwf_def)

lemma dwf_dset [inv_intros]: "dwf d \<Longrightarrow> dwf (dset k v d)"
  by (simp add: dwf_def distinct_update)

lemma dget_dset [simp]: "dget (dset k v d) k' = (if k = k' then Some v else dget d k')"
  by (simp add: update_conv')

lemma dget_or_dset [simp]: "dget_or (dset k v d) k' w = (if k = k' then v else dget_or d k' w)"
  by (simp add: dget_or_def)

lemma set_dkeys_dset [simp]: "set (dkeys (dset k v d)) = insert k (set (dkeys d))"
  by (induction d) auto

lemma dget_Some_in: "dget d k = Some v \<Longrightarrow> (k, v) \<in> set d"
  by (rule map_of_SomeD)

lemma dget_None_iff: "dget d k = None \<longleftrightarrow> k \<notin> set (dkeys d)"
  by (simp add: map_of_eq_None_iff)

lemma dget_in_vals: "dget d k = Some v \<Longrightarrow> v \<in> snd ` set d"
  by (force dest: map_of_SomeD)

lemma dwf_in_dget: "dwf d \<Longrightarrow> (k, v) \<in> set d \<Longrightarrow> dget d k = Some v"
  by (simp add: dwf_def)

lemma dwf_filter [inv_intros]: "dwf d \<Longrightarrow> dwf (filter P d)"
  unfolding dwf_def by (induction d) auto

lemma length_dset: "length (dset k v d) = (if k \<in> set (dkeys d) then length d else Suc (length d))"
  by (induction d) auto

lemma in_dset: "x \<in> set (dset k v d) \<Longrightarrow> x = (k, v) \<or> x \<in> set d"
  by (induction d) (auto split: if_splits)

lemma ball_dset [inv_intros]: "P (k, v) \<Longrightarrow> \<forall>x \<in> set d. P x \<Longrightarrow> \<forall>x \<in> set (dset k v d). P x"
  by (auto dest!: in_dset)

subsection \<open>Characters and string methods\<close>

definition ord :: "char \<Rightarrow> nat" where
  "ord c = of_char c"

definition btw :: "nat \<Rightarrow> nat \<Rightarrow> char \<Rightarrow> bool" where
  "btw lo hi c \<longleftrightarrow> lo \<le> ord c \<and> ord c \<le> hi"

definition is_lower :: "char \<Rightarrow> bool" where "is_lower = btw 97 122"
definition is_upper :: "char \<Rightarrow> bool" where "is_upper = btw 65 90"
definition is_digit :: "char \<Rightarrow> bool" where "is_digit = btw 48 57"
definition is_letter :: "char \<Rightarrow> bool" where "is_letter c \<longleftrightarrow> is_lower c \<or> is_upper c"
definition is_alnum :: "char \<Rightarrow> bool" where "is_alnum c \<longleftrightarrow> is_letter c \<or> is_digit c"

text \<open>\<open>str.isspace\<close> and \<open>\s\<close>; \<open>str.isdigit\<close> (superscripts count) and \<open>\w\<close>.\<close>

definition is_space :: "char \<Rightarrow> bool" where
  "is_space c \<longleftrightarrow> btw 9 13 c \<or> btw 28 32 c \<or> ord c = 133 \<or> ord c = 160"

definition is_pydigit :: "char \<Rightarrow> bool" where
  "is_pydigit c \<longleftrightarrow> is_digit c \<or> ord c \<in> {178, 179, 185}"

definition is_word :: "char \<Rightarrow> bool" where
  "is_word c \<longleftrightarrow> is_alnum c \<or> ord c = 95 \<or> ord c \<in> {170, 178, 179, 181, 185, 186, 188, 189, 190} \<or>
     (btw 192 255 c \<and> ord c \<noteq> 215 \<and> ord c \<noteq> 247)"

definition is_pyalnum :: "char \<Rightarrow> bool" where
  "is_pyalnum c \<longleftrightarrow> is_word c \<and> ord c \<noteq> 95"

lemmas char_defs = ord_def btw_def is_lower_def is_upper_def is_digit_def is_letter_def is_alnum_def
  is_space_def is_pydigit_def is_word_def is_pyalnum_def

text \<open>The Latin-1 part of the sources' control classes: C0, DEL and C1 controls.\<close>

definition is_control :: "char \<Rightarrow> bool" where
  "is_control c \<longleftrightarrow> btw 0 31 c \<or> btw 127 159 c"

definition lower_char :: "char \<Rightarrow> char" where
  "lower_char c = (if is_upper c \<or> (btw 192 222 c \<and> ord c \<noteq> 215) then char_of (ord c + 32) else c)"

text \<open>The same tests on the bits of a character, for evaluation.\<close>

lemma is_upper_code [code]: "is_upper (Char b0 b1 b2 b3 b4 b5 b6 b7) \<longleftrightarrow>
  \<not> b7 \<and> b6 \<and> \<not> b5 \<and> (if b4 then \<not> (b3 \<and> (b2 \<or> b1 \<and> b0)) else b0 \<or> b1 \<or> b2 \<or> b3)"
  by (cases b7; cases b6; cases b5; cases b4; cases b3; cases b2; cases b1; cases b0) (simp_all add: char_defs)

lemma is_lower_code [code]: "is_lower (Char b0 b1 b2 b3 b4 b5 b6 b7) \<longleftrightarrow>
  \<not> b7 \<and> b6 \<and> b5 \<and> (if b4 then \<not> (b3 \<and> (b2 \<or> b1 \<and> b0)) else b0 \<or> b1 \<or> b2 \<or> b3)"
  by (cases b7; cases b6; cases b5; cases b4; cases b3; cases b2; cases b1; cases b0) (simp_all add: char_defs)

lemma is_digit_code [code]: "is_digit (Char b0 b1 b2 b3 b4 b5 b6 b7) \<longleftrightarrow>
  \<not> b7 \<and> \<not> b6 \<and> b5 \<and> b4 \<and> (b3 \<longrightarrow> \<not> b2 \<and> \<not> b1)"
  by (cases b7; cases b6; cases b5; cases b4; cases b3; cases b2; cases b1; cases b0) (simp_all add: char_defs)

lemma is_space_code [code]: "is_space (Char b0 b1 b2 b3 b4 b5 b6 b7) \<longleftrightarrow>
  \<not> b6 \<and> (if b7 then (if b5 then \<not> b4 \<and> \<not> b3 \<and> \<not> b2 \<and> \<not> b1 \<and> \<not> b0 else \<not> b4 \<and> \<not> b3 \<and> b2 \<and> \<not> b1 \<and> b0)
    else if b5 then \<not> b4 \<and> \<not> b3 \<and> \<not> b2 \<and> \<not> b1 \<and> \<not> b0
    else if b4 then b3 \<and> b2 else b3 \<and> (if b2 then \<not> b1 else b0 \<or> b1))"
  by (cases b7; cases b6; cases b5; cases b4; cases b3; cases b2; cases b1; cases b0) (simp_all add: char_defs)

lemma lower_char_code [code]: "lower_char (Char b0 b1 b2 b3 b4 b5 b6 b7) =
  (if b6 \<and> \<not> b5 \<and> (if b7 then \<not> (b4 \<and> b3 \<and> b2 \<and> b1 \<and> b0) \<and> \<not> (b4 \<and> \<not> b3 \<and> b2 \<and> b1 \<and> b0)
     else if b4 then \<not> (b3 \<and> (b2 \<or> b1 \<and> b0)) else b0 \<or> b1 \<or> b2 \<or> b3)
   then Char b0 b1 b2 b3 b4 True b6 b7 else Char b0 b1 b2 b3 b4 b5 b6 b7)"
  by (cases b7; cases b6; cases b5; cases b4; cases b3; cases b2; cases b1; cases b0) (simp_all add: lower_char_def char_defs char_of_def bit_0)

definition word_high :: "char \<Rightarrow> bool" where
 "word_high c \<longleftrightarrow> ord c \<in> {170, 178, 179, 181, 185, 186, 188, 189, 190} \<or> (btw 192 255 c \<and> ord c \<noteq> 215 \<and> ord c \<noteq> 247)"

lemma is_word_code [code]: "is_word (Char b0 b1 b2 b3 b4 b5 b6 b7) \<longleftrightarrow>
  (if b7 then word_high (Char b0 b1 b2 b3 b4 b5 b6 b7)
   else is_letter (Char b0 b1 b2 b3 b4 b5 b6 b7) \<or> is_digit (Char b0 b1 b2 b3 b4 b5 b6 b7)
     \<or> b6 \<and> \<not> b5 \<and> b4 \<and> b3 \<and> b2 \<and> b1 \<and> b0)"
  by (cases b7; cases b6; cases b5; cases b4; cases b3; cases b2; cases b1; cases b0) (simp_all add: word_high_def char_defs)

lemma lower_char_upper: "is_lower (lower_char c) \<Longrightarrow> is_word c"
proof (cases c)
  case (Char b0 b1 b2 b3 b4 b5 b6 b7)
  show "is_lower (lower_char c) \<Longrightarrow> is_word c"
    unfolding Char lower_char_code is_word_code is_letter_def is_upper_code is_lower_code
    by (auto simp: is_lower_code split: if_splits)
qed

definition lower :: "string \<Rightarrow> string" where
  "lower s = map lower_char s"

definition newline :: char where "newline = CHR 0x0A"

definition lstrip :: "string \<Rightarrow> string" where
  "lstrip s = dropWhile is_space s"

definition rstrip :: "string \<Rightarrow> string" where
  "rstrip s = rev (dropWhile is_space (rev s))"

definition strip :: "string \<Rightarrow> string" where
  "strip s = rstrip (lstrip s)"

lemma dropWhile_none: "\<forall>c \<in> set s. \<not> f c \<Longrightarrow> dropWhile f s = s"
  by (cases s) auto

lemma strip_id: "\<forall>c \<in> set s. \<not> is_space c \<Longrightarrow> strip s = s"
  by (simp add: strip_def lstrip_def rstrip_def dropWhile_none)

text \<open>\<open>s.split(c)\<close> for a one-character separator, \<open>c.join(parts)\<close>.\<close>

fun split_on :: "'a \<Rightarrow> 'a list \<Rightarrow> 'a list list" where
  "split_on c [] = [[]]"
| "split_on c (x # xs) =
     (if x = c then [] # split_on c xs
      else (case split_on c xs of [] \<Rightarrow> [[x]] | p # ps \<Rightarrow> (x # p) # ps))"

fun join_on :: "'a list \<Rightarrow> 'a list list \<Rightarrow> 'a list" where
  "join_on sep [] = []"
| "join_on sep [p] = p"
| "join_on sep (p # q # ps) = p @ sep @ join_on sep (q # ps)"

definition starts_with :: "'a list \<Rightarrow> 'a list \<Rightarrow> bool" where
  "starts_with p s \<longleftrightarrow> take (length p) s = p"

definition ends_with :: "'a list \<Rightarrow> 'a list \<Rightarrow> bool" where
  "ends_with p s \<longleftrightarrow> starts_with (rev p) (rev s)"

text \<open>\<open>p in s\<close> for strings.\<close>

fun contains :: "'a list \<Rightarrow> 'a list \<Rightarrow> bool" where
  "contains p [] = (p = [])"
| "contains p (c # s) = (starts_with p (c # s) \<or> contains p s)"

text \<open>\<open>int(text)\<close> of ASCII digits and \<open>str(n)\<close>.\<close>

definition digit_val :: "char \<Rightarrow> nat" where
  "digit_val c = ord c - 48"

definition nat_of_digits :: "string \<Rightarrow> nat" where
  "nat_of_digits s = foldl (\<lambda>n c. 10 * n + digit_val c) 0 s"

fun digits_of :: "nat \<Rightarrow> string" where
  "digits_of n = (if n < 10 then [char_of (48 + n)] else digits_of (n div 10) @ [char_of (48 + n mod 10)])"

declare digits_of.simps [simp del]

definition str_of_int :: "int \<Rightarrow> string" where
  "str_of_int i = (if i < 0 then CHR ''-'' # digits_of (nat (- i)) else digits_of (nat i))"

lemma starts_with_append [simp]: "starts_with p (p @ s)"
  by (simp add: starts_with_def)

lemma starts_with_iff: "starts_with p s \<longleftrightarrow> (\<exists>t. s = p @ t)"
  by (metis append_take_drop_id starts_with_append starts_with_def)

lemma split_on_not_Nil [simp]: "split_on c xs \<noteq> []"
  by (cases xs) (auto split: list.splits)

lemma join_split [simp]: "join_on [c] (split_on c xs) = xs"
proof (induction xs)
  case (Cons x xs)
  then show ?case
    by (cases "split_on c xs"; cases "tl (split_on c xs)") auto
qed simp

lemma split_on_parts: "p \<in> set (split_on c xs) \<Longrightarrow> c \<notin> set p \<and> set p \<subseteq> set xs"
  by (induction xs arbitrary: p) (force split: list.splits if_splits)+

lemma nat_of_digits_snoc: "nat_of_digits (s @ [c]) = 10 * nat_of_digits s + digit_val c"
  by (simp add: nat_of_digits_def)

lemma ord_char_of: "n < 256 \<Longrightarrow> ord (char_of n) = n"
  by (simp add: ord_def)

lemma digits_roundtrip [simp]: "nat_of_digits (digits_of n) = n"
proof (induction n rule: digits_of.induct)
  case (1 n)
  show ?case
  proof (cases "n < 10")
    case True
    then show ?thesis
      by (simp add: digits_of.simps [of n] nat_of_digits_def digit_val_def ord_char_of)
  next
    case False
    with 1 show ?thesis
      by (simp add: digits_of.simps [of n] nat_of_digits_snoc digit_val_def ord_char_of)
  qed
qed

lemma digits_of_digits: "c \<in> set (digits_of n) \<Longrightarrow> is_digit c"
proof (induction n rule: digits_of.induct)
  case (1 n)
  then show ?case
    by (subst (asm) digits_of.simps)
       (auto simp: is_digit_def btw_def ord_char_of split: if_splits)
qed

lemma digits_of_inj [simp]: "digits_of m = digits_of n \<longleftrightarrow> m = n"
  by (metis digits_roundtrip)

lemma digits_of_not_Nil [simp]: "digits_of n \<noteq> []"
  by (subst digits_of.simps) simp

subsection \<open>Machines that step over a list of events\<close>

text \<open>
  Several components are machines: a total step over an event, run over a sequence of events.
  The interface says that every step keeps an invariant; runs then keep it.
\<close>

definition run_steps :: "('s \<Rightarrow> 'e \<Rightarrow> 's) \<Rightarrow> 's \<Rightarrow> 'e list \<Rightarrow> 's" where
  "run_steps step s es = foldl step s es"

locale step_machine =
  fixes step :: "'s \<Rightarrow> 'e \<Rightarrow> 's"
    and ok :: "'s \<Rightarrow> bool"
  assumes step_ok: "ok s \<Longrightarrow> ok (step s e)"
begin

lemma run_ok: "ok s \<Longrightarrow> ok (run_steps step s es)"
  unfolding run_steps_def by (induction es arbitrary: s) (auto intro: step_ok)

lemma run_prefix_ok: "ok s \<Longrightarrow> ok (run_steps step s (take n es))"
  by (rule run_ok)

end

text \<open>A machine with a measure that no step lowers (a counter, an append-only log).\<close>

locale monotone_machine = step_machine +
  fixes le :: "'b \<Rightarrow> 'b \<Rightarrow> bool"
    and view :: "'a \<Rightarrow> 'b"
  assumes le_refl: "le x x"
    and le_trans: "le x y \<Longrightarrow> le y z \<Longrightarrow> le x z"
    and step_le: "ok s \<Longrightarrow> le (view s) (view (step s e))"
begin

lemma run_le: "ok s \<Longrightarrow> le (view s) (view (run_steps step s es))"
proof (induction es arbitrary: s)
  case Nil
  then show ?case by (simp add: run_steps_def le_refl)
next
  case (Cons e es)
  have "le (view s) (view (step s e))" by (rule step_le [OF Cons.prems])
  moreover have "le (view (step s e)) (view (run_steps step (step s e) es))"
    by (rule Cons.IH [OF step_ok [OF Cons.prems]])
  ultimately show ?case by (simp add: run_steps_def) (rule le_trans)
qed

end

end
