(* ===== verification/Regex.thy ===== *)
theory Regex
  imports Prelude
begin

section \<open>Regular expressions of the standard library\<close>

text \<open>
  The source decides most of its grammar questions with Python's \<open>re\<close>. A pattern is a value of
  \<open>rx\<close>; \<open>nul\<close>/\<open>der\<close> are the derivative matcher, with the character before the current position
  threaded through so that the word boundary \<open>\b\<close> is an ordinary pattern; \<open>mt\<close> is the
  declarative semantics, and \<open>rmatch_iff\<close> says that the matcher decides it. Only the boolean
  answer of a match is used, so greedy and lazy repetition coincide.
\<close>

datatype rx =
    Zero
  | Eps
  | Cls "char \<Rightarrow> bool"
  | Bnd
  | Seq rx rx
  | Alt rx rx
  | Star rx
  | Rep nat nat rx \<comment> \<open>between \<open>m\<close> and \<open>m + n\<close> times\<close>

definition word_at :: "char option \<Rightarrow> bool" where
  "word_at c = (case c of None \<Rightarrow> False | Some x \<Rightarrow> is_word x)"

fun nul :: "char option \<Rightarrow> char option \<Rightarrow> rx \<Rightarrow> bool" where
  "nul p q Zero = False"
| "nul p q Eps = True"
| "nul p q (Cls f) = False"
| "nul p q Bnd = (word_at p \<noteq> word_at q)"
| "nul p q (Seq r s) = (nul p q r \<and> nul p q s)"
| "nul p q (Alt r s) = (nul p q r \<or> nul p q s)"
| "nul p q (Star r) = True"
| "nul p q (Rep m n r) = (m = 0 \<or> nul p q r)"

definition sq :: "rx \<Rightarrow> rx \<Rightarrow> rx" where
  "sq r s = (case r of Zero \<Rightarrow> Zero | Eps \<Rightarrow> s | _ \<Rightarrow> (case s of Zero \<Rightarrow> Zero | _ \<Rightarrow> Seq r s))"

definition al :: "rx \<Rightarrow> rx \<Rightarrow> rx" where
  "al r s = (case r of Zero \<Rightarrow> s | _ \<Rightarrow> (case s of Zero \<Rightarrow> r | _ \<Rightarrow> Alt r s))"

function der :: "char option \<Rightarrow> char \<Rightarrow> rx \<Rightarrow> rx" where
  "der p c Zero = Zero"
| "der p c Eps = Zero"
| "der p c (Cls f) = (if f c then Eps else Zero)"
| "der p c Bnd = Zero"
| "der p c (Seq r s) = al (sq (der p c r) s) (if nul p (Some c) r then der p c s else Zero)"
| "der p c (Alt r s) = al (der p c r) (der p c s)"
| "der p c (Star r) = sq (der p c r) (Star r)"
| "der p c (Rep 0 0 r) = Zero"
| "der p c (Rep 0 (Suc n) r) =
     al (sq (der p c r) (Rep 0 n r)) (if nul p (Some c) r then der p c (Rep 0 n r) else Zero)"
| "der p c (Rep (Suc m) n r) =
     al (sq (der p c r) (Rep m n r)) (if nul p (Some c) r then der p c (Rep m n r) else Zero)"
  by pat_completeness auto
termination
  by (relation "measures [\<lambda>(p, c, r). size r,
                          \<lambda>(p, c, r). (case r of Rep m n _ \<Rightarrow> m + n | _ \<Rightarrow> 0)]") auto

fun rmatch :: "char option \<Rightarrow> rx \<Rightarrow> string \<Rightarrow> bool" where
  "rmatch p r [] = nul p None r"
| "rmatch p r (c # cs) = rmatch (Some c) (der p c r) cs"

subsection \<open>Declarative semantics\<close>

definition lastc :: "char option \<Rightarrow> string \<Rightarrow> char option" where
  "lastc p s = (if s = [] then p else Some (last s))"

definition firstc :: "string \<Rightarrow> char option \<Rightarrow> char option" where
  "firstc s q = (case s of [] \<Rightarrow> q | c # _ \<Rightarrow> Some c)"

text \<open>\<open>mt p s q r\<close>: \<open>r\<close> matches \<open>s\<close> between the characters \<open>p\<close> and \<open>q\<close>.\<close>

inductive mt :: "char option \<Rightarrow> string \<Rightarrow> char option \<Rightarrow> rx \<Rightarrow> bool" where
  mt_Eps: "mt p [] q Eps"
| mt_Cls: "f c \<Longrightarrow> mt p [c] q (Cls f)"
| mt_Bnd: "word_at p \<noteq> word_at q \<Longrightarrow> mt p [] q Bnd"
| mt_Seq: "mt p s (firstc t q) r \<Longrightarrow> mt (lastc p s) t q u \<Longrightarrow> mt p (s @ t) q (Seq r u)"
| mt_Alt1: "mt p s q r \<Longrightarrow> mt p s q (Alt r u)"
| mt_Alt2: "mt p s q u \<Longrightarrow> mt p s q (Alt r u)"
| mt_Star0: "mt p [] q (Star r)"
| mt_Star1: "s \<noteq> [] \<Longrightarrow> mt p s (firstc t q) r \<Longrightarrow> mt (lastc p s) t q (Star r) \<Longrightarrow> mt p (s @ t) q (Star r)"
| mt_Rep0: "mt p [] q (Rep 0 n r)"
| mt_RepO: "mt p s (firstc t q) r \<Longrightarrow> mt (lastc p s) t q (Rep 0 n r) \<Longrightarrow> mt p (s @ t) q (Rep 0 (Suc n) r)"
| mt_RepS: "mt p s (firstc t q) r \<Longrightarrow> mt (lastc p s) t q (Rep m n r) \<Longrightarrow> mt p (s @ t) q (Rep (Suc m) n r)"

inductive_cases mt_ZeroE: "mt p s q Zero"
inductive_cases mt_EpsE: "mt p s q Eps"
inductive_cases mt_ClsE: "mt p s q (Cls f)"
inductive_cases mt_BndE: "mt p s q Bnd"
inductive_cases mt_SeqE: "mt p s q (Seq r u)"
inductive_cases mt_AltE: "mt p s q (Alt r u)"
inductive_cases mt_StarE: "mt p s q (Star r)"
inductive_cases mt_Rep00E: "mt p s q (Rep 0 0 r)"
inductive_cases mt_Rep0SE: "mt p s q (Rep 0 (Suc n) r)"
inductive_cases mt_RepSE: "mt p s q (Rep (Suc m) n r)"

lemma mt_Zero [simp]: "\<not> mt p s q Zero"
  by (auto elim: mt_ZeroE)

lemma mt_Eps_iff [simp]: "mt p s q Eps \<longleftrightarrow> s = []"
  by (auto elim: mt_EpsE intro: mt_Eps)

lemma mt_Cls_iff [simp]: "mt p s q (Cls f) \<longleftrightarrow> (\<exists>c. s = [c] \<and> f c)"
  by (auto elim: mt_ClsE intro: mt_Cls)

lemma mt_Bnd_iff [simp]: "mt p s q Bnd \<longleftrightarrow> s = [] \<and> word_at p \<noteq> word_at q"
  by (auto elim: mt_BndE intro: mt_Bnd)

lemma mt_Alt_iff [simp]: "mt p s q (Alt r u) \<longleftrightarrow> mt p s q r \<or> mt p s q u"
  by (auto elim: mt_AltE intro: mt_Alt1 mt_Alt2)

lemma mt_Seq_iff:
  "mt p w q (Seq r u) \<longleftrightarrow> (\<exists>s t. w = s @ t \<and> mt p s (firstc t q) r \<and> mt (lastc p s) t q u)"
  by (rule iffI, erule mt_SeqE, blast, auto intro: mt_Seq)

lemma mt_Star_iff:
  "mt p w q (Star r) \<longleftrightarrow> w = [] \<or>
     (\<exists>s t. w = s @ t \<and> s \<noteq> [] \<and> mt p s (firstc t q) r \<and> mt (lastc p s) t q (Star r))"
  by (rule iffI, erule mt_StarE, blast, blast, auto intro: mt_Star0 mt_Star1)

lemma mt_Rep00_iff: "mt p w q (Rep 0 0 r) \<longleftrightarrow> w = []"
  by (rule iffI, erule mt_Rep00E, auto intro: mt_Rep0)

lemma mt_Rep0S_iff:
  "mt p w q (Rep 0 (Suc n) r) \<longleftrightarrow> w = [] \<or>
     (\<exists>s t. w = s @ t \<and> mt p s (firstc t q) r \<and> mt (lastc p s) t q (Rep 0 n r))"
  by (rule iffI, erule mt_Rep0SE, blast, blast, auto intro: mt_Rep0 mt_RepO)

lemma mt_RepS_iff:
  "mt p w q (Rep (Suc m) n r) \<longleftrightarrow>
     (\<exists>s t. w = s @ t \<and> mt p s (firstc t q) r \<and> mt (lastc p s) t q (Rep m n r))"
  by (rule iffI, erule mt_RepSE, blast, auto intro: mt_RepS)

lemma firstc_simps [simp]: "firstc [] q = q" "firstc (c # s) q = Some c"
  by (simp_all add: firstc_def)

lemma lastc_simps [simp]: "lastc p [] = p" "lastc p (c # s) = lastc (Some c) s"
  by (simp_all add: lastc_def)

lemma firstc_append [simp]: "firstc (s @ t) q = firstc s (firstc t q)"
  by (cases s) auto

lemma lastc_append [simp]: "lastc p (s @ t) = lastc (lastc p s) t"
  by (simp add: lastc_def)

lemma mt_Seq_unit [simp]:
  "\<not> mt p w q (Seq Zero s)"
  "\<not> mt p w q (Seq r Zero)"
  "mt p w q (Seq Eps s) \<longleftrightarrow> mt p w q s"
  by (auto simp: mt_Seq_iff)

lemma mt_sq [simp]: "mt p w q (sq r s) \<longleftrightarrow> mt p w q (Seq r s)"
  by (simp add: sq_def split: rx.split)

lemma mt_al [simp]: "mt p w q (al r s) \<longleftrightarrow> mt p w q r \<or> mt p w q s"
  by (simp add: al_def split: rx.split)

subsection \<open>The matcher decides the semantics\<close>

lemma mt_Nil_Seq [simp]: "mt p [] q (Seq r u) \<longleftrightarrow> mt p [] q r \<and> mt p [] q u"
  by (auto simp: mt_Seq_iff)

lemma mt_Nil_Rep: "mt p [] q (Rep m n r) \<longleftrightarrow> m = 0 \<or> mt p [] q r"
  by (induction m) (auto simp: mt_RepS_iff intro: mt_Rep0)

lemma nul_iff: "nul p q r \<longleftrightarrow> mt p [] q r"
  by (induction r) (auto simp: mt_Nil_Rep intro: mt_Star0)

lemma der_step:
  assumes r: "\<And>w q. mt (Some c) w q d \<longleftrightarrow> mt p (c # w) q r"
    and u: "nul p (Some c) r \<Longrightarrow> mt (Some c) w q e \<longleftrightarrow> mt p (c # w) q u"
  shows "mt (Some c) w q (al (sq d u) (if nul p (Some c) r then e else Zero)) \<longleftrightarrow> mt p (c # w) q (Seq r u)"
    (is "?L \<longleftrightarrow> ?R")
proof
  assume ?L
  then consider s t where "w = s @ t" "mt p (c # s) (firstc t q) r" "mt (lastc (Some c) s) t q u"
    | "nul p (Some c) r" "mt p (c # w) q u"
    using r u by (auto simp: mt_Seq_iff split: if_splits)
  then show ?R
  proof cases
    case 1
    then show ?thesis using mt_Seq [of p "c # s" t q r u] by simp
  next
    case 2
    then show ?thesis using mt_Seq [of p "[]" "c # w" q r u] by (simp add: nul_iff)
  qed
next
  assume ?R
  then obtain s t where st: "c # w = s @ t" "mt p s (firstc t q) r" "mt (lastc p s) t q u"
    by (auto simp: mt_Seq_iff)
  show ?L
  proof (cases s)
    case Nil
    with st u show ?thesis by (auto simp: nul_iff)
  next
    case (Cons x s')
    with st r have "w = s' @ t" "mt (Some c) s' (firstc t q) d" "mt (lastc (Some c) s') t q u" by auto
    then show ?thesis by (auto intro: mt_Seq)
  qed
qed

lemma Rep_Seq:
  "mt p (c # w) q (Rep 0 (Suc n) r) \<longleftrightarrow> mt p (c # w) q (Seq r (Rep 0 n r))"
  "mt p v q (Rep (Suc m) n r) \<longleftrightarrow> mt p v q (Seq r (Rep m n r))"
  by (simp_all add: mt_Rep0S_iff mt_RepS_iff mt_Seq_iff)

lemma Star_Seq: "mt p (c # w) q (Star r) \<longleftrightarrow> (\<exists>s t. w = s @ t \<and> mt p (c # s) (firstc t q) r \<and>
    mt (lastc (Some c) s) t q (Star r))" (is "?L \<longleftrightarrow> ?R")
proof
  assume ?L
  then obtain s t where "c # w = s @ t" "s \<noteq> []" "mt p s (firstc t q) r" "mt (lastc p s) t q (Star r)"
    using mt_Star_iff [of p "c # w" q r] by (metis list.distinct(1))
  then show ?R by (cases s) auto
next
  assume ?R
  then obtain s t where "w = s @ t" "mt p (c # s) (firstc t q) r" "mt (lastc (Some c) s) t q (Star r)"
    by blast
  then show ?L using mt_Star1 [of "c # s" p t q r] by simp
qed

lemma der_iff: "mt (Some c) w q (der p c r) \<longleftrightarrow> mt p (c # w) q r"
proof (induction p c r arbitrary: w q rule: der.induct)
  case (5 p c r s)
  then show ?case by (simp only: der.simps) (rule der_step; simp)
next
  case (7 p c r)
  then show ?case by (auto simp: mt_Seq_iff Star_Seq)
next
  case (9 p c n r)
  then show ?case by (simp only: der.simps Rep_Seq) (rule der_step; simp)
next
  case (10 p c m n r)
  then show ?case by (simp only: der.simps Rep_Seq) (rule der_step; simp)
qed (auto simp: mt_Rep00_iff)

theorem rmatch_iff: "rmatch p r s \<longleftrightarrow> mt p s None r"
  by (induction p r s rule: rmatch.induct) (auto simp: nul_iff der_iff)

subsection \<open>Python's entry points\<close>

definition any_char :: rx where "any_char = Cls (\<lambda>_. True)"
definition anything :: rx where "anything = Star any_char"

text \<open>
  \<open>re.fullmatch(p, s)\<close>; \<open>re.match\<close> of a pattern that ends in \<open>$\<close> (the end, or before one
  final newline) and of one that ends in \<open>\Z\<close>; \<open>re.match\<close> of an open pattern; \<open>re.search\<close>.
\<close>

definition fullmatch :: "rx \<Rightarrow> string \<Rightarrow> bool" where
  "fullmatch r s = rmatch None r s"

definition match_dollar :: "rx \<Rightarrow> string \<Rightarrow> bool" where
  "match_dollar r s = rmatch None (Seq r (Alt Eps (Cls (\<lambda>c. c = newline)))) s"

definition match_prefix :: "rx \<Rightarrow> string \<Rightarrow> bool" where
  "match_prefix r s = rmatch None (Seq r anything) s"

definition search :: "rx \<Rightarrow> string \<Rightarrow> bool" where
  "search r s = rmatch None (Seq anything (Seq r anything)) s"

lemma mt_anything [simp]: "mt p w q anything"
proof (induction w arbitrary: p)
  case Nil
  then show ?case by (simp add: anything_def mt_Star0)
next
  case (Cons c w)
  have "mt p ([c] @ w) q (Star any_char)"
    by (rule mt_Star1) (use Cons in \<open>auto simp: any_char_def anything_def\<close>)
  then show ?case by (simp add: anything_def)
qed

lemma fullmatch_iff: "fullmatch r s \<longleftrightarrow> mt None s None r"
  by (simp add: fullmatch_def rmatch_iff)

theorem search_iff:
  "search r s \<longleftrightarrow> (\<exists>a b c. s = a @ b @ c \<and> mt (lastc None a) b (firstc c None) r)"
  by (auto simp: search_def rmatch_iff mt_Seq_iff)

lemma match_prefix_iff: "match_prefix r s \<longleftrightarrow> (\<exists>a b. s = a @ b \<and> mt None a (firstc b None) r)"
  by (auto simp: match_prefix_def rmatch_iff mt_Seq_iff)

text \<open>
  \<open>$\<close> accepts one trailing newline: the full matches, and the full matches followed by it.
\<close>

lemma match_dollar_iff:
  "match_dollar r s \<longleftrightarrow> mt None s None r \<or> (\<exists>t. s = t @ [newline] \<and> mt None t (Some newline) r)"
proof -
  have "match_dollar r s \<longleftrightarrow>
      (\<exists>a b. s = a @ b \<and> mt None a (firstc b None) r \<and> (b = [] \<or> b = [newline]))"
    unfolding match_dollar_def rmatch_iff mt_Seq_iff by auto
  also have "\<dots> \<longleftrightarrow> mt None s None r \<or> (\<exists>t. s = t @ [newline] \<and> mt None t (Some newline) r)"
    by (metis append_Nil2 firstc_simps)
  finally show ?thesis .
qed

subsection \<open>Characters and lengths of a match\<close>

text \<open>The characters that a pattern without its context can consume, and its longest match.\<close>

fun chars_ok :: "(char \<Rightarrow> bool) \<Rightarrow> rx \<Rightarrow> (char \<Rightarrow> bool) list" where
  "chars_ok P (Cls f) = [f]"
| "chars_ok P (Seq r s) = chars_ok P r @ chars_ok P s"
| "chars_ok P (Alt r s) = chars_ok P r @ chars_ok P s"
| "chars_ok P (Star r) = chars_ok P r"
| "chars_ok P (Rep m n r) = chars_ok P r"
| "chars_ok P _ = []"

definition only_chars :: "(char \<Rightarrow> bool) \<Rightarrow> rx \<Rightarrow> bool" where
  "only_chars P r \<longleftrightarrow> (\<forall>f \<in> set (chars_ok P r). \<forall>c. f c \<longrightarrow> P c)"

lemma only_chars_simps [simp]:
  "only_chars P Zero" "only_chars P Eps" "only_chars P Bnd"
  "only_chars P (Cls f) \<longleftrightarrow> (\<forall>c. f c \<longrightarrow> P c)"
  "only_chars P (Seq r s) \<longleftrightarrow> only_chars P r \<and> only_chars P s"
  "only_chars P (Alt r s) \<longleftrightarrow> only_chars P r \<and> only_chars P s"
  "only_chars P (Star r) \<longleftrightarrow> only_chars P r"
  "only_chars P (Rep m n r) \<longleftrightarrow> only_chars P r"
  by (auto simp: only_chars_def)

lemma mt_only_chars: "mt p s q r \<Longrightarrow> only_chars P r \<Longrightarrow> c \<in> set s \<Longrightarrow> P c"
  by (induction rule: mt.induct) auto

fun max_len :: "rx \<Rightarrow> nat option" where
  "max_len Zero = Some 0"
| "max_len Eps = Some 0"
| "max_len (Cls f) = Some 1"
| "max_len Bnd = Some 0"
| "max_len (Seq r s) = (case (max_len r, max_len s) of (Some a, Some b) \<Rightarrow> Some (a + b) | _ \<Rightarrow> None)"
| "max_len (Alt r s) = (case (max_len r, max_len s) of (Some a, Some b) \<Rightarrow> Some (max a b) | _ \<Rightarrow> None)"
| "max_len (Star r) = None"
| "max_len (Rep m n r) = map_option (\<lambda>k. (m + n) * k) (max_len r)"

lemma mt_max_len: "mt p s q r \<Longrightarrow> max_len r = Some k \<Longrightarrow> length s \<le> k"
proof (induction arbitrary: k rule: mt.induct)
  case (mt_RepO p s t q r n)
  then show ?case by (fastforce simp: algebra_simps)
next
  case (mt_RepS p s t q r m n)
  then show ?case by (fastforce simp: algebra_simps)
qed (fastforce split: option.splits)+

text \<open>Pattern abbreviations: a literal text, a literal text whatever its case, optional, plus.\<close>

definition chr_rx :: "char \<Rightarrow> rx" where "chr_rx c = Cls (\<lambda>x. x = c)"

fun lit :: "string \<Rightarrow> rx" where
  "lit [] = Eps"
| "lit (c # s) = Seq (chr_rx c) (lit s)"

fun ilit :: "string \<Rightarrow> rx" where
  "ilit [] = Eps"
| "ilit (c # s) = Seq (Cls (\<lambda>x. lower_char x = lower_char c)) (ilit s)"

fun alts :: "rx list \<Rightarrow> rx" where
  "alts [] = Zero"
| "alts [r] = r"
| "alts (r # s # rs) = Alt r (alts (s # rs))"

fun seqs :: "rx list \<Rightarrow> rx" where
  "seqs [] = Eps"
| "seqs [r] = r"
| "seqs (r # s # rs) = Seq r (seqs (s # rs))"

definition opt :: "rx \<Rightarrow> rx" where "opt r = Alt Eps r"
definition plus1 :: "rx \<Rightarrow> rx" where "plus1 r = Seq r (Star r)"

lemma mt_chr [simp]: "mt p s q (chr_rx c) \<longleftrightarrow> s = [c]"
  by (simp add: chr_rx_def)

lemma only_chars_chr [simp]: "only_chars P (chr_rx c) \<longleftrightarrow> P c"
  by (simp add: chr_rx_def)

lemma mt_lit [simp]: "mt p s q (lit t) \<longleftrightarrow> s = t"
  by (induction t arbitrary: s p) (auto simp: mt_Seq_iff chr_rx_def)

lemma mt_alts: "mt p s q (alts rs) \<longleftrightarrow> (\<exists>r \<in> set rs. mt p s q r)"
  by (induction rs rule: alts.induct) auto

lemma only_chars_lit [simp]: "only_chars P (lit s) \<longleftrightarrow> (\<forall>c \<in> set s. P c)"
  by (induction s) auto

text \<open>The characters of a match, when the pattern ends in \<open>$\<close>: one newline may follow.\<close>

lemma match_dollar_chars:
  "match_dollar r s \<Longrightarrow> only_chars P r \<Longrightarrow> c \<in> set s \<Longrightarrow> P c \<or> c = newline"
  by (auto simp: match_dollar_iff dest: mt_only_chars)

lemma fullmatch_chars: "fullmatch r s \<Longrightarrow> only_chars P r \<Longrightarrow> c \<in> set s \<Longrightarrow> P c"
  by (auto simp: fullmatch_iff dest: mt_only_chars)

lemma match_dollar_length: "match_dollar r s \<Longrightarrow> max_len r = Some k \<Longrightarrow> length s \<le> Suc k"
  by (auto simp: match_dollar_iff dest: mt_max_len)

subsection \<open>Further decompositions\<close>

lemma mt_Cls_Seq: "mt p s q (Seq (Cls f) r) \<longleftrightarrow> (\<exists>c t. s = c # t \<and> f c \<and> mt (Some c) t q r)"
proof -
  have "mt p (c # t) q (Seq (Cls f) r)" if "f c" "mt (Some c) t q r" for c t
    unfolding mt_Seq_iff using that by (intro exI [of _ "[c]"] exI [of _ t]) simp
  then show ?thesis by (auto simp: mt_Seq_iff)
qed

lemma mt_ilit: "mt p s q (ilit t) \<longleftrightarrow> lower s = lower t"
  by (induction t arbitrary: s p) (auto simp: mt_Cls_Seq map_eq_Cons_conv lower_def)

declare ilit.simps [simp del]

lemma mt_Bnd_Seq: "mt p s q (Seq Bnd r) \<longleftrightarrow> word_at p \<noteq> word_at (firstc s q) \<and> mt p s q r"
  by (auto simp: mt_Seq_iff)

lemma mt_Seq_Bnd: "mt p s q (Seq r Bnd) \<longleftrightarrow> word_at (lastc p s) \<noteq> word_at q \<and> mt p s q r"
  by (auto simp: mt_Seq_iff)

lemma firstc_hd: "firstc v q = (if v = [] then q else Some (hd v))"
  by (cases v) auto

lemma mt_Star_Cls: "list_all f w \<Longrightarrow> mt p w q (Star (Cls f))"
proof (induction w arbitrary: p)
  case Nil
  then show ?case by (simp add: mt_Star0)
next
  case (Cons c w)
  then have "mt p ([c] @ w) q (Star (Cls f))" by (intro mt_Star1) simp_all
  then show ?case by simp
qed

end
