(* ===== verification/PyValue.thy ===== *)
theory PyValue
  imports Complex_Main Prelude
begin

section \<open>Decoded JSON values\<close>

text \<open>
  What \<open>json.loads\<close> yields and the \<open>isinstance\<close> tests of the source observe. Integers are
  unbounded. A finite float is a rational, so that comparisons (exact in Python, also between
  an int and a float) are exact; NaN and the infinities are separate values. An object is a
  dictionary with string keys.
\<close>

datatype pyfloat = Fin rat | NaN | PInf | NInf

datatype json =
    JNull
  | JBool bool
  | JInt int
  | JFloat pyfloat
  | JStr string
  | JArr "json list"
  | JObj "(string \<times> json) list"

fun flt_le :: "pyfloat \<Rightarrow> pyfloat \<Rightarrow> bool" where
  "flt_le NaN _ = False"
| "flt_le _ NaN = False"
| "flt_le NInf _ = True"
| "flt_le _ PInf = True"
| "flt_le (Fin a) (Fin b) = (a \<le> b)"
| "flt_le _ _ = False"

fun flt_eq :: "pyfloat \<Rightarrow> pyfloat \<Rightarrow> bool" where
  "flt_eq NaN _ = False"
| "flt_eq _ NaN = False"
| "flt_eq a b = (a = b)"

definition flt_lt :: "pyfloat \<Rightarrow> pyfloat \<Rightarrow> bool" where
  "flt_lt a b \<longleftrightarrow> flt_le a b \<and> \<not> flt_eq a b"

definition flt_abs :: "pyfloat \<Rightarrow> pyfloat" where
  "flt_abs a = (case a of Fin r \<Rightarrow> Fin \<bar>r\<bar> | NaN \<Rightarrow> NaN | _ \<Rightarrow> PInf)"

definition is_finite :: "pyfloat \<Rightarrow> bool" where
  "is_finite a = (case a of Fin _ \<Rightarrow> True | _ \<Rightarrow> False)"

text \<open>\<open>bool\<close> is a subclass of \<open>int\<close>: \<open>True\<close> is 1 in every comparison.\<close>

definition num_of :: "json \<Rightarrow> pyfloat option" where
  "num_of v = (case v of JInt i \<Rightarrow> Some (Fin (of_int i)) | JFloat x \<Rightarrow> Some x
     | JBool b \<Rightarrow> Some (Fin (of_bool b)) | _ \<Rightarrow> None)"

definition is_str :: "json \<Rightarrow> bool" where "is_str v = (case v of JStr _ \<Rightarrow> True | _ \<Rightarrow> False)"
definition is_obj :: "json \<Rightarrow> bool" where "is_obj v = (case v of JObj _ \<Rightarrow> True | _ \<Rightarrow> False)"
definition is_arr :: "json \<Rightarrow> bool" where "is_arr v = (case v of JArr _ \<Rightarrow> True | _ \<Rightarrow> False)"
definition is_bool :: "json \<Rightarrow> bool" where "is_bool v = (case v of JBool _ \<Rightarrow> True | _ \<Rightarrow> False)"

text \<open>\<open>isinstance(v, int) and not isinstance(v, bool)\<close>, and the same with \<open>(int, float)\<close>.\<close>

definition is_int :: "json \<Rightarrow> bool" where "is_int v = (case v of JInt _ \<Rightarrow> True | _ \<Rightarrow> False)"
definition is_number :: "json \<Rightarrow> bool" where
  "is_number v = (case v of JInt _ \<Rightarrow> True | JFloat _ \<Rightarrow> True | _ \<Rightarrow> False)"

lemmas json_tests = is_str_def is_obj_def is_arr_def is_bool_def is_int_def is_number_def num_of_def

text \<open>Truth value: \<open>bool(v)\<close>.\<close>

definition truthy :: "json \<Rightarrow> bool" where
  "truthy v = (case v of JNull \<Rightarrow> False | JBool b \<Rightarrow> b | JInt i \<Rightarrow> i \<noteq> 0
     | JFloat x \<Rightarrow> x \<noteq> Fin 0 | JStr s \<Rightarrow> s \<noteq> [] | JArr xs \<Rightarrow> xs \<noteq> [] | JObj kvs \<Rightarrow> kvs \<noteq> [])"

text \<open>\<open>==\<close>: numbers compare by value, whatever their type; objects as dictionaries.\<close>

lemma size_in_list: "x \<in> set xs \<Longrightarrow> size x < Suc (size_list size xs)"
  by (metis le_imp_less_Suc order_refl size_list_estimation')

lemma size_in_dict: "(k, v) \<in> set kvs \<Longrightarrow> size v < Suc (size_list (size_prod (\<lambda>_. 0) size) kvs)"
proof -
  assume "(k, v) \<in> set kvs"
  then have "size_prod (\<lambda>_. 0) size (k, v) \<le> size_list (size_prod (\<lambda>_. 0) size) kvs"
    by (rule size_list_estimation') simp
  then show ?thesis by simp
qed

function py_eq :: "json \<Rightarrow> json \<Rightarrow> bool" where
  "py_eq a b = (case (num_of a, num_of b) of
      (Some x, Some y) \<Rightarrow> flt_eq x y
    | (None, None) \<Rightarrow> (case (a, b) of
        (JNull, JNull) \<Rightarrow> True
      | (JStr s, JStr t) \<Rightarrow> s = t
      | (JArr xs, JArr ys) \<Rightarrow> length xs = length ys \<and> (\<forall>(x, y) \<in> set (zip xs ys). py_eq x y)
      | (JObj ks, JObj ls) \<Rightarrow> length ks = length ls \<and>
          (\<forall>(k, v) \<in> set ks. \<exists>(l, w) \<in> set ls. k = l \<and> py_eq v w)
      | _ \<Rightarrow> False)
    | _ \<Rightarrow> False)"
  by pat_completeness auto
termination
proof (relation "measure (\<lambda>(a, b). size a)", goal_cases)
  case (2 a b x y p xs ys z q r)
  then show ?case by (auto dest!: set_zip_leftD intro: size_in_list)
next
  case (3 a b x y p ks ls z k v q l w)
  then show ?case by (auto intro: size_in_dict)
qed simp

declare py_eq.simps [simp del]

lemma py_eq_str [simp]: "py_eq (JStr s) (JStr t) \<longleftrightarrow> s = t"
  by (simp add: py_eq.simps num_of_def)

text \<open>\<open>d.get(k)\<close> on an object, \<open>None\<close> on anything else and for an absent key.\<close>

definition jget :: "json \<Rightarrow> string \<Rightarrow> json option" where
  "jget v k = (case v of JObj kvs \<Rightarrow> dget kvs k | _ \<Rightarrow> None)"

lemma jget_size: "jget v k = Some w \<Longrightarrow> size w < size v"
proof (cases v)
  case (JObj kvs)
  assume "jget v k = Some w"
  then have "(k, w) \<in> set kvs" using JObj by (auto simp: jget_def dest: map_of_SomeD)
  then show ?thesis using JObj size_in_dict by fastforce
qed (auto simp: jget_def)

text \<open>The nesting depth (0 for a scalar or an empty container) and the number of nodes of a value.\<close>

fun jdepth :: "json \<Rightarrow> nat" where
  "jdepth (JArr xs) = Max (insert 0 (set (map (Suc \<circ> jdepth) xs)))"
| "jdepth (JObj kvs) = Max (insert 0 (set (map (Suc \<circ> jdepth \<circ> snd) kvs)))"
| "jdepth _ = 0"

lemma jdepth_le [simp]:
  "jdepth (JArr xs) \<le> n \<longleftrightarrow> (\<forall>x \<in> set xs. Suc (jdepth x) \<le> n)"
  "jdepth (JObj kvs) \<le> n \<longleftrightarrow> (\<forall>x \<in> set kvs. Suc (jdepth (snd x)) \<le> n)"
  by (auto simp del: Max.insert simp: Max_le_iff)

declare jdepth.simps(1,2) [simp del]

fun jnodes :: "json \<Rightarrow> nat" where
  "jnodes (JArr xs) = Suc (sum_list (map jnodes xs))"
| "jnodes (JObj kvs) = Suc (sum_list (map (jnodes \<circ> snd) kvs))"
| "jnodes _ = 1"

text \<open>The strings that occur in a value, keys included.\<close>

fun jstrings :: "json \<Rightarrow> string list" where
  "jstrings (JStr s) = [s]"
| "jstrings (JArr xs) = concat (map jstrings xs)"
| "jstrings (JObj kvs) = concat (map (\<lambda>kv. fst kv # jstrings (snd kv)) kvs)"
| "jstrings _ = []"

end
