(* ===== verification/PyOps.thy ===== *)
theory PyOps
  imports PyValue
begin

section \<open>Python operations that can raise\<close>

text \<open>
  The built-in operations the source applies to decoded values, with the exception each raises on
  a value of the wrong type: subscription, iteration, membership, \<open>set\<close> and \<open>int\<close>.
\<close>

datatype py_exc = KeyError | TypeError | AttributeError | ValueError | RuntimeError | IndexError | OverflowError

text \<open>\<open>d[k]\<close> for a string \<open>k\<close>, and \<open>d.get(k)\<close>.\<close>

definition jreq :: "json \<Rightarrow> string \<Rightarrow> py_exc + json" where
  "jreq v k = (case v of
      JObj kvs \<Rightarrow> (case dget kvs k of None \<Rightarrow> Inl KeyError | Some w \<Rightarrow> Inr w)
    | _ \<Rightarrow> Inl TypeError)"

definition jget_attr :: "json \<Rightarrow> string \<Rightarrow> py_exc + json option" where
  "jget_attr v k = (case v of JObj kvs \<Rightarrow> Inr (dget kvs k) | _ \<Rightarrow> Inl AttributeError)"

definition jitems :: "json \<Rightarrow> py_exc + (string \<times> json) list" where
  "jitems v = (case v of JObj kvs \<Rightarrow> Inr kvs | _ \<Rightarrow> Inl AttributeError)"

definition or_else :: "'a option \<Rightarrow> 'a \<Rightarrow> 'a" where
  "or_else v d = (case v of None \<Rightarrow> d | Some w \<Rightarrow> w)"

text \<open>\<open>d.get(k, default)\<close> on an object.\<close>

definition jget_or :: "json \<Rightarrow> string \<Rightarrow> json \<Rightarrow> json" where
  "jget_or v k d = or_else (jget v k) d"

definition unhashable :: "json \<Rightarrow> bool" where
  "unhashable v \<longleftrightarrow> is_arr v \<or> is_obj v"

text \<open>\<open>for x in v\<close> and \<open>set(v)\<close>.\<close>

definition py_iter :: "json \<Rightarrow> py_exc + json list" where
  "py_iter v = (case v of
      JArr xs \<Rightarrow> Inr xs
    | JObj kvs \<Rightarrow> Inr (map (JStr \<circ> fst) kvs)
    | JStr s \<Rightarrow> Inr (map (\<lambda>c. JStr [c]) s)
    | _ \<Rightarrow> Inl TypeError)"

definition py_set_of :: "json \<Rightarrow> py_exc + json list" where
  "py_set_of v = bindE (py_iter v) (\<lambda>xs. if list_ex unhashable xs then Inl TypeError else Inr xs)"

text \<open>Membership in a set of strings (hashing first) and in a tuple of strings.\<close>

definition str_in_set :: "json \<Rightarrow> string list \<Rightarrow> py_exc + bool" where
  "str_in_set v S = (case v of JStr s \<Rightarrow> Inr (s \<in> set S)
     | JArr _ \<Rightarrow> Inl TypeError | JObj _ \<Rightarrow> Inl TypeError | _ \<Rightarrow> Inr False)"

definition str_in :: "json \<Rightarrow> string list \<Rightarrow> bool" where
  "str_in v S = (case v of JStr s \<Rightarrow> s \<in> set S | _ \<Rightarrow> False)"

definition is_jstr :: "json \<Rightarrow> string \<Rightarrow> bool" where
  "is_jstr v s = (case v of JStr t \<Rightarrow> t = s | _ \<Rightarrow> False)"

lemma is_jstr_iff [simp]: "is_jstr v s \<longleftrightarrow> v = JStr s"
  by (auto simp: is_jstr_def split: json.splits)

lemma str_in_iff: "str_in v S \<longleftrightarrow> (\<exists>s \<in> set S. v = JStr s)"
  by (auto simp: str_in_def split: json.splits)

text \<open>A place that needs a text, such as the subject of a pattern.\<close>

definition as_str :: "json \<Rightarrow> py_exc + string" where
  "as_str v = (case v of JStr s \<Rightarrow> Inr s | _ \<Rightarrow> Inl TypeError)"

lemma as_str_Inr [simp, result_simps]: "as_str v = Inr s \<longleftrightarrow> v = JStr s"
  by (auto simp: as_str_def split: json.splits)

lemma jreq_Inr [simp, result_simps]: "jreq v k = Inr w \<longleftrightarrow> jget v k = Some w"
  by (auto simp: jreq_def jget_def split: json.splits option.splits)

lemma jitems_Inr [simp, result_simps]: "jitems v = Inr kvs \<longleftrightarrow> v = JObj kvs"
  by (auto simp: jitems_def split: json.splits)

lemma str_in_set_True [simp, result_simps]: "str_in_set v S = Inr True \<longleftrightarrow> (\<exists>s \<in> set S. v = JStr s)"
  by (auto simp: str_in_set_def split: json.splits)

text \<open>
  \<open>int(text)\<close>: surrounding white space, an optional sign, digits with single underscores between
  them; \<open>int(x)\<close> truncates a float towards zero.
\<close>

fun int_digits :: "string \<Rightarrow> string option" where
  "int_digits [] = None"
| "int_digits [c] = (if is_digit c then Some [c] else None)"
| "int_digits (c # d # s) =
     (if \<not> is_digit c then None
      else if d = CHR ''_'' then map_option ((#) c) (int_digits s)
      else map_option ((#) c) (int_digits (d # s)))"

definition int_of_text :: "string \<Rightarrow> py_exc + int" where
  "int_of_text t = (let s = strip t;
       neg = (starts_with ''-'' s);
       body = (if starts_with ''-'' s \<or> starts_with ''+'' s then drop 1 s else s)
     in case int_digits body of
          None \<Rightarrow> Inl ValueError
        | Some ds \<Rightarrow> Inr ((if neg then - 1 else 1) * int (nat_of_digits ds)))"

definition truncate_rat :: "rat \<Rightarrow> int" where
  "truncate_rat r = (if r < 0 then - \<lfloor>- r\<rfloor> else \<lfloor>r\<rfloor>)"

definition py_int :: "json \<Rightarrow> py_exc + int" where
  "py_int v = (case v of
      JInt i \<Rightarrow> Inr i
    | JBool b \<Rightarrow> Inr (of_bool b)
    | JFloat x \<Rightarrow> (case x of Fin r \<Rightarrow> Inr (truncate_rat r) | NaN \<Rightarrow> Inl ValueError | _ \<Rightarrow> Inl OverflowError)
    | JStr s \<Rightarrow> int_of_text s
    | _ \<Rightarrow> Inl TypeError)"

text \<open>Splitting at the first occurrence of a text: what comes before it and what comes after.\<close>

fun split_first :: "string \<Rightarrow> string \<Rightarrow> (string \<times> string) option" where
  "split_first p [] = (if p = [] then Some ([], []) else None)"
| "split_first p (c # s) =
     (if starts_with p (c # s) then Some ([], drop (length p) (c # s))
      else map_option (\<lambda>(a, b). (c # a, b)) (split_first p s))"

lemma split_first_Some: "split_first p s = Some (a, b) \<Longrightarrow> s = a @ p @ b"
  by (induction s arbitrary: a)
     (auto simp: starts_with_iff split: if_splits)

lemma split_first_shorter: "split_first p s = Some (a, b) \<Longrightarrow> p \<noteq> [] \<Longrightarrow> length b < length s"
  by (drule split_first_Some) auto

lemma contains_iff: "contains p s \<longleftrightarrow> (\<exists>a b. s = a @ p @ b)"
proof (induction s)
  case (Cons c s)
  then show ?case
    by (auto simp: starts_with_iff Cons_eq_append_conv)
qed simp

lemma split_first_None: "split_first p s = None \<longleftrightarrow> \<not> contains p s"
  by (induction s) auto

end
