(* ===== verification/Gw_Common.thy ===== *)
theory Gw_Common
  imports PyOps
begin

section \<open>Gateway constants, error codes and limits (mcp\_gateway/common.py)\<close>

text \<open>
  The stable error codes with their fixed messages, the exception type (a code and an optional
  capability status, nothing of the request), the status vocabularies and the operator limits.
\<close>

datatype err_code =
    E_PARSE | E_INVALID_REQUEST | E_METHOD_NOT_FOUND | E_NOT_INITIALIZED | E_INVALID_PARAMS
  | E_MESSAGE_TOO_LARGE | E_TOOL_UNKNOWN | E_ARGS_INVALID | E_TARGET_UNKNOWN | E_TARGET_DISABLED
  | E_COLLECTOR_UNKNOWN | E_COLLECTOR_NOT_ALLOWED | E_CAPABILITY | E_BUDGET_EXCEEDED
  | E_ADAPTER_DISABLED | E_ADAPTER_FAILED | E_TIMEOUT | E_RESULT_INVALID | E_EVIDENCE_NOT_FOUND
  | E_OUTPUT_TOO_LARGE | E_SANITIZATION | E_INSUFFICIENT_EVIDENCE | E_ANALYSIS_FAILED
  | E_TARGET_MISMATCH | E_PRIVILEGES_EXCESSIVE | E_AUTHORIZATION_EXPIRED | E_BUSY | E_INTERNAL

definition ERROR_MESSAGES :: "(string \<times> err_code \<times> string) list" where
  "ERROR_MESSAGES = [
    (''E_PARSE'', E_PARSE, ''message is not valid JSON''),
    (''E_INVALID_REQUEST'', E_INVALID_REQUEST, ''message is not a valid request''),
    (''E_METHOD_NOT_FOUND'', E_METHOD_NOT_FOUND, ''method is not supported''),
    (''E_NOT_INITIALIZED'', E_NOT_INITIALIZED, ''server is not initialized''),
    (''E_INVALID_PARAMS'', E_INVALID_PARAMS, ''parameters are invalid''),
    (''E_MESSAGE_TOO_LARGE'', E_MESSAGE_TOO_LARGE, ''message exceeds the size limit''),
    (''E_TOOL_UNKNOWN'', E_TOOL_UNKNOWN, ''tool is not available''),
    (''E_ARGS_INVALID'', E_ARGS_INVALID, ''arguments do not satisfy the tool schema''),
    (''E_TARGET_UNKNOWN'', E_TARGET_UNKNOWN, ''target alias is not registered''),
    (''E_TARGET_DISABLED'', E_TARGET_DISABLED, ''target is not enabled for diagnostics''),
    (''E_COLLECTOR_UNKNOWN'', E_COLLECTOR_UNKNOWN, ''collector is not certified in this gateway''),
    (''E_COLLECTOR_NOT_ALLOWED'', E_COLLECTOR_NOT_ALLOWED, ''collector is not allowed for this target''),
    (''E_CAPABILITY'', E_CAPABILITY, ''capability is not available for this target''),
    (''E_BUDGET_EXCEEDED'', E_BUDGET_EXCEEDED, ''budget for this session or target is exhausted''),
    (''E_ADAPTER_DISABLED'', E_ADAPTER_DISABLED, ''the adapter for this target is disabled''),
    (''E_ADAPTER_FAILED'', E_ADAPTER_FAILED, ''the adapter could not produce a result''),
    (''E_TIMEOUT'', E_TIMEOUT, ''operation exceeded its time limit''),
    (''E_RESULT_INVALID'', E_RESULT_INVALID, ''adapter result violates the collector contract''),
    (''E_EVIDENCE_NOT_FOUND'', E_EVIDENCE_NOT_FOUND, ''evidence reference is not available in this scope''),
    (''E_OUTPUT_TOO_LARGE'', E_OUTPUT_TOO_LARGE, ''response exceeds the size limit''),
    (''E_SANITIZATION'', E_SANITIZATION, ''output could not be sanitized safely''),
    (''E_INSUFFICIENT_EVIDENCE'', E_INSUFFICIENT_EVIDENCE, ''not enough sanitized evidence to run this analysis''),
    (''E_ANALYSIS_FAILED'', E_ANALYSIS_FAILED, ''analysis input was rejected by the analysis engine''),
    (''E_TARGET_MISMATCH'', E_TARGET_MISMATCH, ''connected target does not match its authorized identity''),
    (''E_PRIVILEGES_EXCESSIVE'', E_PRIVILEGES_EXCESSIVE, ''diagnostic account holds privileges beyond the approved minimum''),
    (''E_AUTHORIZATION_EXPIRED'', E_AUTHORIZATION_EXPIRED, ''human authorization for this target is missing or expired''),
    (''E_BUSY'', E_BUSY, ''a previous operation for this target is still in progress''),
    (''E_INTERNAL'', E_INTERNAL, ''unexpected internal error (details suppressed)'')]"

text \<open>The constructor of the exception: a code outside the table becomes \<open>E_INTERNAL\<close>.\<close>

definition code_of_name :: "string \<Rightarrow> err_code" where
  "code_of_name n = (case map_of ERROR_MESSAGES n of Some (c, _) \<Rightarrow> c | None \<Rightarrow> E_INTERNAL)"

definition message_of :: "err_code \<Rightarrow> string" where
  "message_of c = (case filter (\<lambda>(_, d, _). d = c) ERROR_MESSAGES of (_, _, m) # _ \<Rightarrow> m | [] \<Rightarrow> [])"

datatype capability =
    SUPPORTED | UNSUPPORTED | ENVIRONMENT_UNKNOWN | LICENSE_RESTRICTED | INSUFFICIENT_PRIVILEGES
  | CAP_DISABLED | NOT_APPLICABLE

datatype adapter_status =
    VERIFIED_FIXTURE | VERIFIED_LAB | LAB_ENABLED | CONTRACT_ONLY | ADAPTER_DISABLED
  | ADAPTER_UNSUPPORTED | NOT_INTEGRATION_TESTED

text \<open>
  What can be raised: a gateway error, or any other exception of the code (a \<open>TypeError\<close>, a
  \<open>KeyError\<close>, \<dots>), which the dispatcher turns into \<open>E_INTERNAL\<close>.
\<close>

datatype exc = GwErr err_code "capability option" | Crash py_exc

abbreviation gwerr :: "err_code \<Rightarrow> exc + 'a" where
  "gwerr c \<equiv> Inl (GwErr c None)"

type_synonym 'a gw = "exc + 'a"

subsection \<open>Hard limits\<close>

definition MAX_MESSAGE_BYTES :: int where "MAX_MESSAGE_BYTES = 1048576"
definition MAX_JSON_DEPTH :: nat where "MAX_JSON_DEPTH = 24"
definition MAX_JSON_ITEMS :: nat where "MAX_JSON_ITEMS = 2000"
definition MAX_ARG_STRING :: int where "MAX_ARG_STRING = 256"
definition MAX_RESPONSE_BYTES :: int where "MAX_RESPONSE_BYTES = 262144"
definition MAX_ROWS_HARD :: int where "MAX_ROWS_HARD = 200"
definition MAX_SESSION_CALLS :: int where "MAX_SESSION_CALLS = 200"
definition MAX_EVIDENCE_ENTRIES :: nat where "MAX_EVIDENCE_ENTRIES = 300"
definition EVIDENCE_TTL_SECONDS :: int where "EVIDENCE_TTL_SECONDS = 3600"
definition DEFAULT_OPERATION_TIMEOUT_SECONDS :: rat where "DEFAULT_OPERATION_TIMEOUT_SECONDS = 15"

definition LIMIT_BOUNDS :: "(string, pyfloat \<times> pyfloat) dict" where
  "LIMIT_BOUNDS = [
    (''operation_timeout'', (Fin (1 / 10), Fin DEFAULT_OPERATION_TIMEOUT_SECONDS)),
    (''max_session_calls'', (Fin 1, Fin (of_int MAX_SESSION_CALLS))),
    (''max_rows'', (Fin 1, Fin (of_int MAX_ROWS_HARD))),
    (''max_message_bytes'', (Fin 1024, Fin (of_int MAX_MESSAGE_BYTES)))]"

definition bounded_limit :: "string \<Rightarrow> json \<Rightarrow> py_exc + json" where
  "bounded_limit name v = (case dget LIMIT_BOUNDS name of
      None \<Rightarrow> Inl KeyError
    | Some (lo, hi) \<Rightarrow>
        (if is_bool v \<or> \<not> is_number v then Inl ValueError
         else (case num_of v of
             None \<Rightarrow> Inl ValueError
           | Some x \<Rightarrow> if \<not> flt_eq x x \<or> \<not> (flt_le lo x \<and> flt_le x hi) then Inl ValueError else Inr v)))"

lemma code_of_name_all: "list_all (\<lambda>(n, c, m). code_of_name n = c \<and> message_of c = m) ERROR_MESSAGES"
  by code_simp

lemma code_of_name_roundtrip:
  "(n, c, m) \<in> set ERROR_MESSAGES \<Longrightarrow> code_of_name n = c \<and> message_of c = m"
  using code_of_name_all by (auto simp: list_all_iff)

text \<open>
  Operators can only lower the limits. Whatever value an operator passes for a limit, a value
  that is accepted is returned unchanged, is a finite number (never a boolean) and lies between
  the declared floor and the built-in ceiling of that limit.
\<close>

theorem bounded_limit_lowers:
  assumes "bounded_limit name v = Inr w"
  shows "w = v \<and> \<not> is_bool v \<and>
    (\<exists>lo hi x. dget LIMIT_BOUNDS name = Some (Fin lo, Fin hi) \<and> num_of v = Some (Fin x) \<and> lo \<le> x \<and> x \<le> hi)"
proof -
  from assms obtain lo hi x where
    b: "dget LIMIT_BOUNDS name = Some (lo, hi)" and x: "num_of v = Some x" "flt_le lo x" "flt_le x hi"
    and w: "w = v" "\<not> is_bool v"
    by (auto simp: bounded_limit_def split: option.splits if_splits prod.splits)
  from b obtain l h where "lo = Fin l" "hi = Fin h"
    by (auto simp: LIMIT_BOUNDS_def split: if_splits)
  with b x w show ?thesis by (cases x) auto
qed

theorem bounded_limit_lowers_witness:
  "bounded_limit ''max_rows'' (JInt 50) = Inr (JInt 50) \<and> \<not> is_bool (JInt 50)"
proof -
  have e: "bounded_limit ''max_rows'' (JInt 50) = Inr (JInt 50)"
    by (simp add: bounded_limit_def LIMIT_BOUNDS_def MAX_ROWS_HARD_def json_tests)
  show ?thesis using e bounded_limit_lowers [OF e] by simp
qed

end
