(* ===== verification/Versions.thy ===== *)
theory Versions
  imports Gw_Common Regex
begin

section \<open>Effective Oracle version (mcp\_gateway/versions.py)\<close>

text \<open>
  A version is a list of numbers; comparison pads the shorter one with zeros and is
  lexicographic. A version maps to a supported family through its major number only.
\<close>

definition FAMILY_BY_MAJOR :: "(nat, string) dict" where
  "FAMILY_BY_MAJOR = [(10, ''10g''), (11, ''11g''), (12, ''12c''), (18, ''18c''), (19, ''19c''),
     (21, ''21c''), (23, ''23ai'')]"

definition digit_rx :: rx where "digit_rx = Cls is_digit"

text \<open>\<open>^([0-9]{2})(g|c|ai)\Z\<close>, case insensitive, and \<open>^[0-9]{1,3}(\.[0-9]{1,5}){0,5}\Z\<close>.\<close>

definition FAMILY_TOKEN :: rx where
  "FAMILY_TOKEN = Seq (Rep 2 0 digit_rx) (alts [ilit ''g'', ilit ''c'', ilit ''ai''])"

definition DOTTED :: rx where
  "DOTTED = Seq (Rep 1 2 digit_rx) (Rep 0 5 (Seq (lit ''.'') (Rep 1 4 digit_rx)))"

definition MAX_LEN :: nat where "MAX_LEN = 40"

definition parse_version :: "json \<Rightarrow> nat list option" where
  "parse_version text = (case text of
      JStr s \<Rightarrow>
        if \<not> (1 \<le> length s \<and> length s \<le> MAX_LEN) \<or> \<not> fullmatch DOTTED s then None
        else Some (map nat_of_digits (split_on (CHR ''.'') s))
    | _ \<Rightarrow> None)"

definition zero_pad :: "nat \<Rightarrow> nat list \<Rightarrow> nat list" where
  "zero_pad n xs = xs @ replicate (n - length xs) 0"

definition compare_padded :: "nat list \<Rightarrow> nat list \<Rightarrow> int" where
  "compare_padded pa pb =
     (let n = max (length pa) (length pb); a = zero_pad n pa; b = zero_pad n pb
      in of_bool (b < a) - of_bool (a < b))"

definition compare_versions :: "json \<Rightarrow> json \<Rightarrow> int option" where
  "compare_versions a b = (case (parse_version a, parse_version b) of
      (Some pa, Some pb) \<Rightarrow> Some (compare_padded pa pb)
    | _ \<Rightarrow> None)"

definition family_of_str :: "string \<Rightarrow> string option" where
  "family_of_str s =
     (if \<not> (1 \<le> length s \<and> length s \<le> MAX_LEN) then None
      else if fullmatch FAMILY_TOKEN (strip s) then
        (case dget FAMILY_BY_MAJOR (nat_of_digits (take 2 (strip s))) of
           None \<Rightarrow> None
         | Some family \<Rightarrow> if family \<noteq> [] \<and> lower family = lower (strip s) then Some family else None)
      else (case parse_version (JStr (strip s)) of
           None \<Rightarrow> None
         | Some parsed \<Rightarrow> (case parsed of [] \<Rightarrow> None | m # _ \<Rightarrow> dget FAMILY_BY_MAJOR m)))"

definition family_of :: "json \<Rightarrow> string option" where
  "family_of text = (case text of JStr s \<Rightarrow> family_of_str s | _ \<Rightarrow> None)"

subsection \<open>The comparison is numeric\<close>

lemma lex_append_same: "length xs = length ys \<Longrightarrow> xs @ zs < ys @ zs \<longleftrightarrow> xs < (ys :: nat list)"
  by (induction xs ys rule: list_induct2) auto

lemma zero_pad_more: "length xs \<le> n \<Longrightarrow> n \<le> m \<Longrightarrow> zero_pad m xs = zero_pad n xs @ replicate (m - n) 0"
  by (simp add: zero_pad_def flip: replicate_add)

lemma length_zero_pad: "length xs \<le> n \<Longrightarrow> length (zero_pad n xs) = n"
  by (simp add: zero_pad_def)

lemma compare_padded_at:
  assumes "length a \<le> m" "length b \<le> m"
  shows "compare_padded a b = of_bool (zero_pad m b < zero_pad m a) - of_bool (zero_pad m a < zero_pad m b)"
proof -
  let ?n = "max (length a) (length b)"
  have "zero_pad m a = zero_pad ?n a @ replicate (m - ?n) 0"
       "zero_pad m b = zero_pad ?n b @ replicate (m - ?n) 0"
    using assms by (auto intro!: zero_pad_more)
  then show ?thesis
    by (simp add: compare_padded_def Let_def lex_append_same length_zero_pad)
qed

lemma compare_padded_flip: "compare_padded b a = - compare_padded a b"
  by (simp add: compare_padded_def Let_def max.commute)

lemma compare_padded_le_iff:
  "length a \<le> m \<Longrightarrow> length b \<le> m \<Longrightarrow> compare_padded a b \<le> 0 \<longleftrightarrow> zero_pad m a \<le> zero_pad m b"
  by (auto simp: compare_padded_at [of a m b])

lemma compare_padded_trans:
  assumes "compare_padded a b \<le> 0" "compare_padded b c \<le> 0"
  shows "compare_padded a c \<le> 0"
proof -
  let ?m = "max (length a) (max (length b) (length c))"
  have "zero_pad ?m a \<le> zero_pad ?m b" "zero_pad ?m b \<le> zero_pad ?m c"
    using assms compare_padded_le_iff [of a ?m b] compare_padded_le_iff [of b ?m c] by simp_all
  then show ?thesis
    using compare_padded_le_iff [of a ?m c] by simp
qed

lemma compare_padded_zeros: "compare_padded a (a @ replicate k 0) = 0"
  by (simp add: compare_padded_def Let_def zero_pad_def)

lemma lex_prefix_same: "p @ xs < p @ ys \<longleftrightarrow> xs < (ys :: nat list)"
  by (induction p) auto

lemma compare_padded_first:
  assumes "x < y" shows "compare_padded (p @ x # a) (p @ y # b) = -1"
proof -
  have "zero_pad n (p @ z # c) = p @ z # c @ replicate (n - Suc (length p + length c)) 0" for n z c
    by (simp add: zero_pad_def)
  with assms show ?thesis
    by (simp only: compare_padded_def Let_def lex_prefix_same) simp
qed

text \<open>
  Versions are compared component by component as numbers. For valid versions the comparison
  is total and antisymmetric (swapping the arguments negates it), it is transitive, trailing zero
  components do not count, and the first component that differs decides.
\<close>

theorem compare_versions_numeric:
  assumes "parse_version a = Some pa" and "parse_version b = Some pb" and "parse_version c = Some pc"
  shows "\<exists>r. compare_versions a b = Some r \<and> r \<in> {-1, 0, 1} \<and> compare_versions b a = Some (- r) \<and>
      (r \<le> 0 \<longrightarrow> (\<exists>s. compare_versions b c = Some s \<and> (s \<le> 0 \<longrightarrow> (\<exists>t \<le> 0. compare_versions a c = Some t)))) \<and>
      (\<forall>k. pb = pa @ replicate k 0 \<longrightarrow> r = 0) \<and>
      (\<forall>p x y u v. pa = p @ x # u \<longrightarrow> pb = p @ y # v \<longrightarrow> x < y \<longrightarrow> r = -1)"
proof -
  have "compare_padded pa pb \<in> {-1, 0, 1}"
    by (simp add: compare_padded_def Let_def)
  then show ?thesis
    using assms compare_padded_trans [of pa pb pc]
    by (auto simp: compare_versions_def compare_padded_flip [of pb pa] compare_padded_zeros compare_padded_first)
qed

theorem compare_versions_numeric_witness:
  "compare_versions (JStr ''9.2'') (JStr ''10.1'') = Some (-1)"
proof -
  have p: "parse_version (JStr ''9.2'') = Some [9, 2]" "parse_version (JStr ''10.1'') = Some [10, 1]"
    by code_simp+
  obtain r where "compare_versions (JStr ''9.2'') (JStr ''10.1'') = Some r"
    and f: "\<forall>q x y u v. [9::nat, 2] = q @ x # u \<longrightarrow> [10, 1] = q @ y # v \<longrightarrow> x < y \<longrightarrow> r = -1"
    using compare_versions_numeric [OF p p(2)] by (elim exE conjE) (rule that)
  then show ?thesis using f [rule_format, of "[]" 9 "[2]" 10 "[1]"] by simp
qed

subsection \<open>Families\<close>

lemma family_has_major: "family_of t = Some f \<Longrightarrow> \<exists>m. dget FAMILY_BY_MAJOR m = Some f"
  by (auto simp: family_of_def family_of_str_def split: json.splits if_splits option.splits list.splits)

lemma family_in_table: "family_of t = Some f \<Longrightarrow> f \<in> snd ` set FAMILY_BY_MAJOR"
  using family_has_major dget_in_vals by metis

lemma dotted_only: "only_chars (\<lambda>c. is_digit c \<or> c = CHR ''.'') DOTTED"
  by (simp add: DOTTED_def digit_rx_def)

lemma dotted_chars: "mt p s q DOTTED \<Longrightarrow> c \<in> set s \<Longrightarrow> is_digit c \<or> c = CHR ''.''"
  by (rule mt_only_chars [OF _ dotted_only])

lemma not_space_digit: "is_digit c \<or> c = CHR ''.'' \<Longrightarrow> \<not> is_space c"
  by (auto simp: char_defs)

lemma family_token_not_dotted: "mt p s q FAMILY_TOKEN \<Longrightarrow> \<not> mt p' s q' DOTTED"
proof
  assume t: "mt p s q FAMILY_TOKEN" and d: "mt p' s q' DOTTED"
  from t obtain a b p1 where s: "s = a @ b"
    and b: "mt p1 b q (alts [ilit ''g'', ilit ''c'', ilit ''ai''])"
    unfolding FAMILY_TOKEN_def mt_Seq_iff by blast
  from b have "\<exists>c \<in> set b. lower_char c \<in> {CHR ''g'', CHR ''c'', CHR ''a''}"
    by (auto simp: mt_alts mt_Seq_iff lower_char_def char_defs ilit.simps)
  then obtain c where c: "c \<in> set b" "lower_char c \<in> {CHR ''g'', CHR ''c'', CHR ''a''}" by blast
  with s d have "is_digit c \<or> c = CHR ''.''" using dotted_chars by auto
  then have "lower_char c = c" by (auto simp: lower_char_def char_defs)
  with c \<open>is_digit c \<or> c = CHR ''.''\<close> show False by (auto simp: char_defs)
qed

text \<open>
  The family of a dotted version depends on its major number only: release updates and patch
  levels never change it, and a major outside the table has no family.
\<close>

theorem family_by_major:
  assumes "parse_version (JStr s) = Some (m # rest)"
  shows "family_of (JStr s) = dget FAMILY_BY_MAJOR m"
proof -
  from assms have m: "mt None s None DOTTED" and l: "1 \<le> length s" "length s \<le> MAX_LEN"
    by (auto simp: parse_version_def fullmatch_iff split: if_splits)
  have "strip s = s"
    by (rule strip_id) (use dotted_chars [OF m] not_space_digit in blast)
  moreover have "\<not> fullmatch FAMILY_TOKEN s"
    using m family_token_not_dotted by (auto simp: fullmatch_iff)
  ultimately show ?thesis
    using assms l by (simp add: family_of_def family_of_str_def)
qed

theorem family_by_major_witness:
  "family_of (JStr ''19.32.0.0.0'') = Some ''19c'' \<and> family_of (JStr ''latest'') = None"
proof -
  have p: "parse_version (JStr ''19.32.0.0.0'') = Some (19 # [32, 0, 0, 0])" by code_simp
  have "dget FAMILY_BY_MAJOR 19 = Some ''19c''" by (simp add: FAMILY_BY_MAJOR_def)
  moreover have "family_of (JStr ''latest'') = None" by code_simp
  ultimately show ?thesis using family_by_major [OF p] by simp
qed

end
