(* ===== verification/Schemas.thy ===== *)
theory Schemas
  imports Gw_Common Regex
begin

section \<open>Strict validation of tool arguments (mcp\_gateway/schemas.py)\<close>

text \<open>
  \<open>check_schema\<close> runs once per tool at registration; \<open>validate\<close> runs on every call. A schema is
  the dictionary the tool publishes. \<open>rxc\<close> stands for compiling a pattern text to a regular
  expression. Keyword values of the wrong type make Python raise: those branches are \<open>Crash\<close>.
\<close>

definition ALLOWED_KEYWORDS :: "string list" where
  "ALLOWED_KEYWORDS = [''type'', ''properties'', ''required'', ''additionalProperties'', ''enum'', ''pattern'',
     ''minLength'', ''maxLength'', ''minimum'', ''maximum'', ''items'', ''maxItems'', ''description'']"

definition SCHEMA_TYPES :: "string list" where
  "SCHEMA_TYPES = [''object'', ''string'', ''integer'', ''number'', ''boolean'', ''array'']"

definition kw_num :: "json \<Rightarrow> string \<Rightarrow> pyfloat \<Rightarrow> exc + pyfloat" where
  "kw_num s k d = (case jget s k of None \<Rightarrow> Inr d
     | Some v \<Rightarrow> (case num_of v of None \<Rightarrow> Inl (Crash TypeError) | Some x \<Rightarrow> Inr x))"

definition py_min :: "pyfloat \<Rightarrow> pyfloat \<Rightarrow> pyfloat" where
  "py_min a b = (if flt_lt b a then b else a)"

text \<open>\<open>v in e\<close>, and the elements of \<open>set(e)\<close>.\<close>

definition py_in :: "json \<Rightarrow> json \<Rightarrow> exc + bool" where
  "py_in v e = (case e of
      JArr xs \<Rightarrow> Inr (list_ex (py_eq v) xs)
    | JObj kvs \<Rightarrow> (case v of JStr s \<Rightarrow> Inr (s \<in> set (dkeys kvs)) | JArr _ \<Rightarrow> Inl (Crash TypeError)
        | JObj _ \<Rightarrow> Inl (Crash TypeError) | _ \<Rightarrow> Inr False)
    | JStr t \<Rightarrow> (case v of JStr s \<Rightarrow> Inr (contains s t) | _ \<Rightarrow> Inl (Crash TypeError))
    | _ \<Rightarrow> Inl (Crash TypeError))"

definition py_set :: "json \<Rightarrow> exc + json list" where
  "py_set e = map_sum Crash id (py_set_of e)"

definition obj_items :: "json option \<Rightarrow> exc + (string \<times> json) list" where
  "obj_items v = (case v of None \<Rightarrow> Inr [] | Some (JObj kvs) \<Rightarrow> Inr kvs | Some _ \<Rightarrow> Inl (Crash AttributeError))"

lemma obj_items_sub: "obj_items (jget s k) = Inr kvs \<Longrightarrow> (n, v) \<in> set kvs \<Longrightarrow> size v < size s"
  by (auto simp: obj_items_def split: option.splits json.splits
      dest!: jget_size size_in_dict)

function check_schema :: "json \<Rightarrow> exc + unit" where
  "check_schema schema = (case schema of
     JObj kvs \<Rightarrow>
      (if \<not> set (dkeys kvs) \<subseteq> set ALLOWED_KEYWORDS then Inl (Crash ValueError)
       else if jget schema ''type'' \<notin> Some ` JStr ` set SCHEMA_TYPES then Inl (Crash ValueError)
       else bindE
        (if jget schema ''type'' = Some (JStr ''object'') then
           (if jget schema ''additionalProperties'' \<noteq> Some (JBool False) then Inl (Crash ValueError)
            else bindE (obj_items (jget schema ''properties'')) (\<lambda>props.
              bindE (mapE (\<lambda>kv. check_schema (snd kv)) props) (\<lambda>_.
              bindE (py_set (or_else (jget schema ''required'') (JArr []))) (\<lambda>req.
                if list_all (\<lambda>r. \<exists>k \<in> set (dkeys props). r = JStr k) req then Inr () else Inl (Crash ValueError)))))
         else Inr ()) (\<lambda>_.
       if jget schema ''type'' = Some (JStr ''string'') \<and> jget schema ''maxLength'' = None \<and> jget schema ''enum'' = None
       then Inl (Crash ValueError)
       else if jget schema ''type'' = Some (JStr ''array'') then
         (case (jget schema ''maxItems'', jget schema ''items'') of
            (Some _, Some items) \<Rightarrow> check_schema items
          | _ \<Rightarrow> Inl (Crash ValueError))
       else Inr ()))
   | _ \<Rightarrow> Inl (Crash ValueError))"
  by pat_completeness auto
termination
proof (relation "measure size", goal_cases)
  case (2 schema kvs x xa)
  then show ?case by (cases xa) (auto dest: obj_items_sub)
next
  case (3 schema kvs u x items)
  then show ?case by (auto dest: jget_size [OF sym])
qed simp

declare check_schema.simps [simp del]

definition args_invalid :: "exc" where "args_invalid = GwErr E_ARGS_INVALID None"

definition check_string :: "(string \<Rightarrow> rx) \<Rightarrow> json \<Rightarrow> json \<Rightarrow> exc + json" where
  "check_string rxc v s = (case v of
     JStr t \<Rightarrow>
       bindE (kw_num s ''maxLength'' (Fin (of_int MAX_ARG_STRING))) (\<lambda>mx.
       if flt_lt (py_min mx (Fin (of_int MAX_ARG_STRING))) (Fin (of_nat (length t))) then Inl args_invalid
       else bindE (kw_num s ''minLength'' (Fin 0)) (\<lambda>mn.
       if flt_lt (Fin (of_nat (length t))) mn \<or> list_ex is_control t then Inl args_invalid
       else bindE (case jget s ''enum'' of None \<Rightarrow> Inr True | Some e \<Rightarrow> py_in v e) (\<lambda>member.
       if \<not> member then Inl args_invalid
       else (case jget s ''pattern'' of
           None \<Rightarrow> Inr v
         | Some JNull \<Rightarrow> Inr v
         | Some (JStr pat) \<Rightarrow> if fullmatch (rxc pat) t then Inr v else Inl args_invalid
         | Some _ \<Rightarrow> Inl (Crash TypeError)))))
   | _ \<Rightarrow> Inl args_invalid)"

definition check_range :: "json \<Rightarrow> json \<Rightarrow> exc + json" where
  "check_range v s = (case num_of v of None \<Rightarrow> Inl (Crash TypeError) | Some x \<Rightarrow>
     bindE (kw_num s ''minimum'' x) (\<lambda>lo. if flt_lt x lo then Inl args_invalid else
     bindE (kw_num s ''maximum'' x) (\<lambda>hi. if flt_lt hi x then Inl args_invalid else
     bindE (case jget s ''enum'' of None \<Rightarrow> Inr True | Some e \<Rightarrow> py_in v e) (\<lambda>member.
     if member then Inr v else Inl args_invalid))))"

definition nonfinite :: "json \<Rightarrow> bool" where
  "nonfinite v \<longleftrightarrow> (case v of JFloat x \<Rightarrow> \<not> is_finite x | _ \<Rightarrow> False)"

function validate :: "(string \<Rightarrow> rx) \<Rightarrow> json \<Rightarrow> json \<Rightarrow> nat \<Rightarrow> exc + json" where
  "validate rxc v s depth =
    (if 6 < depth then Inl args_invalid
     else (case jget s ''type'' of
        None \<Rightarrow> Inl (Crash KeyError)
      | Some t \<Rightarrow>
         if t = JStr ''object'' then (case v of
             JObj kvs \<Rightarrow> bindE (obj_items (jget s ''properties'')) (\<lambda>props.
               if \<not> set (dkeys kvs) \<subseteq> set (dkeys props) then Inl args_invalid
               else bindE (py_set (or_else (jget s ''required'') (JArr []))) (\<lambda>req.
               if \<not> list_all (\<lambda>r. \<exists>k \<in> set (dkeys kvs). r = JStr k) req then Inl args_invalid
               else bindE (mapE (\<lambda>kv. bindE (validate rxc (snd kv) (or_else (dget props (fst kv)) JNull) (Suc depth))
                            (\<lambda>w. Inr (fst kv, w))) kvs) (\<lambda>out. Inr (JObj out))))
           | _ \<Rightarrow> Inl args_invalid)
         else if t = JStr ''string'' then check_string rxc v s
         else if t = JStr ''integer'' then (if \<not> is_int v then Inl args_invalid else check_range v s)
         else if t = JStr ''number'' then
           (if \<not> is_number v \<or> nonfinite v then Inl args_invalid else check_range v s)
         else if t = JStr ''boolean'' then (if is_bool v then Inr v else Inl args_invalid)
         else if t = JStr ''array'' then (case v of
             JArr xs \<Rightarrow> (case jget s ''maxItems'' of
                 None \<Rightarrow> Inl (Crash KeyError)
               | Some m \<Rightarrow> (case num_of m of
                   None \<Rightarrow> Inl (Crash TypeError)
                 | Some mx \<Rightarrow>
                    if flt_lt mx (Fin (of_nat (length xs))) then Inl args_invalid
                    else (case (xs, jget s ''items'') of
                        ([], _) \<Rightarrow> Inr (JArr [])
                      | (_, None) \<Rightarrow> Inl (Crash KeyError)
                      | (_, Some item) \<Rightarrow> bindE (mapE (\<lambda>x. validate rxc x item (Suc depth)) xs) (\<lambda>out. Inr (JArr out)))))
           | _ \<Rightarrow> Inl args_invalid)
         else Inr v))"
  by pat_completeness auto
termination
  by (relation "measure (\<lambda>(rxc, v, s, depth). 7 - depth)") auto

declare validate.simps [simp del]

subsection \<open>What a validated value satisfies\<close>

lemma check_string_id: "check_string rxc v s = Inr w \<Longrightarrow> w = v"
  by (auto simp: check_string_def bindE_Inr split: json.splits if_splits option.splits)

lemma check_range_id: "check_range v s = Inr w \<Longrightarrow> w = v"
  by (auto simp: check_range_def bindE_Inr split: option.splits if_splits)

lemma flt_lt_Fin [simp]: "flt_lt (Fin a) (Fin b) \<longleftrightarrow> a < b"
  by (auto simp: flt_lt_def)

lemma py_min_bound: "\<not> flt_lt (py_min m (Fin a)) (Fin n) \<Longrightarrow> m \<noteq> NaN \<Longrightarrow> n \<le> a"
  by (cases m) (auto simp: py_min_def flt_lt_def split: if_splits)

text \<open>No keyword of the schema is the float NaN, which would make every bound comparison false.\<close>

fun nan_free :: "json \<Rightarrow> bool" where
  "nan_free (JFloat x) = (x \<noteq> NaN)"
| "nan_free (JArr xs) = (\<forall>x \<in> set xs. nan_free x)"
| "nan_free (JObj kvs) = (\<forall>kv \<in> set kvs. nan_free (snd kv))"
| "nan_free _ = True"

lemma nan_free_jget: "nan_free s \<Longrightarrow> jget s k = Some v \<Longrightarrow> nan_free v"
  by (cases s) (fastforce simp: jget_def dest: map_of_SomeD)+

lemma kw_num_not_NaN: "nan_free s \<Longrightarrow> kw_num s k d = Inr x \<Longrightarrow> d \<noteq> NaN \<Longrightarrow> x \<noteq> NaN"
  by (auto simp: kw_num_def num_of_def split: option.splits json.splits dest: nan_free_jget)

lemma check_string_bounds:
  assumes "check_string rxc (JStr t) s = Inr w" "nan_free s"
  shows "int (length t) \<le> MAX_ARG_STRING \<and> (\<forall>c \<in> set t. \<not> is_control c)"
proof -
  from assms(1) obtain mx where "kw_num s ''maxLength'' (Fin (of_int MAX_ARG_STRING)) = Inr mx"
    and m: "\<not> flt_lt (py_min mx (Fin (of_int MAX_ARG_STRING))) (Fin (of_nat (length t)))"
    and c: "\<not> list_ex is_control t"
    by (auto simp: check_string_def bindE_Inr split: if_splits)
  with assms(2) have "mx \<noteq> NaN" using kw_num_not_NaN by blast
  from py_min_bound [OF m this] show ?thesis using c
    by (simp add: list_ex_iff)
qed

fun arg_strings :: "json \<Rightarrow> string list" where
  "arg_strings (JStr s) = [s]"
| "arg_strings (JArr xs) = concat (map arg_strings xs)"
| "arg_strings (JObj kvs) = concat (map (arg_strings \<circ> snd) kvs)"
| "arg_strings _ = []"

definition good_string :: "string \<Rightarrow> bool" where
  "good_string t \<longleftrightarrow> int (length t) \<le> MAX_ARG_STRING \<and> (\<forall>c \<in> set t. \<not> is_control c)"

definition schema_types_ok :: "json \<Rightarrow> bool" where
  "schema_types_ok s \<longleftrightarrow> check_schema s = Inr () \<and> nan_free s"

lemma schema_ok_sub_props:
  assumes "schema_types_ok s" "jget s ''type'' = Some (JStr ''object'')"
    "obj_items (jget s ''properties'') = Inr props" "dget props k = Some p"
  shows "schema_types_ok p"
proof -
  from assms(4) have kp: "(k, p) \<in> set props" by (rule map_of_SomeD)
  from assms(1,3) kp have "nan_free p"
    by (fastforce simp: schema_types_ok_def obj_items_def split: option.splits json.splits dest: nan_free_jget)
  from assms(1,2,3) obtain us where "mapE (\<lambda>kv. check_schema (snd kv)) props = Inr us"
    unfolding schema_types_ok_def
    by (subst (asm) check_schema.simps) (auto simp: bindE_Inr split: json.splits if_splits)
  from mapE_in [OF this kp] show ?thesis using \<open>nan_free p\<close> by (auto simp: schema_types_ok_def)
qed

lemma schema_ok_sub_items:
  assumes "schema_types_ok s" "jget s ''type'' = Some (JStr ''array'')" "jget s ''items'' = Some p"
  shows "schema_types_ok p"
proof -
  have "nan_free p" using assms nan_free_jget by (auto simp: schema_types_ok_def)
  with assms show ?thesis unfolding schema_types_ok_def
    by (subst (asm) check_schema.simps) (auto simp: bindE_Inr split: json.splits if_splits option.splits)
qed

lemma schema_ok_type:
  "schema_types_ok s \<Longrightarrow> \<exists>t \<in> set SCHEMA_TYPES. jget s ''type'' = Some (JStr t)"
  unfolding schema_types_ok_def
  by (subst (asm) check_schema.simps) (auto split: json.splits if_splits)

text \<open>The recursive calls of an accepted object and array.\<close>

lemma validate_object:
  assumes "validate rxc (JObj kvs) s d = Inr w" "jget s ''type'' = Some (JStr ''object'')"
  shows "\<exists>props req out. obj_items (jget s ''properties'') = Inr props \<and> set (dkeys kvs) \<subseteq> set (dkeys props) \<and>
     py_set (or_else (jget s ''required'') (JArr [])) = Inr req \<and>
     (\<forall>r \<in> set req. \<exists>k \<in> set (dkeys kvs). r = JStr k) \<and> w = JObj out \<and>
     mapE (\<lambda>kv. bindE (validate rxc (snd kv) (or_else (dget props (fst kv)) JNull) (Suc d))
        (\<lambda>w. Inr (fst kv, w))) kvs = Inr out"
  using assms by (subst (asm) validate.simps) (auto simp: bindE_Inr list_all_iff split: if_splits)

lemma validate_array:
  assumes "validate rxc (JArr xs) s d = Inr w" "jget s ''type'' = Some (JStr ''array'')" "xs \<noteq> []"
  shows "\<exists>item out. jget s ''items'' = Some item \<and> w = JArr out \<and>
     mapE (\<lambda>x. validate rxc x item (Suc d)) xs = Inr out"
  using assms by (subst (asm) validate.simps)
    (auto simp: bindE_Inr split: if_splits option.splits list.splits)

lemma validate_shape:
  assumes "validate rxc v s d = Inr w" "jget s ''type'' = Some (JStr t)" "t \<in> set SCHEMA_TYPES"
  shows "d \<le> 6 \<and> (case v of JObj _ \<Rightarrow> t = ''object'' | JArr _ \<Rightarrow> t = ''array''
     | JStr _ \<Rightarrow> t = ''string'' \<and> check_string rxc v s = Inr w | JNull \<Rightarrow> False | _ \<Rightarrow> w = v)"
  using assms
  by (subst (asm) validate.simps)
     (auto simp: SCHEMA_TYPES_def json_tests check_string_def split: if_splits json.splits
       dest!: check_range_id)

lemma validate_ok:
  "validate rxc v s d = Inr w \<Longrightarrow> schema_types_ok s \<Longrightarrow>
     w = v \<and> jdepth v \<le> 6 - d \<and> d \<le> 6 \<and> (\<forall>t \<in> set (arg_strings v). good_string t)"
proof (induction v arbitrary: s d w)
  case (JObj kvs)
  then obtain t where t: "t \<in> set SCHEMA_TYPES" "jget s ''type'' = Some (JStr t)"
    using schema_ok_type by blast
  from validate_shape [OF JObj.prems(1) t(2,1)] have d: "d \<le> 6" and o: "t = ''object''" by auto
  from validate_object [OF JObj.prems(1)] t o obtain props out where
    p: "obj_items (jget s ''properties'') = Inr props" "set (dkeys kvs) \<subseteq> set (dkeys props)" "w = JObj out"
    and m: "mapE (\<lambda>kv. bindE (validate rxc (snd kv) (or_else (dget props (fst kv)) JNull) (Suc d))
        (\<lambda>w. Inr (fst kv, w))) kvs = Inr out" by blast
  have sub: "y = x \<and> Suc (jdepth (snd x)) \<le> 6 - d \<and> (\<forall>t \<in> set (arg_strings (snd x)). good_string t)"
    if x: "x \<in> set kvs" and v: "bindE (validate rxc (snd x) (or_else (dget props (fst x)) JNull) (Suc d))
        (\<lambda>w. Inr (fst x, w)) = Inr y" for x y
  proof -
    from x p(2) obtain q where q: "dget props (fst x) = Some q"
      by (metis dget_None_iff image_eqI list.set_map not_None_eq subset_iff)
    then have "schema_types_ok q" using schema_ok_sub_props JObj.prems(2) t o p(1) by blast
    moreover obtain w' where w': "validate rxc (snd x) q (Suc d) = Inr w'" and y: "y = (fst x, w')"
      using v q by (auto simp: bindE_Inr or_else_def)
    moreover have "snd x \<in> Basic_BNFs.snds x" by (cases x) (simp add: snds.simps)
    ultimately have "w' = snd x \<and> jdepth (snd x) \<le> 6 - Suc d \<and> Suc d \<le> 6 \<and> (\<forall>t \<in> set (arg_strings (snd x)). good_string t)"
      using JObj.IH [OF x] by blast
    then have "w' = snd x \<and> Suc (jdepth (snd x)) \<le> 6 - d \<and> (\<forall>t \<in> set (arg_strings (snd x)). good_string t)"
      by auto
    with y show ?thesis by simp
  qed
  have "out = kvs" by (rule mapE_id [OF m]) (use sub in blast)
  moreover have "Suc (jdepth (snd x)) \<le> 6 - d" "\<forall>t \<in> set (arg_strings (snd x)). good_string t" if "x \<in> set kvs" for x
    using mapE_in [OF m that] sub [OF that] by blast+
  ultimately show ?case using p(3) d by simp
next
  case (JArr xs)
  then obtain t where t: "t \<in> set SCHEMA_TYPES" "jget s ''type'' = Some (JStr t)"
    using schema_ok_type by blast
  from validate_shape [OF JArr.prems(1) t(2,1)] have d: "d \<le> 6" and o: "t = ''array''" by auto
  show ?case
  proof (cases "xs = []")
    case True
    then show ?thesis using JArr.prems(1) t o d
      by (subst (asm) validate.simps) (auto split: option.splits if_splits)
  next
    case False
    from validate_array [OF JArr.prems(1) _ False] t o obtain item out where
      p: "jget s ''items'' = Some item" "w = JArr out" and m: "mapE (\<lambda>x. validate rxc x item (Suc d)) xs = Inr out"
      by blast
    have ok: "schema_types_ok item" using schema_ok_sub_items JArr.prems(2) t o p(1) by blast
    have sub: "y = x \<and> Suc (jdepth x) \<le> 6 - d \<and> (\<forall>t \<in> set (arg_strings x). good_string t)"
      if "x \<in> set xs" "validate rxc x item (Suc d) = Inr y" for x y
      using JArr.IH [OF that ok] by auto
    have "out = xs" by (rule mapE_id [OF m]) (use sub in blast)
    moreover have "Suc (jdepth x) \<le> 6 - d" "\<forall>t \<in> set (arg_strings x). good_string t" if "x \<in> set xs" for x
      using mapE_in [OF m that] sub [OF that] by blast+
    ultimately show ?thesis using p(2) d by simp
  qed
next
  case (JStr x)
  then obtain t where t: "t \<in> set SCHEMA_TYPES" "jget s ''type'' = Some (JStr t)"
    using schema_ok_type by blast
  with validate_shape [OF JStr.prems(1) t(2,1)] have c: "check_string rxc (JStr x) s = Inr w" "d \<le> 6" by auto
  have "nan_free s" using JStr.prems(2) by (simp add: schema_types_ok_def)
  with check_string_bounds [OF c(1)] check_string_id [OF c(1)] c(2) show ?case
    by (simp add: good_string_def)
qed (use schema_ok_type validate_shape in fastforce)+

text \<open>
  C40: an argument object that passes a registered schema is passed on unchanged, has only declared
  keys and every required key, nests at most six levels, and every string in it has at most 256
  characters, none of them a control character.
\<close>

theorem validated_arguments:
  assumes "check_schema s = Inr ()" and "nan_free s"
    and "validate rxc (JObj kvs) s 0 = Inr w"
  shows "w = JObj kvs \<and> jdepth (JObj kvs) \<le> 6 \<and> (\<forall>t \<in> set (arg_strings (JObj kvs)). good_string t) \<and>
    (\<exists>props req. obj_items (jget s ''properties'') = Inr props \<and> set (dkeys kvs) \<subseteq> set (dkeys props) \<and>
       py_set (or_else (jget s ''required'') (JArr [])) = Inr req \<and>
       (\<forall>r \<in> set req. \<exists>k \<in> set (dkeys kvs). r = JStr k))"
proof -
  have ok: "schema_types_ok s" using assms(1,2) by (simp add: schema_types_ok_def)
  then obtain t where t: "t \<in> set SCHEMA_TYPES" "jget s ''type'' = Some (JStr t)"
    using schema_ok_type by blast
  with validate_shape [OF assms(3) t(2,1)] have "jget s ''type'' = Some (JStr ''object'')" by simp
  from validate_object [OF assms(3) this] obtain props req where
    p: "obj_items (jget s ''properties'') = Inr props" "set (dkeys kvs) \<subseteq> set (dkeys props)"
      "py_set (or_else (jget s ''required'') (JArr [])) = Inr req"
      "\<forall>r \<in> set req. \<exists>k \<in> set (dkeys kvs). r = JStr k"
    by (elim exE conjE) (rule that)
  note v = validate_ok [OF assms(3) ok, unfolded diff_zero]
  show ?thesis
    by (intro conjI exI) (rule v [THEN conjunct1] v [THEN conjunct2, THEN conjunct1]
        v [THEN conjunct2, THEN conjunct2, THEN conjunct2] p)+
qed

definition example_schema :: json where
  "example_schema = JObj [(''type'', JStr ''object''),
     (''properties'', JObj [(''target_alias'', JObj [(''type'', JStr ''string''), (''maxLength'', JInt 41)]),
        (''max_rows'', JObj [(''type'', JStr ''integer''), (''minimum'', JInt 1), (''maximum'', JInt 200)])]),
     (''required'', JArr [JStr ''target_alias'']), (''additionalProperties'', JBool False)]"

definition example_args :: "(string \<times> json) list" where
  "example_args = [(''target_alias'', JStr ''fixture-db''), (''max_rows'', JInt 5)]"

theorem validated_arguments_witness:
  "validate (\<lambda>_. Zero) (JObj example_args) example_schema 0 = Inr (JObj example_args) \<and>
   good_string ''fixture-db''"
proof -
  have c: "check_schema example_schema = Inr ()"
    by (simp add: check_schema.simps [of "JObj _"] example_schema_def jget_def obj_items_def py_set_def py_set_of_def py_iter_def unhashable_def or_else_def
      json_tests ALLOWED_KEYWORDS_def SCHEMA_TYPES_def)
  have n: "nan_free example_schema" by (simp add: example_schema_def)
  have e: "validate (\<lambda>_. Zero) (JObj example_args) example_schema 0 = Inr (JObj example_args)"
    by (simp add: validate.simps [of _ _ _ 0] validate.simps [of _ "JStr _"] validate.simps [of _ "JInt _"]
      example_args_def example_schema_def jget_def obj_items_def py_set_def py_set_of_def py_iter_def unhashable_def or_else_def json_tests
      check_string_def check_range_def kw_num_def num_of_def py_min_def flt_lt_def MAX_ARG_STRING_def is_control_def char_defs)
  have "''fixture-db'' \<in> set (arg_strings (JObj example_args))" by (simp add: example_args_def)
  with validated_arguments [OF c n e] e show ?thesis by blast
qed

end
