(* ===== verification/Catalog.thy ===== *)
theory Catalog
  imports Versions
begin

section \<open>Certified collectors and targets (mcp\_gateway/catalog.py)\<close>

text \<open>
  The collector catalog is read once, at start-up, from trusted JSON files and from the certified
  query files of the repository; any rule that does not hold stops the load. The text of a query
  file (\<open>query_text\<close>, by query id) and SHA-256 (\<open>sha\<close>) are parameters.
\<close>

definition lower_rx :: rx where "lower_rx = Cls is_lower"

text \<open>\<open>^[a-z][a-z0-9-]{2,40}$\<close> and \<open>^[A-Za-z][A-Za-z0-9_.-]{2,64}$\<close>, both used with \<open>match\<close>.\<close>

definition ALIAS_RE :: rx where
  "ALIAS_RE = Seq lower_rx (Rep 2 38 (Cls (\<lambda>c. is_lower c \<or> is_digit c \<or> c = CHR ''-'')))"

definition COLLECTOR_ID_RE :: rx where
  "COLLECTOR_ID_RE = Seq (Cls is_letter) (Rep 2 62 (Cls (\<lambda>c. is_alnum c \<or> c \<in> set ''_.-'')))"

definition ORACLE_VERSIONS :: "string list" where
  "ORACLE_VERSIONS = [''10g'', ''11g'', ''12c'', ''18c'', ''19c'', ''21c'', ''23ai'']"

definition ROLES :: "string list" where "ROLES = [''PRIMARY'', ''STANDBY'']"

definition FIELD_TYPES :: "string list" where
  "FIELD_TYPES = [''identifier'', ''version_string'', ''enum'', ''integer'', ''integer_or_unlimited'', ''number'',
     ''boolean'', ''timestamp_utc'', ''signature'', ''text'', ''interval_string'', ''parameter_name'',
     ''oracle_term'', ''sql_id'']"

definition PARAMETER_NAME_FIELDS :: "string list" where
  "PARAMETER_NAME_FIELDS = [''parameter_name'']"

definition ORACLE_TERM_FIELDS :: "string list" where
  "ORACLE_TERM_FIELDS = [''event'', ''namespace'', ''privilege'', ''action_name'', ''policy_name'', ''cause'',
     ''config_name'', ''oracle_role'']"

definition SQL_ID_FIELDS :: "string list" where "SQL_ID_FIELDS = [''sql_id'', ''waiter_sql_id'']"

definition POLICIES :: "string list" where
  "POLICIES = [''KEEP'', ''MASK'', ''HASH'', ''TOKENIZE'', ''DROP'', ''SIGNATURE'']"

definition KINDS :: "string list" where "KINDS = [''sql_query'', ''alert_log_excerpt'', ''semantic_os'']"

definition FORBIDDEN_WORDS :: "string list" where
  "FORBIDDEN_WORDS = [''insert'', ''update'', ''delete'', ''merge'', ''drop'', ''create'', ''alter'', ''truncate'',
     ''grant'', ''revoke'', ''execute'', ''exec'', ''call'', ''begin'', ''declare'', ''commit'', ''rollback'', ''lock'',
     ''flashback'', ''purge'', ''rename'', ''comment'', ''audit'', ''noaudit'', ''shutdown'', ''startup'', ''into'']"

definition FORBIDDEN_SQL :: rx where
  "FORBIDDEN_SQL = alts [seqs [Bnd, alts (map ilit FORBIDDEN_WORDS), Bnd], ilit ''dbms_'', ilit ''utl_'', ilit ''sys.'',
     seqs [lit '';'', Star (Cls is_space), Cls (\<lambda>c. \<not> is_space c)]]"

subsection \<open>Certified query files\<close>

text \<open>Front matter values are texts or lists of texts.\<close>

datatype fm_val = FStr string | FList "string list"

type_synonym front_matter = "(string, fm_val) dict"

definition QUERY_ID_RE :: rx where
  "QUERY_ID_RE = Seq (lit ''Q-'') (Rep 3 57 (Cls (\<lambda>c. is_upper c \<or> is_digit c \<or> c = CHR ''-'')))"

definition find_query_file :: "(string \<Rightarrow> string option) \<Rightarrow> string \<Rightarrow> string option" where
  "find_query_file query_text query_id =
     (if \<not> fullmatch QUERY_ID_RE query_id then None else query_text query_id)"

definition key_char :: "char \<Rightarrow> bool" where "key_char c \<longleftrightarrow> is_lower c \<or> c = CHR ''_''"

definition strip_chars :: "(char \<Rightarrow> bool) \<Rightarrow> string \<Rightarrow> string" where
  "strip_chars f s = rev (dropWhile f (rev (dropWhile f s)))"

text \<open>One line \<open>key: value\<close>; a value in brackets is a list.\<close>

definition front_line :: "string \<Rightarrow> (string \<times> fm_val) option" where
  "front_line line = (let key = takeWhile key_char line; rest = dropWhile key_char line in
     if key = [] \<or> \<not> starts_with '':'' rest then None
     else let val = strip (drop 1 rest) in
       Some (key, if starts_with ''['' val \<and> ends_with '']'' val
                  then FList (filter (\<lambda>x. x \<noteq> []) (map strip (split_on (CHR '','') (butlast (drop 1 val)))))
                  else FStr (strip_chars (\<lambda>c. c = CHR 0x22) val)))"

definition parse_front_matter :: "string \<Rightarrow> front_matter" where
  "parse_front_matter text =
     (if \<not> starts_with (''---'' @ [newline]) text then []
      else (case split_first ([newline] @ ''---'' @ [newline]) (drop 4 text) of
          None \<Rightarrow> []
        | Some (body, _) \<Rightarrow> foldl (\<lambda>meta line. case front_line line of None \<Rightarrow> meta | Some (k, v) \<Rightarrow> dset k v meta)
             [] (split_on newline body)))"

function sql_blocks :: "string \<Rightarrow> string list" where
  "sql_blocks text = (case split_first (''```sql'' @ [newline]) text of
      None \<Rightarrow> []
    | Some (_, rest) \<Rightarrow> (case split_first ''```'' rest of
        None \<Rightarrow> []
      | Some (body, after) \<Rightarrow> strip body # sql_blocks after))"
  by pat_completeness auto
termination
  by (relation "measure length") (auto dest!: split_first_shorter)

declare sql_blocks.simps [simp del]

text \<open>The two comment substitutions, and the guard.\<close>

fun strip_line_comments :: "string \<Rightarrow> string" and skip_line :: "string \<Rightarrow> string" where
  "strip_line_comments [] = []"
| "strip_line_comments (c # s) =
     (if starts_with ''--'' (c # s) then skip_line s else c # strip_line_comments s)"
| "skip_line [] = []"
| "skip_line (c # s) = (if c = newline then c # strip_line_comments s else skip_line s)"

function strip_block_comments :: "string \<Rightarrow> string" where
  "strip_block_comments text = (case split_first ''/*'' text of
      None \<Rightarrow> text
    | Some (before, rest) \<Rightarrow> (case split_first ''*/'' rest of
        None \<Rightarrow> text
      | Some (_, after) \<Rightarrow> before @ strip_block_comments after))"
  by pat_completeness auto
termination
  by (relation "measure length") (auto dest!: split_first_shorter)

declare strip_block_comments.simps [simp del]

definition bare_sql :: "string \<Rightarrow> string" where
  "bare_sql block = strip (strip_block_comments (strip_line_comments block))"

definition rstrip_semicolons :: "string \<Rightarrow> string" where
  "rstrip_semicolons s = rev (dropWhile (\<lambda>c. c = CHR '';'') (rev s))"

definition assert_read_only_sql :: "string \<Rightarrow> py_exc + unit" where
  "assert_read_only_sql block = (let stripped = bare_sql block in
     if \<not> match_prefix (seqs [alts [ilit ''select'', ilit ''with''], Bnd]) stripped
        \<or> search FORBIDDEN_SQL (rstrip_semicolons (rstrip stripped))
     then Inl RuntimeError else Inr ())"

subsection \<open>Versions a collector supports\<close>

definition families_of :: "json list \<Rightarrow> py_exc + string list" where
  "families_of values =
     (if values = [] then Inl RuntimeError
      else foldE (\<lambda>out v. case family_of v of
               None \<Rightarrow> Inl RuntimeError
             | Some fam \<Rightarrow> if fam \<notin> set ORACLE_VERSIONS then Inl RuntimeError
                 else Inr (if fam \<notin> set out then out @ [fam] else out)) [] values)"

definition families :: "json \<Rightarrow> py_exc + string list" where
  "families values = (case values of JArr vs \<Rightarrow> families_of vs | _ \<Rightarrow> Inl RuntimeError)"

definition base_versions :: "json \<Rightarrow> front_matter option \<Rightarrow> py_exc + string list" where
  "base_versions spec query_meta = (case query_meta of
      Some q \<Rightarrow> (case dget q ''supported_oracle_versions'' of
          Some (FList raw) \<Rightarrow> if raw = [] then Inr [] else families_of (map JStr raw)
        | _ \<Rightarrow> Inr [])
    | None \<Rightarrow> Inr (if jget_or spec ''oracle_version_scope'' JNull = JStr ''ANY'' then ORACLE_VERSIONS else []))"

text \<open>The comprehension evaluates \<open>_families(declared)\<close> only when it filters something.\<close>

definition effective_versions :: "json \<Rightarrow> front_matter option \<Rightarrow> py_exc + string list" where
  "effective_versions spec query_meta =
     bindE (base_versions spec query_meta) (\<lambda>base.
       (let declared = jget_or spec ''supported_oracle_versions'' JNull in
        if declared = JNull then Inr base
        else if base = [] then Inr []
        else bindE (families declared) (\<lambda>fs. Inr (filter (\<lambda>v. v \<in> set fs) base))))"

subsection \<open>Collectors\<close>

record collector =
  c_id :: string
  c_kind :: string
  c_domain :: json
  c_title :: json
  c_row_limit :: int
  c_params :: json
  c_output_fields :: "(string \<times> json) list"
  c_rca :: "json option"
  c_adapters :: json
  c_reference :: "json option"
  c_query_id :: "fm_val option"
  c_query_sha256 :: "string option"
  c_versions :: "string list"
  c_role_scope :: fm_val
  c_container_scope :: fm_val
  c_license :: fm_val
  c_privileges :: fm_val
  c_timeout :: int
  c_cost_class :: fm_val
  c_risk_class :: fm_val

definition fm_int :: "fm_val \<Rightarrow> py_exc + int" where
  "fm_int v = (case v of FStr s \<Rightarrow> int_of_text s | FList _ \<Rightarrow> Inl TypeError)"

text \<open>The constructor; \<open>query_meta\<close> is the front matter with the hash of the SQL blocks.\<close>

definition Collector :: "json \<Rightarrow> (front_matter \<times> string option) option \<Rightarrow> py_exc + collector" where
  "Collector spec query_meta =
     bindE (bindE (jreq spec ''collector_id'') as_str) (\<lambda>c.
     bindE (bindE (jreq spec ''kind'') as_str) (\<lambda>k.
     bindE (jreq spec ''domain'') (\<lambda>dom.
     bindE (jreq spec ''title'') (\<lambda>ttl.
     bindE (bindE (jreq spec ''row_limit'') py_int) (\<lambda>limit.
     bindE (bindE (jreq spec ''output_fields'') jitems) (\<lambda>fields.
     let q = (case query_meta of None \<Rightarrow> [] | Some (fm, _) \<Rightarrow> fm) in
     bindE (effective_versions spec (map_option fst query_meta)) (\<lambda>versions.
     bindE (case dget q ''timeout_seconds'' of None \<Rightarrow> Inr 15 | Some v \<Rightarrow> fm_int v) (\<lambda>timeout.
     Inr \<lparr> c_id = c, c_kind = k, c_domain = dom, c_title = ttl, c_row_limit = limit,
          c_params = jget_or spec ''params'' (JObj []), c_output_fields = fields, c_rca = jget spec ''rca'',
          c_adapters = jget_or spec ''adapters'' (JObj []), c_reference = jget spec ''reference'',
          c_query_id = dget q ''query_id'',
          c_query_sha256 = (case query_meta of None \<Rightarrow> None | Some (_, sha) \<Rightarrow> sha),
          c_versions = versions,
          c_role_scope = dget_or q ''database_role_scope'' (FStr ''ANY''),
          c_container_scope = dget_or q ''container_scope'' (FStr ''NOT_APPLICABLE''),
          c_license = dget_or q ''license_requirements'' (FStr ''none''),
          c_privileges = dget_or q ''privileges_required'' (FList []),
          c_timeout = timeout,
          c_cost_class = dget_or q ''cost_class'' (FStr ''LOW''),
          c_risk_class = dget_or q ''risk_class'' (FStr ''R0'') \<rparr>))))))))"

definition fm_json :: "fm_val \<Rightarrow> json" where
  "fm_json v = (case v of FStr s \<Rightarrow> JStr s | FList xs \<Rightarrow> JArr (map JStr xs))"

definition collector_public_view :: "collector \<Rightarrow> py_exc + json" where
  "collector_public_view c =
     bindE (mapE (\<lambda>(k, v). bindE (jreq v ''type'') (\<lambda>t. bindE (jreq v ''policy'') (\<lambda>p.
         Inr (k, JObj [(''type'', t), (''sanitization'', p)])))) (c_output_fields c)) (\<lambda>fields.
     bindE (case c_adapters c of JObj kvs \<Rightarrow> Inr (JObj kvs) | _ \<Rightarrow> Inl TypeError) (\<lambda>adapters.
     Inr (JObj [(''collector_id'', JStr (c_id c)), (''kind'', JStr (c_kind c)), (''domain'', c_domain c),
       (''title'', c_title c), (''risk_class'', fm_json (c_risk_class c)), (''cost_class'', fm_json (c_cost_class c)),
       (''row_limit'', JInt (c_row_limit c)), (''timeout_seconds'', JInt (c_timeout c)),
       (''supported_oracle_versions'', JArr (map JStr (c_versions c))),
       (''database_role_scope'', fm_json (c_role_scope c)), (''container_scope'', fm_json (c_container_scope c)),
       (''license_requirements'', fm_json (c_license c)), (''minimum_privileges'', fm_json (c_privileges c)),
       (''parameters'', JObj [(''max_rows'', JObj [(''type'', JStr ''integer''), (''minimum'', JInt 1),
          (''maximum'', JInt (c_row_limit c))])]),
       (''output_fields'', JObj fields), (''adapter_status'', adapters),
       (''query_sha256'', case c_query_sha256 c of None \<Rightarrow> JNull | Some h \<Rightarrow> JStr h),
       (''provenance_note'', JStr ''SQL text is immutable in the repository and is never sent to or accepted from a client'')])))"

definition license_keys :: "string \<Rightarrow> string list" where
  "license_keys lic0 = (let lic = lower lic0;
     keys = (if contains ''tuning'' lic then [''tuning_pack'', ''diagnostics_pack''] else [])
       @ (if contains ''diagnostic'' lic \<or> contains ''awr'' lic \<or> contains ''ash'' lic then [''diagnostics_pack''] else [])
       @ (if contains ''active data guard'' lic then [''active_data_guard''] else [])
     in if keys = [] then [''other_option''] else remdups keys)"

subsection \<open>Loading the collector catalog\<close>

text \<open>The structural rules on one output field.\<close>

definition field_violates :: "string \<Rightarrow> string \<Rightarrow> string \<Rightarrow> bool" where
  "field_violates fname ty policy \<longleftrightarrow>
     (ty = ''identifier'' \<and> policy \<notin> {''MASK'', ''HASH'', ''TOKENIZE'', ''DROP''})
   \<or> (ty = ''text'' \<and> policy \<noteq> ''DROP'')
   \<or> (ty = ''signature'' \<and> policy \<notin> {''SIGNATURE'', ''DROP''})
   \<or> (policy = ''SIGNATURE'' \<and> ty \<noteq> ''signature'')
   \<or> (ty = ''parameter_name'' \<and> (fname \<notin> set PARAMETER_NAME_FIELDS \<or> policy \<notin> {''KEEP'', ''DROP''}))
   \<or> (fname \<in> set PARAMETER_NAME_FIELDS \<and> ty \<noteq> ''parameter_name'')
   \<or> (ty = ''oracle_term'' \<and> (fname \<notin> set ORACLE_TERM_FIELDS \<or> policy \<notin> {''KEEP'', ''DROP''}))
   \<or> (fname \<in> set ORACLE_TERM_FIELDS \<and> ty \<noteq> ''oracle_term'')
   \<or> (ty = ''sql_id'' \<and> (fname \<notin> set SQL_ID_FIELDS \<or> policy \<notin> {''KEEP'', ''DROP''}))
   \<or> (fname \<in> set SQL_ID_FIELDS \<and> ty \<noteq> ''sql_id'')"

definition FIELD_NAME_RE :: rx where
  "FIELD_NAME_RE = Seq (Cls key_char) (Rep 0 40 (Cls (\<lambda>c. key_char c \<or> is_digit c)))"

definition check_field :: "string \<Rightarrow> json \<Rightarrow> py_exc + unit" where
  "check_field fname f =
     bindE (jreq f ''type'') (\<lambda>ty. bindE (str_in_set ty FIELD_TYPES) (\<lambda>ok1.
     if \<not> ok1 then Inl RuntimeError
     else bindE (jreq f ''policy'') (\<lambda>pol. bindE (str_in_set pol POLICIES) (\<lambda>ok2.
     if \<not> ok2 \<or> \<not> fullmatch FIELD_NAME_RE fname then Inl RuntimeError
     else (case (ty, pol) of
        (JStr t, JStr p) \<Rightarrow> if field_violates fname t p then Inl RuntimeError else Inr ()
      | _ \<Rightarrow> Inl RuntimeError)))))"

definition fm_max_rows :: "front_matter \<Rightarrow> py_exc + int" where
  "fm_max_rows fm = (case dget fm ''max_rows'' of None \<Rightarrow> Inr 0 | Some v \<Rightarrow> fm_int v)"

text \<open>The certified query of a collector: its metadata, if every check on the file passes.\<close>

definition certify :: "(string \<Rightarrow> string option) \<Rightarrow> (string \<Rightarrow> string) \<Rightarrow> json \<Rightarrow> string \<Rightarrow> string
    \<Rightarrow> py_exc + front_matter \<times> string option" where
  "certify query_text sha spec cid kd = (case find_query_file query_text cid of
      None \<Rightarrow> Inl RuntimeError
    | Some text \<Rightarrow> (let fm = parse_front_matter text in
        if dget fm ''status'' \<noteq> Some (FStr ''active'') \<or> dget fm ''risk_class'' \<noteq> Some (FStr ''R0'')
           \<or> dget fm ''execution_mode'' \<noteq> Some (FStr ''READ_ONLY'') then Inl RuntimeError
        else bindE (fm_max_rows fm) (\<lambda>max_rows.
          bindE (bindE (jreq spec ''row_limit'') py_int) (\<lambda>limit.
          if max_rows < limit \<and> kd = ''sql_query'' then Inl RuntimeError
          else let blocks = sql_blocks text in
            bindE (mapE assert_read_only_sql blocks) (\<lambda>_.
            Inr (fm, if blocks = [] then None else Some (sha (join_on [newline] blocks))))))))"

definition query_meta_of :: "(string \<Rightarrow> string option) \<Rightarrow> (string \<Rightarrow> string) \<Rightarrow> json \<Rightarrow> string \<Rightarrow> string
    \<Rightarrow> py_exc + (front_matter \<times> string option) option" where
  "query_meta_of query_text sha spec cid kd =
     (if kd \<in> {''sql_query'', ''alert_log_excerpt''}
      then bindE (certify query_text sha spec cid kd) (\<lambda>m. Inr (Some m)) else Inr None)"

definition load_one :: "(string \<Rightarrow> string option) \<Rightarrow> (string \<Rightarrow> string) \<Rightarrow> (string, collector) dict \<Rightarrow> json
    \<Rightarrow> py_exc + (string, collector) dict" where
  "load_one query_text sha out spec =
     bindE (bindE (jreq spec ''collector_id'') as_str) (\<lambda>cid.
     if \<not> match_dollar COLLECTOR_ID_RE cid then Inl RuntimeError
     else bindE (jreq spec ''kind'') (\<lambda>kdv. bindE (str_in_set kdv KINDS) (\<lambda>known.
       if \<not> known \<or> cid \<in> set (dkeys out) then Inl RuntimeError
       else bindE (bindE (jreq spec ''output_fields'') jitems) (\<lambda>fields.
         bindE (mapE (\<lambda>(k, f). check_field k f) fields) (\<lambda>_.
         bindE (as_str kdv) (\<lambda>kd.
         bindE (query_meta_of query_text sha spec cid kd) (\<lambda>meta.
         bindE (Collector spec meta) (\<lambda>c. Inr (dset cid c out)))))))))"

text \<open>\<open>data\<close> is the hand-written catalog, \<open>factory\<close> the generated one when there is one.\<close>

definition load_collectors :: "(string \<Rightarrow> string option) \<Rightarrow> (string \<Rightarrow> string) \<Rightarrow> json \<Rightarrow> json option
    \<Rightarrow> py_exc + (string, collector) dict" where
  "load_collectors query_text sha data factory =
     bindE (bindE (jreq data ''collectors'') py_iter) (\<lambda>specs.
     bindE (case factory of None \<Rightarrow> Inr [] | Some fd \<Rightarrow> bindE (jreq fd ''collectors'') py_iter) (\<lambda>more.
     foldE (load_one query_text sha) [] (specs @ more)))"

subsection \<open>Targets\<close>

record target =
  t_alias :: string
  t_adapter :: json
  t_enabled :: bool
  t_version :: "string option"
  t_role :: json
  t_container :: json
  t_architecture :: json
  t_os :: json
  t_release_update :: "string option"
  t_license_status :: json
  t_allowed :: "json list"
  t_missing :: "json list"
  t_max_calls :: int
  t_max_rows :: int

definition budget_of :: "json \<Rightarrow> string \<Rightarrow> int \<Rightarrow> py_exc + int" where
  "budget_of spec k d = bindE (jget_attr (jget_or spec ''budget'' (JObj [])) k)
     (\<lambda>v. case v of None \<Rightarrow> Inr d | Some w \<Rightarrow> py_int w)"

definition Target :: "json \<Rightarrow> py_exc + target" where
  "Target spec =
     bindE (bindE (jreq spec ''alias'') as_str) (\<lambda>a.
     bindE (jreq spec ''adapter'') (\<lambda>adapter.
     bindE (py_set_of (jget_or spec ''allowed_collectors'' (JArr []))) (\<lambda>allowed.
     bindE (py_set_of (jget_or spec ''missing_privileges'' (JArr []))) (\<lambda>missing.
     bindE (budget_of spec ''max_calls'' 50) (\<lambda>calls.
     bindE (budget_of spec ''max_rows'' 1000) (\<lambda>rows.
       Inr \<lparr> t_alias = a, t_adapter = adapter, t_enabled = truthy (jget_or spec ''enabled'' (JBool False)),
         t_version = family_of (jget_or spec ''oracle_version'' JNull),
         t_role = jget_or spec ''role'' (JStr ''UNKNOWN''),
         t_container = jget_or spec ''container'' (JStr ''UNKNOWN''),
         t_architecture = jget_or spec ''architecture'' (JObj []),
         t_os = (case jget_or spec ''os'' JNull of JObj kvs \<Rightarrow> JObj kvs | _ \<Rightarrow> JObj []),
         t_release_update = (case jget_or spec ''release_update'' JNull of JStr r \<Rightarrow> Some r | _ \<Rightarrow> None),
         t_license_status = jget_or spec ''license_status'' (JObj []),
         t_allowed = remdups allowed, t_missing = remdups missing, t_max_calls = calls, t_max_rows = rows \<rparr>))))))"

definition target_public_view :: "target \<Rightarrow> json" where
  "target_public_view t = JObj [(''target_alias'', JStr (t_alias t)), (''enabled'', JBool (t_enabled t)),
     (''adapter'', t_adapter t), (''oracle_version'', JStr (or_else (t_version t) ''UNKNOWN'')),
     (''role'', t_role t), (''allowed_collector_count'', JInt (int (length (t_allowed t))))]"

definition CONNECTION_KEYS :: "string list" where
  "CONNECTION_KEYS = [''password'', ''dsn'', ''host'', ''user'', ''username'', ''wallet'', ''connection_string'',
     ''token'', ''secret'']"

definition ids_subset :: "json list \<Rightarrow> string list \<Rightarrow> bool" where
  "ids_subset vs ids \<longleftrightarrow> list_all (\<lambda>v. str_in v ids) vs"

definition ids_known :: "string list option \<Rightarrow> json \<Rightarrow> string \<Rightarrow> py_exc + bool" where
  "ids_known collectors spec k = (case collectors of
      None \<Rightarrow> Inr True
    | Some ids \<Rightarrow> bindE (py_set_of (jget_or spec k (JArr []))) (\<lambda>vs. Inr (ids_subset vs ids)))"

definition load_target :: "string list option \<Rightarrow> (string, target) dict \<Rightarrow> json \<Rightarrow> py_exc + (string, target) dict" where
  "load_target collectors out spec =
     bindE (bindE (jreq spec ''alias'') as_str) (\<lambda>alias.
       if \<not> match_dollar ALIAS_RE alias \<or> alias \<in> set (dkeys out) then Inl RuntimeError
       else if jget_or spec ''oracle_version'' JNull \<noteq> JNull
               \<and> (case family_of (jget_or spec ''oracle_version'' JNull) of None \<Rightarrow> True | Some f \<Rightarrow> f \<notin> set ORACLE_VERSIONS)
       then Inl RuntimeError
       else if \<not> str_in (jget_or spec ''role'' (JStr ''UNKNOWN'')) (ROLES @ [''UNKNOWN'']) then Inl RuntimeError
       else bindE (jitems spec) (\<lambda>kvs.
         if list_ex (\<lambda>k. k \<in> set CONNECTION_KEYS) (dkeys kvs) then Inl RuntimeError
         else bindE (ids_known collectors spec ''allowed_collectors'') (\<lambda>certified.
         if \<not> certified \<or> \<not> is_arr (jget_or spec ''missing_privileges'' (JArr [])) then Inl RuntimeError
         else bindE (ids_known collectors spec ''missing_privileges'') (\<lambda>known.
         if \<not> known then Inl RuntimeError
         else bindE (Target spec) (\<lambda>t. Inr (dset alias t out))))))"

definition load_targets :: "json \<Rightarrow> string list option \<Rightarrow> py_exc + (string, target) dict" where
  "load_targets data collectors =
     bindE (bindE (jreq data ''targets'') py_iter) (\<lambda>specs. foldE (load_target collectors) [] specs)"

subsection \<open>Capability of a collector on a target\<close>

text \<open>The license text of a collector, as the capability check reads it.\<close>

definition license_text :: "fm_val \<Rightarrow> string" where
  "license_text v = lower (case v of
      FStr s \<Rightarrow> if s = [] then ''none'' else s
    | FList xs \<Rightarrow> if join_on '' '' xs = [] then ''none'' else join_on '' '' xs)"

definition license_confirmed :: "json \<Rightarrow> string \<Rightarrow> py_exc + bool" where
  "license_confirmed status k = bindE (jget_attr status k) (\<lambda>v. Inr (v = Some (JStr ''CONFIRMED'')))"

definition all_confirmed :: "json \<Rightarrow> string list \<Rightarrow> py_exc + bool" where
  "all_confirmed status keys = foldE (\<lambda>ok k. if ok then license_confirmed status k else Inr False) True keys"

definition evaluate_capability :: "target \<Rightarrow> collector \<Rightarrow> adapter_status \<Rightarrow> py_exc + capability" where
  "evaluate_capability t c status =
     (if \<not> t_enabled t \<or> status \<notin> {VERIFIED_FIXTURE, VERIFIED_LAB, LAB_ENABLED} then Inr CAP_DISABLED
      else if JStr (c_id c) \<notin> set (t_allowed t) then Inr UNSUPPORTED
      else (case t_version t of
         None \<Rightarrow> Inr ENVIRONMENT_UNKNOWN
       | Some v \<Rightarrow>
          if v \<notin> set (c_versions c) then Inr UNSUPPORTED
          else if c_container_scope c = FStr ''CDB_ROOT_ONLY'' \<and> t_container t = JStr ''UNKNOWN'' then Inr ENVIRONMENT_UNKNOWN
          else if c_container_scope c = FStr ''CDB_ROOT_ONLY'' \<and> t_container t \<noteq> JStr ''CDB_ROOT'' then Inr NOT_APPLICABLE
          else if c_role_scope c \<noteq> FStr ''ANY'' \<and> t_role t = JStr ''UNKNOWN'' then Inr ENVIRONMENT_UNKNOWN
          else if c_role_scope c \<noteq> FStr ''ANY'' \<and> t_role t \<noteq> fm_json (c_role_scope c) then Inr NOT_APPLICABLE
          else if JStr (c_id c) \<in> set (t_missing t) then Inr INSUFFICIENT_PRIVILEGES
          else if license_text (c_license c) \<in> {''none'', ''n/a'', []} then Inr SUPPORTED
          else bindE (all_confirmed (t_license_status t) (license_keys (license_text (c_license c))))
            (\<lambda>ok. Inr (if ok then SUPPORTED else LICENSE_RESTRICTED))))"

subsection \<open>The SQL guard\<close>

lemma mt_word: "mt p w q (seqs [Bnd, alts (map ilit ws), Bnd]) \<longleftrightarrow>
   word_at p \<noteq> word_at (firstc w q) \<and> word_at (lastc p w) \<noteq> word_at q \<and> (\<exists>t \<in> set ws. lower w = lower t)"
  by (auto simp: mt_Bnd_Seq mt_Seq_Bnd mt_alts mt_ilit)

text \<open>A whole word of the guard's list: no word character beside it.\<close>

definition forbidden_at :: "string \<Rightarrow> string \<Rightarrow> string \<Rightarrow> bool" where
  "forbidden_at u w v \<longleftrightarrow> lower w \<in> set FORBIDDEN_WORDS \<and> (u = [] \<or> \<not> is_word (last u)) \<and> (v = [] \<or> \<not> is_word (hd v))"

lemma forbidden_words_lower: "list_all (\<lambda>w. w \<noteq> [] \<and> list_all is_lower w \<and> lower w = w) FORBIDDEN_WORDS"
  by code_simp

lemma forbidden_found:
  assumes "forbidden_at u w v" shows "search FORBIDDEN_SQL (u @ w @ v)"
proof -
  from assms have w: "lower w \<in> set FORBIDDEN_WORDS" by (simp add: forbidden_at_def)
  with forbidden_words_lower have n: "lower w \<noteq> []" "\<forall>c \<in> set (lower w). is_lower c" "lower (lower w) = lower w"
    by (auto simp: list_all_iff)
  then have "\<forall>c \<in> set w. is_word c" "w \<noteq> []"
    by (auto simp: lower_def dest: lower_char_upper)
  then have "is_word (hd w)" "is_word (last w)" by auto
  moreover have "lower w = lower (lower w)" using n(3) by simp
  ultimately have "mt (lastc None u) w (firstc v None) (seqs [Bnd, alts (map ilit FORBIDDEN_WORDS), Bnd])"
    using assms w \<open>w \<noteq> []\<close> unfolding mt_word forbidden_at_def lastc_def firstc_hd
    by (auto simp: word_at_def)
  then have "mt (lastc None u) w (firstc v None) FORBIDDEN_SQL"
    unfolding FORBIDDEN_SQL_def mt_alts by simp
  then show ?thesis unfolding search_iff by blast
qed

lemma rstrip_semicolons_prefix: "\<exists>t. s = rstrip_semicolons (rstrip s) @ t"
proof -
  have p: "\<exists>t. x = rev (dropWhile f (rev x)) @ t" for f and x :: string
    by (metis rev_append rev_rev_ident takeWhile_dropWhile_id)
  show ?thesis
    unfolding rstrip_semicolons_def rstrip_def using p [of s is_space] p [of "rev (dropWhile is_space (rev s))"]
    by (metis append_assoc)
qed

text \<open>
  C35: a certified SQL block that passes the guard starts (after comments are removed) with the word
  SELECT or WITH, and what remains of it after trailing white space and semicolons contains none of
  the forbidden words as a whole word, in any case, none of the package prefixes, and no second
  statement after a semicolon.
\<close>

theorem read_only_sql:
  assumes "assert_read_only_sql block = Inr ()"
    and "rstrip_semicolons (rstrip (bare_sql block)) = u @ w @ v"
  shows "\<not> forbidden_at u w v \<and> lower w \<notin> {''dbms_'', ''utl_'', ''sys.''} \<and>
    \<not> (\<exists>sp c. w = '';'' @ sp @ [c] \<and> list_all is_space sp \<and> \<not> is_space c) \<and>
    (\<exists>k r. bare_sql block = k @ r \<and> lower k \<in> {''select'', ''with''} \<and> (r = [] \<or> \<not> is_word (hd r)))"
proof (intro conjI)
  have s: "\<not> search FORBIDDEN_SQL (u @ w @ v)"
    and m: "match_prefix (seqs [alts [ilit ''select'', ilit ''with''], Bnd]) (bare_sql block)"
    using assms by (auto simp: assert_read_only_sql_def Let_def split: if_splits)
  have no: "\<not> mt (lastc None u) w (firstc v None) FORBIDDEN_SQL"
    using s unfolding search_iff by blast
  show "\<not> forbidden_at u w v" using s forbidden_found by blast
  have l: "lower ''dbms_'' = ''dbms_'' \<and> lower ''utl_'' = ''utl_'' \<and> lower ''sys.'' = ''sys.''" by code_simp
  show "lower w \<notin> {''dbms_'', ''utl_'', ''sys.''}"
  proof -
    have "\<not> mt (lastc None u) w (firstc v None) (ilit t)" if "t \<in> {''dbms_'', ''utl_'', ''sys.''}" for t
      using no that unfolding FORBIDDEN_SQL_def mt_alts by auto
    then have "lower w \<noteq> lower t" if "t \<in> {''dbms_'', ''utl_'', ''sys.''}" for t
      using that unfolding mt_ilit by blast
    then show ?thesis using l by (metis empty_iff insert_iff)
  qed
  show "\<not> (\<exists>sp c. w = '';'' @ sp @ [c] \<and> list_all is_space sp \<and> \<not> is_space c)"
  proof
    assume "\<exists>sp c. w = '';'' @ sp @ [c] \<and> list_all is_space sp \<and> \<not> is_space c"
    then obtain sp c where w: "w = '';'' @ sp @ [c]" "list_all is_space sp" "\<not> is_space c" by blast
    have "mt (lastc None u) ('';'' @ (sp @ [c])) (firstc v None)
        (Seq (lit '';'') (Seq (Star (Cls is_space)) (Cls (\<lambda>c. \<not> is_space c))))"
      using w by (intro mt_Seq mt_Star_Cls) (simp_all only: mt_lit mt_Cls_iff, blast)
    then have "mt (lastc None u) w (firstc v None) (seqs [lit '';'', Star (Cls is_space), Cls (\<lambda>c. \<not> is_space c)])"
      by (simp only: w(1) seqs.simps)
    then show False using no by (simp add: FORBIDDEN_SQL_def mt_alts)
  qed
  have l2: "lower ''select'' = ''select'' \<and> lower ''with'' = ''with''" by code_simp
  from m obtain k r where kr: "bare_sql block = k @ r"
    and mk: "mt None k (firstc r None) (Seq (alts [ilit ''select'', ilit ''with'']) Bnd)"
    by (auto simp only: match_prefix_iff seqs.simps)
  from mk have "lower k \<in> {''select'', ''with''}" "word_at (lastc None k) \<noteq> word_at (firstc r None)"
    unfolding mt_Seq_Bnd mt_alts by (auto simp: mt_ilit l2)
  note k = kr this
  have "k \<noteq> []" using k(2) by (auto simp: lower_def)
  moreover have "is_word (last k)"
  proof -
    have "\<forall>c \<in> set (lower k). is_lower c" using k(2) by (auto simp: char_defs)
    then show ?thesis using \<open>k \<noteq> []\<close> by (auto simp: lower_def dest: lower_char_upper)
  qed
  ultimately have "r = [] \<or> \<not> is_word (hd r)" using k(3) by (auto simp: lastc_def firstc_hd word_at_def)
  with k show "\<exists>k r. bare_sql block = k @ r \<and> lower k \<in> {''select'', ''with''} \<and> (r = [] \<or> \<not> is_word (hd r))" by blast
qed

theorem read_only_sql_witness:
  "assert_read_only_sql ''select 1'' = Inr () \<and>
   \<not> forbidden_at [] ''select'' '' 1''"
proof -
  have a: "assert_read_only_sql ''select 1'' = Inr ()" by code_simp
  have r: "rstrip_semicolons (rstrip (bare_sql ''select 1''))
    = [] @ ''select'' @ '' 1''" by code_simp
  from a read_only_sql [OF a r] show ?thesis by blast
qed

subsection \<open>What a loaded catalog guarantees\<close>

lemma families_of_sound:
  assumes "families_of vs = Inr fs"
  shows "set fs \<subseteq> set ORACLE_VERSIONS \<and> distinct fs"
  using assms unfolding families_of_def
  by (rule_tac foldE_invariant [where P = "\<lambda>fs. set fs \<subseteq> set ORACLE_VERSIONS \<and> distinct fs"])
     (auto simp: subset_iff split: if_splits option.splits)

lemma families_sound: "families v = Inr fs \<Longrightarrow> set fs \<subseteq> set ORACLE_VERSIONS"
  by (auto simp: families_def dest: families_of_sound split: json.splits)

lemma base_versions_sound:
  assumes "base_versions spec q = Inr base"
  shows "set base \<subseteq> set ORACLE_VERSIONS"
  using assms families_of_sound unfolding base_versions_def
  by (fastforce split: option.splits fm_val.splits if_splits)

lemma effective_versions_sub:
  "effective_versions spec meta = Inr vs \<Longrightarrow> \<exists>base. base_versions spec meta = Inr base \<and> set vs \<subseteq> set base"
  unfolding effective_versions_def by (auto simp: bindE_Inr Let_def split: if_splits)

lemma effective_versions_sound: "effective_versions spec meta = Inr vs \<Longrightarrow> set vs \<subseteq> set ORACLE_VERSIONS"
  using effective_versions_sub base_versions_sound by blast

text \<open>
  Version support fails closed and only narrows. The versions of a collector are supported
  families; they are among those of its certified query, or, without a query, empty unless the
  collector declares the scope ANY; and they are among the ones the collector itself declares.
\<close>

theorem effective_versions_narrow:
  assumes "effective_versions spec meta = Inr vs"
  shows "set vs \<subseteq> set ORACLE_VERSIONS \<and>
    (\<exists>base. base_versions spec meta = Inr base \<and> set vs \<subseteq> set base) \<and>
    (\<forall>q. meta = Some q \<longrightarrow> vs \<noteq> [] \<longrightarrow>
       (\<exists>raw fs. dget q ''supported_oracle_versions'' = Some (FList raw) \<and> families_of (map JStr raw) = Inr fs \<and> set vs \<subseteq> set fs)) \<and>
    (meta = None \<longrightarrow> vs \<noteq> [] \<longrightarrow> jget spec ''oracle_version_scope'' = Some (JStr ''ANY'')) \<and>
    (\<forall>d. jget spec ''supported_oracle_versions'' = Some d \<longrightarrow> d \<noteq> JNull \<longrightarrow> vs \<noteq> [] \<longrightarrow>
       (\<exists>fs. families d = Inr fs \<and> set vs \<subseteq> set fs))"
proof -
  from assms obtain base where b: "base_versions spec meta = Inr base" and sub: "set vs \<subseteq> set base"
    using effective_versions_sub by blast
  have "\<exists>raw fs. dget q ''supported_oracle_versions'' = Some (FList raw) \<and> families_of (map JStr raw) = Inr fs \<and> set vs \<subseteq> set fs"
    if "meta = Some q" "vs \<noteq> []" for q
    using b sub that unfolding base_versions_def by (auto split: option.splits fm_val.splits if_splits)
  moreover have "jget spec ''oracle_version_scope'' = Some (JStr ''ANY'')" if "meta = None" "vs \<noteq> []"
    using b sub that unfolding base_versions_def jget_or_def or_else_def by (auto split: if_splits option.splits)
  moreover have "\<exists>fs. families d = Inr fs \<and> set vs \<subseteq> set fs"
    if "jget spec ''supported_oracle_versions'' = Some d" "d \<noteq> JNull" "vs \<noteq> []" for d
    using assms that unfolding effective_versions_def jget_or_def or_else_def
    by (auto simp: bindE_Inr Let_def split: if_splits)
  ultimately show ?thesis
    using b sub by (intro conjI allI impI effective_versions_sound [OF assms]) simp_all
qed

theorem effective_versions_narrow_witness:
  "effective_versions (JObj [(''supported_oracle_versions'', JArr [JStr ''19.3'', JStr ''23ai''])])
     (Some [(''supported_oracle_versions'', FList [''12c'', ''19c''])]) = Inr [''19c''] \<and> ''19c'' \<in> set ORACLE_VERSIONS"
proof -
  have e: "effective_versions (JObj [(''supported_oracle_versions'', JArr [JStr ''19.3'', JStr ''23ai''])])
     (Some [(''supported_oracle_versions'', FList [''12c'', ''19c''])]) = Inr [''19c'']" by code_simp
  from effective_versions_narrow [OF e] e show ?thesis by simp
qed

text \<open>The invariant of the catalog under construction.\<close>

definition field_ok :: "string \<Rightarrow> json \<Rightarrow> bool" where
  "field_ok fname f \<longleftrightarrow> fullmatch FIELD_NAME_RE fname \<and> (\<exists>ty \<in> set FIELD_TYPES. \<exists>pol \<in> set POLICIES.
     jget f ''type'' = Some (JStr ty) \<and> jget f ''policy'' = Some (JStr pol) \<and> \<not> field_violates fname ty pol)"

definition query_certified :: "(string \<Rightarrow> string option) \<Rightarrow> collector \<Rightarrow> bool" where
  "query_certified query_text c \<longleftrightarrow> (\<exists>text. find_query_file query_text (c_id c) = Some text \<and>
     (let fm = parse_front_matter text in
        dget fm ''status'' = Some (FStr ''active'') \<and> dget fm ''risk_class'' = Some (FStr ''R0'') \<and>
        dget fm ''execution_mode'' = Some (FStr ''READ_ONLY'')) \<and>
     (\<forall>b \<in> set (sql_blocks text). assert_read_only_sql b = Inr ()) \<and>
     (c_kind c = ''sql_query'' \<longrightarrow> (\<exists>m. fm_max_rows (parse_front_matter text) = Inr m \<and> c_row_limit c \<le> m)))"

definition collector_ok :: "(string \<Rightarrow> string option) \<Rightarrow> string \<Rightarrow> collector \<Rightarrow> bool" where
  "collector_ok query_text cid c \<longleftrightarrow> c_id c = cid \<and> match_dollar COLLECTOR_ID_RE cid \<and> c_kind c \<in> set KINDS \<and>
     (\<forall>(k, f) \<in> set (c_output_fields c). field_ok k f) \<and> set (c_versions c) \<subseteq> set ORACLE_VERSIONS \<and>
     (c_kind c \<noteq> ''semantic_os'' \<longrightarrow> query_certified query_text c)"

lemma check_field_ok: "check_field k f = Inr () \<Longrightarrow> field_ok k f"
  unfolding check_field_def field_ok_def
  by (auto simp: bindE_Inr split: if_splits)

lemma Collector_fields:
  assumes "Collector spec meta = Inr c"
  shows "jreq spec ''collector_id'' = Inr (JStr (c_id c))" "jreq spec ''kind'' = Inr (JStr (c_kind c))"
    "bindE (jreq spec ''output_fields'') jitems = Inr (c_output_fields c)"
    "bindE (jreq spec ''row_limit'') py_int = Inr (c_row_limit c)"
    "effective_versions spec (map_option fst meta) = Inr (c_versions c)"
  using assms unfolding Collector_def Let_def by (auto simp: bindE_Inr)

lemma certify_ok:
  assumes "certify query_text sha spec cid kd = Inr meta"
    and "bindE (jreq spec ''row_limit'') py_int = Inr (c_row_limit c)" "c_id c = cid" "c_kind c = kd"
  shows "query_certified query_text c"
proof -
  from assms(1) obtain body mr limit us where t: "find_query_file query_text cid = Some body"
    and fm: "dget (parse_front_matter body) ''status'' = Some (FStr ''active'')"
      "dget (parse_front_matter body) ''risk_class'' = Some (FStr ''R0'')"
      "dget (parse_front_matter body) ''execution_mode'' = Some (FStr ''READ_ONLY'')"
    and mr: "fm_max_rows (parse_front_matter body) = Inr mr"
    and lim: "bindE (jreq spec ''row_limit'') py_int = Inr limit" "\<not> (mr < limit \<and> kd = ''sql_query'')"
    and bl: "mapE assert_read_only_sql (sql_blocks body) = Inr us"
    unfolding certify_def Let_def
    by (auto simp: bindE_Inr split: option.splits if_splits)
  have "\<forall>b \<in> set (sql_blocks body). assert_read_only_sql b = Inr ()"
    using mapE_in [OF bl] by fastforce
  moreover have "kd = ''sql_query'' \<longrightarrow> (\<exists>m. fm_max_rows (parse_front_matter body) = Inr m \<and> c_row_limit c \<le> m)"
    using mr lim assms(2) by (auto split: option.splits)
  ultimately show ?thesis
    unfolding query_certified_def Let_def using t fm assms(3,4) by blast
qed

lemma load_one_ok:
  assumes "load_one query_text sha out spec = Inr out'" "\<forall>(k, c) \<in> set out. collector_ok query_text k c"
  shows "\<forall>(k, c) \<in> set out'. collector_ok query_text k c"
proof -
  from assms(1) obtain cid kd fields us meta c where
    cid: "jreq spec ''collector_id'' = Inr (JStr cid)" "match_dollar COLLECTOR_ID_RE cid"
    and kd: "jreq spec ''kind'' = Inr (JStr kd)" "kd \<in> set KINDS"
    and f: "bindE (jreq spec ''output_fields'') jitems = Inr fields" "mapE (\<lambda>(k, f). check_field k f) fields = Inr us"
    and m: "query_meta_of query_text sha spec cid kd = Inr meta"
    and c: "Collector spec meta = Inr c" and out': "out' = dset cid c out"
    unfolding load_one_def
    by (auto simp: bindE_Inr split: if_splits)
  note cf = Collector_fields [OF c]
  have ids: "c_id c = cid" "c_kind c = kd" "c_output_fields c = fields"
    using cid(1) kd(1) f(1) cf(1,2,3) by simp_all
  have "\<forall>(k, g) \<in> set fields. field_ok k g"
    using mapE_in [OF f(2)] check_field_ok by fastforce
  moreover have "set (c_versions c) \<subseteq> set ORACLE_VERSIONS"
    by (rule effective_versions_sound [OF cf(5)])
  moreover have "query_certified query_text c" if "kd \<noteq> ''semantic_os''"
  proof -
    from that kd(2) have "kd \<in> {''sql_query'', ''alert_log_excerpt''}" by (auto simp: KINDS_def)
    with m obtain q where "certify query_text sha spec cid kd = Inr q"
      by (auto simp: bindE_Inr query_meta_of_def)
    from certify_ok [OF this cf(4) ids(1,2)] show ?thesis .
  qed
  ultimately have "collector_ok query_text cid c"
    unfolding collector_ok_def using ids cid(2) kd(2) by simp
  with assms(2) out' show ?thesis by (auto dest!: in_dset)
qed

lemma load_collectors_ok:
  assumes "load_collectors query_text sha data factory = Inr out"
  shows "\<forall>(k, c) \<in> set out. collector_ok query_text k c"
proof -
  from assms obtain specs where "foldE (load_one query_text sha) [] specs = Inr out"
    unfolding load_collectors_def by (auto simp: bindE_Inr)
  from foldE_invariant [OF this, where P = "\<lambda>out. \<forall>(k, c) \<in> set out. collector_ok query_text k c"]
  show ?thesis using load_one_ok by simp
qed

lemma field_allowed:
  assumes "\<not> field_violates k ty pol"
  shows "(ty = ''identifier'' \<longrightarrow> pol \<in> {''MASK'', ''HASH'', ''TOKENIZE'', ''DROP''}) \<and>
     (ty = ''text'' \<longrightarrow> pol = ''DROP'') \<and> (pol = ''SIGNATURE'' \<longrightarrow> ty = ''signature'')"
proof (intro conjI impI)
  show "pol \<in> {''MASK'', ''HASH'', ''TOKENIZE'', ''DROP''}" if "ty = ''identifier''"
    by (rule ccontr) (use assms that in \<open>simp add: field_violates_def\<close>)
  show "pol = ''DROP''" if "ty = ''text''"
    by (rule ccontr) (use assms that in \<open>simp add: field_violates_def\<close>)
  show "ty = ''signature''" if "pol = ''SIGNATURE''"
    by (rule ccontr) (use assms that in \<open>simp add: field_violates_def\<close>)
qed

text \<open>
  Every collector of a loaded catalog obeys the default-deny rules on each of its output fields
  (identifiers are never kept, free text is dropped, signatures are only ever signatures), supports
  known families only, and, when it runs a query, that query is a certified active read-only R0
  file all of whose SQL blocks pass the guard and whose row limit is not exceeded.
\<close>

theorem load_collectors_certified:
  assumes "load_collectors query_text sha data factory = Inr out" and "dget out cid = Some c"
  shows "c_id c = cid \<and> c_kind c \<in> set KINDS \<and> set (c_versions c) \<subseteq> set ORACLE_VERSIONS \<and>
    (c_kind c \<noteq> ''semantic_os'' \<longrightarrow> query_certified query_text c) \<and>
    (\<forall>k f. (k, f) \<in> set (c_output_fields c) \<longrightarrow> (\<exists>ty pol. jget f ''type'' = Some (JStr ty) \<and> jget f ''policy'' = Some (JStr pol) \<and>
       (ty = ''identifier'' \<longrightarrow> pol \<in> {''MASK'', ''HASH'', ''TOKENIZE'', ''DROP''}) \<and>
       (ty = ''text'' \<longrightarrow> pol = ''DROP'') \<and> (pol = ''SIGNATURE'' \<longrightarrow> ty = ''signature'')))"
proof -
  have "collector_ok query_text cid c"
    using load_collectors_ok [OF assms(1)] assms(2) by (auto dest: map_of_SomeD)
  moreover have "\<exists>ty pol. jget f ''type'' = Some (JStr ty) \<and> jget f ''policy'' = Some (JStr pol) \<and>
       (ty = ''identifier'' \<longrightarrow> pol \<in> {''MASK'', ''HASH'', ''TOKENIZE'', ''DROP''}) \<and>
       (ty = ''text'' \<longrightarrow> pol = ''DROP'') \<and> (pol = ''SIGNATURE'' \<longrightarrow> ty = ''signature'')"
    if "field_ok k f" for k f
  proof -
    from that obtain ty pol where t: "jget f ''type'' = Some (JStr ty)" "jget f ''policy'' = Some (JStr pol)"
      and v: "\<not> field_violates k ty pol" unfolding field_ok_def by blast
    show ?thesis
      by (intro exI, rule conjI, rule t(1), rule conjI, rule t(2), rule field_allowed [OF v])
  qed
  ultimately show ?thesis unfolding collector_ok_def by (intro conjI allI impI) auto
qed

definition example_collector_spec :: json where
  "example_collector_spec = JObj [(''collector_id'', JStr ''os.uptime''), (''kind'', JStr ''semantic_os''),
     (''domain'', JStr ''os''), (''title'', JStr ''uptime''), (''row_limit'', JInt 5),
     (''oracle_version_scope'', JStr ''ANY''),
     (''output_fields'', JObj [(''host'', JObj [(''type'', JStr ''identifier''), (''policy'', JStr ''MASK'')])])]"

lemma example_collector_id: "match_dollar COLLECTOR_ID_RE ''os.uptime''"
  by code_simp

lemma example_field: "fullmatch FIELD_NAME_RE ''host''"
  by code_simp

lemma example_collector_loads:
  "\<exists>c. load_collectors query_text sha (JObj [(''collectors'', JArr [example_collector_spec])]) None = Inr [(''os.uptime'', c)]
     \<and> c_output_fields c = [(''host'', JObj [(''type'', JStr ''identifier''), (''policy'', JStr ''MASK'')])]"
  by (simp add: load_collectors_def load_one_def example_collector_spec_def jreq_def jget_def py_iter_def
      example_collector_id example_field str_in_set_def KINDS_def jitems_def check_field_def FIELD_TYPES_def POLICIES_def
      field_violates_def PARAMETER_NAME_FIELDS_def ORACLE_TERM_FIELDS_def SQL_ID_FIELDS_def query_meta_of_def as_str_def
      Collector_def Let_def py_int_def effective_versions_def base_versions_def jget_or_def or_else_def)

theorem load_collectors_certified_witness:
  "\<exists>c. load_collectors (\<lambda>_. None) id (JObj [(''collectors'', JArr [example_collector_spec])]) None = Inr [(''os.uptime'', c)]
     \<and> c_id c = ''os.uptime'' \<and> c_kind c \<in> set KINDS"
proof -
  obtain c where c: "load_collectors (\<lambda>_. None) id (JObj [(''collectors'', JArr [example_collector_spec])]) None
      = Inr [(''os.uptime'', c)]"
    using example_collector_loads by blast
  from load_collectors_certified [OF c, of "''os.uptime''" c] c show ?thesis by simp
qed

text \<open>The invariant of the target catalog.\<close>

definition target_ok :: "string list option \<Rightarrow> string \<Rightarrow> target \<Rightarrow> bool" where
  "target_ok ids a t \<longleftrightarrow> t_alias t = a \<and> match_dollar ALIAS_RE a \<and>
     (case t_version t of None \<Rightarrow> True | Some v \<Rightarrow> v \<in> set ORACLE_VERSIONS) \<and>
     str_in (t_role t) [''PRIMARY'', ''STANDBY'', ''UNKNOWN''] \<and>
     (case ids of None \<Rightarrow> True | Some S \<Rightarrow> ids_subset (t_allowed t) S \<and> ids_subset (t_missing t) S)"

lemma ids_subset_remdups: "ids_subset (remdups vs) S = ids_subset vs S"
  by (auto simp: ids_subset_def list_all_iff)

lemma Target_fields:
  assumes "Target spec = Inr t"
  shows "jget spec ''alias'' = Some (JStr (t_alias t))"
    "t_version t = family_of (jget_or spec ''oracle_version'' JNull)"
    "t_role t = jget_or spec ''role'' (JStr ''UNKNOWN'')"
    "\<exists>vs. py_set_of (jget_or spec ''allowed_collectors'' (JArr [])) = Inr vs \<and> t_allowed t = remdups vs"
    "\<exists>vs. py_set_of (jget_or spec ''missing_privileges'' (JArr [])) = Inr vs \<and> t_missing t = remdups vs"
  using assms unfolding Target_def by (auto simp: bindE_Inr)

lemma load_target_ok:
  assumes "load_target ids out spec = Inr out'"
  shows "\<exists>a t. out' = dset a t out \<and> a \<notin> set (dkeys out) \<and> target_ok ids a t \<and>
    (\<exists>kvs. spec = JObj kvs \<and> set (dkeys kvs) \<inter> set CONNECTION_KEYS = {})"
proof -
  from assms obtain a t kvs where a: "jget spec ''alias'' = Some (JStr a)" "match_dollar ALIAS_RE a" "a \<notin> set (dkeys out)"
    and v: "jget_or spec ''oracle_version'' JNull \<noteq> JNull \<longrightarrow>
      (\<exists>f \<in> set ORACLE_VERSIONS. family_of (jget_or spec ''oracle_version'' JNull) = Some f)"
    and r: "str_in (jget_or spec ''role'' (JStr ''UNKNOWN'')) (ROLES @ [''UNKNOWN''])"
    and k: "spec = JObj kvs" "\<not> list_ex (\<lambda>k. k \<in> set CONNECTION_KEYS) (dkeys kvs)"
    and c: "ids_known ids spec ''allowed_collectors'' = Inr True" "ids_known ids spec ''missing_privileges'' = Inr True"
    and t: "Target spec = Inr t" and o: "out' = dset a t out"
    unfolding load_target_def by (auto simp: bindE_Inr split: if_splits option.splits)
  note tf = Target_fields [OF t]
  have "case t_version t of None \<Rightarrow> True | Some v \<Rightarrow> v \<in> set ORACLE_VERSIONS"
    using v tf(2) by (auto split: option.splits simp: family_of_def split: json.splits)
  moreover have "case ids of None \<Rightarrow> True | Some S \<Rightarrow> ids_subset (t_allowed t) S \<and> ids_subset (t_missing t) S"
    using c tf(4,5) by (auto simp: ids_known_def bindE_Inr ids_subset_remdups split: option.splits)
  moreover have "set (dkeys kvs) \<inter> set CONNECTION_KEYS = {}"
    using k(2) by (auto simp: list_ex_iff)
  ultimately have "target_ok ids a t"
    unfolding target_ok_def using a tf(1,3) r by (simp add: ROLES_def)
  then show ?thesis using o a k(1) \<open>set (dkeys kvs) \<inter> set CONNECTION_KEYS = {}\<close> by blast
qed

text \<open>
  Every target of a loaded target catalog has a well-formed alias, a supported or undeclared
  version, a known role, allows and declares only certified collectors, and aliases are unique; and
  no entry of the file carries connection material.
\<close>

theorem load_targets_safe:
  assumes "load_targets (JObj [(''targets'', JArr specs)]) (Some ids) = Inr out"
  shows "dwf out \<and> (\<forall>(a, t) \<in> set out. target_ok (Some ids) a t) \<and>
    (\<forall>spec \<in> set specs. \<exists>kvs. spec = JObj kvs \<and> set (dkeys kvs) \<inter> set CONNECTION_KEYS = {})"
proof -
  have f: "foldE (load_target (Some ids)) [] specs = Inr out"
    using assms by (simp add: load_targets_def jreq_def py_iter_def)
  have "dwf out \<and> (\<forall>(a, t) \<in> set out. target_ok (Some ids) a t)"
    using foldE_invariant [OF f, where P = "\<lambda>out. dwf out \<and> (\<forall>(a, t) \<in> set out. target_ok (Some ids) a t)"]
    by (force dest!: load_target_ok in_dset intro: dwf_dset)
  moreover have "foldE (load_target (Some ids)) s xs = Inr s' \<Longrightarrow>
     \<forall>spec \<in> set xs. \<exists>kvs. spec = JObj kvs \<and> set (dkeys kvs) \<inter> set CONNECTION_KEYS = {}" for s s' xs
    by (induction xs arbitrary: s) (auto simp: bindE_Inr dest!: load_target_ok)
  ultimately show ?thesis using f by blast
qed

definition example_target_spec :: json where
  "example_target_spec = JObj [(''alias'', JStr ''fixture-db''), (''adapter'', JStr ''fixture''), (''enabled'', JBool True),
     (''oracle_version'', JStr ''19c''), (''role'', JStr ''PRIMARY''), (''allowed_collectors'', JArr [JStr ''os.uptime''])]"

definition example_target :: target where
  "example_target = \<lparr> t_alias = ''fixture-db'', t_adapter = JStr ''fixture'', t_enabled = True, t_version = Some ''19c'',
     t_role = JStr ''PRIMARY'', t_container = JStr ''UNKNOWN'', t_architecture = JObj [], t_os = JObj [],
     t_release_update = None, t_license_status = JObj [], t_allowed = [JStr ''os.uptime''], t_missing = [],
     t_max_calls = 50, t_max_rows = 1000 \<rparr>"

lemma example_alias: "match_dollar ALIAS_RE ''fixture-db''"
  by code_simp

lemma example_family: "family_of (JStr ''19c'') = Some ''19c''"
  by code_simp

lemma example_target_loads:
  "load_targets (JObj [(''targets'', JArr [example_target_spec])]) (Some [''os.uptime'']) = Inr [(''fixture-db'', example_target)]"
proof -
  have "Target example_target_spec = Inr example_target"
    by (simp add: Target_def example_target_spec_def example_target_def jreq_def jget_def jget_or_def or_else_def as_str_def
        py_set_of_def py_iter_def unhashable_def json_tests budget_of_def jget_attr_def truthy_def example_family)
  then show ?thesis
    by (simp add: load_targets_def load_target_def example_target_spec_def jreq_def jget_def jget_or_def or_else_def as_str_def
        py_set_of_def py_iter_def unhashable_def json_tests jitems_def ids_known_def ids_subset_def str_in_def ROLES_def
        example_alias example_family ORACLE_VERSIONS_def CONNECTION_KEYS_def)
qed

theorem load_targets_safe_witness: "target_ok (Some [''os.uptime'']) ''fixture-db'' example_target"
  using load_targets_safe [of "[example_target_spec]" "[''os.uptime'']" "[(''fixture-db'', example_target)]"]
    example_target_loads by simp

subsection \<open>Capabilities\<close>

lemma all_confirmed_False: "foldE (\<lambda>ok k. if ok then license_confirmed status k else Inr False) False keys = Inr False"
  by (induction keys) auto

lemma all_confirmed_True:
  "all_confirmed status keys = Inr True \<longleftrightarrow> (\<forall>k \<in> set keys. \<exists>kvs. status = JObj kvs \<and> dget kvs k = Some (JStr ''CONFIRMED''))"
  unfolding all_confirmed_def
proof (induction keys)
  case (Cons k ks)
  have l: "license_confirmed status k = Inr b \<longleftrightarrow> (\<exists>kvs. status = JObj kvs \<and> b = (dget kvs k = Some (JStr ''CONFIRMED'')))" for b
    by (cases status) (auto simp: license_confirmed_def jget_attr_def)
  show ?case
  proof (cases "license_confirmed status k")
    case (Inl e)
    then show ?thesis using l by auto
  next
    case (Inr b)
    then show ?thesis using l [of b] Cons.IH by (cases b) (auto simp: all_confirmed_False)
  qed
qed simp

lemma license_keys_not_Nil: "license_keys lic \<noteq> []"
  by (simp add: license_keys_def Let_def)

text \<open>The conditions under which a collector may run.\<close>

definition capability_ok :: "target \<Rightarrow> collector \<Rightarrow> adapter_status \<Rightarrow> bool" where
  "capability_ok t c status \<longleftrightarrow>
     t_enabled t \<and> status \<in> {VERIFIED_FIXTURE, VERIFIED_LAB, LAB_ENABLED} \<and> JStr (c_id c) \<in> set (t_allowed t) \<and>
     (\<exists>v \<in> set (c_versions c). t_version t = Some v) \<and>
     (c_container_scope c \<noteq> FStr ''CDB_ROOT_ONLY'' \<or> t_container t = JStr ''CDB_ROOT'') \<and>
     (c_role_scope c = FStr ''ANY'' \<or> (t_role t \<noteq> JStr ''UNKNOWN'' \<and> t_role t = fm_json (c_role_scope c))) \<and>
     JStr (c_id c) \<notin> set (t_missing t) \<and>
     (license_text (c_license c) \<in> {''none'', ''n/a'', []} \<or>
      (\<exists>kvs. t_license_status t = JObj kvs \<and>
         (\<forall>k \<in> set (license_keys (license_text (c_license c))). dget kvs k = Some (JStr ''CONFIRMED''))))"

lemma license_ok_iff:
  "(if lt \<in> {''none'', ''n/a'', []} then Inr SUPPORTED
    else bindE (all_confirmed status (license_keys lt)) (\<lambda>ok. Inr (if ok then SUPPORTED else LICENSE_RESTRICTED))) = Inr SUPPORTED
   \<longleftrightarrow> lt \<in> {''none'', ''n/a'', []} \<or> (\<exists>kvs. status = JObj kvs \<and> (\<forall>k \<in> set (license_keys lt). dget kvs k = Some (JStr ''CONFIRMED'')))"
proof (cases "lt \<in> {''none'', ''n/a'', []}")
  case False
  obtain k ks where "license_keys lt = k # ks" using license_keys_not_Nil by (cases "license_keys lt") auto
  then have "all_confirmed status (license_keys lt) = Inr True \<longleftrightarrow>
      (\<exists>kvs. status = JObj kvs \<and> (\<forall>k \<in> set (license_keys lt). dget kvs k = Some (JStr ''CONFIRMED'')))"
    unfolding all_confirmed_True by auto
  moreover have "bindE m (\<lambda>ok. Inr (if ok then SUPPORTED else LICENSE_RESTRICTED)) = Inr SUPPORTED \<longleftrightarrow> m = Inr True"
    for m :: "py_exc + bool"
    by (auto simp: bindE_Inr)
  ultimately show ?thesis using False by simp
qed simp

text \<open>
  C34: a collector is SUPPORTED on a target exactly when every condition holds: the target is enabled
  and its adapter executes, the collector is allowed there, the version is known and supported, the
  container and the role fit their scope and are known, no privilege is missing, and each license
  the query needs is CONFIRMED. Everything else, unknowns included, is some other status.
\<close>

theorem capability_supported_iff:
  "evaluate_capability t c status = Inr SUPPORTED \<longleftrightarrow> capability_ok t c status"
proof (cases "t_version t")
  case None
  then show ?thesis by (simp add: evaluate_capability_def capability_ok_def)
next
  case (Some v)
  show ?thesis
    unfolding evaluate_capability_def capability_ok_def Some option.case
      license_ok_iff [of "license_text (c_license c)" "t_license_status t", symmetric]
    by (simp split del: if_split) (auto split: if_split)
qed

end
