(* ===== verification/Architecture.thy ===== *)
theory Architecture
  imports Catalog
begin

section \<open>Observed architecture (mcp\_gateway/architecture.py)\<close>

text \<open>
  One collector returns a row of facts about the database; \<open>derive\<close> turns it into dimensions (a
  missing or invalid fact is unknown), \<open>compare\<close> lists where they disagree with the target's
  declaration, and the observed target is the target with the observed dimensions put over the
  declared ones, for field validation only.
\<close>

definition ARCH_COLLECTOR_ID :: string where "ARCH_COLLECTOR_ID = ''Q-DISC-ARCHITECTURE-001''"
definition IDENTITY_COLLECTOR_ID :: string where "IDENTITY_COLLECTOR_ID = ''Q-DISC-IDENTITY-001''"
definition OS_FAMILIES :: "string list" where
  "OS_FAMILIES = [''AIX'', ''HPUX'', ''LINUX'', ''MACOS'', ''SOLARIS'', ''WINDOWS'']"

record observed =
  o_rac :: "bool option"
  o_asm :: "bool option"
  o_dataguard :: "bool option"
  o_role :: "string option"
  o_os :: "string option"
  o_facts :: json
  o_ru :: "string option"

text \<open>The single row of a result that has exactly one row.\<close>

definition single_row :: "json \<Rightarrow> json" where
  "single_row rows = (case rows of JArr [JObj kvs] \<Rightarrow> JObj kvs | _ \<Rightarrow> JObj [])"

definition row_num :: "json \<Rightarrow> string \<Rightarrow> int option" where
  "row_num r k = (case jget r k of Some (JInt i) \<Rightarrow> Some i | _ \<Rightarrow> None)"

definition FACT_KEYS :: "string list" where
  "FACT_KEYS = [''instance_count'', ''cluster_database'', ''datafiles_total'', ''datafiles_in_asm'', ''asm_diskgroups'',
     ''database_role'', ''standby_destinations'', ''os_family'']"

definition derive :: "json \<Rightarrow> observed" where
  "derive rows = (let r = single_row rows; inst = row_num r ''instance_count'';
      flag = jget_or r ''cluster_database'' JNull; in_asm = row_num r ''datafiles_in_asm'';
      role_raw = jget_or r ''database_role'' JNull; dests = row_num r ''standby_destinations'';
      role = (if \<not> truthy role_raw then None else if role_raw = JStr ''PRIMARY'' then Some ''PRIMARY'' else Some ''STANDBY'')
    in \<lparr> o_rac = (if inst \<noteq> None \<or> str_in flag [''TRUE'', ''FALSE''] then Some (1 < or_else inst 0 \<or> flag = JStr ''TRUE'') else None),
         o_asm = map_option (\<lambda>n. 0 < n) in_asm,
         o_dataguard = (if role = None then None else Some (role = Some ''STANDBY'' \<or> 0 < or_else dests 0)),
         o_role = role,
         o_os = (case jget_or r ''os_family'' JNull of JStr f \<Rightarrow> if f \<in> set OS_FAMILIES then Some f else None | _ \<Rightarrow> None),
         o_facts = JObj (map (\<lambda>k. (k, jget_or r k JNull)) FACT_KEYS),
         o_ru = None \<rparr>)"

text \<open>The declared architecture: an empty value reads as no declaration.\<close>

definition arch_items :: "py_exc \<Rightarrow> target \<Rightarrow> py_exc + (string \<times> json) list" where
  "arch_items e t = (if \<not> truthy (t_architecture t) then Inr []
     else (case t_architecture t of JObj kvs \<Rightarrow> Inr kvs | _ \<Rightarrow> Inl e))"

type_synonym mismatch = "string \<times> json \<times> json"

definition compare_flag :: "(string \<times> json) list \<Rightarrow> string \<Rightarrow> bool option \<Rightarrow> mismatch list" where
  "compare_flag arch dm obs = (case (obs, dget arch dm) of
      (Some b, Some (JBool d)) \<Rightarrow> if b \<noteq> d then [(dm, JBool d, JBool b)] else []
    | _ \<Rightarrow> [])"

definition arch_compare :: "observed \<Rightarrow> target \<Rightarrow> py_exc + mismatch list" where
  "arch_compare obs t = bindE (arch_items AttributeError t) (\<lambda>arch. Inr (
      compare_flag arch ''rac'' (o_rac obs) @ compare_flag arch ''asm'' (o_asm obs)
      @ compare_flag arch ''dataguard'' (o_dataguard obs)
      @ (case o_role obs of None \<Rightarrow> []
         | Some r \<Rightarrow> if t_role t \<notin> {JNull, JStr ''UNKNOWN''} \<and> JStr r \<noteq> t_role t then [(''role'', t_role t, JStr r)] else [])
      @ (case o_os obs of None \<Rightarrow> []
         | Some f \<Rightarrow> (let tos = jget_or (t_os t) ''family'' JNull in
             if truthy tos \<and> JStr f \<noteq> tos then [(''os'', tos, JStr f)] else []))))"

definition release_update_from_identity :: "json \<Rightarrow> py_exc + string option" where
  "release_update_from_identity rows =
     (case jget (single_row rows) ''version'' of
        Some (JStr v) \<Rightarrow>
          (case split_on (CHR ''.'') v of
             a # b # _ \<Rightarrow>
               if a = [] \<or> b = [] \<or> \<not> list_all is_pydigit a \<or> \<not> list_all is_pydigit b then Inr None
               else bindE (int_of_text a) (\<lambda>x. if x < 18 then Inr None
                 else bindE (int_of_text b) (\<lambda>y. Inr (Some (str_of_int x @ ''.'' @ str_of_int y))))
           | _ \<Rightarrow> Inr None)
      | _ \<Rightarrow> Inr None)"

definition put_flag :: "string \<Rightarrow> bool option \<Rightarrow> (string \<times> json) list \<Rightarrow> (string \<times> json) list" where
  "put_flag dm b arch = (case b of None \<Rightarrow> arch | Some v \<Rightarrow> dset dm (JBool v) arch)"

definition observed_target :: "target \<Rightarrow> observed \<Rightarrow> py_exc + target" where
  "observed_target t obs = bindE (arch_items TypeError t) (\<lambda>arch. Inr (t\<lparr>
      t_architecture := JObj (put_flag ''dataguard'' (o_dataguard obs) (put_flag ''asm'' (o_asm obs)
        (put_flag ''rac'' (o_rac obs) arch))),
      t_role := (case o_role obs of None \<Rightarrow> t_role t | Some r \<Rightarrow> JStr r),
      t_os := (case o_os obs of
          Some f \<Rightarrow> if jget_or (t_os t) ''family'' JNull \<noteq> JStr f then JObj [(''family'', JStr f)] else t_os t
        | None \<Rightarrow> t_os t),
      t_release_update := (case o_ru obs of None \<Rightarrow> t_release_update t | Some r \<Rightarrow> Some r) \<rparr>))"

lemma dget_put_flag [simp]:
  "dget (put_flag dm b arch) k = (if k = dm \<and> b \<noteq> None then map_option JBool b else dget arch k)"
  by (auto simp: put_flag_def split: option.splits)

text \<open>
  For field validation an observed dimension always wins over the declaration and an unobserved
  one leaves it alone; version, container, permissions and budgets of the target never change; and
  the list of disagreements is empty exactly for flags that are unknown on a side or equal.
\<close>

theorem observed_target_dimension:
  assumes "observed_target t obs = Inr t'" and "arch_items TypeError t = Inr arch"
    and "(dm, b) \<in> {(''rac'', o_rac obs), (''asm'', o_asm obs), (''dataguard'', o_dataguard obs)}"
  shows "jget (t_architecture t') dm = (case b of None \<Rightarrow> dget arch dm | Some v \<Rightarrow> Some (JBool v)) \<and>
    t_role t' = (case o_role obs of None \<Rightarrow> t_role t | Some r \<Rightarrow> JStr r) \<and>
    (t_version t', t_container t', t_allowed t', t_missing t', t_license_status t', t_enabled t', t_max_calls t', t_max_rows t')
      = (t_version t, t_container t, t_allowed t, t_missing t, t_license_status t, t_enabled t, t_max_calls t, t_max_rows t) \<and>
    (compare_flag arch dm b \<noteq> [] \<longleftrightarrow> (\<exists>v d. b = Some v \<and> dget arch dm = Some (JBool d) \<and> v \<noteq> d))"
proof -
  from assms(1,2) have t': "t_architecture t' = JObj (put_flag ''dataguard'' (o_dataguard obs) (put_flag ''asm'' (o_asm obs)
        (put_flag ''rac'' (o_rac obs) arch)))"
    and r: "t_role t' = (case o_role obs of None \<Rightarrow> t_role t | Some r \<Rightarrow> JStr r)"
    and k: "(t_version t', t_container t', t_allowed t', t_missing t', t_license_status t', t_enabled t', t_max_calls t', t_max_rows t')
      = (t_version t, t_container t, t_allowed t, t_missing t, t_license_status t, t_enabled t, t_max_calls t, t_max_rows t)"
    by (auto simp: observed_target_def)
  have "jget (t_architecture t') dm = (case b of None \<Rightarrow> dget arch dm | Some v \<Rightarrow> Some (JBool v))"
    unfolding t' jget_def using assms(3) by (auto split: option.splits)
  moreover have "compare_flag arch dm b \<noteq> [] \<longleftrightarrow> (\<exists>v d. b = Some v \<and> dget arch dm = Some (JBool d) \<and> v \<noteq> d)"
    by (auto simp: compare_flag_def split: option.splits json.splits)
  ultimately show ?thesis using r k by blast
qed

definition example_observed :: observed where
  "example_observed = derive (JArr [JObj [(''instance_count'', JInt 2), (''database_role'', JStr ''PRIMARY'')]])"

theorem observed_target_dimension_witness:
  "\<exists>t'. observed_target example_target example_observed = Inr t' \<and> jget (t_architecture t') ''rac'' = Some (JBool True)"
proof -
  have a: "arch_items TypeError example_target = Inr []"
    by (simp add: arch_items_def example_target_def truthy_def)
  then obtain t' where t': "observed_target example_target example_observed = Inr t'"
    by (simp add: observed_target_def)
  have r: "o_rac example_observed = Some True"
    by (simp add: example_observed_def derive_def Let_def single_row_def row_num_def jget_def or_else_def)
  from observed_target_dimension [OF t' a, of "''rac''" "o_rac example_observed"] t' r show ?thesis by simp
qed

end
