(* ===== verification/Field_Validation.thy ===== *)
theory Field_Validation
  imports Architecture
begin

section \<open>Field validation of a certified query (mcp\_gateway/field\_validation.py)\<close>

text \<open>
  The registry records which exact SQL (by hash) ran against a real database and in which context.
  \<open>assess\<close> gives the level of a collector on a target. The file system (\<open>stat\<close> and the content of
  a path), SHA-256 and the JSON parser are parameters; a registry file that cannot be read, parsed
  or validated gives an empty registry.
\<close>

definition hex_rx :: rx where "hex_rx = Cls (\<lambda>c. is_digit c \<or> btw 97 102 c)"
definition SHA_RE :: rx where "SHA_RE = Rep 64 0 hex_rx"
definition EVR_RE :: rx where "EVR_RE = Seq (lit ''EVR-'') (Rep 24 0 hex_rx)"
definition RU_RE :: rx where
  "RU_RE = Seq (Rep 1 1 (Cls is_digit)) (Seq (lit ''.'') (Rep 1 2 (Cls is_digit)))"

text \<open>A text that matches a pattern that ends in \<open>$\<close>; on any other value \<open>re\<close> raises.\<close>

definition str_matches :: "rx \<Rightarrow> json option \<Rightarrow> bool" where
  "str_matches r v = (case v of Some (JStr s) \<Rightarrow> match_dollar r s | _ \<Rightarrow> False)"

definition jpath :: "json option \<Rightarrow> string \<Rightarrow> json option" where
  "jpath v k = (case v of Some w \<Rightarrow> jget w k | None \<Rightarrow> None)"

definition is_some_bool :: "json option \<Rightarrow> bool" where
  "is_some_bool v = (case v of Some w \<Rightarrow> is_bool w | None \<Rightarrow> False)"

definition nonempty_str :: "json option \<Rightarrow> bool" where
  "nonempty_str v = (case v of Some (JStr s) \<Rightarrow> s \<noteq> [] | _ \<Rightarrow> False)"

definition valid_context :: "json \<Rightarrow> bool" where
  "valid_context c \<longleftrightarrow>
     (case jget c ''oracle_version'' of None \<Rightarrow> False | Some v \<Rightarrow> family_of v \<noteq> None) \<and>
     str_matches RU_RE (jget c ''release_update'') \<and>
     list_all (\<lambda>k. is_some_bool (jpath (jget c ''architecture'') k)) [''rac'', ''asm'', ''dataguard''] \<and>
     list_all (\<lambda>k. nonempty_str (jpath (jget c ''os'') k)) [''family'', ''distribution'', ''version'']"

definition valid_validation :: "string list \<Rightarrow> json \<Rightarrow> bool" where
  "valid_validation ctxs v \<longleftrightarrow>
     str_matches SHA_RE (jget v ''query_sha256'') \<and>
     (case jget v ''context_id'' of Some (JStr k) \<Rightarrow> k \<in> set ctxs | _ \<Rightarrow> False) \<and>
     (case jget v ''evidence_refs'' of
        Some (JArr es) \<Rightarrow> es \<noteq> [] \<and> list_all (\<lambda>e. str_matches EVR_RE (Some e)) es
      | Some (JObj kvs) \<Rightarrow> kvs \<noteq> [] \<and> list_all (match_dollar EVR_RE) (dkeys kvs)
      | Some (JStr s) \<Rightarrow> s \<noteq> [] \<and> list_all (\<lambda>c. match_dollar EVR_RE [c]) s
      | _ \<Rightarrow> False) \<and>
     (case jget v ''record'' of Some (JStr r) \<Rightarrow> starts_with ''docs/'' r | _ \<Rightarrow> False)"

text \<open>Every way the checks can fail, an exception included, gives \<open>False\<close>.\<close>

definition valid_doc :: "json \<Rightarrow> bool" where
  "valid_doc doc \<longleftrightarrow> (case (jget doc ''contexts'', jget doc ''validations'') of
      (Some (JObj ctxs), Some vals) \<Rightarrow>
         list_all (valid_context \<circ> snd) ctxs \<and>
         (case py_iter vals of Inl _ \<Rightarrow> False | Inr vs \<Rightarrow> list_all (valid_validation (dkeys ctxs)) vs)
    | _ \<Rightarrow> False)"

subsection \<open>Loading and refreshing the registry\<close>

type_synonym file_stat = "nat \<times> nat"

record registry =
  reg_contexts :: "(string \<times> json) list"
  reg_validations :: "json list"
  reg_loaded :: bool
  reg_path :: "string option"
  reg_stat :: "file_stat option"
  reg_sha :: "string option"
  reg_reloads :: nat

record file_system =
  fs_stat :: "string \<Rightarrow> file_stat option"
  fs_read :: "string \<Rightarrow> string option"

text \<open>\<open>parse\<close> stands for decoding UTF-8 and JSON, \<open>None\<close> for their errors.\<close>

definition load_registry :: "(string \<Rightarrow> string) \<Rightarrow> (string \<Rightarrow> json option) \<Rightarrow> file_system \<Rightarrow> string \<Rightarrow> registry" where
  "load_registry sha parse fs path =
     (let failed = (\<lambda>h. \<lparr> reg_contexts = [], reg_validations = [], reg_loaded = False, reg_path = Some path,
                         reg_stat = fs_stat fs path, reg_sha = h, reg_reloads = 0 \<rparr>)
      in (case fs_read fs path of
            None \<Rightarrow> failed None
          | Some raw \<Rightarrow> (case parse raw of
              None \<Rightarrow> failed (Some (sha raw))
            | Some doc \<Rightarrow> if \<not> is_obj doc \<or> \<not> valid_doc doc then failed (Some (sha raw))
                else \<lparr> reg_contexts = (case jget doc ''contexts'' of Some (JObj c) \<Rightarrow> c | _ \<Rightarrow> []),
                       reg_validations = (case map_option py_iter (jget doc ''validations'') of Some (Inr vs) \<Rightarrow> vs | _ \<Rightarrow> []),
                       reg_loaded = True, reg_path = Some path, reg_stat = fs_stat fs path,
                       reg_sha = Some (sha raw), reg_reloads = 0 \<rparr>)))"

definition refresh :: "(string \<Rightarrow> string) \<Rightarrow> (string \<Rightarrow> json option) \<Rightarrow> file_system \<Rightarrow> registry \<Rightarrow> registry" where
  "refresh sha parse fs r = (case reg_path r of
      None \<Rightarrow> r
    | Some path \<Rightarrow>
        if path = [] then r
        else if fs_stat fs path \<noteq> None \<and> fs_stat fs path = reg_stat r then r
        else (let digest = map_option sha (fs_read fs path) in
          if digest \<noteq> None \<and> digest = reg_sha r then r\<lparr>reg_stat := fs_stat fs path\<rparr>
          else (load_registry sha parse fs path)\<lparr>reg_reloads := reg_reloads r + 1\<rparr>))"

definition REGISTRY_FILE :: string where "REGISTRY_FILE = ''config/field-validation-registry.json''"

definition registry_summary :: "registry \<Rightarrow> json" where
  "registry_summary r = (let no_path = (reg_path r = None \<or> reg_path r = Some []) in
     JObj [(''status'', JStr (if no_path then ''INJECTED'' else if reg_loaded r then ''LOADED'' else ''INVALID_FAIL_CLOSED'')),
       (''sha256'', case reg_sha r of None \<Rightarrow> JNull | Some h \<Rightarrow> JStr h), (''reloads'', JInt (int (reg_reloads r))),
       (''validations'', JInt (int (length (reg_validations r)))), (''contexts'', JInt (int (length (reg_contexts r)))),
       (''file'', if reg_path r = Some REGISTRY_FILE then JStr ''config/field-validation-registry.json''
                  else if no_path then JNull else JStr ''other'')])"

subsection \<open>Comparing a validated context with a target\<close>

type_synonym comparison = "mismatch list \<times> string list"

definition ru_tuple :: "string option \<Rightarrow> nat list option" where
  "ru_tuple t = (case t of
      None \<Rightarrow> None
    | Some s \<Rightarrow> if s = [] \<or> \<not> match_dollar RU_RE s then None
        else Some (map (nat_of_digits \<circ> strip) (split_on (CHR ''.'') s)))"

definition cmp_version :: "json \<Rightarrow> target \<Rightarrow> py_exc + comparison" where
  "cmp_version ctx t = (case t_version t of
      None \<Rightarrow> Inr ([], [''oracle_version''])
    | Some tv \<Rightarrow> bindE (jreq ctx ''oracle_version'') (\<lambda>cv.
        Inr (if family_of cv \<noteq> Some tv then ([(''oracle_version'', cv, JStr tv)], []) else ([], []))))"

definition cmp_ru :: "json \<Rightarrow> target \<Rightarrow> py_exc + comparison" where
  "cmp_ru ctx t = (case t_version t of
      None \<Rightarrow> Inr ([], [])
    | Some tv \<Rightarrow> bindE (jreq ctx ''oracle_version'') (\<lambda>cv.
        if family_of cv \<noteq> Some tv then Inr ([], [])
        else (case ru_tuple (t_release_update t) of
            None \<Rightarrow> Inr ([], [''release_update''])
          | Some a \<Rightarrow> bindE (bindE (jreq ctx ''release_update'') as_str) (\<lambda>c.
              (case ru_tuple (Some c) of
                 None \<Rightarrow> Inl TypeError
               | Some b \<Rightarrow> Inr (if a < b then ([(''release_update'', JStr c, JStr (or_else (t_release_update t) []))], [])
                            else ([], [])))))))"

definition cmp_flat :: "string \<Rightarrow> json \<Rightarrow> json \<Rightarrow> py_exc + comparison" where
  "cmp_flat dm tval ctx =
     (if tval \<in> {JNull, JStr ''UNKNOWN''} then Inr ([], [dm])
      else bindE (jreq ctx dm) (\<lambda>c. Inr (if \<not> py_eq tval c then ([(dm, c, tval)], []) else ([], []))))"

definition cmp_arch :: "string \<Rightarrow> (string \<times> json) list \<Rightarrow> json \<Rightarrow> py_exc + comparison" where
  "cmp_arch dm arch ctx = (case dget arch dm of
      Some (JBool b) \<Rightarrow> bindE (bindE (jreq ctx ''architecture'') (\<lambda>a. jreq a dm)) (\<lambda>c.
         Inr (if \<not> py_eq (JBool b) c then ([(dm, c, JBool b)], []) else ([], [])))
    | _ \<Rightarrow> Inr ([], [dm]))"

text \<open>The two operating systems are reported as the pair (family, distribution).\<close>

definition cmp_os :: "json \<Rightarrow> target \<Rightarrow> py_exc + comparison" where
  "cmp_os ctx t = (let family = jget_or (t_os t) ''family'' JNull; distribution = jget_or (t_os t) ''distribution'' JNull in
     if \<not> truthy family then Inr ([], [''os''])
     else bindE (jreq ctx ''os'') (\<lambda>os. bindE (jreq os ''family'') (\<lambda>f. bindE (jreq os ''distribution'') (\<lambda>d.
       Inr (if \<not> (py_eq family f \<and> py_eq distribution d) then ([(''os'', JArr [f, d], JArr [family, distribution])], [])
            else ([], []))))))"

definition merge :: "comparison list \<Rightarrow> comparison" where
  "merge cs = (concat (map fst cs), concat (map snd cs))"

definition fv_compare :: "json \<Rightarrow> target \<Rightarrow> py_exc + comparison" where
  "fv_compare ctx t =
     bindE (cmp_version ctx t) (\<lambda>c1. bindE (cmp_ru ctx t) (\<lambda>c2.
     bindE (cmp_flat ''container'' (t_container t) ctx) (\<lambda>c3. bindE (cmp_flat ''role'' (t_role t) ctx) (\<lambda>c4.
     bindE (arch_items AttributeError t) (\<lambda>arch.
     bindE (mapE (\<lambda>dm. cmp_arch dm arch ctx) [''rac'', ''asm'', ''dataguard'']) (\<lambda>c5.
     bindE (cmp_os ctx t) (\<lambda>c6. Inr (merge ([c1, c2, c3, c4] @ c5 @ [c6])))))))))"

subsection \<open>The level of a collector on a target\<close>

datatype fv_level = FIELD_VALIDATED | FIELD_VALIDATED_OTHER_CONTEXT | DOCUMENTATION_ONLY

record assessment =
  a_level :: fv_level
  a_reason :: string
  a_context :: "json option"
  a_differences :: "mismatch list"
  a_not_compared :: "string list"
  a_change_ids :: "string list"
  a_evidence_refs :: "string list"
  a_registry_sha :: "string option"

definition query_id_of :: "collector \<Rightarrow> json" where
  "query_id_of c = (case c_query_id c of
      Some (FStr s) \<Rightarrow> if s = [] then JStr (c_id c) else JStr s
    | Some (FList xs) \<Rightarrow> if xs = [] then JStr (c_id c) else fm_json (FList xs)
    | None \<Rightarrow> JStr (c_id c))"

text \<open>The validations of one key and value, in registry order.\<close>

definition select :: "string \<Rightarrow> json \<Rightarrow> json list \<Rightarrow> py_exc + json list" where
  "select k x vs = foldE (\<lambda>out v. bindE (jreq v k) (\<lambda>w. Inr (if py_eq w x then out @ [v] else out))) [] vs"

definition fv_rank :: "comparison \<Rightarrow> nat \<times> nat" where
  "fv_rank d = (length (fst d), length (snd d))"

definition rank_less :: "nat \<times> nat \<Rightarrow> nat \<times> nat \<Rightarrow> bool" where
  "rank_less a b \<longleftrightarrow> fst a < fst b \<or> fst a = fst b \<and> snd a < snd b"

definition candidate_of :: "registry \<Rightarrow> target \<Rightarrow> json \<Rightarrow> py_exc + json \<times> json \<times> comparison" where
  "candidate_of r t v =
     bindE (bindE (jreq v ''context_id'') as_str) (\<lambda>cid.
     bindE (jreq (JObj (reg_contexts r)) cid) (\<lambda>ctx.
     bindE (fv_compare ctx t) (\<lambda>d. Inr (v, ctx, d))))"

definition better :: "(json \<times> json \<times> comparison) option \<Rightarrow> json \<times> json \<times> comparison
    \<Rightarrow> (json \<times> json \<times> comparison) option" where
  "better best c = (case best of
      None \<Rightarrow> Some c
    | Some b \<Rightarrow> if rank_less (fv_rank (snd (snd c))) (fv_rank (snd (snd b))) then Some c else Some b)"

definition best_of :: "registry \<Rightarrow> target \<Rightarrow> json list \<Rightarrow> py_exc + (json \<times> json \<times> comparison) option" where
  "best_of r t vs = foldE (\<lambda>best v. bindE (candidate_of r t v) (\<lambda>c. Inr (better best c))) None vs"

definition as_dict :: "json \<Rightarrow> py_exc + json" where
  "as_dict v = (case v of JObj kvs \<Rightarrow> Inr (JObj kvs) | _ \<Rightarrow> Inl TypeError)"

definition context_view :: "json \<Rightarrow> json \<Rightarrow> py_exc + (string \<times> json) list" where
  "context_view v ctx =
     bindE (jreq v ''context_id'') (\<lambda>cid. bindE (jreq ctx ''oracle_version'') (\<lambda>ov.
     bindE (jreq ctx ''release_update'') (\<lambda>ru. bindE (jreq ctx ''container'') (\<lambda>con.
     bindE (jreq ctx ''role'') (\<lambda>role. bindE (bindE (jreq ctx ''architecture'') as_dict) (\<lambda>arch.
     bindE (bindE (jreq ctx ''os'') as_dict) (\<lambda>os. bindE (jreq v ''validated_at_utc'') (\<lambda>vat.
     Inr [(''context_id'', cid), (''oracle_version'', ov), (''release_update'', ru), (''container'', con), (''role'', role),
          (''architecture'', arch), (''os'', os), (''validated_at_utc'', vat)]))))))))"

definition sorted_texts :: "string list \<Rightarrow> string list" where
  "sorted_texts xs = sort (remdups xs)"

definition change_ids_of :: "json list \<Rightarrow> py_exc + string list" where
  "change_ids_of vs = bindE (mapE (\<lambda>v. bindE (jreq v ''change_id'') as_str) vs) (\<lambda>xs. Inr (sorted_texts xs))"

definition evidence_refs_of :: "json list \<Rightarrow> py_exc + string list" where
  "evidence_refs_of vs = bindE (mapE (\<lambda>v. bindE (bindE (jreq v ''evidence_refs'') py_iter) (mapE as_str)) vs)
     (\<lambda>xs. Inr (sorted_texts (concat xs)))"

definition no_assessment :: "registry \<Rightarrow> string \<Rightarrow> assessment" where
  "no_assessment r reason = \<lparr> a_level = DOCUMENTATION_ONLY, a_reason = reason, a_context = None, a_differences = [],
     a_not_compared = [], a_change_ids = [], a_evidence_refs = [], a_registry_sha = reg_sha r \<rparr>"

definition assessment_of :: "registry \<Rightarrow> json list \<Rightarrow> (json \<times> json \<times> comparison) option \<Rightarrow> py_exc + assessment" where
  "assessment_of r current best = (case best of
      None \<Rightarrow> Inl TypeError
    | Some (v, ctx, diff, unknown) \<Rightarrow>
        bindE (context_view v ctx) (\<lambda>view. bindE (change_ids_of current) (\<lambda>ids. bindE (evidence_refs_of current) (\<lambda>refs.
        Inr \<lparr> a_level = (if diff = [] then FIELD_VALIDATED else FIELD_VALIDATED_OTHER_CONTEXT),
              a_reason = (if diff = [] then ''CONTEXT_MATCHES'' else ''CONTEXT_DIFFERS''),
              a_context = Some (JObj view), a_differences = diff, a_not_compared = unknown,
              a_change_ids = ids, a_evidence_refs = refs, a_registry_sha = reg_sha r \<rparr>))))"

definition assess :: "registry \<Rightarrow> collector \<Rightarrow> target \<Rightarrow> py_exc + assessment" where
  "assess r c t =
     (if c_kind c \<noteq> ''sql_query'' \<or> c_query_sha256 c \<in> {None, Some []} then Inr (no_assessment r ''NOT_A_CERTIFIED_QUERY'')
      else bindE (select ''query_id'' (query_id_of c) (reg_validations r)) (\<lambda>mine.
        if mine = [] then Inr (no_assessment r ''NO_FIELD_VALIDATION_RECORDED'')
        else bindE (select ''query_sha256'' (JStr (or_else (c_query_sha256 c) [])) mine) (\<lambda>current.
          if current = [] then Inr (no_assessment r ''SQL_CHANGED_SINCE_FIELD_VALIDATION'')
          else bindE (best_of r t current) (assessment_of r current))))"

definition assess_all_contexts :: "registry \<Rightarrow> collector \<Rightarrow> py_exc + json list" where
  "assess_all_contexts r c = foldE (\<lambda>out v.
      bindE (jreq v ''query_id'') (\<lambda>q. if \<not> py_eq q (query_id_of c) then Inr out
      else bindE (jreq v ''query_sha256'') (\<lambda>h.
        if (case c_query_sha256 c of None \<Rightarrow> h \<noteq> JNull | Some s \<Rightarrow> h \<noteq> JStr s) then Inr out
        else bindE (bindE (jreq v ''context_id'') as_str) (\<lambda>cid. bindE (jreq (JObj (reg_contexts r)) cid) (\<lambda>ctx.
          bindE (context_view v ctx) (\<lambda>view. bindE (jreq v ''change_id'') (\<lambda>ch.
          Inr (out @ [JObj (view @ [(''change_id'', ch)])]))))))))
    [] (reg_validations r)"

subsection \<open>What a level means\<close>

lemma select_is: "select k x vs = Inr out \<Longrightarrow> out = filter (\<lambda>v. \<exists>w. jget v k = Some w \<and> py_eq w x) vs"
proof -
  have "foldE (\<lambda>out v. bindE (jreq v k) (\<lambda>w. Inr (if py_eq w x then out @ [v] else out))) acc vs = Inr out \<Longrightarrow>
      out = acc @ filter (\<lambda>v. \<exists>w. jget v k = Some w \<and> py_eq w x) vs" for acc
  proof (induction vs arbitrary: acc)
    case (Cons a vs)
    then show ?case by (auto simp: bindE_Inr split: if_splits dest!: Cons.IH)
  qed simp
  then show "select k x vs = Inr out \<Longrightarrow> ?thesis" by (fastforce simp: select_def)
qed

lemma better_is:
  assumes "foldE (\<lambda>best v. bindE (candidate_of r t v) (\<lambda>c. Inr (better best c))) b0 vs = Inr (Some b)"
  shows "(b0 = Some b \<or> (\<exists>v \<in> set vs. candidate_of r t v = Inr b)) \<and>
    (\<forall>b1. b0 = Some b1 \<longrightarrow> \<not> rank_less (fv_rank (snd (snd b1))) (fv_rank (snd (snd b)))) \<and>
    (\<forall>v \<in> set vs. \<exists>c. candidate_of r t v = Inr c \<and> \<not> rank_less (fv_rank (snd (snd c))) (fv_rank (snd (snd b))))"
  using assms
proof (induction vs arbitrary: b0)
  case Nil
  then show ?case by (simp add: rank_less_def)
next
  case (Cons v vs)
  then obtain c where c: "candidate_of r t v = Inr c"
    and f: "foldE (\<lambda>best v. bindE (candidate_of r t v) (\<lambda>c. Inr (better best c))) (better b0 c) vs = Inr (Some b)"
    by (auto simp: bindE_Inr simp del: split_paired_Ex)
  let ?R = "\<lambda>x. rank_less (fv_rank (snd (snd x))) (fv_rank (snd (snd b)))"
  have "\<exists>b1. better b0 c = Some b1" by (cases b0) (auto simp: better_def simp del: split_paired_Ex)
  then obtain b1 where b1: "better b0 c = Some b1" by blast
  note IH' = Cons.IH [OF f, unfolded b1]
  have IH: "b1 = b \<or> (\<exists>v \<in> set vs. candidate_of r t v = Inr b)" "\<not> ?R b1"
    "\<forall>v \<in> set vs. \<exists>c. candidate_of r t v = Inr c \<and> \<not> ?R c"
    using IH' by (simp_all del: split_paired_Ex split_paired_All)
  have "\<not> ?R c" "\<forall>x. b0 = Some x \<longrightarrow> \<not> ?R x" "b1 = c \<or> b0 = Some b1"
    using b1 IH(2) by (auto simp: better_def rank_less_def split: option.splits if_splits)
  with IH c show ?case by (simp only: list.simps set_simps ball_simps) blast
qed

lemma best_of_is:
  "best_of r t vs = Inr (Some b) \<Longrightarrow> (\<exists>v \<in> set vs. candidate_of r t v = Inr b) \<and>
    (\<forall>v \<in> set vs. \<exists>c. candidate_of r t v = Inr c \<and> \<not> rank_less (fv_rank (snd (snd c))) (fv_rank (snd (snd b))))"
  unfolding best_of_def by (drule better_is) simp

lemma fv_compare_parts:
  assumes "fv_compare ctx t = Inr ([], unknown)"
  shows "cmp_version ctx t = Inr ([], if t_version t = None then [''oracle_version''] else [])"
    and "\<exists>u. cmp_ru ctx t = Inr ([], u)" and "\<exists>u. cmp_flat ''container'' (t_container t) ctx = Inr ([], u)"
    and "\<exists>u. cmp_flat ''role'' (t_role t) ctx = Inr ([], u)" and "\<exists>u. cmp_os ctx t = Inr ([], u)"
    and "\<exists>arch. arch_items AttributeError t = Inr arch \<and> (\<forall>dm \<in> {''rac'', ''asm'', ''dataguard''}. \<exists>u. cmp_arch dm arch ctx = Inr ([], u))"
proof -
  from assms obtain c1 c2 c3 c4 arch c5 c6 where
    c: "cmp_version ctx t = Inr c1" "cmp_ru ctx t = Inr c2" "cmp_flat ''container'' (t_container t) ctx = Inr c3"
      "cmp_flat ''role'' (t_role t) ctx = Inr c4" "arch_items AttributeError t = Inr arch"
      "mapE (\<lambda>dm. cmp_arch dm arch ctx) [''rac'', ''asm'', ''dataguard''] = Inr c5" "cmp_os ctx t = Inr c6"
    and m: "merge ([c1, c2, c3, c4] @ c5 @ [c6]) = ([], unknown)"
    unfolding fv_compare_def by (auto simp only: bindE_Inr sum.inject)
  from m have e: "fst c1 = []" "fst c2 = []" "fst c3 = []" "fst c4 = []" "fst c6 = []" "\<forall>x \<in> set c5. fst x = []"
    by (auto simp: merge_def)
  show "\<exists>u. cmp_ru ctx t = Inr ([], u)" "\<exists>u. cmp_flat ''container'' (t_container t) ctx = Inr ([], u)"
    "\<exists>u. cmp_flat ''role'' (t_role t) ctx = Inr ([], u)" "\<exists>u. cmp_os ctx t = Inr ([], u)"
    using c e by (metis prod.collapse)+
  show "cmp_version ctx t = Inr ([], if t_version t = None then [''oracle_version''] else [])"
    using c(1) e(1) by (auto simp: cmp_version_def bindE_Inr split: option.splits if_splits)
  have "\<exists>u. cmp_arch dm arch ctx = Inr ([], u)" if "dm \<in> {''rac'', ''asm'', ''dataguard''}" for dm
  proof -
    from that have "dm \<in> set [''rac'', ''asm'', ''dataguard'']" by simp
    from mapE_in [OF c(6) this] e(6) show ?thesis by (metis prod.collapse)
  qed
  with c(5) show "\<exists>arch. arch_items AttributeError t = Inr arch \<and>
      (\<forall>dm \<in> {''rac'', ''asm'', ''dataguard''}. \<exists>u. cmp_arch dm arch ctx = Inr ([], u))" by blast
qed

lemma py_eq_JStr: "py_eq w (JStr h) \<longleftrightarrow> w = JStr h"
  by (cases w) (auto simp: py_eq.simps [of _ "JStr h"] num_of_def)

lemma py_eq_JBool: "py_eq (JBool b) (JBool d) \<longleftrightarrow> b = d"
  by (auto simp: py_eq.simps [of "JBool b"] num_of_def)

lemma no_assessment_level [simp]: "a_level (no_assessment r reason) = DOCUMENTATION_ONLY"
  by (simp add: no_assessment_def)

text \<open>A context agrees with a target on every dimension the target declares.\<close>

definition context_matches :: "json \<Rightarrow> target \<Rightarrow> bool" where
  "context_matches ctx t \<longleftrightarrow>
     (\<forall>tv. t_version t = Some tv \<longrightarrow> (\<exists>cv. jget ctx ''oracle_version'' = Some cv \<and> family_of cv = Some tv)) \<and>
     (\<forall>dm tval. (dm, tval) \<in> {(''container'', t_container t), (''role'', t_role t)} \<longrightarrow> tval \<notin> {JNull, JStr ''UNKNOWN''} \<longrightarrow>
        (\<exists>cv. jget ctx dm = Some cv \<and> py_eq tval cv)) \<and>
     (\<forall>dm b. dm \<in> {''rac'', ''asm'', ''dataguard''} \<longrightarrow> jget (t_architecture t) dm = Some (JBool b) \<longrightarrow>
        (\<exists>cv. jpath (jget ctx ''architecture'') dm = Some cv \<and> py_eq (JBool b) cv))"

lemma compare_matches:
  assumes "fv_compare ctx t = Inr ([], unknown)" shows "context_matches ctx t"
proof -
  note p = fv_compare_parts [OF assms]
  have "\<exists>cv. jget ctx ''oracle_version'' = Some cv \<and> family_of cv = Some tv" if "t_version t = Some tv" for tv
    using p(1) that by (auto simp: cmp_version_def bindE_Inr split: if_splits)
  moreover have "\<exists>cv. jget ctx dm = Some cv \<and> py_eq tval cv"
    if "(dm, tval) \<in> {(''container'', t_container t), (''role'', t_role t)}" "tval \<notin> {JNull, JStr ''UNKNOWN''}" for dm tval
  proof -
    from that(1) p(3,4) obtain u where "cmp_flat dm tval ctx = Inr ([], u)" by blast
    with that(2) show ?thesis by (auto simp: cmp_flat_def bindE_Inr split: if_splits)
  qed
  moreover have "\<exists>cv. jpath (jget ctx ''architecture'') dm = Some cv \<and> py_eq (JBool b) cv"
    if "dm \<in> {''rac'', ''asm'', ''dataguard''}" "jget (t_architecture t) dm = Some (JBool b)" for dm b
  proof -
    from that(2) obtain kvs where k: "t_architecture t = JObj kvs" "dget kvs dm = Some (JBool b)"
      by (cases "t_architecture t") (auto simp: jget_def)
    then have "kvs \<noteq> []" by auto
    with k have "arch_items AttributeError t = Inr kvs" by (simp add: arch_items_def truthy_def)
    with p(6) that(1) obtain u where "cmp_arch dm kvs ctx = Inr ([], u)" by auto
    with k show ?thesis by (auto simp: cmp_arch_def bindE_Inr jpath_def split: if_splits)
  qed
  ultimately show ?thesis unfolding context_matches_def by blast
qed

lemma assess_validated:
  assumes "assess r c t = Inr out" "a_level out \<noteq> DOCUMENTATION_ONLY"
  shows "\<exists>h v ctx diff unknown. c_kind c = ''sql_query'' \<and> c_query_sha256 c = Some h \<and> h \<noteq> [] \<and> v \<in> set (reg_validations r) \<and>
     jget v ''query_sha256'' = Some (JStr h) \<and> candidate_of r t v = Inr (v, ctx, diff, unknown) \<and>
     a_differences out = diff \<and> a_not_compared out = unknown \<and>
     (a_level out = FIELD_VALIDATED \<longleftrightarrow> diff = []) \<and>
     (\<forall>v' \<in> set (reg_validations r). (\<exists>q. jget v' ''query_id'' = Some q \<and> py_eq q (query_id_of c)) \<longrightarrow>
         jget v' ''query_sha256'' = Some (JStr h) \<longrightarrow>
         (\<exists>c'. candidate_of r t v' = Inr c' \<and> \<not> rank_less (fv_rank (snd (snd c'))) (fv_rank (diff, unknown))))"
proof -
  from assms obtain h where h: "c_kind c = ''sql_query''" "c_query_sha256 c = Some h" "h \<noteq> []"
    by (cases "c_query_sha256 c") (auto simp: assess_def split: if_splits)
  from assms h obtain mine current best where
    m: "select ''query_id'' (query_id_of c) (reg_validations r) = Inr mine"
      "select ''query_sha256'' (JStr h) mine = Inr current"
    and b': "best_of r t current = Inr best" "assessment_of r current best = Inr out"
    by (auto simp: assess_def bindE_Inr or_else_def simp del: split_paired_Ex split: if_splits)
  from b'(2) obtain v ctx diff unknown where bb: "best = Some (v, ctx, diff, unknown)"
    and o: "a_differences out = diff" "a_not_compared out = unknown" "a_level out = FIELD_VALIDATED \<longleftrightarrow> diff = []"
    by (cases best) (auto simp: assessment_of_def bindE_Inr)
  have b: "best_of r t current = Inr (Some (v, ctx, diff, unknown))" using b'(1) bb by simp
  note sel = select_is [OF m(1)] select_is [OF m(2)]
  from best_of_is [OF b] obtain v' where v': "v' \<in> set current" "candidate_of r t v' = Inr (v, ctx, diff, unknown)" by blast
  then have "v' = v" by (auto simp: candidate_of_def bindE_Inr)
  with v' sel have "v \<in> set (reg_validations r)" "jget v ''query_sha256'' = Some (JStr h)"
    "candidate_of r t v = Inr (v, ctx, diff, unknown)"
    by (auto simp: py_eq_JStr)
  moreover have "\<forall>v' \<in> set current. \<exists>c'. candidate_of r t v' = Inr c' \<and> \<not> rank_less (fv_rank (snd (snd c'))) (fv_rank (diff, unknown))"
    using best_of_is [OF b] unfolding snd_conv by (rule conjunct2)
  moreover have "v' \<in> set current" if "v' \<in> set (reg_validations r)" "jget v' ''query_id'' = Some q" "py_eq q (query_id_of c)"
    "jget v' ''query_sha256'' = Some (JStr h)" for v' q
    using sel that by (auto simp: py_eq_JStr)
  ultimately show ?thesis using h o
    by (intro exI [of _ h] exI [of _ v] exI [of _ ctx] exI [of _ diff] exI [of _ unknown]) blast
qed


definition example_context :: json where
  "example_context = JObj [(''oracle_version'', JStr ''19c''), (''release_update'', JStr ''19.3''),
     (''container'', JStr ''NON_CDB''), (''role'', JStr ''PRIMARY''),
     (''architecture'', JObj [(''rac'', JBool False), (''asm'', JBool False), (''dataguard'', JBool False)]),
     (''os'', JObj [(''family'', JStr ''LINUX''), (''distribution'', JStr ''OL''), (''version'', JStr ''8'')])]"

definition example_validation :: json where
  "example_validation = JObj [(''query_id'', JStr ''Q-X''), (''query_sha256'', JStr ''aa''), (''context_id'', JStr ''C1''),
     (''evidence_refs'', JArr [JStr ''EVR-1'']), (''change_id'', JStr ''CHG-1''), (''validated_at_utc'', JStr ''t'')]"

definition example_registry :: registry where
  "example_registry = \<lparr> reg_contexts = [(''C1'', example_context)], reg_validations = [example_validation], reg_loaded = True,
     reg_path = None, reg_stat = None, reg_sha = None, reg_reloads = 0 \<rparr>"

definition example_query_collector :: collector where
  "example_query_collector = \<lparr> c_id = ''Q-X'', c_kind = ''sql_query'', c_domain = JStr ''d'', c_title = JStr ''t'', c_row_limit = 5,
     c_params = JObj [], c_output_fields = [], c_rca = None, c_adapters = JObj [], c_reference = None,
     c_query_id = Some (FStr ''Q-X''), c_query_sha256 = Some ''aa'', c_versions = [''19c''], c_role_scope = FStr ''ANY'',
     c_container_scope = FStr ''NOT_APPLICABLE'', c_license = FStr ''none'', c_privileges = FList [], c_timeout = 15,
     c_cost_class = FStr ''LOW'', c_risk_class = FStr ''R0'' \<rparr>"

definition example_assessment :: "assessment" where
  "example_assessment = (case assess example_registry example_query_collector example_target of Inr a \<Rightarrow> a
     | Inl _ \<Rightarrow> no_assessment example_registry [])"

lemma example_assess: "assess example_registry example_query_collector example_target = Inr example_assessment"
  unfolding example_assessment_def by code_simp


subsection \<open>Freshness\<close>



text \<open>
  The checks on the registry do not look at every key that the assessment reads, so a registry that
  passes them can still make the assessment raise.
\<close>

definition incomplete_registry_doc :: json where
  "incomplete_registry_doc = JObj [(''contexts'', JObj [(''C1'', example_context)]),
     (''validations'', JArr [JObj [(''query_sha256'', JStr (replicate 64 CHR ''0'')), (''context_id'', JStr ''C1''),
        (''evidence_refs'', JArr [JStr (''EVR-'' @ replicate 24 CHR ''0'')]), (''record'', JStr ''docs/x'')]])]"

lemma assess_can_raise:
  "valid_doc incomplete_registry_doc \<and>
   assess (load_registry id (\<lambda>_. Some incomplete_registry_doc) \<lparr> fs_stat = \<lambda>_. None, fs_read = \<lambda>_. Some [] \<rparr> ''f'')
     example_query_collector example_target = Inl KeyError"
  by code_simp

end
