(* ===== verification/Text_Sub.thy ===== *)
theory Text_Sub
  imports Regex
begin

section \<open>Substitution and search with extents\<close>

text \<open>
  \<open>match_lens p r s\<close> are the lengths, in increasing order, of the prefixes of \<open>s\<close> that match \<open>r\<close>
  after the character \<open>p\<close>. A greedy pattern takes the longest and a lazy one the shortest: for each
  pattern of the source that is used with \<open>sub\<close> or \<open>findall\<close> the match at a position is the longest
  one, except the PEM block, which is the shortest one.
\<close>

fun match_lens :: "char option \<Rightarrow> rx \<Rightarrow> string \<Rightarrow> nat list" where
  "match_lens p r [] = (if nul p None r then [0] else [])"
| "match_lens p r (c # s) = (if nul p (Some c) r then [0] else []) @ map Suc (match_lens (Some c) (der p c r) s)"

lemma match_lens_iff: "n \<in> set (match_lens p r s) \<longleftrightarrow> n \<le> length s \<and> mt p (take n s) (firstc (drop n s) None) r"
proof (induction s arbitrary: p r n)
  case Nil
  then show ?case by (auto simp: nul_iff)
next
  case (Cons c s)
  show ?case
  proof (cases n)
    case 0
    then show ?thesis by (auto simp: nul_iff)
  next
    case (Suc m)
    then show ?thesis using Cons.IH [of m "Some c" "der p c r"] by (auto simp: der_iff)
  qed
qed

lemma match_lens_sorted: "sorted (match_lens p r s)"
proof (induction s arbitrary: p r)
  case (Cons c s)
  have "sorted (map Suc xs)" if "sorted xs" for xs :: "nat list"
    using that by (induction xs) auto
  with Cons show ?case by (auto simp: sorted_append)
qed simp

datatype extent = Longest | Shortest

definition pick :: "extent \<Rightarrow> nat list \<Rightarrow> nat option" where
  "pick e ns = (if ns = [] then None else Some (case e of Longest \<Rightarrow> last ns | Shortest \<Rightarrow> hd ns))"

definition match_at :: "extent \<Rightarrow> rx \<Rightarrow> char option \<Rightarrow> string \<Rightarrow> nat option" where
  "match_at e r p s = pick e (match_lens p r s)"

lemma match_at_Some: "match_at e r p s = Some n \<Longrightarrow> n \<le> length s \<and> mt p (take n s) (firstc (drop n s) None) r"
proof -
  assume a: "match_at e r p s = Some n"
  then have "n \<in> set (match_lens p r s)"
    by (auto simp: match_at_def pick_def split: extent.splits if_splits)
  then show ?thesis by (simp add: match_lens_iff)
qed

lemma match_at_None: "match_at e r p s = None \<longleftrightarrow> (\<forall>n \<le> length s. \<not> mt p (take n s) (firstc (drop n s) None) r)"
proof -
  have "match_at e r p s = None \<longleftrightarrow> set (match_lens p r s) = {}"
    by (simp add: match_at_def pick_def)
  also have "\<dots> \<longleftrightarrow> (\<forall>n. n \<notin> set (match_lens p r s))" by (simp only: set_eq_iff empty_iff not_False_eq_True simp_thms)
  finally show ?thesis by (auto simp: match_lens_iff)
qed

lemma sorted_last_max: "sorted xs \<Longrightarrow> n \<in> set xs \<Longrightarrow> n \<le> last (xs :: nat list)"
  by (induction xs) (auto split: if_splits)

lemma match_at_longest:
  "match_at Longest r p s = Some n \<Longrightarrow> m \<le> length s \<Longrightarrow> mt p (take m s) (firstc (drop m s) None) r \<Longrightarrow> m \<le> n"
  using match_lens_sorted match_lens_iff [of m p r s]
  by (auto simp: match_at_def pick_def intro: sorted_last_max split: if_splits)

text \<open>\<open>pattern.sub(f, s)\<close> and \<open>pattern.findall(s)\<close> for patterns that do not match the empty text.\<close>

function sub_rx :: "extent \<Rightarrow> rx \<Rightarrow> (string \<Rightarrow> string) \<Rightarrow> char option \<Rightarrow> string \<Rightarrow> string" where
  "sub_rx e r f p s = (case s of
      [] \<Rightarrow> []
    | c # t \<Rightarrow> (case match_at e r p s of
        Some (Suc n) \<Rightarrow> f (take (Suc n) s) @ sub_rx e r f (Some (last (take (Suc n) s))) (drop (Suc n) s)
      | _ \<Rightarrow> c # sub_rx e r f (Some c) t))"
  by pat_completeness auto
termination
  by (relation "measure (\<lambda>(e, r, f, p, s). length s)") auto

declare sub_rx.simps [simp del]

function findall :: "extent \<Rightarrow> rx \<Rightarrow> char option \<Rightarrow> string \<Rightarrow> string list" where
  "findall e r p s = (case s of
      [] \<Rightarrow> []
    | c # t \<Rightarrow> (case match_at e r p s of
        Some (Suc n) \<Rightarrow> take (Suc n) s # findall e r (Some (last (take (Suc n) s))) (drop (Suc n) s)
      | _ \<Rightarrow> findall e r (Some c) t))"
  by pat_completeness auto
termination
  by (relation "measure (\<lambda>(e, r, p, s). length s)") auto

declare findall.simps [simp del]

lemma sub_rx_steps:
  "sub_rx e r f p [] = []"
  "match_at e r p (c # t) = None \<Longrightarrow> sub_rx e r f p (c # t) = c # sub_rx e r f (Some c) t"
  "match_at e r p (c # t) = Some 0 \<Longrightarrow> sub_rx e r f p (c # t) = c # sub_rx e r f (Some c) t"
  "match_at e r p (c # t) = Some (Suc n) \<Longrightarrow>
     sub_rx e r f p (c # t) = f (c # take n t) @ sub_rx e r f (Some (last (c # take n t))) (drop n t)"
  by (simp_all add: sub_rx.simps [of _ _ _ _ "[]"] sub_rx.simps [of _ _ _ _ "c # t"])

lemma findall_steps:
  "findall e r p [] = []"
  "match_at e r p (c # t) = None \<Longrightarrow> findall e r p (c # t) = findall e r (Some c) t"
  "match_at e r p (c # t) = Some 0 \<Longrightarrow> findall e r p (c # t) = findall e r (Some c) t"
  "match_at e r p (c # t) = Some (Suc n) \<Longrightarrow>
     findall e r p (c # t) = (c # take n t) # findall e r (Some (last (c # take n t))) (drop n t)"
  by (simp_all add: findall.simps [of _ _ _ "[]"] findall.simps [of _ _ _ "c # t"])

lemma findall_match: "w \<in> set (findall e r p s) \<Longrightarrow> w \<noteq> [] \<and> (\<exists>q q'. mt q w q' r)"
proof (induction s arbitrary: p rule: length_induct)
  case (1 s)
  show ?case
  proof (cases s)
    case Nil
    with 1 show ?thesis by (simp add: findall_steps)
  next
    case (Cons c t)
    have IH: "w \<noteq> [] \<and> (\<exists>q q'. mt q w q' r)" if "w \<in> set (findall e r q t)" for q
      using 1(1) Cons that by auto
    show ?thesis
    proof (cases "match_at e r p s")
      case None
      with 1(2) Cons IH show ?thesis by (simp add: findall_steps)
    next
      case (Some m)
      show ?thesis
      proof (cases m)
        case 0
        with 1(2) Cons Some IH show ?thesis by (simp add: findall_steps)
      next
        case (Suc n)
        with Some Cons have mt: "mt p (c # take n t) (firstc (drop n t) None) r" using match_at_Some [OF Some] by simp
        have "w = c # take n t \<or> w \<in> set (findall e r (Some (last (c # take n t))) (drop n t))"
          using 1(2) Some unfolding Cons Suc by (simp only: findall_steps(4) list.set insert_iff)
        moreover have "length (drop n t) < length s" using Cons by simp
        ultimately show ?thesis using mt 1(1) by blast
      qed
    qed
  qed
qed

text \<open>A run of a character class: \<open>[class]{k,}\<close>.\<close>

definition run_rx :: "(char \<Rightarrow> bool) \<Rightarrow> nat \<Rightarrow> rx" where
  "run_rx f k = Seq (Rep k 0 (Cls f)) (Star (Cls f))"

lemma mt_Rep_Cls: "mt p w q (Rep k 0 (Cls f)) \<longleftrightarrow> length w = k \<and> list_all f w"
proof (induction k arbitrary: w p)
  case 0
  then show ?case by (auto simp: mt_Rep00_iff)
next
  case (Suc k)
  show ?case
  proof (cases w)
    case Nil
    then show ?thesis by (auto simp: mt_RepS_iff)
  next
    case (Cons c v)
    have "mt p ([c] @ v) q (Rep (Suc k) 0 (Cls f))" if "f c" "length v = k" "list_all f v"
      by (rule mt_RepS) (use that Suc.IH in auto)
    with Cons Suc.IH show ?thesis by (auto simp: mt_RepS_iff)
  qed
qed

lemma mt_Star_Cls_iff: "mt p w q (Star (Cls f)) \<longleftrightarrow> list_all f w"
proof
  show "mt p w q (Star (Cls f)) \<Longrightarrow> list_all f w"
    using mt_only_chars [of p w q "Star (Cls f)" f] by (auto simp: list_all_iff)
qed (rule mt_Star_Cls)

lemma mt_run: "mt p w q (run_rx f k) \<longleftrightarrow> k \<le> length w \<and> list_all f w"
proof
  assume "mt p w q (run_rx f k)"
  then show "k \<le> length w \<and> list_all f w"
    by (auto simp: run_rx_def mt_Seq_iff mt_Rep_Cls mt_Star_Cls_iff)
next
  assume "k \<le> length w \<and> list_all f w"
  then have "mt p (take k w @ drop k w) q (run_rx f k)"
    unfolding run_rx_def by (intro mt_Seq) (auto simp: mt_Rep_Cls mt_Star_Cls_iff list_all_iff dest: in_set_takeD in_set_dropD)
  then show "mt p w q (run_rx f k)" by simp
qed

lemma takeWhile_prefix: "list_all f (take n s) \<Longrightarrow> n \<le> length s \<Longrightarrow> n \<le> length (takeWhile f s)"
proof (induction s arbitrary: n)
  case (Cons a s)
  then show ?case by (cases n) auto
qed simp

lemma match_run:
  "match_at Longest (run_rx f k) p s = (if k \<le> length (takeWhile f s) then Some (length (takeWhile f s)) else None)"
proof (cases "k \<le> length (takeWhile f s)")
  case True
  let ?n = "length (takeWhile f s)"
  have m: "mt p (take ?n s) q (run_rx f k)" for q
  proof -
    have "take ?n s = takeWhile f s" by (rule takeWhile_eq_take [symmetric])
    then show ?thesis using True by (auto simp: mt_run list_all_iff dest: set_takeWhileD)
  qed
  have l: "?n \<le> length s" by (rule length_takeWhile_le)
  then have "match_at Longest (run_rx f k) p s \<noteq> None"
    unfolding match_at_None not_all not_imp not_not using m by (intro exI [of _ ?n]) simp
  then obtain n where n: "match_at Longest (run_rx f k) p s = Some n" by blast
  have "n \<le> ?n" using match_at_Some [OF n] takeWhile_prefix by (auto simp: mt_run)
  moreover have "?n \<le> n" using match_at_longest [OF n l m] .
  ultimately show ?thesis using n True by simp
next
  case False
  have "match_at Longest (run_rx f k) p s = None"
    unfolding match_at_None mt_run using False takeWhile_prefix by fastforce
  with False show ?thesis by simp
qed

text \<open>
  Replacing every run of at least \<open>k\<close> characters of a class, by a text that has no character of the
  class at its ends, leaves shorter runs only.
\<close>

fun runs_below :: "(char \<Rightarrow> bool) \<Rightarrow> nat \<Rightarrow> string \<Rightarrow> bool" where
  "runs_below f k [] = True"
| "runs_below f k (c # s) = (length (takeWhile f (c # s)) < k \<and> runs_below f k s)"

lemma runs_below_no_match:
  assumes "runs_below f k s" "0 < k" "s = u @ w @ v" "k \<le> length w"
  shows "\<not> list_all f w"
  using assms
proof (induction s arbitrary: u)
  case Nil
  then show ?case by simp
next
  case (Cons c s)
  show ?case
  proof (cases u)
    case Nil
    show ?thesis
    proof
      assume a: "list_all f w"
      then have "length w \<le> length (takeWhile f (c # s))"
        using Cons.prems(3) Nil by (simp add: takeWhile_append2 list_all_iff)
      moreover have "length (takeWhile f (c # s)) < k" using Cons.prems(1) by (simp only: runs_below.simps)
      ultimately show False using Cons.prems(4) by linarith
    qed
  next
    case (Cons d u')
    with Cons.IH [of u'] Cons.prems show ?thesis by simp
  qed
qed

lemma runs_below_append:
  "runs_below f k u \<Longrightarrow> u \<noteq> [] \<Longrightarrow> \<not> f (last u) \<Longrightarrow> runs_below f k v \<Longrightarrow> runs_below f k (u @ v)"
proof (induction u)
  case (Cons c u)
  have "takeWhile f ((c # u) @ v) = takeWhile f (c # u)"
    using Cons.prems(3) by (intro takeWhile_append1 [of "last (c # u)"]) auto
  then show ?case
    using Cons by (cases u) (auto split: if_splits)
qed simp

lemma sub_runs:
  assumes "0 < k" "R \<noteq> []" "\<not> f (hd R)" "\<not> f (last R)" "runs_below f k R"
  shows "runs_below f k (sub_rx Longest (run_rx f k) (\<lambda>_. R) p s) \<and>
    (length (takeWhile f s) < k \<longrightarrow> takeWhile f (sub_rx Longest (run_rx f k) (\<lambda>_. R) p s) = takeWhile f s)"
proof (induction s arbitrary: p rule: length_induct)
  case (1 s)
  let ?sub = "sub_rx Longest (run_rx f k) (\<lambda>_. R)"
  show ?case
  proof (cases s)
    case Nil
    then show ?thesis by (simp add: sub_rx_steps)
  next
    case (Cons c t)
    show ?thesis
    proof (cases "k \<le> length (takeWhile f s)")
      case True
      obtain n where n: "length (takeWhile f s) = Suc n" using True assms(1) by (cases "length (takeWhile f s)") auto
      then have "match_at Longest (run_rx f k) p s = Some (Suc n)"
        using match_run [of f k p s] True by (simp only: if_True)
      then have e: "?sub p s = R @ ?sub (Some (last (c # take n t))) (drop n t)"
        unfolding Cons by (rule sub_rx_steps)
      have "length (drop n t) < length s" using Cons by simp
      then have "runs_below f k (?sub (Some (last (c # take n t))) (drop n t))" using 1 by blast
      with e assms True show ?thesis by (simp add: runs_below_append)
    next
      case False
      then have "match_at Longest (run_rx f k) p s = None"
        using match_run [of f k p s] by (simp only: if_False)
      then have e: "?sub p s = c # ?sub (Some c) t"
        unfolding Cons by (rule sub_rx_steps)
      have IH: "runs_below f k (?sub (Some c) t)"
        "length (takeWhile f t) < k \<longrightarrow> takeWhile f (?sub (Some c) t) = takeWhile f t"
        using 1 Cons by auto
      have "takeWhile f (?sub p s) = takeWhile f s"
        using False Cons e IH(2) by auto
      with e IH(1) False show ?thesis by (metis not_le runs_below.simps(2))
    qed
  qed
qed

end
