(* ===== verification/Rca_Sanitize.thy ===== *)
theory Rca_Sanitize
  imports PyOps Text_Sub
begin

section \<open>Redaction and tokens (rca\_engine/sanitize.py, rca\_engine/tokenization.py)\<close>

text \<open>
  Free text is redacted by a list of patterns and a last rule that removes long unbroken words;
  structured values are walked with limits on depth, keys and nodes; a signature is shown only if
  it is certified, and otherwise becomes an opaque token. SHA-256 (as lower-case hexadecimal) is
  the parameter \<open>sha\<close>. Decoded JSON is a tree, so the guard against cyclic values is not modelled.
\<close>

subsection \<open>Tokens\<close>

definition TOKEN_PEPPER :: string where "TOKEN_PEPPER = ''rca_engine.tokenization/1.0.0''"

definition derive_token :: "(string \<Rightarrow> string) \<Rightarrow> string \<Rightarrow> string \<Rightarrow> string \<Rightarrow> string" where
  "derive_token sha namespace incident_id raw =
     take 16 (sha (TOKEN_PEPPER @ ''|'' @ namespace @ ''|'' @ incident_id @ ''|'' @ raw))"

definition derive_target_token :: "(string \<Rightarrow> string) \<Rightarrow> string \<Rightarrow> string option \<Rightarrow> string option" where
  "derive_target_token sha incident_id raw = map_option (\<lambda>r. ''TGT-'' @ derive_token sha ''target_id'' incident_id r) raw"

definition derive_source_token :: "(string \<Rightarrow> string) \<Rightarrow> string \<Rightarrow> string option \<Rightarrow> string option" where
  "derive_source_token sha incident_id raw = map_option (\<lambda>r. ''SRC-'' @ derive_token sha ''source_id'' incident_id r) raw"

definition derive_signature_token :: "(string \<Rightarrow> string) \<Rightarrow> string \<Rightarrow> string option \<Rightarrow> string option" where
  "derive_signature_token sha incident_id raw = map_option (\<lambda>r. ''SIG-'' @ derive_token sha ''signature'' incident_id r) raw"

subsection \<open>Patterns\<close>

definition REDACTED :: string where "REDACTED = ''[REDACTED]''"
definition MAX_DEPTH :: nat where "MAX_DEPTH = 6"
definition MAX_STRING_LEN :: nat where "MAX_STRING_LEN = 2000"
definition MAX_LIST_LEN :: nat where "MAX_LIST_LEN = 200"
definition MAX_DICT_KEYS :: nat where "MAX_DICT_KEYS = 200"
definition MAX_TOTAL_NODES :: int where "MAX_TOTAL_NODES = 5000"

definition space_rx :: rx where "space_rx = Cls is_space"
definition nonspace_rx :: rx where "nonspace_rx = Cls (\<lambda>c. \<not> is_space c)"
definition upper_space :: rx where "upper_space = Star (Cls (\<lambda>c. is_upper c \<or> c = CHR '' ''))"

definition CERTIFIED_CODE_PATTERN :: rx where
  "CERTIFIED_CODE_PATTERN = seqs [alts (map lit [''ORA'', ''TNS'', ''RMAN'', ''CRS'', ''LSNR'', ''PLS'']), lit ''-'',
     Rep 3 3 (Cls is_digit)]"

definition KEY_VALUE_SECRET :: rx where
  "KEY_VALUE_SECRET = seqs [Bnd, alts [ilit ''password'', ilit ''pwd'', ilit ''passwd'', ilit ''secret'',
     seqs [ilit ''api'', opt (Cls (\<lambda>c. c \<in> set ''_-'')), ilit ''key''], ilit ''apikey'', ilit ''token'', ilit ''authorization''],
     Star space_rx, Cls (\<lambda>c. c \<in> set '':=''), Star space_rx, plus1 nonspace_rx]"

definition BEARER_TOKEN :: rx where
  "BEARER_TOKEN = seqs [Bnd, ilit ''Bearer'', plus1 space_rx, plus1 nonspace_rx]"

definition AWS_ACCESS_KEY :: rx where
  "AWS_ACCESS_KEY = seqs [Bnd, lit ''AKIA'', Rep 16 0 (Cls (\<lambda>c. is_digit c \<or> is_upper c)), Bnd]"

definition PEM_PRIVATE_KEY :: rx where
  "PEM_PRIVATE_KEY = seqs [lit ''-----BEGIN '', upper_space, lit ''PRIVATE KEY-----'', anything,
     lit ''-----END '', upper_space, lit ''PRIVATE KEY-----'']"

definition is_hex :: "char \<Rightarrow> bool" where "is_hex c \<longleftrightarrow> is_digit c \<or> btw 97 102 c \<or> btw 65 70 c"

definition LONG_HEX_HASH :: rx where "LONG_HEX_HASH = seqs [Bnd, run_rx is_hex 32, Bnd]"

definition CONNECTION_STRING_CREDENTIALS :: rx where
  "CONNECTION_STRING_CREDENTIALS = (let part = Cls (\<lambda>c. c \<notin> set ''/:@'' \<and> \<not> is_space c) in
     seqs [Cls is_letter, Star (Cls (\<lambda>c. is_word c \<or> c \<in> set ''+.-'')), lit ''://'', plus1 part, lit '':'', plus1 part, lit ''@''])"

definition token_char :: "char \<Rightarrow> bool" where
  "token_char c \<longleftrightarrow> is_alnum c \<or> c \<in> set ''_+/=-''"

definition BARE_TOKEN_WORD :: rx where "BARE_TOKEN_WORD = run_rx token_char 20"

definition STRUCTURED_PATTERNS :: "rx list" where
  "STRUCTURED_PATTERNS = [KEY_VALUE_SECRET, BEARER_TOKEN, AWS_ACCESS_KEY, PEM_PRIVATE_KEY, LONG_HEX_HASH]"

definition looks_like_bare_secret :: "string \<Rightarrow> bool" where
  "looks_like_bare_secret w = fullmatch BARE_TOKEN_WORD w"

subsection \<open>Text\<close>

text \<open>The replacement of a key-value match keeps group 1, the keyword: it ends before the separator.\<close>

definition key_of_match :: "string \<Rightarrow> string" where
  "key_of_match m = takeWhile (\<lambda>c. is_letter c \<or> c \<in> set ''_-'') m"

definition sanitize_str :: "string \<Rightarrow> string" where
  "sanitize_str value =
     (let a = sub_rx Longest KEY_VALUE_SECRET (\<lambda>m. key_of_match m @ ''='' @ REDACTED) None value;
          b = sub_rx Longest BEARER_TOKEN (\<lambda>_. REDACTED) None a;
          c = sub_rx Longest AWS_ACCESS_KEY (\<lambda>_. REDACTED) None b;
          d = sub_rx Shortest PEM_PRIVATE_KEY (\<lambda>_. REDACTED) None c;
          e = sub_rx Longest LONG_HEX_HASH (\<lambda>_. REDACTED) None d
      in sub_rx Longest BARE_TOKEN_WORD (\<lambda>m. if looks_like_bare_secret m then REDACTED else m) None e)"

definition sanitize_text :: "string option \<Rightarrow> string option" where
  "sanitize_text value = (case value of None \<Rightarrow> None | Some s \<Rightarrow> if s = [] then Some s else Some (sanitize_str s))"

definition structured_secret :: "string \<Rightarrow> bool" where
  "structured_secret s \<longleftrightarrow> list_ex (\<lambda>p. search p s) STRUCTURED_PATTERNS"

definition key_contains_narrow_secret_pattern :: "string \<Rightarrow> bool" where
  "key_contains_narrow_secret_pattern key \<longleftrightarrow>
     key \<noteq> [] \<and> (structured_secret key \<or> search CONNECTION_STRING_CREDENTIALS key)"

definition contains_secret_pattern :: "string option \<Rightarrow> bool" where
  "contains_secret_pattern value = (case value of None \<Rightarrow> False | Some s \<Rightarrow>
     s \<noteq> [] \<and> (structured_secret s \<or> search CONNECTION_STRING_CREDENTIALS s
       \<or> list_ex looks_like_bare_secret (findall Longest BARE_TOKEN_WORD None s)))"

text \<open>\<open>text.replace(raw, replacement)\<close> for a non-empty \<open>raw\<close>.\<close>

function replace_all :: "string \<Rightarrow> string \<Rightarrow> string \<Rightarrow> string" where
  "replace_all raw new s = (case split_first raw s of
      None \<Rightarrow> s
    | Some (a, b) \<Rightarrow> if raw = [] then s else a @ new @ replace_all raw new b)"
  by pat_completeness auto
termination
  by (relation "measure (\<lambda>(raw, new, s). length s)") (auto dest: split_first_shorter)

declare replace_all.simps [simp del]

definition substitute_literal :: "string option \<Rightarrow> string option \<Rightarrow> string \<Rightarrow> string option" where
  "substitute_literal t raw replacement = (case (t, raw) of
      (Some s, Some r) \<Rightarrow> if s = [] \<or> r = [] then t else Some (replace_all r replacement s)
    | _ \<Rightarrow> t)"

subsection \<open>Signatures\<close>

datatype signature_status = CERTIFIED | UNRECOGNIZED_SIGNATURE | SIGNATURE_ABSENT

definition classify_signature :: "(string \<Rightarrow> string) \<Rightarrow> string option \<Rightarrow> string \<Rightarrow> string list
    \<Rightarrow> signature_status \<times> string option \<times> string option" where
  "classify_signature sha raw incident_id certified = (case raw of
      None \<Rightarrow> (SIGNATURE_ABSENT, None, None)
    | Some s \<Rightarrow>
        if match_dollar CERTIFIED_CODE_PATTERN s \<or> s \<in> set certified then (CERTIFIED, Some s, None)
        else (UNRECOGNIZED_SIGNATURE, None, derive_signature_token sha incident_id (Some s)))"

subsection \<open>Structured values\<close>

datatype san_error = TooDeep | TooManyNodes | TooManyKeys | NotAnObject

fun deep_sanitize :: "nat \<Rightarrow> json \<Rightarrow> int \<Rightarrow> san_error + json \<times> int"
  and sanitize_items :: "nat \<Rightarrow> (string \<times> json) list \<Rightarrow> int \<Rightarrow> (string \<times> json) list \<Rightarrow> san_error + (string \<times> json) list \<times> int"
  and sanitize_elems :: "nat \<Rightarrow> nat \<Rightarrow> json list \<Rightarrow> int \<Rightarrow> json list \<Rightarrow> san_error + json list \<times> int" where
  "deep_sanitize depth value budget =
     (if MAX_DEPTH < depth then Inl TooDeep
      else if budget - 1 < 0 then Inl TooManyNodes
      else (case value of
          JObj kvs \<Rightarrow> if MAX_DICT_KEYS < length kvs then Inl TooManyKeys
            else bindE (sanitize_items (Suc depth) kvs (budget - 1) []) (\<lambda>(out, b). Inr (JObj out, b))
        | JArr xs \<Rightarrow> bindE (sanitize_elems (Suc depth) MAX_LIST_LEN xs (budget - 1) []) (\<lambda>(out, b). Inr (JArr out, b))
        | JFloat x \<Rightarrow> Inr (if is_finite x then JFloat x else JNull, budget - 1)
        | JStr s \<Rightarrow> Inr (JStr (take MAX_STRING_LEN (if s = [] then s else sanitize_str s)), budget - 1)
        | _ \<Rightarrow> Inr (value, budget - 1)))"
| "sanitize_items depth [] budget out = Inr (out, budget)"
| "sanitize_items depth ((k, v) # kvs) budget out =
     (if key_contains_narrow_secret_pattern k then sanitize_items depth kvs budget out
      else bindE (deep_sanitize depth v budget) (\<lambda>(w, b). sanitize_items depth kvs b (dset (take 200 k) w out)))"
| "sanitize_elems depth n [] budget out = Inr (out, budget)"
| "sanitize_elems depth n (x # xs) budget out =
     (if n = 0 then Inr (out, budget)
      else bindE (deep_sanitize depth x budget) (\<lambda>(w, b). sanitize_elems depth (n - 1) xs b (out @ [w])))"

definition typed_scalar :: "json \<Rightarrow> bool" where
  "typed_scalar v \<longleftrightarrow> is_bool v \<or> is_number v"

definition typed_items :: "string list \<Rightarrow> json \<Rightarrow> (string \<times> json) list" where
  "typed_items allowed safe = (case safe of
      JObj out \<Rightarrow> filter (\<lambda>(k, v). k \<in> set allowed \<and> typed_scalar v) out
    | _ \<Rightarrow> [])"

definition sanitize_attributes :: "json \<Rightarrow> string list \<Rightarrow> san_error + (string \<times> json) list" where
  "sanitize_attributes raw allowed =
     (if \<not> is_obj raw then Inl NotAnObject
      else bindE (deep_sanitize 0 raw MAX_TOTAL_NODES) (\<lambda>(safe, _). Inr (typed_items allowed safe)))"

subsection \<open>What survives\<close>

lemma sub_rx_same:
  assumes "\<And>m q q'. mt q m q' r \<Longrightarrow> f m = g m"
  shows "sub_rx e r f p s = sub_rx e r g p s"
proof (induction s arbitrary: p rule: length_induct)
  case (1 s)
  show ?case
  proof (cases s)
    case Nil
    then show ?thesis by (simp add: sub_rx_steps)
  next
    case (Cons c t)
    have IH: "sub_rx e r f q u = sub_rx e r g q u" if "length u \<le> length t" for q u
      using 1 that Cons by simp
    show ?thesis
    proof (cases "match_at e r p s")
      case None
      then show ?thesis using IH [of t] unfolding Cons by (simp add: sub_rx_steps)
    next
      case (Some m)
      show ?thesis
      proof (cases m)
        case 0
        then show ?thesis using IH [of t] Some unfolding Cons by (simp add: sub_rx_steps)
      next
        case (Suc n)
        then have "mt p (c # take n t) (firstc (drop n t) None) r"
          using match_at_Some [OF Some] Cons by simp
        then have "f (c # take n t) = g (c # take n t)" by (rule assms)
        then show ?thesis using IH [of "drop n t"] Some Suc unfolding Cons by (simp only: sub_rx_steps length_drop)
      qed
    qed
  qed
qed

lemma bare_token_match: "mt q m q' BARE_TOKEN_WORD \<Longrightarrow> looks_like_bare_secret m"
  by (simp add: looks_like_bare_secret_def fullmatch_iff BARE_TOKEN_WORD_def mt_run)

lemma redacted_runs: "runs_below token_char 20 REDACTED \<and> \<not> token_char (hd REDACTED) \<and> \<not> token_char (last REDACTED)"
  by code_simp

lemma sanitize_str_runs: "runs_below token_char 20 (sanitize_str s)"
proof -
  have "sub_rx Longest BARE_TOKEN_WORD (\<lambda>m. if looks_like_bare_secret m then REDACTED else m) None e
      = sub_rx Longest (run_rx token_char 20) (\<lambda>_. REDACTED) None e" for e
    unfolding BARE_TOKEN_WORD_def [symmetric] by (rule sub_rx_same) (simp add: bare_token_match)
  moreover have "runs_below token_char 20 (sub_rx Longest (run_rx token_char 20) (\<lambda>_. REDACTED) None e)" for e
    by (rule sub_runs [THEN conjunct1]) (use redacted_runs in \<open>auto simp: REDACTED_def\<close>)
  ultimately show ?thesis by (simp add: sanitize_str_def Let_def)
qed

lemma takeWhile_take_le: "length (takeWhile f (take n s)) \<le> length (takeWhile f s)"
proof (induction s arbitrary: n)
  case (Cons c s)
  then show ?case by (cases n) auto
qed simp

lemma runs_below_take: "runs_below f k s \<Longrightarrow> runs_below f k (take n s)"
proof (induction s arbitrary: n)
  case (Cons c s)
  show ?case
  proof (cases n)
    case (Suc m)
    have "length (takeWhile f (take n (c # s))) \<le> length (takeWhile f (c # s))" by (rule takeWhile_take_le)
    with Cons Suc show ?thesis by simp
  qed simp
qed simp

text \<open>A text of the output: bounded, and without an unbroken word of twenty token characters.\<close>

definition safe_text :: "string \<Rightarrow> bool" where
  "safe_text s \<longleftrightarrow> length s \<le> MAX_STRING_LEN \<and> runs_below token_char 20 s"

fun safe_value :: "json \<Rightarrow> bool" where
  "safe_value (JStr s) = safe_text s"
| "safe_value (JFloat x) = is_finite x"
| "safe_value (JArr xs) = (length xs \<le> MAX_LIST_LEN \<and> (\<forall>x \<in> set xs. safe_value x))"
| "safe_value (JObj kvs) = (\<forall>kv \<in> set kvs. length (fst kv) \<le> 200 \<and> safe_value (snd kv))"
| "safe_value _ = True"

lemma safe_text_clean [simp]: "safe_text []" "safe_text (take MAX_STRING_LEN (sanitize_str s))"
  by (auto simp: safe_text_def intro: runs_below_take sanitize_str_runs)

abbreviation safe_at :: "nat \<Rightarrow> json \<Rightarrow> bool" where
  "safe_at d v \<equiv> safe_value v \<and> d \<le> MAX_DEPTH \<and> jdepth v \<le> MAX_DEPTH - d"

lemma deep_sanitize_safe:
  "\<forall>w b'. deep_sanitize d v b = Inr (w, b') \<longrightarrow> safe_at d w"
  "\<forall>kvs' b'. sanitize_items di kvs b out = Inr (kvs', b') \<longrightarrow>
     (\<forall>kv \<in> set out. length (fst kv) \<le> 200 \<and> safe_at di (snd kv)) \<longrightarrow>
     (\<forall>kv \<in> set kvs'. length (fst kv) \<le> 200 \<and> safe_at di (snd kv))"
  "\<forall>xs' b'. sanitize_elems dx n xs b acc = Inr (xs', b') \<longrightarrow> (\<forall>x \<in> set acc. safe_at dx x) \<longrightarrow>
     (\<forall>x \<in> set xs'. safe_at dx x) \<and> length xs' \<le> length acc + n"
proof (induction d v b and di kvs b out and dx n xs b acc
    rule: deep_sanitize_sanitize_items_sanitize_elems.induct)
  case (1 depth v0 budget)
  show ?case
  proof (intro allI impI)
    fix w b' assume a: "deep_sanitize depth v0 budget = Inr (w, b')"
    then have g: "\<not> MAX_DEPTH < depth" "\<not> budget - 1 < 0" by (auto split: if_splits)
    show "safe_at depth w"
    proof (cases v0)
      case (JArr xs)
      with a obtain out c where e: "sanitize_elems (Suc depth) MAX_LIST_LEN xs (budget - 1) [] = Inr (out, c)" "w = JArr out"
        by (auto simp: bindE_Inr split: if_splits)
      with 1(1) [OF g JArr] g show ?thesis by auto
    next
      case (JObj kvs)
      with a obtain out c where e: "sanitize_items (Suc depth) kvs (budget - 1) [] = Inr (out, c)" "w = JObj out"
        and l: "\<not> MAX_DICT_KEYS < length kvs"
        by (auto simp: bindE_Inr split: if_splits)
      with 1(2) [OF g JObj l] g show ?thesis by auto
    qed (use a g in \<open>auto split: if_splits simp: is_finite_def\<close>)
  qed
next
  case (3 depth k v kvs budget out)
  show ?case
  proof (cases "key_contains_narrow_secret_pattern k")
    case True
    show ?thesis by (simp only: sanitize_items.simps True if_True) (rule 3(1) [OF True])
  next
    case False
    show ?thesis
    proof (intro allI impI)
      fix kvs' b'
      assume a: "sanitize_items depth ((k, v) # kvs) budget out = Inr (kvs', b')"
        and o: "\<forall>kv \<in> set out. length (fst kv) \<le> 200 \<and> safe_at depth (snd kv)"
      from a False obtain u c where u: "deep_sanitize depth v budget = Inr (u, c)"
        "sanitize_items depth kvs c (dset (take 200 k) u out) = Inr (kvs', b')"
        by (auto simp: bindE_Inr)
      from 3(2) [OF False] u(1) have "safe_at depth u" by blast
      with o have "\<forall>kv \<in> set (dset (take 200 k) u out). length (fst kv) \<le> 200 \<and> safe_at depth (snd kv)"
        by (intro ball_dset) auto
      with 3(3) [OF False u(1) refl] u(2)
      show "\<forall>kv \<in> set kvs'. length (fst kv) \<le> 200 \<and> safe_at depth (snd kv)" by blast
    qed
  qed
next
  case (5 depth n x xs budget out)
  show ?case
  proof (cases "n = 0")
    case True
    then show ?thesis by simp
  next
    case False
    show ?thesis
    proof (intro allI impI)
      fix xs' b'
      assume a: "sanitize_elems depth n (x # xs) budget out = Inr (xs', b')" and o: "\<forall>x \<in> set out. safe_at depth x"
      from a False obtain u c where u: "deep_sanitize depth x budget = Inr (u, c)"
        "sanitize_elems depth (n - 1) xs c (out @ [u]) = Inr (xs', b')"
        by (auto simp: bindE_Inr)
      from 5(1) [OF False] u(1) have "safe_at depth u" by blast
      with o 5(2) [OF False u(1) refl] u(2) False
      show "(\<forall>x \<in> set xs'. safe_at depth x) \<and> length xs' \<le> length out + n" by auto
    qed
  qed
qed auto

declare deep_sanitize.simps [simp del]

text \<open>
  Redaction of free text always removes opaque words. Whatever the text, no unbroken word of
  twenty or more token characters occurs anywhere in the redacted text.
\<close>

theorem sanitize_text_no_bare_token:
  assumes "sanitize_text (Some s) = Some t" and "t = u @ w @ v" and "20 \<le> length w"
  shows "\<not> list_all token_char w"
proof -
  have "runs_below token_char 20 t"
    using assms(1) sanitize_str_runs by (auto simp: sanitize_text_def split: if_splits)
  from runs_below_no_match [OF this _ assms(2,3)] show ?thesis by simp
qed

theorem sanitize_text_no_bare_token_witness:
  "\<not> list_all token_char ''x [REDACTED] is a secret''"
proof -
  have "sanitize_text (Some ''x AAAABBBBCCCCDDDDEEEE is a secret'') = Some ''x [REDACTED] is a secret''" by code_simp
  from sanitize_text_no_bare_token [OF this, of "[]" "''x [REDACTED] is a secret''" "[]"] show ?thesis by simp
qed

text \<open>
  The attributes that reach causal reasoning have only keys of the rules catalog, and each
  value is a boolean or a finite number: no text, container or null of the input survives. And any
  value that deep sanitization accepts is at most six levels deep with bounded, redacted texts.
\<close>

theorem sanitize_attributes_typed:
  assumes "sanitize_attributes raw allowed = Inr out"
  shows "\<forall>(k, v) \<in> set out. k \<in> set allowed \<and> (case v of JBool _ \<Rightarrow> True | JInt _ \<Rightarrow> True | JFloat x \<Rightarrow> is_finite x | _ \<Rightarrow> False) \<and>
    (\<exists>safe b. deep_sanitize 0 raw MAX_TOTAL_NODES = Inr (JObj safe, b) \<and> (k, v) \<in> set safe \<and>
       safe_value (JObj safe) \<and> jdepth (JObj safe) \<le> MAX_DEPTH)"
proof -
  from assms obtain safe b where s: "deep_sanitize 0 raw MAX_TOTAL_NODES = Inr (safe, b)"
    and o: "out = typed_items allowed safe"
    unfolding sanitize_attributes_def by (auto simp: bindE_Inr split: if_splits)
  have sv: "safe_value safe" "jdepth safe \<le> MAX_DEPTH" using deep_sanitize_safe(1) s by fastforce+
  have kv: "k \<in> set allowed \<and> (case v of JBool _ \<Rightarrow> True | JInt _ \<Rightarrow> True | JFloat x \<Rightarrow> is_finite x | _ \<Rightarrow> False) \<and>
      (\<exists>kvs. safe = JObj kvs \<and> (k, v) \<in> set kvs)" if "(k, v) \<in> set out" for k v
    using that o sv(1) by (cases safe) (auto simp: typed_items_def typed_scalar_def json_tests split: json.splits)
  show ?thesis
  proof (clarify)
    fix k v assume "(k, v) \<in> set out"
    with kv obtain kvs where "safe = JObj kvs" "(k, v) \<in> set kvs" by blast
    with kv [OF \<open>(k, v) \<in> set out\<close>] s sv show "k \<in> set allowed \<and>
       (case v of JBool _ \<Rightarrow> True | JInt _ \<Rightarrow> True | JFloat x \<Rightarrow> is_finite x | _ \<Rightarrow> False) \<and>
       (\<exists>safe b. deep_sanitize 0 raw MAX_TOTAL_NODES = Inr (JObj safe, b) \<and> (k, v) \<in> set safe \<and>
          safe_value (JObj safe) \<and> jdepth (JObj safe) \<le> MAX_DEPTH)" by blast
  qed
qed

theorem sanitize_attributes_typed_witness:
  "sanitize_attributes (JObj [(''cpu'', JInt 3), (''host'', JStr ''db1'')]) [''cpu''] = Inr [(''cpu'', JInt 3)] \<and> ''cpu'' \<in> set [''cpu'']"
proof -
  have e: "sanitize_attributes (JObj [(''cpu'', JInt 3), (''host'', JStr ''db1'')]) [''cpu''] = Inr [(''cpu'', JInt 3)]"
    by code_simp
  from sanitize_attributes_typed [OF e] e show ?thesis by auto
qed

text \<open>
  A signature that is not certified is never shown: its classification has no literal signature
  and depends on the raw text only through the hash; the token has a fixed length.
\<close>

theorem signature_never_raw:
  assumes "\<forall>x. length (sha x) = 64"
  shows "case classify_signature sha (Some raw) inc certified of
      (CERTIFIED, canonical, token) \<Rightarrow> canonical = Some raw \<and> token = None \<and>
         (raw \<in> set certified \<or> match_dollar CERTIFIED_CODE_PATTERN raw)
    | (UNRECOGNIZED_SIGNATURE, canonical, token) \<Rightarrow> canonical = None \<and>
         (\<exists>t. token = Some t \<and> length t = 20 \<and> take 4 t = ''SIG-'') \<and>
         (\<forall>raw'. sha (TOKEN_PEPPER @ ''|signature|'' @ inc @ ''|'' @ raw') = sha (TOKEN_PEPPER @ ''|signature|'' @ inc @ ''|'' @ raw) \<longrightarrow>
            derive_signature_token sha inc (Some raw') = token)
    | (SIGNATURE_ABSENT, _, _) \<Rightarrow> False"
  using assms by (auto simp: classify_signature_def derive_signature_token_def derive_token_def)

theorem signature_never_raw_witness:
  "classify_signature (\<lambda>_. replicate 64 CHR ''0'') (Some ''MY SIG'') ''INC-1'' [] =
     (UNRECOGNIZED_SIGNATURE, None, Some (''SIG-'' @ replicate 16 CHR ''0''))"
proof -
  have "fst (classify_signature (\<lambda>_. replicate 64 CHR ''0'') (Some ''MY SIG'') ''INC-1'' []) = UNRECOGNIZED_SIGNATURE"
    by code_simp
  moreover have "snd (snd (classify_signature (\<lambda>_. replicate 64 CHR ''0'') (Some ''MY SIG'') ''INC-1'' []))
      = Some (''SIG-'' @ replicate 16 CHR ''0'')" by code_simp
  moreover have "\<forall>x::string. length (replicate 64 CHR ''0'') = 64" by simp
  note signature_never_raw [OF this, where raw = "''MY SIG''" and inc = "''INC-1''" and certified = "[]"]
  ultimately show ?thesis
    by (cases "classify_signature (\<lambda>_. replicate 64 CHR ''0'') (Some ''MY SIG'') ''INC-1'' []") auto
qed

text \<open>
  Two gaps of the redaction. Credentials inside a connection string are not redacted by
  \<open>sanitize_text\<close> (the pattern is only consulted by the detectors), and a redacted key-value pair is
  still reported as a secret by \<open>contains_secret_pattern\<close>.
\<close>

lemma connection_string_not_redacted:
  "sanitize_text (Some ''db://u:p@h'') = Some ''db://u:p@h'' \<and> contains_secret_pattern (Some ''db://u:p@h'')"
  by code_simp

lemma redacted_pair_still_flagged:
  "sanitize_text (Some ''pwd=x'') = Some ''pwd=[REDACTED]'' \<and> contains_secret_pattern (sanitize_text (Some ''pwd=x''))"
  by code_simp

end
