(* ===== verification/Canonical_Json.thy ===== *)
theory Canonical_Json
  imports PyOps "HOL-Library.Multiset"
begin

section \<open>Canonical JSON text\<close>

text \<open>
  \<open>json.dumps(obj, sort_keys=True, separators=(",", ":"), ensure_ascii=True)\<close>, the text that every
  digest of the program is computed over. The shortest decimal text of a finite float is the
  parameter \<open>frepr\<close>.
\<close>

definition hex_digit :: "nat \<Rightarrow> char" where
  "hex_digit n = (if n < 10 then char_of (48 + n) else char_of (87 + n))"

definition escape_char :: "char \<Rightarrow> string" where
  "escape_char c = (let n = ord c in
     if n = 34 then [CHR 0x5C, c] else if n = 92 then [c, c]
     else if n = 10 then [CHR 0x5C, CHR ''n''] else if n = 13 then [CHR 0x5C, CHR ''r'']
     else if n = 9 then [CHR 0x5C, CHR ''t''] else if n = 12 then [CHR 0x5C, CHR ''f'']
     else if n = 8 then [CHR 0x5C, CHR ''b'']
     else if n < 32 \<or> 126 < n then [CHR 0x5C, CHR ''u'', CHR ''0'', CHR ''0'', hex_digit (n div 16), hex_digit (n mod 16)]
     else [c])"

definition json_string :: "string \<Rightarrow> string" where
  "json_string s = [CHR 0x22] @ concat (map escape_char s) @ [CHR 0x22]"

definition float_text :: "(rat \<Rightarrow> string) \<Rightarrow> pyfloat \<Rightarrow> string" where
  "float_text frepr x = (case x of Fin r \<Rightarrow> frepr r | NaN \<Rightarrow> ''NaN'' | PInf \<Rightarrow> ''Infinity'' | NInf \<Rightarrow> ''-Infinity'')"

fun canonical_json :: "(rat \<Rightarrow> string) \<Rightarrow> json \<Rightarrow> string" where
  "canonical_json frepr JNull = ''null''"
| "canonical_json frepr (JBool b) = (if b then ''true'' else ''false'')"
| "canonical_json frepr (JInt i) = str_of_int i"
| "canonical_json frepr (JFloat x) = float_text frepr x"
| "canonical_json frepr (JStr s) = json_string s"
| "canonical_json frepr (JArr xs) = ''['' @ join_on '','' (map (canonical_json frepr) xs) @ '']''"
| "canonical_json frepr (JObj kvs) = ''{'' @ join_on '',''
     (map (\<lambda>(k, t). json_string k @ '':'' @ t) (sort_key fst (map (\<lambda>kv. (fst kv, canonical_json frepr (snd kv))) kvs))) @ ''}''"

text \<open>Reordering the keys of an object does not change its text.\<close>

lemma canonical_json_perm:
  assumes "distinct (map fst kvs)" "mset kvs = mset kvs'"
  shows "canonical_json frepr (JObj kvs) = canonical_json frepr (JObj kvs')"
proof -
  let ?f = "map (\<lambda>kv. (fst kv, canonical_json frepr (snd kv)))"
  have "mset (map fst kvs) = mset (map fst kvs')" by (simp only: mset_map assms(2))
  from mset_eq_imp_distinct_iff [OF this] have d': "distinct (map fst kvs')" using assms(1) by simp
  have st: "set (?f kvs) = set (?f kvs')" using mset_eq_setD [OF assms(2)] by simp
  have dk: "distinct (map fst (sort_key fst (?f xs)))" if "distinct (map fst xs)" for xs
  proof -
    have "mset (map fst (sort_key fst (?f xs))) = mset (map fst (?f xs))" by (simp only: mset_map mset_sort)
    then have "distinct (map fst (sort_key fst (?f xs))) = distinct (map fst (?f xs))" by (rule mset_eq_imp_distinct_iff)
    moreover have "map fst (?f xs) = map fst xs" by simp
    ultimately show ?thesis using that by (simp only:)
  qed
  have "sort_key fst (?f kvs) = sort_key fst (?f kvs')"
  proof (rule map_sorted_distinct_set_unique)
    show "inj_on fst (set (sort_key fst (?f kvs)) \<union> set (sort_key fst (?f kvs')))"
      using dk [OF assms(1)] st by (simp add: distinct_map)
  qed (use dk [OF assms(1)] dk [OF d'] st in simp_all)
  then show ?thesis by simp
qed

end
