(* ===== verification/Kb_Common.thy ===== *)
theory Kb_Common
  imports Canonical_Json Regex
begin

section \<open>Change, documentation and knowledge: shared constants (change\_documentation\_knowledge/common.py)\<close>

text \<open>
  The stable error codes with their fixed messages, the knowledge lifecycle with its transition
  table, and the digest that approvals are bound to. SHA-256 is the parameter \<open>sha\<close>.
\<close>

datatype adv_code =
    E_USAGE | E_INPUT_UNREADABLE | E_INPUT_TOO_LARGE | E_INPUT_INVALID | E_UNSUPPORTED_SCHEMA_VERSION | E_RCA_CONTRACT
  | E_REFERENCE | E_SANITIZATION_CDK | E_UNSAFE_CONTENT | E_PATH_ESCAPE | E_OUTPUT_EXISTS | E_OUTPUT_TOO_LARGE_CDK
  | E_AUTH_MISSING | E_AUTH_INVALID | E_AUTH_DIGEST_MISMATCH | E_AUTH_SELF_APPROVAL | E_TRANSITION_DENIED
  | E_QUALITY_GATE | E_CONFLICT | E_KB_NOT_FOUND | E_KB_INTEGRITY | E_IO | E_INTERNAL_CDK

definition ADV_MESSAGES :: "(string \<times> adv_code \<times> string) list" where
  "ADV_MESSAGES = [
    (''E_USAGE'', E_USAGE, ''invalid command line usage''),
    (''E_INPUT_UNREADABLE'', E_INPUT_UNREADABLE, ''input file could not be read''),
    (''E_INPUT_TOO_LARGE'', E_INPUT_TOO_LARGE, ''input exceeds the ingestion size limit''),
    (''E_INPUT_INVALID'', E_INPUT_INVALID, ''input violates the expected schema''),
    (''E_UNSUPPORTED_SCHEMA_VERSION'', E_UNSUPPORTED_SCHEMA_VERSION, ''schema/contract version is not supported (no silent migration)''),
    (''E_RCA_CONTRACT'', E_RCA_CONTRACT, ''RCA result does not satisfy the Phase 11 contract''),
    (''E_REFERENCE'', E_REFERENCE, ''artifact references an unknown or inconsistent id''),
    (''E_SANITIZATION'', E_SANITIZATION_CDK, ''structure could not be sanitized safely''),
    (''E_UNSAFE_CONTENT'', E_UNSAFE_CONTENT, ''content contains an executable or otherwise disallowed construct''),
    (''E_PATH_ESCAPE'', E_PATH_ESCAPE, ''path resolves outside the allowed directory''),
    (''E_OUTPUT_EXISTS'', E_OUTPUT_EXISTS, ''output already exists and will not be overwritten''),
    (''E_OUTPUT_TOO_LARGE'', E_OUTPUT_TOO_LARGE_CDK, ''generated output exceeds the size limit''),
    (''E_AUTH_MISSING'', E_AUTH_MISSING, ''external human authorization record is required''),
    (''E_AUTH_INVALID'', E_AUTH_INVALID, ''authorization record is malformed or not an approval''),
    (''E_AUTH_DIGEST_MISMATCH'', E_AUTH_DIGEST_MISMATCH, ''authorization does not match the current artifact digest/version''),
    (''E_AUTH_SELF_APPROVAL'', E_AUTH_SELF_APPROVAL, ''proposer cannot act as the human reviewer of its own artifact''),
    (''E_TRANSITION_DENIED'', E_TRANSITION_DENIED, ''lifecycle transition is not allowed''),
    (''E_QUALITY_GATE'', E_QUALITY_GATE, ''knowledge quality gate failed''),
    (''E_CONFLICT'', E_CONFLICT, ''duplicate or conflicting knowledge entry blocks this operation''),
    (''E_KB_NOT_FOUND'', E_KB_NOT_FOUND, ''knowledge entry or version not found''),
    (''E_KB_INTEGRITY'', E_KB_INTEGRITY, ''knowledge base integrity check failed''),
    (''E_IO'', E_IO, ''output could not be written''),
    (''E_INTERNAL'', E_INTERNAL_CDK, ''unexpected internal error (details suppressed)'')]"

text \<open>The exception carries a code and an optional field label of the package's own schema.\<close>

datatype adv_error = AdvErr adv_code "string option" | AdvCrash py_exc

abbreviation adverr :: "adv_code \<Rightarrow> adv_error + 'a" where
  "adverr c \<equiv> Inl (AdvErr c None)"

definition advcrash :: "py_exc + 'a \<Rightarrow> adv_error + 'a" where
  "advcrash m = map_sum AdvCrash id m"

lemma advcrash_Inr [simp]: "advcrash m = Inr x \<longleftrightarrow> m = Inr x"
  by (cases m) (auto simp: advcrash_def)

definition adv_name :: "adv_code \<Rightarrow> string" where
  "adv_name c = (case filter (\<lambda>(_, d, _). d = c) ADV_MESSAGES of (n, _) # _ \<Rightarrow> n | [] \<Rightarrow> [])"

definition adv_message :: "adv_code \<Rightarrow> string" where
  "adv_message c = (case filter (\<lambda>(_, d, _). d = c) ADV_MESSAGES of (_, _, m) # _ \<Rightarrow> m | [] \<Rightarrow> [])"

definition adv_render :: "adv_code \<Rightarrow> string option \<Rightarrow> string" where
  "adv_render c field = adv_name c @ '': '' @ adv_message c
     @ (case field of None \<Rightarrow> [] | Some f \<Rightarrow> if f = [] then [] else '' [field='' @ f @ '']'')"

subsection \<open>Knowledge lifecycle\<close>

datatype kb_state = CANDIDATE | DRAFT | PENDING_HUMAN_REVIEW | APPROVED_BY_HUMAN | PUBLISHED | REJECTED | REVIEW_DUE
  | DEPRECATED | RETIRED | SUPERSEDED

definition kb_states :: "kb_state list" where
  "kb_states = [CANDIDATE, DRAFT, PENDING_HUMAN_REVIEW, APPROVED_BY_HUMAN, PUBLISHED, REJECTED, REVIEW_DUE, DEPRECATED,
     RETIRED, SUPERSEDED]"

definition state_name :: "kb_state \<Rightarrow> string" where
  "state_name s = (case s of CANDIDATE \<Rightarrow> ''CANDIDATE'' | DRAFT \<Rightarrow> ''DRAFT'' | PENDING_HUMAN_REVIEW \<Rightarrow> ''PENDING_HUMAN_REVIEW''
     | APPROVED_BY_HUMAN \<Rightarrow> ''APPROVED_BY_HUMAN'' | PUBLISHED \<Rightarrow> ''PUBLISHED'' | REJECTED \<Rightarrow> ''REJECTED''
     | REVIEW_DUE \<Rightarrow> ''REVIEW_DUE'' | DEPRECATED \<Rightarrow> ''DEPRECATED'' | RETIRED \<Rightarrow> ''RETIRED'' | SUPERSEDED \<Rightarrow> ''SUPERSEDED'')"

definition state_of_name :: "string \<Rightarrow> kb_state option" where
  "state_of_name n = (case filter (\<lambda>s. state_name s = n) kb_states of s # _ \<Rightarrow> Some s | [] \<Rightarrow> None)"

definition CURRENT_GUIDANCE :: "kb_state list" where "CURRENT_GUIDANCE = [PUBLISHED, REVIEW_DUE]"

fun KB_TRANSITIONS :: "kb_state \<Rightarrow> kb_state list" where
  "KB_TRANSITIONS CANDIDATE = [DRAFT, REJECTED]"
| "KB_TRANSITIONS DRAFT = [PENDING_HUMAN_REVIEW, REJECTED]"
| "KB_TRANSITIONS PENDING_HUMAN_REVIEW = [APPROVED_BY_HUMAN, REJECTED, DRAFT]"
| "KB_TRANSITIONS APPROVED_BY_HUMAN = [PUBLISHED, REJECTED]"
| "KB_TRANSITIONS PUBLISHED = [REVIEW_DUE, DEPRECATED, SUPERSEDED]"
| "KB_TRANSITIONS REVIEW_DUE = [PUBLISHED, DEPRECATED, SUPERSEDED]"
| "KB_TRANSITIONS DEPRECATED = [RETIRED]"
| "KB_TRANSITIONS RETIRED = []"
| "KB_TRANSITIONS REJECTED = []"
| "KB_TRANSITIONS SUPERSEDED = [RETIRED]"

definition HUMAN_DECISION_TRANSITIONS :: "(kb_state \<times> kb_state) list" where
  "HUMAN_DECISION_TRANSITIONS = [
    (PENDING_HUMAN_REVIEW, APPROVED_BY_HUMAN), (APPROVED_BY_HUMAN, PUBLISHED), (REVIEW_DUE, PUBLISHED),
    (PUBLISHED, DEPRECATED), (REVIEW_DUE, DEPRECATED), (PUBLISHED, SUPERSEDED), (REVIEW_DUE, SUPERSEDED),
    (DEPRECATED, RETIRED), (SUPERSEDED, RETIRED)]"

lemma state_name_inj [simp]: "state_name s = state_name t \<longleftrightarrow> s = t"
  by (cases s; cases t) (simp_all add: state_name_def)

lemma state_of_name_name [simp]: "state_of_name (state_name s) = Some s"
  by (cases s) (simp_all add: state_of_name_def kb_states_def)

text \<open>The steps of the lifecycle, as a relation, and the runs of steps.\<close>

inductive kb_step :: "kb_state \<Rightarrow> kb_state \<Rightarrow> bool" where
  "t \<in> set (KB_TRANSITIONS s) \<Longrightarrow> kb_step s t"

inductive kb_reach :: "kb_state \<Rightarrow> kb_state list \<Rightarrow> kb_state \<Rightarrow> bool" where
  kb_refl: "kb_reach s [] s"
| kb_trans: "kb_step s t \<Longrightarrow> kb_reach t p u \<Longrightarrow> kb_reach s (t # p) u"

inductive_simps kb_step_iff: "kb_step s t"
inductive_cases kb_reach_NilE: "kb_reach s [] u"
inductive_cases kb_reach_ConsE: "kb_reach s (t # p) u"

text \<open>The consecutive states of a run.\<close>

definition hops :: "kb_state \<Rightarrow> kb_state list \<Rightarrow> (kb_state \<times> kb_state) list" where
  "hops s p = zip (s # p) p"

lemma hops_simps [simp]: "hops s [] = []" "hops s (t # p) = (s, t) # hops t p"
  by (simp_all add: hops_def)

definition unpublished :: "kb_state list" where
  "unpublished = [CANDIDATE, DRAFT, PENDING_HUMAN_REVIEW, APPROVED_BY_HUMAN, REJECTED]"

lemma reject_stays: "kb_reach s p u \<Longrightarrow> s = REJECTED \<Longrightarrow> u = REJECTED"
  by (induction rule: kb_reach.induct) (auto simp: kb_step_iff)

lemma approved_publishes:
  "kb_reach s p u \<Longrightarrow> s = APPROVED_BY_HUMAN \<Longrightarrow> u \<notin> set unpublished \<Longrightarrow> (APPROVED_BY_HUMAN, PUBLISHED) \<in> set (hops s p)"
proof (induction rule: kb_reach.induct)
  case (kb_trans s t p u)
  then have "t = PUBLISHED \<or> t = REJECTED" by (auto simp: kb_step_iff)
  with kb_trans reject_stays [OF kb_trans(2)] show ?case by (auto simp: unpublished_def)
qed (simp add: unpublished_def)

text \<open>
  Knowledge becomes guidance only through two human decisions. Any sequence of legal lifecycle
  steps from a candidate, a draft or an entry under review to a state that is or was public
  contains the approval step and the publication step, in the transition table both human.
\<close>

theorem publication_needs_decisions:
  assumes "kb_reach s p u" and "s \<in> {CANDIDATE, DRAFT, PENDING_HUMAN_REVIEW}" and "u \<notin> set unpublished"
  shows "{(PENDING_HUMAN_REVIEW, APPROVED_BY_HUMAN), (APPROVED_BY_HUMAN, PUBLISHED)}
    \<subseteq> set (hops s p) \<inter> set HUMAN_DECISION_TRANSITIONS"
proof -
  have "{(PENDING_HUMAN_REVIEW, APPROVED_BY_HUMAN), (APPROVED_BY_HUMAN, PUBLISHED)} \<subseteq> set (hops s p)"
    using assms
  proof (induction rule: kb_reach.induct)
    case (kb_refl s)
    then show ?case by (auto simp: unpublished_def)
  next
    case (kb_trans s t p u)
    have "t \<noteq> REJECTED" using reject_stays [OF kb_trans(2)] kb_trans.prems(2) by (auto simp: unpublished_def)
    with kb_trans.hyps(1) kb_trans.prems(1) consider "t \<in> {CANDIDATE, DRAFT, PENDING_HUMAN_REVIEW}" |
        "s = PENDING_HUMAN_REVIEW" "t = APPROVED_BY_HUMAN"
      by (auto simp: kb_step_iff)
    then show ?case
    proof cases
      case 1
      with kb_trans show ?thesis by auto
    next
      case 2
      with approved_publishes [OF kb_trans.hyps(2)] kb_trans.prems show ?thesis by auto
    qed
  qed
  then show ?thesis by (auto simp: HUMAN_DECISION_TRANSITIONS_def)
qed

theorem publication_needs_decisions_witness:
  "(APPROVED_BY_HUMAN, PUBLISHED) \<in> set (hops DRAFT [PENDING_HUMAN_REVIEW, APPROVED_BY_HUMAN, PUBLISHED, REVIEW_DUE])"
proof -
  have "kb_reach DRAFT [PENDING_HUMAN_REVIEW, APPROVED_BY_HUMAN, PUBLISHED, REVIEW_DUE] REVIEW_DUE"
    by (intro kb_reach.intros) (simp_all add: kb_step_iff)
  from publication_needs_decisions [OF this] show ?thesis by (simp add: unpublished_def)
qed

subsection \<open>Digests and time\<close>

definition DIGEST_EXCLUDED_FIELDS :: "string list" where
  "DIGEST_EXCLUDED_FIELDS = [''content_digest'', ''generated_at_utc'', ''status'', ''review_status'', ''approval_declaration'',
     ''lifecycle_state'', ''lifecycle_history'', ''warnings_runtime'', ''external_execution_report'']"

definition content_digest :: "(string \<Rightarrow> string) \<Rightarrow> (rat \<Rightarrow> string) \<Rightarrow> (string \<times> json) list \<Rightarrow> string" where
  "content_digest sha frepr artifact =
     sha (canonical_json frepr (JObj (filter (\<lambda>(k, v). k \<notin> set DIGEST_EXCLUDED_FIELDS) artifact)))"

text \<open>
  An approval stays bound to its artifact through workflow changes. Setting, changing or
  removing a workflow field (state, history, review status, approval, digest) never changes the
  content digest, and neither does the order in which the fields are stored.
\<close>

theorem digest_ignores_workflow:
  assumes "k \<in> set DIGEST_EXCLUDED_FIELDS"
  shows "content_digest sha frepr (dset k v artifact) = content_digest sha frepr artifact \<and>
    content_digest sha frepr (filter (\<lambda>(l, w). l \<noteq> k) artifact) = content_digest sha frepr artifact \<and>
    (distinct (dkeys artifact) \<longrightarrow> mset artifact = mset artifact' \<longrightarrow>
       content_digest sha frepr artifact' = content_digest sha frepr artifact)"
proof -
  have "filter (\<lambda>(k, v). k \<notin> set DIGEST_EXCLUDED_FIELDS) (dset k v artifact) =
      filter (\<lambda>(k, v). k \<notin> set DIGEST_EXCLUDED_FIELDS) artifact"
    using assms by (induction artifact) auto
  moreover have "filter (\<lambda>(k, v). k \<notin> set DIGEST_EXCLUDED_FIELDS) (filter (\<lambda>(l, w). l \<noteq> k) artifact) =
      filter (\<lambda>(k, v). k \<notin> set DIGEST_EXCLUDED_FIELDS) artifact"
    using assms by (induction artifact) auto
  moreover have "canonical_json frepr (JObj (filter f artifact')) = canonical_json frepr (JObj (filter f artifact))"
    if "distinct (dkeys artifact)" "mset artifact = mset artifact'" for f
  proof (rule canonical_json_perm [symmetric])
    show "distinct (map fst (filter f artifact))" using that(1) dwf_filter [of artifact f] by (simp add: dwf_def)
    show "mset (filter f artifact) = mset (filter f artifact')" using that(2) by (simp only: mset_filter)
  qed
  ultimately show ?thesis unfolding content_digest_def by (auto simp del: canonical_json.simps)
qed

theorem digest_ignores_workflow_witness:
  "content_digest id (\<lambda>_. []) (dset ''status'' (JStr ''x'') [(''title'', JStr ''t'')]) = content_digest id (\<lambda>_. []) [(''title'', JStr ''t'')]"
  using digest_ignores_workflow [of "''status''" id "\<lambda>_. []" "JStr ''x''" "[(''title'', JStr ''t'')]" "[]"]
  by (simp add: DIGEST_EXCLUDED_FIELDS_def del: canonical_json.simps)

text \<open>\<open>datetime.fromisoformat\<close> accepting a text is the parameter \<open>iso_ok\<close>.\<close>

definition d_rx :: rx where "d_rx = Cls is_digit"

definition DATE_TIME :: rx where
  "DATE_TIME = seqs [Rep 4 0 d_rx, lit ''-'', Rep 2 0 d_rx, lit ''-'', Rep 2 0 d_rx, lit ''T'', Rep 2 0 d_rx, lit '':'',
     Rep 2 0 d_rx, lit '':'', Rep 2 0 d_rx, opt (Seq (lit ''.'') (Rep 1 5 d_rx))]"

definition UTC_RE :: rx where "UTC_RE = Seq DATE_TIME (Alt (lit ''Z'') (lit ''+00:00''))"

definition is_utc_timestamp :: "(string \<Rightarrow> bool) \<Rightarrow> json \<Rightarrow> bool" where
  "is_utc_timestamp iso_ok v = (case v of JStr s \<Rightarrow> match_dollar UTC_RE s \<and> iso_ok s | _ \<Rightarrow> False)"

definition resolve_generated_at :: "(string \<Rightarrow> bool) \<Rightarrow> string \<Rightarrow> json option \<Rightarrow> adv_error + json" where
  "resolve_generated_at iso_ok now override = (case override of
      None \<Rightarrow> Inr (JStr now)
    | Some v \<Rightarrow> if \<not> is_utc_timestamp iso_ok v then Inl (AdvErr E_USAGE (Some ''generated_at'')) else Inr v)"

end
