(* ===== verification/Safety.thy ===== *)
theory Safety
  imports Kb_Common Rca_Sanitize
begin

section \<open>The sanitization boundary of the advisory package (change\_documentation\_knowledge/safety.py)\<close>

text \<open>
  Every text that reaches a document passes here: identifiers have a narrow grammar, free text
  becomes one bounded line, command-shaped and instruction-like text is detected, artifacts are
  audited for secrets before they are written, and paths stay inside their root. The Phase 11
  sanitizer is the one of \<open>Rca_Sanitize\<close>.
\<close>

definition MAX_TEXT_LEN :: nat where "MAX_TEXT_LEN = 400"

definition ID_PREFIXES :: "string list" where
  "ID_PREFIXES = [''INC'', ''EVD'', ''FND'', ''HYP'', ''RCA'', ''REC'', ''CHG'', ''DOC'', ''KBC'', ''KB'', ''KBV'', ''TGT'', ''SRC'',
     ''SIG'', ''ADV'', ''REV'', ''AUTH'', ''ASM'']"

definition id_char :: "char \<Rightarrow> bool" where "id_char c \<longleftrightarrow> is_alnum c \<or> c \<in> set ''._-''"
definition alnum_rx :: rx where "alnum_rx = Cls is_alnum"

definition ID_SHAPE :: rx where
  "ID_SHAPE = seqs [alts (map lit ID_PREFIXES), lit ''-'', Rep 1 59 (Cls id_char)]"

definition SLUG_SHAPE :: rx where "SLUG_SHAPE = Seq (Cls is_letter) (Rep 0 63 (Cls id_char))"

definition STRICT_BODY :: "(string, rx) dict" where
  "STRICT_BODY = [(''INC'', seqs [Rep 8 0 d_rx, lit ''-'', Rep 3 1 d_rx]),
     (''EVD'', Seq (Rep 1 11 alnum_rx) (Rep 0 2 (Seq (lit ''-'') (Rep 1 11 alnum_rx)))),
     (''REV'', Rep 6 10 alnum_rx)]"

definition MAX_ID_SEGMENT :: nat where "MAX_ID_SEGMENT = 19"

subsection \<open>Identifiers\<close>

fun split_by :: "(char \<Rightarrow> bool) \<Rightarrow> string \<Rightarrow> string list" where
  "split_by f [] = [[]]"
| "split_by f (c # s) = (if f c then [] # split_by f s
     else (case split_by f s of [] \<Rightarrow> [[c]] | p # ps \<Rightarrow> (c # p) # ps))"

definition id_sep :: "char \<Rightarrow> bool" where "id_sep c \<longleftrightarrow> c \<in> set ''-_.''"

definition safe_segment :: "string \<Rightarrow> bool" where
  "safe_segment seg \<longleftrightarrow> length seg \<le> MAX_ID_SEGMENT \<and> \<not> contains_secret_pattern (Some seg)"

definition is_safe_id :: "json \<Rightarrow> string list option \<Rightarrow> bool" where
  "is_safe_id v prefixes = (case v of
      JStr s \<Rightarrow> match_dollar ID_SHAPE s \<and>
        (let prefix = takeWhile (\<lambda>c. c \<noteq> CHR ''-'') s; body = drop (Suc (length prefix)) s in
          (case prefixes of None \<Rightarrow> True | Some ps \<Rightarrow> prefix \<in> set ps) \<and>
          (case dget STRICT_BODY prefix of None \<Rightarrow> True | Some r \<Rightarrow> match_dollar r body) \<and>
          list_all safe_segment (split_by id_sep s) \<and>
          \<not> contains_secret_pattern (Some (map (\<lambda>c. if id_sep c then CHR '' '' else c) s)))
    | _ \<Rightarrow> False)"

definition require_id :: "json \<Rightarrow> string list option \<Rightarrow> string option \<Rightarrow> adv_error + string" where
  "require_id v prefixes field = (case v of
      JStr s \<Rightarrow> if is_safe_id v prefixes then Inr s else Inl (AdvErr E_INPUT_INVALID field)
    | _ \<Rightarrow> Inl (AdvErr E_INPUT_INVALID field))"

definition is_safe_slug :: "json \<Rightarrow> bool" where
  "is_safe_slug v = (case v of
      JStr s \<Rightarrow> match_dollar SLUG_SHAPE s \<and> list_all safe_segment (split_by id_sep s)
    | _ \<Rightarrow> False)"

subsection \<open>Free text\<close>

definition ws0 :: rx where "ws0 = Star space_rx"
definition ws1 :: rx where "ws1 = plus1 space_rx"
definition words :: "string list \<Rightarrow> rx" where "words ws = alts (map ilit ws)"
definition words' :: "string list \<Rightarrow> rx" where "words' ws = alts (map lit ws)"
definition near :: "nat \<Rightarrow> rx" where "near n = Rep 0 n (Cls (\<lambda>c. c \<noteq> CHR ''.'' \<and> c \<noteq> newline))"

definition BLOCKED_SCHEMES :: rx where
  "BLOCKED_SCHEMES = seqs [Bnd, words [''javascript'', ''vbscript'', ''data'', ''file'', ''ftp'', ''smb'', ''jar''], ws0, lit '':'']"

definition URL_LIKE :: rx where
  "URL_LIKE = seqs [Bnd, words [''http://'', ''https://'', ''www.''], plus1 nonspace_rx]"

definition EXECUTABLE_PATTERNS :: "rx list" where
  "EXECUTABLE_PATTERNS = [
     seqs [Bnd, alts (map ilit [''sudo'', ''srvctl'', ''crsctl'', ''lsnrctl'', ''asmcmd'', ''sqlplus'', ''dgmgrl'', ''tnsping'',
         ''systemctl'', ''pkill'', ''killall'', ''chmod'', ''chown'', ''chattr'', ''mkfs'', ''fdisk'', ''umount'', ''iptables'',
         ''ifconfig'', ''nmcli'', ''os.system'', ''subprocess'']
       @ [seqs [ilit ''rman'', ws1, ilit ''target''],
          seqs [ilit ''service'', ws1, plus1 (Cls is_word), ws1, words [''start'', ''stop'', ''restart'']],
          seqs [ilit ''kill'', ws1, lit ''-'', plus1 (Cls is_digit)],
          seqs [ilit ''rm'', ws1, lit ''-'', plus1 (Cls (\<lambda>c. lower_char c \<in> set ''rf''))],
          seqs [ilit ''mount'', ws1, lit ''-''], seqs [ilit ''sysctl'', ws1, ilit ''-w''],
          seqs [ilit ''curl'', ws1, lit ''-''], seqs [ilit ''wget'', ws1], seqs [ilit ''nc'', ws1, lit ''-''],
          seqs [ilit ''bash'', ws1, ilit ''-c''], seqs [ilit ''sh'', ws1, ilit ''-c''],
          seqs [ilit ''powershell'', opt (ilit ''.exe''), ws1, lit ''-''],
          seqs [ilit ''cmd'', opt (ilit ''.exe''), ws1, ilit ''/c''],
          seqs [ilit ''python'', opt (Cls is_digit), ws1, ilit ''-c''],
          seqs [ilit ''eval'', ws0, lit ''(''], seqs [ilit ''exec'', ws0, lit ''('']]), Bnd],
     seqs [Bnd, ilit ''alter'', ws1, words [''system'', ''database'', ''session'', ''user'', ''diskgroup'', ''tablespace'', ''profile'',
         ''pluggable''], Bnd],
     seqs [Bnd, words [''drop'', ''truncate'', ''create'', ''grant'', ''revoke''], ws1,
         words [''table'', ''user'', ''database'', ''tablespace'', ''role'', ''any'', ''public''], Bnd],
     seqs [Bnd, alts [seqs [ilit ''shutdown'', ws1, words [''immediate'', ''abort'', ''transactional'']],
         seqs [ilit ''startup'', ws1, words [''nomount'', ''mount'', ''force'', ''open'']]], Bnd],
     seqs [Bnd, words [''select'', ''insert'', ''update'', ''delete''], Bnd, near 80, Bnd, words [''from'', ''into'', ''set''], Bnd, near 80,
         Cls (\<lambda>c. c \<in> set '';$'')],
     alts [seqs [Bnd, ilit ''switchover'', ws1, ilit ''to'', Bnd], seqs [Bnd, ilit ''failover'', ws1, ilit ''to'', Bnd]],
     alts [seqs [lit ''`'', Rep 1 199 (Cls (\<lambda>c. c \<noteq> CHR ''`'')), lit ''`''], lit ''```''],
     alts [lit ''$('', lit ''`'', seqs [lit ''|'', ws0, words' [''sh'', ''bash''], Bnd], lit ''&&'',
         seqs [lit '';'', ws0, words' [''rm'', ''cat'', ''curl'', ''wget''], Bnd]]]"

definition INSTRUCTION_MARKERS :: rx where
  "INSTRUCTION_MARKERS = alts [
     seqs [Bnd, words [''ignore'', ''disregard'', ''forget'', ''override'', ''bypass''], Bnd, near 40, Bnd,
       words [''previous'', ''prior'', ''above'', ''all'', ''any'', ''the''], Bnd, near 40, Bnd,
       words [''instruction'', ''instructions'', ''policy'', ''policies'', ''rule'', ''rules'', ''guardrail'', ''guardrails'',
         ''constraint'', ''constraints''], Bnd],
     seqs [Bnd, ilit ''system'', ws1, ilit ''prompt'', Bnd],
     seqs [Bnd, ilit ''you'', ws1, ilit ''are'', ws1, ilit ''now'', Bnd],
     seqs [Bnd, ilit ''new'', ws1, words [''instruction'', ''instructions''], Bnd],
     seqs [Bnd, ilit ''as'', ws1, words [''a'', ''an''], ws1, words [''ai'', ''assistant'', ''admin''], Bnd],
     seqs [Bnd, opt (Seq (ilit ''auto'') (opt (Cls (\<lambda>c. c \<in> set ''- '')))), words [''publish'', ''approve'', ''promote''], ws1,
       words [''this'', ''it'', ''now'', ''immediately''], Bnd],
     seqs [Bnd, ilit ''mark'', ws1, opt (Seq (ilit ''it'') ws1), opt (Seq (ilit ''as'') ws1), ilit ''approved'', Bnd],
     seqs [Bnd, ilit ''run'', ws1, alts [ilit ''this'', seqs [ilit ''the'', ws1, ilit ''following'']], ws1,
       words [''command'', ''script'', ''query''], Bnd]]"

definition has_instruction_markers :: "json \<Rightarrow> bool" where
  "has_instruction_markers v = (case v of JStr s \<Rightarrow> search INSTRUCTION_MARKERS s | _ \<Rightarrow> False)"

definition has_executable_content :: "json \<Rightarrow> bool" where
  "has_executable_content v = (case v of JStr s \<Rightarrow> list_ex (\<lambda>p. search p s) EXECUTABLE_PATTERNS | _ \<Rightarrow> False)"

text \<open>\<open>clean_text\<close>: redact, one line, collapse white space, neutralise schemes and links, truncate.\<close>

definition drop_controls :: "string \<Rightarrow> string" where
  "drop_controls s = map (\<lambda>c. if is_control c then CHR '' '' else c) s"

definition collapse :: "string \<Rightarrow> string" where
  "collapse s = strip (sub_rx Longest ws1 (\<lambda>_. '' '') None s)"

definition clean_str :: "nat \<Rightarrow> string \<Rightarrow> string" where
  "clean_str mlen s = (let t = take (mlen * 4) s;
       out = collapse (drop_controls (if t = [] then [] else sanitize_str t));
       out = sub_rx Longest BLOCKED_SCHEMES (\<lambda>_. ''[blocked-scheme]:'') None out;
       out = sub_rx Longest URL_LIKE (\<lambda>_. ''[url-removed]'') None out
     in take mlen out)"

definition clean_text :: "json \<Rightarrow> nat \<Rightarrow> string option \<Rightarrow> adv_error + string" where
  "clean_text v mlen field = (case v of
      JStr s \<Rightarrow> Inr (clean_str mlen s)
    | _ \<Rightarrow> Inl (AdvErr E_INPUT_INVALID field))"

definition clean_optional_text :: "json option \<Rightarrow> nat \<Rightarrow> string option \<Rightarrow> adv_error + string option" where
  "clean_optional_text v mlen field = (case v of
      None \<Rightarrow> Inr None
    | Some JNull \<Rightarrow> Inr None
    | Some w \<Rightarrow> bindE (clean_text w mlen field) (\<lambda>t. Inr (Some t)))"

definition sanitize_struct :: "json \<Rightarrow> adv_error + json" where
  "sanitize_struct v = (case deep_sanitize 0 v MAX_TOTAL_NODES of
      Inl _ \<Rightarrow> adverr E_SANITIZATION_CDK
    | Inr (w, _) \<Rightarrow> Inr w)"

subsection \<open>Audits\<close>

definition HEX_DIGEST :: rx where "HEX_DIGEST = Rep 64 0 (Cls (\<lambda>c. is_digit c \<or> btw 97 102 c))"

text \<open>Group 2 of a key-value match: what follows the keyword, the separator and the spaces.\<close>

definition value_of_match :: "string \<Rightarrow> string" where
  "value_of_match m = dropWhile is_space (drop 1 (dropWhile is_space (drop (length (key_of_match m)) m)))"

definition contains_structured_secret :: "string \<Rightarrow> bool" where
  "contains_structured_secret s \<longleftrightarrow> \<not> match_dollar HEX_DIGEST s \<and>
     (list_ex (\<lambda>m. \<not> starts_with REDACTED (value_of_match m)) (findall Longest KEY_VALUE_SECRET None s)
      \<or> list_ex (\<lambda>p. search p s) [BEARER_TOKEN, AWS_ACCESS_KEY, PEM_PRIVATE_KEY, LONG_HEX_HASH]
      \<or> search CONNECTION_STRING_CREDENTIALS s)"

function audit_strings :: "json \<Rightarrow> nat \<Rightarrow> adv_error + unit" where
  "audit_strings v depth =
     (if 12 < depth then adverr E_SANITIZATION_CDK
      else (case v of
          JObj kvs \<Rightarrow> bindE (mapE (\<lambda>kv. if contains_structured_secret (fst kv) then adverr E_SANITIZATION_CDK
              else audit_strings (snd kv) (Suc depth)) kvs) (\<lambda>_. Inr ())
        | JArr xs \<Rightarrow> bindE (mapE (\<lambda>x. audit_strings x (Suc depth)) xs) (\<lambda>_. Inr ())
        | JStr s \<Rightarrow> if contains_structured_secret s then adverr E_SANITIZATION_CDK else Inr ()
        | _ \<Rightarrow> Inr ()))"
  by pat_completeness auto
termination
  by (relation "measure (\<lambda>(v, depth). 13 - depth)") auto

declare audit_strings.simps [simp del]

definition audit_rendered :: "string \<Rightarrow> adv_error + unit" where
  "audit_rendered t = (if contains_structured_secret (sub_rx Longest HEX_DIGEST (\<lambda>_. []) None t)
     then adverr E_SANITIZATION_CDK else Inr ())"

definition assert_no_secret :: "string \<Rightarrow> string option \<Rightarrow> adv_error + unit" where
  "assert_no_secret t field = (if contains_secret_pattern (Some t) then Inl (AdvErr E_SANITIZATION_CDK field) else Inr ())"

subsection \<open>Markdown\<close>

definition md_special :: "char \<Rightarrow> bool" where
  "md_special c \<longleftrightarrow> c = CHR 0x5C \<or> c \<in> set ''`*[]<>#+|~''"

text \<open>An underscore is escaped unless it stands between two letters or digits.\<close>

fun escape_underscores :: "char option \<Rightarrow> string \<Rightarrow> string" where
  "escape_underscores p [] = []"
| "escape_underscores p (c # s) =
     (if c = CHR ''_'' \<and> (case p of None \<Rightarrow> True | Some x \<Rightarrow> \<not> is_alnum x)
         \<or> c = CHR ''_'' \<and> (case s of [] \<Rightarrow> True | x # _ \<Rightarrow> \<not> is_alnum x)
      then CHR 0x5C # c # escape_underscores (Some c) s else c # escape_underscores (Some c) s)"

definition escape_specials :: "string \<Rightarrow> string" where
  "escape_specials s = concat (map (\<lambda>c. if md_special c then [CHR 0x5C, c] else [c]) s)"

text \<open>
  The last substitution escapes a \<open>-\<close>, \<open>:\<close> or \<open>.\<close> that is the first visible character of a line, for
  a value on one line.
\<close>

definition escape_start :: "string \<Rightarrow> string" where
  "escape_start s = (let sp = takeWhile is_space s; rest = dropWhile is_space s in
     (case rest of c # _ \<Rightarrow> if c \<in> set ''-:.'' then sp @ [CHR 0x5C] @ rest else s | [] \<Rightarrow> s))"

definition md_escape :: "string \<Rightarrow> string" where
  "md_escape s = escape_start (escape_underscores None (escape_specials (replace_all ''&'' ''&amp;'' s)))"

definition md_code :: "string \<Rightarrow> string" where
  "md_code s = ''`'' @ map (\<lambda>c. if c = CHR ''`'' then CHR 0x27 else c) s @ ''`''"

subsection \<open>Path confinement\<close>

text \<open>
  The file system is a parameter: \<open>realpath\<close>, \<open>abs\<close> (a path is absolute) and \<open>linked\<close> (some
  component of the path below the root is a symbolic link). Components are joined with a slash.
\<close>

definition bad_part :: "(string \<Rightarrow> bool) \<Rightarrow> string \<Rightarrow> bool" where
  "bad_part is_abs p \<longleftrightarrow> p = [] \<or> is_abs p \<or>
     ''..'' \<in> set (split_on (CHR ''/'') (map (\<lambda>c. if c = CHR 0x5C then CHR ''/'' else c) p)) \<or> CHR 0x00 \<in> set p"

definition inside :: "string \<Rightarrow> string \<Rightarrow> bool" where
  "inside base path \<longleftrightarrow> path = base \<or> starts_with (base @ ''/'') path \<or> (base = ''/'' \<and> starts_with ''/'' path)"

definition confine :: "(string \<Rightarrow> string) \<Rightarrow> (string \<Rightarrow> bool) \<Rightarrow> (string \<Rightarrow> string \<Rightarrow> bool) \<Rightarrow> string \<Rightarrow> string list
    \<Rightarrow> adv_error + string" where
  "confine realpath is_abs linked base parts =
     (if base = [] \<or> CHR 0x00 \<in> set base then Inl (AdvErr E_USAGE (Some ''output_dir''))
      else if list_ex (bad_part is_abs) parts then adverr E_PATH_ESCAPE
      else let root_real = realpath base; candidate = join_on ''/'' (root_real # parts) in
        if \<not> inside root_real (realpath candidate) \<or> linked root_real candidate then adverr E_PATH_ESCAPE
        else Inr candidate)"

subsection \<open>What cleaned text and audited artifacts satisfy\<close>

lemma set_sub_rx: "(\<And>w. set (f w) \<subseteq> A) \<Longrightarrow> set s \<subseteq> A \<Longrightarrow> set (sub_rx e r f p s) \<subseteq> A"
proof (induction s arbitrary: p rule: length_induct)
  case (1 s)
  show ?case
  proof (cases s)
    case Nil
    then show ?thesis by (simp add: sub_rx_steps)
  next
    case (Cons c t)
    have IH: "set (sub_rx e r f q u) \<subseteq> A" if "length u \<le> length t" "set u \<subseteq> A" for q u
      using 1 that Cons by simp
    have t: "set t \<subseteq> A" "c \<in> A" using 1(3) Cons by auto
    show ?thesis
    proof (cases "match_at e r p s")
      case None
      then show ?thesis using IH [of t] t unfolding Cons by (simp add: sub_rx_steps)
    next
      case (Some m)
      show ?thesis
      proof (cases m)
        case 0
        then show ?thesis using IH [of t] t Some unfolding Cons by (simp add: sub_rx_steps)
      next
        case (Suc n)
        have "set (drop n t) \<subseteq> A" using t(1) set_drop_subset by fastforce
        then show ?thesis using IH [of "drop n t"] 1(2) Some Suc unfolding Cons by (simp only: sub_rx_steps set_append Un_subset_iff length_drop)
      qed
    qed
  qed
qed

lemma strip_subset: "set (strip s) \<subseteq> set s"
  by (auto simp: strip_def rstrip_def lstrip_def dest!: set_dropWhileD)

lemma visible_texts:
  "\<forall>c \<in> set '' ''. \<not> is_control c" "\<forall>c \<in> set ''[blocked-scheme]:''. \<not> is_control c"
  "\<forall>c \<in> set ''[url-removed]''. \<not> is_control c"
  by code_simp+

lemma clean_str_visible: "set (clean_str n s) \<subseteq> {c. \<not> is_control c}"
proof -
  let ?V = "{c. \<not> is_control c}"
  have d: "set (drop_controls t) \<subseteq> ?V" for t using visible_texts(1) by (auto simp: drop_controls_def)
  have sub: "set (sub_rx e r (\<lambda>_. x) None u) \<subseteq> ?V" if "\<forall>c \<in> set x. \<not> is_control c" "set u \<subseteq> ?V" for e r x u
    by (rule set_sub_rx [OF _ that(2)]) (use that(1) in auto)
  have c: "set (collapse (drop_controls t)) \<subseteq> ?V" for t
    unfolding collapse_def by (rule subset_trans [OF strip_subset sub [OF visible_texts(1) d]])
  show ?thesis
    unfolding clean_str_def Let_def
    by (rule subset_trans [OF set_take_subset sub [OF visible_texts(3) sub [OF visible_texts(2) c]]])
qed

text \<open>
  C39: a cleaned text is one bounded line. Whatever the input, the result has at most the requested
  number of characters and no control character, so no line break can end a field of a document.
\<close>

theorem clean_text_one_line:
  assumes "clean_text v n field = Inr t"
  shows "length t \<le> n \<and> (\<forall>c \<in> set t. \<not> is_control c \<and> c \<noteq> newline)"
proof -
  obtain s where t: "t = clean_str n s" using assms by (auto simp: clean_text_def split: json.splits)
  have "length t \<le> n" unfolding t by (simp add: clean_str_def Let_def)
  moreover have "is_control newline" by code_simp
  ultimately show ?thesis using clean_str_visible [of n s] t by auto
qed

theorem clean_text_one_line_witness:
  "\<exists>t. clean_text (JStr [CHR ''a'', newline, CHR ''#'']) 400 None = Inr t \<and> newline \<notin> set t"
proof -
  obtain t where t: "clean_text (JStr [CHR ''a'', newline, CHR ''#'']) 400 None = Inr t" by (simp add: clean_text_def)
  from clean_text_one_line [OF t] t show ?thesis by auto
qed

lemma mapE_unit_all: "mapE f xs = Inr us \<Longrightarrow> (\<And>x (u::unit). x \<in> set xs \<Longrightarrow> f x = Inr u \<Longrightarrow> P x) \<Longrightarrow> \<forall>x \<in> set xs. P x"
  using mapE_in by fastforce

lemma audit_strings_ok:
  "audit_strings v d = Inr () \<Longrightarrow> (\<forall>s \<in> set (jstrings v). \<not> contains_structured_secret s) \<and> d \<le> 12 \<and> jdepth v \<le> 12 - d"
proof (induction v arbitrary: d)
  case (JStr s)
  then show ?case by (subst (asm) audit_strings.simps) (auto split: if_splits)
next
  case (JArr xs)
  then obtain us where d: "d \<le> 12" and m: "mapE (\<lambda>x. audit_strings x (Suc d)) xs = Inr us"
    by (subst (asm) audit_strings.simps) (auto simp: bindE_Inr split: if_splits)
  have "\<forall>x \<in> set xs. (\<forall>s \<in> set (jstrings x). \<not> contains_structured_secret s) \<and> Suc d \<le> 12 \<and> jdepth x \<le> 12 - Suc d"
  proof (rule mapE_unit_all [OF m])
    fix x u assume "x \<in> set xs" "audit_strings x (Suc d) = Inr u"
    then show "(\<forall>s \<in> set (jstrings x). \<not> contains_structured_secret s) \<and> Suc d \<le> 12 \<and> jdepth x \<le> 12 - Suc d"
      using JArr.IH [of x "Suc d"] by (cases u) blast
  qed
  with d show ?case by auto
next
  case (JObj kvs)
  then obtain us where d: "d \<le> 12" and m: "mapE (\<lambda>kv. if contains_structured_secret (fst kv) then adverr E_SANITIZATION_CDK
              else audit_strings (snd kv) (Suc d)) kvs = Inr us"
    by (subst (asm) audit_strings.simps) (auto simp: bindE_Inr split: if_splits)
  have IH: "audit_strings (snd kv) (Suc d) = Inr () \<Longrightarrow> (\<forall>s \<in> set (jstrings (snd kv)). \<not> contains_structured_secret s) \<and>
      Suc d \<le> 12 \<and> jdepth (snd kv) \<le> 12 - Suc d" if "kv \<in> set kvs" for kv
    using JObj.IH [OF that, of "snd kv" "Suc d"] by (cases kv) (simp add: snds.simps)
  have "\<forall>kv \<in> set kvs. \<not> contains_structured_secret (fst kv) \<and>
      (\<forall>s \<in> set (jstrings (snd kv)). \<not> contains_structured_secret s) \<and> Suc d \<le> 12 \<and> jdepth (snd kv) \<le> 12 - Suc d"
  proof (rule mapE_unit_all [OF m])
    fix kv u
    assume kv: "kv \<in> set kvs" "(if contains_structured_secret (fst kv) then adverr E_SANITIZATION_CDK
      else audit_strings (snd kv) (Suc d)) = Inr u"
    then have n: "\<not> contains_structured_secret (fst kv)" "audit_strings (snd kv) (Suc d) = Inr ()"
      by (auto split: if_splits)
    from n(1) IH [OF kv(1) n(2)] show "\<not> contains_structured_secret (fst kv) \<and>
      (\<forall>s \<in> set (jstrings (snd kv)). \<not> contains_structured_secret s) \<and> Suc d \<le> 12 \<and> jdepth (snd kv) \<le> 12 - Suc d"
      by (rule conjI)
  qed
  with d show ?case by (auto simp: Suc_le_eq)
qed (subst (asm) audit_strings.simps, auto simp: jdepth.simps split: if_splits)+

text \<open>
  C38: an artifact that passes the audit has no structured secret in any text or key, at any depth,
  and is at most twelve levels deep.
\<close>

theorem audited_artifact_clean:
  assumes "audit_strings v 0 = Inr ()"
  shows "(\<forall>s \<in> set (jstrings v). \<not> contains_structured_secret s) \<and> jdepth v \<le> 12"
  using audit_strings_ok [OF assms] by simp

theorem audited_artifact_clean_witness:
  "\<not> contains_structured_secret ''ok''"
proof -
  have "audit_strings (JArr [JStr ''ok'']) 0 = Inr ()" by code_simp
  from audited_artifact_clean [OF this] show ?thesis by simp
qed

text \<open>A \<open>$\<close> also matches before a final line break, so a safe identifier can end in one.\<close>

lemma safe_id_with_newline: "is_safe_id (JStr (''INC-20260101-001'' @ [newline])) None"
  by code_simp

end
