(* ===== verification/Evidence.thy ===== *)
theory Evidence
  imports Catalog Schemas Safety
begin

section \<open>Evidence: the only path from adapter output to the client (mcp\_gateway/evidence.py)\<close>

text \<open>
  Rows of an adapter are untrusted. A field is kept only if the collector declares it, its value has
  the declared type, and its policy allows it; identifiers are replaced by per-session aliases or
  keyed hashes. Evidence is stored by an unguessable reference and can be read back only in the
  same session and for the same target. The keyed hash (\<open>mac salt text\<close>), SHA-256, the conversion of
  a timestamp to UTC and the certified signatures of the rules catalog are parameters, gathered in
  a record; random tokens and clock readings are arguments.
\<close>

record env =
  e_sha :: "string \<Rightarrow> string"
  e_mac :: "string \<Rightarrow> string \<Rightarrow> string"
  e_utc :: "string \<Rightarrow> py_exc + string option"
  e_certified :: "string list"
  e_frepr :: "rat \<Rightarrow> string"

definition crash :: "py_exc + 'a \<Rightarrow> exc + 'a" where "crash m = map_sum Crash id m"

lemma crash_Inr [simp]: "crash m = Inr x \<longleftrightarrow> m = Inr x"
  by (cases m) (auto simp: crash_def)

subsection \<open>Patterns\<close>

definition IDENT :: rx where
  "IDENT = seqs [opt (lit ''+''), Cls is_letter, Rep 0 63 (Cls (\<lambda>c. is_alnum c \<or> c \<in> set ''_$#.-''))]"
definition VERSION :: rx where
  "VERSION = Seq (Rep 1 1 d_rx) (Rep 1 4 (Seq (lit ''.'') (Rep 1 2 d_rx)))"
definition PARAM_NAME :: rx where
  "PARAM_NAME = seqs [Rep 0 2 (lit ''_''), Cls is_lower, Rep 0 79 (Cls (\<lambda>c. is_lower c \<or> is_digit c \<or> c = CHR ''_''))]"
definition SQL_ID :: rx where "SQL_ID = Rep 13 0 (Cls (\<lambda>c. is_digit c \<or> is_lower c))"
definition ORACLE_TERM :: rx where
  "ORACLE_TERM = Seq (Cls is_letter) (Rep 0 63 (Cls (\<lambda>c. is_alnum c \<or> c \<in> set '' :_/().,*#$&+-'')))"
definition READABLE_IDENT :: rx where
  "READABLE_IDENT = alts [
     Seq (Cls is_upper) (Rep 19 44 (Cls (\<lambda>c. is_upper c \<or> is_digit c \<or> c \<in> set ''_$#''))),
     Seq (Cls is_lower) (Rep 19 44 (Cls (\<lambda>c. is_lower c \<or> is_digit c \<or> c \<in> set ''_$#'')))]"
definition TS :: rx where
  "TS = Seq DATE_TIME (alts [lit ''Z'', seqs [Cls (\<lambda>c. c \<in> set ''+-''), Rep 2 0 d_rx, lit '':'', Rep 2 0 d_rx]])"
definition INTERVAL :: rx where
  "INTERVAL = seqs [Cls (\<lambda>c. c \<in> set ''+-''), Rep 2 0 d_rx, lit '' '', Rep 2 0 d_rx, lit '':'', Rep 2 0 d_rx, lit '':'', Rep 2 0 d_rx,
     opt (Seq (lit ''.'') (Rep 1 5 d_rx))]"

definition SIG_RAW_MAX :: nat where "SIG_RAW_MAX = 96"
definition NUM_LIMIT :: pyfloat where "NUM_LIMIT = Fin 1000000000000000"

subsection \<open>Session scope\<close>

text \<open>Secret material and alias tables; the table of a (target, prefix) pair maps values to aliases.\<close>

record scope =
  sc_session_id :: string
  sc_salt :: string
  sc_aliases :: "(string \<times> string, (string, string) dict) dict"

definition new_scope :: "string \<Rightarrow> string \<Rightarrow> scope" where
  "new_scope token salt = \<lparr> sc_session_id = ''S'' @ token, sc_salt = salt, sc_aliases = [] \<rparr>"

definition scope_mac :: "env \<Rightarrow> scope \<Rightarrow> string \<Rightarrow> string \<Rightarrow> string \<Rightarrow> nat \<Rightarrow> string" where
  "scope_mac E sc domain target v n = take n (e_mac E (sc_salt sc) (domain @ ''|'' @ target @ ''|'' @ v))"

definition hash_value :: "env \<Rightarrow> scope \<Rightarrow> string \<Rightarrow> string \<Rightarrow> string" where
  "hash_value E sc target v = ''H-'' @ scope_mac E sc ''hash'' target v 12"

definition token_value :: "env \<Rightarrow> scope \<Rightarrow> string \<Rightarrow> string \<Rightarrow> string" where
  "token_value E sc target v = ''TOK-'' @ scope_mac E sc ''token'' target v 16"

definition alias_text :: "string \<Rightarrow> nat \<Rightarrow> string" where
  "alias_text prefix n = prefix @ ''-A'' @ digits_of n"

definition scope_alias :: "scope \<Rightarrow> string \<Rightarrow> string \<Rightarrow> string \<Rightarrow> string \<times> scope" where
  "scope_alias sc target prefix v =
     (let key = (target, prefix); table = dget_or (sc_aliases sc) key [] in
      (case dget table v of
         Some a \<Rightarrow> (a, sc\<lparr>sc_aliases := dset key table (sc_aliases sc)\<rparr>)
       | None \<Rightarrow> (let a = alias_text prefix (length table + 1) in
           (a, sc\<lparr>sc_aliases := dset key (dset v a table) (sc_aliases sc)\<rparr>))))"

definition target_token :: "env \<Rightarrow> scope \<Rightarrow> string \<Rightarrow> string" where
  "target_token E sc a = ''TGT-'' @ derive_token (e_sha E) ''target_id'' (sc_session_id sc) a"

definition evidence_scope_id :: "scope \<Rightarrow> string" where
  "evidence_scope_id sc = ''INC-'' @ sc_session_id sc"

subsection \<open>One value\<close>

definition clean_number :: "json \<Rightarrow> json \<Rightarrow> exc + json option" where
  "clean_number v spec = (if \<not> is_number v then Inr None
     else (case num_of v of
        None \<Rightarrow> Inr None
      | Some x \<Rightarrow>
          if \<not> is_finite x \<or> flt_lt NUM_LIMIT (flt_abs x) then Inr None
          else bindE (kw_num spec ''min'' (Fin (- 1000000000000000))) (\<lambda>lo.
               if \<not> flt_le lo x then Inr None
               else bindE (kw_num spec ''max'' NUM_LIMIT) (\<lambda>hi. Inr (if flt_le x hi then Some v else None)))))"

definition identifier_secret_shaped :: "string \<Rightarrow> bool" where
  "identifier_secret_shaped raw =
     (let t = map (\<lambda>c. if c = CHR ''.'' \<or> c = CHR ''$'' then CHR '' '' else c) raw in
      structured_secret t \<or> search CONNECTION_STRING_CREDENTIALS t
      \<or> list_ex (\<lambda>w. looks_like_bare_secret w \<and>
            \<not> (match_dollar READABLE_IDENT w \<and> length (filter is_pydigit w) * 4 \<le> length w))
          (findall Longest BARE_TOKEN_WORD None t))"

text \<open>Kept values; \<open>None\<close> is a dropped value. Only \<open>MASK\<close> changes the scope.\<close>

definition str_if :: "(string \<Rightarrow> bool) \<Rightarrow> json \<Rightarrow> json option" where
  "str_if f raw = (case raw of JStr s \<Rightarrow> if f s then Some raw else None | _ \<Rightarrow> None)"

definition sanitize_identifier :: "env \<Rightarrow> string \<Rightarrow> json \<Rightarrow> string \<Rightarrow> scope \<Rightarrow> string \<Rightarrow> exc + string option \<times> scope" where
  "sanitize_identifier E policy spec raw sc target =
     (if \<not> match_dollar IDENT raw \<or> identifier_secret_shaped raw then Inr (None, sc)
      else if policy = ''MASK'' then
        bindE (crash (as_str (jget_or spec ''alias_prefix'' (JStr ''obj'')))) (\<lambda>prefix.
          let r = scope_alias sc target prefix raw in Inr (Some (fst r), snd r))
      else if policy = ''HASH'' then Inr (Some (hash_value E sc target raw), sc)
      else if policy = ''TOKENIZE'' then Inr (Some (token_value E sc target raw), sc)
      else Inr (None, sc))"

definition sanitize_signature :: "env \<Rightarrow> string \<Rightarrow> scope \<Rightarrow> string \<Rightarrow> string option" where
  "sanitize_signature E raw sc target =
     (if raw = [] \<or> SIG_RAW_MAX < length raw then None
      else (case classify_signature (e_sha E) (Some raw) (evidence_scope_id sc) (e_certified E) of
          (CERTIFIED, canonical, _) \<Rightarrow> canonical
        | _ \<Rightarrow> derive_signature_token (e_sha E) (evidence_scope_id sc @ ''|'' @ target) (Some raw)))"

text \<open>Every type but \<open>identifier\<close>: the value is kept as it is, or normalised, or dropped.\<close>

definition plain_value :: "env \<Rightarrow> json \<Rightarrow> json \<Rightarrow> json \<Rightarrow> scope \<Rightarrow> string \<Rightarrow> exc + json option" where
  "plain_value E t spec raw sc target =
     (if t = JStr ''boolean'' then Inr (if is_bool raw then Some raw else None)
      else if t = JStr ''integer'' then (if \<not> is_int raw then Inr None else clean_number raw spec)
      else if t = JStr ''integer_or_unlimited'' then
        (if raw = JStr ''UNLIMITED'' then Inr (Some raw) else if \<not> is_int raw then Inr None else clean_number raw spec)
      else if t = JStr ''number'' then clean_number raw spec
      else if t = JStr ''enum'' then
        (if \<not> is_str raw then Inr None
         else bindE (crash (jreq spec ''values'')) (\<lambda>vs. bindE (py_in raw vs) (\<lambda>m. Inr (if m then Some raw else None))))
      else if t = JStr ''version_string'' then Inr (str_if (match_dollar VERSION) raw)
      else if t = JStr ''interval_string'' then Inr (str_if (match_dollar INTERVAL) raw)
      else if t = JStr ''parameter_name'' then Inr (str_if (match_dollar PARAM_NAME) raw)
      else if t = JStr ''timestamp_utc'' then (case raw of
          JStr s \<Rightarrow> if \<not> match_dollar TS s then Inr None else bindE (crash (e_utc E s)) (\<lambda>u. Inr (map_option JStr u))
        | _ \<Rightarrow> Inr None)
      else if t = JStr ''oracle_term'' then Inr (str_if (\<lambda>s. match_dollar ORACLE_TERM s \<and> \<not> identifier_secret_shaped s) raw)
      else if t = JStr ''sql_id'' then Inr (str_if (match_dollar SQL_ID) raw)
      else if t = JStr ''signature'' then
        Inr (case raw of JStr s \<Rightarrow> map_option JStr (sanitize_signature E s sc target) | _ \<Rightarrow> None)
      else Inr None)"

definition sanitize_value :: "env \<Rightarrow> json \<Rightarrow> json \<Rightarrow> scope \<Rightarrow> string \<Rightarrow> exc + json option \<times> scope" where
  "sanitize_value E spec raw sc target =
     bindE (crash (jreq spec ''type'')) (\<lambda>t. bindE (crash (jreq spec ''policy'')) (\<lambda>policy.
     if policy = JStr ''DROP'' then Inr (None, sc)
     else if t = JStr ''identifier'' then (case (raw, policy) of
         (JStr s, JStr p) \<Rightarrow> bindE (sanitize_identifier E p spec s sc target) (\<lambda>(v, sc'). Inr (map_option JStr v, sc'))
       | _ \<Rightarrow> Inr (None, sc))
     else bindE (plain_value E t spec raw sc target) (\<lambda>v. Inr (v, sc))))"

subsection \<open>Rows\<close>

record row_state =
  rs_scope :: scope
  rs_dropped :: nat
  rs_invalid :: nat

definition sanitize_field :: "env \<Rightarrow> collector \<Rightarrow> string \<Rightarrow> (string \<times> json) list \<times> row_state \<Rightarrow> string \<times> json
    \<Rightarrow> exc + (string \<times> json) list \<times> row_state" where
  "sanitize_field E c target st kv = (case (st, kv) of ((clean, s), (k, v)) \<Rightarrow>
     (case dget (c_output_fields c) k of
        None \<Rightarrow> Inr (clean, s\<lparr>rs_dropped := rs_dropped s + 1\<rparr>)
      | Some spec \<Rightarrow>
          bindE (sanitize_value E spec v (rs_scope s) target) (\<lambda>(kept, sc).
          (case kept of
             Some w \<Rightarrow> Inr (dset k w clean, s\<lparr>rs_scope := sc\<rparr>)
           | None \<Rightarrow> bindE (crash (jreq spec ''policy'')) (\<lambda>p.
               Inr (clean, if p \<noteq> JStr ''DROP'' then s\<lparr>rs_scope := sc, rs_invalid := rs_invalid s + 1\<rparr>
                           else s\<lparr>rs_scope := sc, rs_dropped := rs_dropped s + 1\<rparr>))))))"

definition sanitize_row :: "env \<Rightarrow> collector \<Rightarrow> string \<Rightarrow> json list \<times> row_state \<Rightarrow> json \<Rightarrow> exc + json list \<times> row_state" where
  "sanitize_row E c target st raw = (case st of (rows, s) \<Rightarrow>
     bindE (crash (jitems raw)) (\<lambda>kvs. bindE (foldE (sanitize_field E c target) ([], s) kvs) (\<lambda>(clean, s').
       Inr (if clean = [] then rows else rows @ [JObj clean], s'))))"

record payload =
  p_columns :: "string list"
  p_rows :: "json list"
  p_row_count :: int
  p_limitations :: "string list"

definition sanitize_rows :: "env \<Rightarrow> collector \<Rightarrow> json \<Rightarrow> scope \<Rightarrow> string \<Rightarrow> int \<Rightarrow> exc + payload \<times> scope" where
  "sanitize_rows E c raw_rows sc target row_cap = (case raw_rows of
      JArr raws \<Rightarrow>
        if list_ex (\<lambda>r. \<not> is_obj r) raws then gwerr E_RESULT_INVALID
        else (let cap = max 0 (min (min row_cap (c_row_limit c)) MAX_ROWS_HARD) in
          bindE (foldE (sanitize_row E c target) ([], \<lparr> rs_scope = sc, rs_dropped = 0, rs_invalid = 0 \<rparr>) (take (nat cap) raws))
            (\<lambda>(rows, s).
          bindE (mapE (\<lambda>(k, f). bindE (crash (jreq f ''policy'')) (\<lambda>p. Inr (k, p))) (c_output_fields c)) (\<lambda>cols.
          Inr (\<lparr> p_columns = map fst (filter (\<lambda>(k, p). p \<noteq> JStr ''DROP'') cols), p_rows = rows,
                 p_row_count = int (length rows),
                 p_limitations = (if cap < int (length raws) then [''ROWS_TRUNCATED_TO_LIMIT''] else [])
                   @ (if rs_dropped s \<noteq> 0 then [''FIELDS_DROPPED_BY_POLICY:'' @ digits_of (rs_dropped s)] else [])
                   @ (if rs_invalid s \<noteq> 0 then [''INVALID_VALUES_DROPPED:'' @ digits_of (rs_invalid s)] else []) \<rparr>,
               rs_scope s))))
    | _ \<Rightarrow> gwerr E_RESULT_INVALID)"

definition canonical_digest :: "env \<Rightarrow> json \<Rightarrow> string" where
  "canonical_digest E v = e_sha E (canonical_json (e_frepr E) v)"

definition final_audit :: "json \<Rightarrow> exc + unit" where
  "final_audit envelope = (case audit_strings envelope 0 of Inl _ \<Rightarrow> gwerr E_SANITIZATION | Inr _ \<Rightarrow> Inr ())"

subsection \<open>The evidence store\<close>

record entry =
  en_session :: string
  en_target :: string
  en_collector :: string
  en_payload :: json
  en_digest :: string
  en_time :: rat

record store =
  st_items :: "(string, entry) dict"
  st_ttl :: rat
  st_max :: nat

definition new_store :: store where
  "new_store = \<lparr> st_items = [], st_ttl = of_int EVIDENCE_TTL_SECONDS, st_max = MAX_EVIDENCE_ENTRIES \<rparr>"

definition expired :: "store \<Rightarrow> rat \<Rightarrow> entry \<Rightarrow> bool" where
  "expired S now e \<longleftrightarrow> st_ttl S < now - en_time e"

definition purge :: "rat \<Rightarrow> store \<Rightarrow> store" where
  "purge now S = S\<lparr>st_items := filter (\<lambda>(r, e). \<not> expired S now e) (st_items S)\<rparr>"

text \<open>\<open>min\<close> by age: the first of the oldest entries.\<close>

fun oldest :: "(string \<times> entry) list \<Rightarrow> string option" where
  "oldest [] = None"
| "oldest ((r, e) # kvs) = (case oldest kvs of
      None \<Rightarrow> Some r
    | Some q \<Rightarrow> (case dget kvs q of
        Some f \<Rightarrow> if en_time f < en_time e then Some q else Some r
      | None \<Rightarrow> Some r))"

definition evict :: "store \<Rightarrow> store" where
  "evict S = (if st_max S \<le> length (st_items S)
     then (case oldest (st_items S) of
         Some r \<Rightarrow> S\<lparr>st_items := filter (\<lambda>(q, e). q \<noteq> r) (st_items S)\<rparr>
       | None \<Rightarrow> S)
     else S)"

text \<open>\<open>token\<close> is the random part of the reference; \<open>t1\<close> and \<open>t2\<close> are the two clock readings.\<close>

definition store_put :: "env \<Rightarrow> rat \<Rightarrow> rat \<Rightarrow> string \<Rightarrow> string \<Rightarrow> string \<Rightarrow> string \<Rightarrow> json \<Rightarrow> store \<Rightarrow> string \<times> store" where
  "store_put E t1 t2 token session target cid payload S =
     (let S' = evict (purge t1 S); ref = ''EVR-'' @ token in
      (ref, S'\<lparr>st_items := dset ref \<lparr> en_session = session, en_target = target, en_collector = cid, en_payload = payload,
         en_digest = canonical_digest E payload, en_time = t2 \<rparr> (st_items S')\<rparr>))"

definition store_get :: "env \<Rightarrow> rat \<Rightarrow> string \<Rightarrow> string \<Rightarrow> string \<Rightarrow> store \<Rightarrow> (exc + entry) \<times> store" where
  "store_get E now ref session target S =
     (let S' = purge now S in
      ((case dget (st_items S') ref of
          None \<Rightarrow> gwerr E_EVIDENCE_NOT_FOUND
        | Some e \<Rightarrow>
            if en_session e \<noteq> session \<or> en_target e \<noteq> target then gwerr E_EVIDENCE_NOT_FOUND
            else if canonical_digest E (en_payload e) \<noteq> en_digest e then gwerr E_EVIDENCE_NOT_FOUND
            else Inr e), S'))"

definition clear_session :: "string \<Rightarrow> store \<Rightarrow> nat \<times> store" where
  "clear_session session S =
     (length (filter (\<lambda>(r, e). en_session e = session) (st_items S)),
      S\<lparr>st_items := filter (\<lambda>(r, e). en_session e \<noteq> session) (st_items S)\<rparr>)"

subsection \<open>Aliases\<close>

text \<open>Every table numbers its values in the order in which they came.\<close>

definition alias_inv :: "scope \<Rightarrow> bool" where
  "alias_inv sc \<longleftrightarrow> (\<forall>t p. let table = dget_or (sc_aliases sc) (t, p) [] in
     distinct (dkeys table) \<and> map snd table = map (\<lambda>i. alias_text p (i + 1)) [0..<length table])"

lemma alias_text_inj [simp]: "alias_text p m = alias_text p n \<longleftrightarrow> m = n"
  by (simp add: alias_text_def)

lemma dset_fresh: "k \<notin> set (dkeys d) \<Longrightarrow> dset k v d = d @ [(k, v)]"
  by (induction d) auto

lemma alias_step:
  assumes "alias_inv sc" "scope_alias sc t p v = (a, sc')"
  shows "alias_inv sc' \<and> dget (dget_or (sc_aliases sc') (t, p) []) v = Some a \<and>
    (\<forall>t' p' w b. dget (dget_or (sc_aliases sc) (t', p') []) w = Some b \<longrightarrow>
        dget (dget_or (sc_aliases sc') (t', p') []) w = Some b) \<and>
    sc_session_id sc' = sc_session_id sc \<and> sc_salt sc' = sc_salt sc"
proof -
  let ?T = "dget_or (sc_aliases sc) (t, p) []"
  have inv: "distinct (dkeys ?T)" "map snd ?T = map (\<lambda>i. alias_text p (i + 1)) [0..<length ?T]"
    using assms(1) unfolding alias_inv_def Let_def by blast+
  show ?thesis
  proof (cases "dget ?T v")
    case None
    then have f: "v \<notin> set (dkeys ?T)" by (simp add: dget_None_iff)
    have a: "a = alias_text p (length ?T + 1)" and s: "sc' = sc\<lparr>sc_aliases := dset (t, p) (?T @ [(v, a)]) (sc_aliases sc)\<rparr>"
      using assms(2) None by (auto simp: scope_alias_def Let_def dset_fresh [OF f])
    have "alias_inv sc'"
      unfolding alias_inv_def Let_def s using assms(1) inv f a unfolding alias_inv_def Let_def by auto
    moreover have "dget (?T @ [(v, a)]) v = Some a" using None by (simp add: map_add_def)
    ultimately show ?thesis using None unfolding s by (auto simp: map_add_def)
  next
    case (Some b)
    have s: "a = b" "sc' = sc\<lparr>sc_aliases := dset (t, p) ?T (sc_aliases sc)\<rparr>"
      using assms(2) Some by (auto simp: scope_alias_def Let_def)
    have "alias_inv sc'"
      unfolding alias_inv_def Let_def s using assms(1) unfolding alias_inv_def Let_def by auto
    then show ?thesis using Some unfolding s by auto
  qed
qed

lemma alias_table_inj:
  assumes "alias_inv sc" "dget (dget_or (sc_aliases sc) (t, p) []) v = Some a" "dget (dget_or (sc_aliases sc) (t, p) []) w = Some a"
  shows "v = w"
proof -
  let ?T = "dget_or (sc_aliases sc) (t, p) []"
  have inv: "distinct (dkeys ?T)" "map snd ?T = map (\<lambda>i. alias_text p (i + 1)) [0..<length ?T]"
    using assms(1) unfolding alias_inv_def Let_def by blast+
  have "distinct (map snd ?T)" unfolding inv(2) by (simp add: distinct_map inj_on_def)
  moreover have "(v, a) \<in> set ?T" "(w, a) \<in> set ?T" using assms(2,3) by (auto dest: map_of_SomeD)
  ultimately show ?thesis using inj_onD [of snd "set ?T" "(v, a)" "(w, a)"] by (simp add: distinct_map)
qed

fun mask_all :: "scope \<Rightarrow> (string \<times> string \<times> string) list \<Rightarrow> string list \<times> scope" where
  "mask_all sc [] = ([], sc)"
| "mask_all sc ((t, p, v) # rest) = (let (a, sc') = scope_alias sc t p v; (bs, sc'') = mask_all sc' rest in (a # bs, sc''))"

lemma mask_all_keeps:
  "alias_inv sc \<Longrightarrow> mask_all sc reqs = (out, sc') \<Longrightarrow> alias_inv sc' \<and>
     (\<forall>t p w b. dget (dget_or (sc_aliases sc) (t, p) []) w = Some b \<longrightarrow> dget (dget_or (sc_aliases sc') (t, p) []) w = Some b)"
proof (induction reqs arbitrary: sc out)
  case (Cons r reqs)
  obtain t p v where r: "r = (t, p, v)" by (cases r)
  obtain a s1 where s1: "scope_alias sc t p v = (a, s1)" by (cases "scope_alias sc t p v")
  obtain bs s2 where s2: "mask_all s1 reqs = (bs, s2)" by (cases "mask_all s1 reqs")
  have "sc' = s2" using Cons.prems(2) r s1 s2 by simp
  with Cons.IH [of s1 bs] s2 alias_step [OF Cons.prems(1) s1] show ?case by blast
qed simp

text \<open>
  Masking keeps identities apart and stable. In one session and target, two values get the same
  alias exactly when they are equal, whatever was masked in between, so correlation works and no
  two objects are confused; the masked text carries nothing of the value but its order of arrival.
\<close>

theorem alias_injective:
  assumes "alias_inv sc" and "scope_alias sc t p v = (a, sc1)" and "mask_all sc1 between = (out, sc2)"
    and "scope_alias sc2 t p w = (b, sc3)"
  shows "(a = b \<longleftrightarrow> v = w) \<and> alias_inv sc3"
proof -
  note s1 = alias_step [OF assms(1,2)]
  then have k: "alias_inv sc2" "dget (dget_or (sc_aliases sc2) (t, p) []) v = Some a"
    using mask_all_keeps [OF _ assms(3)] by blast+
  note s3 = alias_step [OF k(1) assms(4)]
  then have v: "dget (dget_or (sc_aliases sc3) (t, p) []) v = Some a" "dget (dget_or (sc_aliases sc3) (t, p) []) w = Some b"
    "alias_inv sc3" using k(2) by blast+
  have "a = b" if "v = w" using v that by simp
  moreover have "v = w" if "a = b" using alias_table_inj [OF v(3)] v that by blast
  ultimately show ?thesis using v(3) by blast
qed

lemma new_scope_inv: "alias_inv (new_scope token salt)"
  by (simp add: alias_inv_def new_scope_def dget_or_def Let_def)

theorem alias_injective_witness:
  "fst (scope_alias (snd (scope_alias (new_scope ''0'' ''s'') ''db'' ''obj'' ''SCOTT'')) ''db'' ''obj'' ''HR'') \<noteq> ''obj-A1''"
proof -
  have a: "scope_alias (new_scope ''0'' ''s'') ''db'' ''obj'' ''SCOTT'' = (''obj-A1'', snd (scope_alias (new_scope ''0'' ''s'') ''db'' ''obj'' ''SCOTT''))"
    by code_simp
  obtain b s3 where b: "scope_alias (snd (scope_alias (new_scope ''0'' ''s'') ''db'' ''obj'' ''SCOTT'')) ''db'' ''obj'' ''HR'' = (b, s3)"
    by (cases "scope_alias (snd (scope_alias (new_scope ''0'' ''s'') ''db'' ''obj'' ''SCOTT'')) ''db'' ''obj'' ''HR''")
  from alias_injective [OF new_scope_inv a mask_all.simps(1) b] b show ?thesis by auto
qed

subsection \<open>The store as a machine\<close>

datatype store_event =
    SPut rat rat string string string string json
  | SGet rat string string string
  | SClear string

fun store_step :: "env \<Rightarrow> store \<Rightarrow> store_event \<Rightarrow> store" where
  "store_step E S (SPut t1 t2 token session target cid payload) = snd (store_put E t1 t2 token session target cid payload S)"
| "store_step E S (SGet now ref session target) = snd (store_get E now ref session target S)"
| "store_step E S (SClear session) = snd (clear_session session S)"

definition store_ok :: "env \<Rightarrow> store \<Rightarrow> bool" where
  "store_ok E S \<longleftrightarrow> 0 < st_max S \<and> length (st_items S) \<le> st_max S \<and> dwf (st_items S) \<and>
     (\<forall>(r, e) \<in> set (st_items S). canonical_digest E (en_payload e) = en_digest e)"

lemma oldest_in: "oldest kvs = Some r \<Longrightarrow> r \<in> set (dkeys kvs)"
  by (induction kvs arbitrary: r rule: oldest.induct) (auto split: option.splits if_splits)

lemma oldest_None: "oldest kvs = None \<longleftrightarrow> kvs = []"
  by (induction kvs rule: oldest.induct) (auto split: option.splits if_splits)

lemma oldest_min:
  "distinct (dkeys kvs) \<Longrightarrow> oldest kvs = Some r \<Longrightarrow>
    \<exists>e. dget kvs r = Some e \<and> (\<forall>(q, f) \<in> set kvs. en_time e \<le> en_time f)"
proof (induction kvs arbitrary: r rule: oldest.induct)
  case (2 r0 e0 kvs)
  show ?case
  proof (cases "oldest kvs")
    case None
    then have "kvs = []" by (simp add: oldest_None)
    with 2 None show ?thesis by auto
  next
    case (Some q0)
    with 2 obtain f0 where f0: "dget kvs q0 = Some f0" "\<forall>(q, f) \<in> set kvs. en_time f0 \<le> en_time f" by auto
    from f0(1) 2(2) have "q0 \<noteq> r0" by (force dest!: map_of_SomeD)
    with f0 2(3) Some show ?thesis by (fastforce split: if_splits)
  qed
qed simp

lemma purge_sub: "set (st_items (purge now S)) \<subseteq> set (st_items S)"
  by (auto simp: purge_def)

lemma evict_sub: "set (st_items (evict S)) \<subseteq> set (st_items S)"
  by (auto simp: evict_def split: option.splits)

lemma evict_length:
  assumes "0 < st_max S" "length (st_items S) \<le> st_max S"
  shows "length (st_items (evict S)) < st_max S"
proof (cases "st_max S \<le> length (st_items S)")
  case True
  then have ne: "st_items S \<noteq> []" using assms by auto
  then obtain r where r: "oldest (st_items S) = Some r" using oldest_None by (cases "oldest (st_items S)") auto
  then obtain e where "(r, e) \<in> set (st_items S)" using oldest_in by fastforce
  then have "length (filter (\<lambda>(q, e). q \<noteq> r) (st_items S)) < length (st_items S)"
    by (intro length_filter_less) auto
  with True r assms show ?thesis by (simp add: evict_def)
qed (simp add: evict_def)

lemma store_ok_purge: "store_ok E S \<Longrightarrow> store_ok E (purge now S)"
  unfolding store_ok_def purge_def by (auto intro: dwf_filter le_trans [OF length_filter_le])

lemma store_ok_evict: "store_ok E S \<Longrightarrow> store_ok E (evict S)"
  unfolding store_ok_def evict_def by (auto intro: dwf_filter le_trans [OF length_filter_le] split: option.splits)

lemma st_max_simps [simp]: "st_max (purge now S) = st_max S" "st_max (evict S) = st_max S"
  "st_ttl (purge now S) = st_ttl S" "st_ttl (evict S) = st_ttl S"
  by (auto simp: purge_def evict_def split: option.splits)

lemma store_ok_put: "store_ok E S \<Longrightarrow> store_ok E (snd (store_put E t1 t2 token session target cid payload S))"
proof -
  assume ok: "store_ok E S"
  let ?S = "evict (purge t1 S)"
  have o: "store_ok E ?S" by (rule store_ok_evict [OF store_ok_purge [OF ok]])
  have "length (st_items ?S) < st_max ?S"
    using evict_length [of "purge t1 S"] store_ok_purge [OF ok, of t1] by (simp add: store_ok_def)
  with o show ?thesis
    unfolding store_ok_def store_put_def Let_def
    by (auto simp: length_dset intro!: dwf_dset dest!: in_dset)
qed

lemma store_ok_step: "store_ok E S \<Longrightarrow> store_ok E (store_step E S ev)"
proof (cases ev)
  case (SClear session)
  assume "store_ok E S"
  then show ?thesis unfolding SClear
    by (auto simp: store_ok_def clear_session_def intro: dwf_filter le_trans [OF length_filter_le])
qed (auto simp: store_get_def Let_def intro: store_ok_put store_ok_purge)

interpretation store_m: step_machine "store_step E" "store_ok E" for E
  by unfold_locales (rule store_ok_step)

lemma step_limits [simp]: "st_max (store_step E S ev) = st_max S" "st_ttl (store_step E S ev) = st_ttl S"
  by (cases ev; simp add: store_put_def store_get_def clear_session_def Let_def)+

lemma run_limits: "st_max (run_steps (store_step E) S es) = st_max S"
  unfolding run_steps_def by (induction es arbitrary: S) simp_all

lemma new_store_ok: "store_ok E new_store"
  by (simp add: store_ok_def new_store_def MAX_EVIDENCE_ENTRIES_def)

text \<open>
  C26: the store is bounded and intact over any sequence of stores, reads and session ends, in any
  order and at any times: it never holds more than its maximum, references are unique, and the
  digest of every entry is the digest of its payload.
\<close>

theorem store_bounded:
  "length (st_items (run_steps (store_step E) new_store es)) \<le> MAX_EVIDENCE_ENTRIES \<and>
   dwf (st_items (run_steps (store_step E) new_store es)) \<and>
   (\<forall>x \<in> set (st_items (run_steps (store_step E) new_store es)). canonical_digest E (en_payload (snd x)) = en_digest (snd x))"
  using store_m.run_ok [OF new_store_ok, of E es] run_limits [of E new_store es]
  by (auto simp: store_ok_def new_store_def)

definition example_env :: env where
  "example_env = \<lparr> e_sha = (\<lambda>_. replicate 64 CHR ''0''), e_mac = (\<lambda>_ _. replicate 64 CHR ''0''), e_utc = (\<lambda>_. Inr None),
     e_certified = [], e_frepr = (\<lambda>_. ''0'') \<rparr>"

theorem store_bounded_witness:
  "length (st_items (run_steps (store_step example_env) new_store [SPut 0 0 ''a'' ''S1'' ''db'' ''c'' JNull, SGet 1 ''EVR-a'' ''S1'' ''db''])) \<le> 300"
  using store_bounded [of example_env "[SPut 0 0 ''a'' ''S1'' ''db'' ''c'' JNull, SGet 1 ''EVR-a'' ''S1'' ''db'']"]
  by (simp only: MAX_EVIDENCE_ENTRIES_def)

lemma dget_filter:
  "dwf d \<Longrightarrow> dget (filter (\<lambda>(r, e). P e) d) k = (case dget d k of Some e \<Rightarrow> if P e then Some e else None | None \<Rightarrow> None)"
proof (induction d)
  case (Cons x d)
  obtain r e where x: "x = (r, e)" by (cases x)
  have "dwf d" "r \<notin> set (dkeys d)" using Cons.prems by (simp_all add: dwf_def x)
  then have "dget d r = None" by (simp add: map_of_eq_None_iff)
  with Cons.IH [OF \<open>dwf d\<close>] show ?case by (auto simp: x split: option.splits)
qed simp

text \<open>
  C25: evidence is isolated per session and target with no existence oracle. After evidence is
  stored, reading its reference in the same session and for the same target gives it back until it
  expires; in any other session or for any other target, and after expiry, the answer is the very
  same error as in an empty store; and once the session is cleared it is gone.
\<close>

theorem evidence_isolated:
  assumes "store_ok E S" and "store_put E t1 t2 token s a cid p S = (ref, S1)"
  shows "(now - t2 \<le> st_ttl S \<longrightarrow> (\<exists>e. fst (store_get E now ref s a S1) = Inr e \<and> en_payload e = p \<and> en_collector e = cid)) \<and>
    (s' \<noteq> s \<or> a' \<noteq> a \<or> st_ttl S < now - t2 \<longrightarrow>
       fst (store_get E now ref s' a' S1) = fst (store_get E now ref s' a' (S\<lparr>st_items := []\<rparr>))) \<and>
    fst (store_get E now ref s a (snd (clear_session s S1))) = gwerr E_EVIDENCE_NOT_FOUND"
proof -
  let ?e = "\<lparr> en_session = s, en_target = a, en_collector = cid, en_payload = p, en_digest = canonical_digest E p, en_time = t2 \<rparr>"
  define S' where "S' = evict (purge t1 S)"
  have S1: "S1 = S'\<lparr>st_items := dset ref ?e (st_items S')\<rparr>"
    using assms(2) by (auto simp: store_put_def Let_def S'_def)
  have w: "dwf (st_items S1)"
    using store_ok_put [OF assms(1), of t1 t2 token s a cid p] assms(2) by (simp add: store_ok_def)
  have g: "dget (st_items S1) ref = Some ?e" and ttl: "st_ttl S1 = st_ttl S" by (simp_all add: S1 S'_def)
  have pg: "dget (st_items (purge now S1)) ref = (if st_ttl S < now - t2 then None else Some ?e)"
    using dget_filter [OF w, of "\<lambda>e. \<not> expired S1 now e" ref] by (simp add: purge_def g expired_def ttl)
  have "dget (st_items (snd (clear_session s S1))) ref = None"
    using dget_filter [OF w, of "\<lambda>e. en_session e \<noteq> s" ref] by (simp add: clear_session_def g)
  then have "dget (st_items (purge now (snd (clear_session s S1)))) ref = None"
    by (auto simp: purge_def map_of_eq_None_iff)
  then have "fst (store_get E now ref s a (snd (clear_session s S1))) = gwerr E_EVIDENCE_NOT_FOUND"
    by (simp add: store_get_def Let_def)
  then show ?thesis
    using pg by (auto simp: store_get_def Let_def purge_def)
qed

theorem evidence_isolated_witness:
  "fst (store_get example_env 5 ''EVR-a'' ''S2'' ''db'' (snd (store_put example_env 0 1 ''a'' ''S1'' ''db'' ''c'' JNull new_store))) = gwerr E_EVIDENCE_NOT_FOUND"
proof -
  have p: "store_put example_env 0 1 ''a'' ''S1'' ''db'' ''c'' JNull new_store
      = (''EVR-a'', snd (store_put example_env 0 1 ''a'' ''S1'' ''db'' ''c'' JNull new_store))"
    by (simp add: store_put_def Let_def)
  from evidence_isolated [OF new_store_ok p, of 5 "''S2''" "''db''"]
  show ?thesis by (simp add: store_get_def purge_def Let_def)
qed

subsection \<open>What sanitized rows contain\<close>

text \<open>A value that may leave under a field's specification.\<close>

definition released :: "json \<Rightarrow> json \<Rightarrow> bool" where
  "released spec w \<longleftrightarrow> (\<exists>ty pol. jget spec ''type'' = Some ty \<and> jget spec ''policy'' = Some pol \<and> pol \<noteq> JStr ''DROP'' \<and>
     ty \<noteq> JStr ''text'' \<and>
     (ty = JStr ''identifier'' \<longrightarrow> (\<exists>x. w = JStr x \<and>
        (pol = JStr ''MASK'' \<and> (\<exists>prefix n. x = alias_text prefix n)
         \<or> pol = JStr ''HASH'' \<and> (\<exists>h. x = ''H-'' @ h \<and> length h \<le> 12)
         \<or> pol = JStr ''TOKENIZE'' \<and> (\<exists>h. x = ''TOK-'' @ h \<and> length h \<le> 16)))))"

lemma alias_is_text: "alias_inv sc \<Longrightarrow> scope_alias sc t p v = (a, sc') \<Longrightarrow> \<exists>n. a = alias_text p n"
proof -
  assume i: "alias_inv sc" and a: "scope_alias sc t p v = (a, sc')"
  from alias_step [OF i a] have i': "alias_inv sc'" and g: "dget (dget_or (sc_aliases sc') (t, p) []) v = Some a" by blast+
  let ?T = "dget_or (sc_aliases sc') (t, p) []"
  have "map snd ?T = map (\<lambda>i. alias_text p (i + 1)) [0..<length ?T]"
    using i' unfolding alias_inv_def Let_def by blast
  moreover have "a \<in> set (map snd ?T)" using g by (force dest: map_of_SomeD)
  ultimately show ?thesis by auto
qed

lemma sanitize_identifier_released:
  assumes "sanitize_identifier E pol spec raw sc t = Inr (v, sc')" "alias_inv sc"
  shows "alias_inv sc' \<and> sc_session_id sc' = sc_session_id sc \<and>
    (\<forall>x. v = Some x \<longrightarrow> pol = ''MASK'' \<and> (\<exists>prefix n. x = alias_text prefix n)
         \<or> pol = ''HASH'' \<and> (\<exists>h. x = ''H-'' @ h \<and> length h \<le> 12)
         \<or> pol = ''TOKENIZE'' \<and> (\<exists>h. x = ''TOK-'' @ h \<and> length h \<le> 16))"
proof (cases "pol = ''MASK''")
  case True
  show ?thesis
  proof (cases "v = None")
    case False
    with assms(1) True obtain prefix where "the v = fst (scope_alias sc t prefix raw)" "sc' = snd (scope_alias sc t prefix raw)"
      by (auto simp: sanitize_identifier_def bindE_Inr Let_def split: if_splits)
    then have s: "scope_alias sc t prefix raw = (the v, sc')" by simp
    from alias_is_text [OF assms(2) s] have "\<exists>prefix n. the v = alias_text prefix n" by blast
    with alias_step [OF assms(2) s] True show ?thesis by (intro conjI allI impI disjI1) (simp_all only: option.sel)
  qed (use assms True in \<open>auto simp: sanitize_identifier_def bindE_Inr Let_def split: if_splits\<close>)
next
  case False
  with assms show ?thesis
    by (auto simp: sanitize_identifier_def hash_value_def token_value_def scope_mac_def split: if_splits)
qed

lemma sanitize_value_types:
  assumes "sanitize_value E spec raw sc t = Inr (v, sc')"
  shows "\<exists>ty pol. jget spec ''type'' = Some ty \<and> jget spec ''policy'' = Some pol"
  using assms by (auto simp: sanitize_value_def bindE_Inr)

lemma sanitize_value_drop:
  assumes "sanitize_value E spec raw sc t = Inr (v, sc')" "jget spec ''policy'' = Some (JStr ''DROP'')"
  shows "v = None \<and> sc' = sc"
  using assms by (auto simp: sanitize_value_def bindE_Inr)

lemma sanitize_value_text:
  assumes "sanitize_value E spec raw sc t = Inr (v, sc')" "jget spec ''type'' = Some (JStr ''text'')"
  shows "v = None \<and> sc' = sc"
  using assms by (auto simp: sanitize_value_def plain_value_def bindE_Inr split: if_splits)

lemma sanitize_value_identifier:
  assumes "sanitize_value E spec raw sc t = Inr (v, sc')" "jget spec ''type'' = Some (JStr ''identifier'')"
    "jget spec ''policy'' = Some pol" "pol \<noteq> JStr ''DROP''"
  shows "(v = None \<and> sc' = sc) \<or> (\<exists>s p x. pol = JStr p \<and> sanitize_identifier E p spec s sc t = Inr (x, sc') \<and> v = map_option JStr x)"
  using assms by (auto simp: sanitize_value_def bindE_Inr split: json.splits)

lemma sanitize_value_other:
  assumes "sanitize_value E spec raw sc t = Inr (v, sc')" "jget spec ''type'' \<noteq> Some (JStr ''identifier'')"
  shows "sc' = sc"
  using assms unfolding sanitize_value_def by (auto simp: bindE_Inr split: if_splits)

lemma sanitize_value_released:
  assumes s: "sanitize_value E spec raw sc t = Inr (v, sc')" and inv: "alias_inv sc"
  shows "alias_inv sc' \<and> sc_session_id sc' = sc_session_id sc \<and> (\<forall>w. v = Some w \<longrightarrow> released spec w)"
proof -
  obtain ty pol where tp: "jget spec ''type'' = Some ty" "jget spec ''policy'' = Some pol"
    using sanitize_value_types [OF s] by blast
  show ?thesis
  proof (cases "ty = JStr ''identifier'' \<and> pol \<noteq> JStr ''DROP''")
    case True
    with sanitize_value_identifier [OF s] tp consider "v = None" "sc' = sc"
      | r p x where "pol = JStr p" "sanitize_identifier E p spec r sc t = Inr (x, sc')" "v = map_option JStr x" by blast
    then show ?thesis
    proof cases
      case 2
      from sanitize_identifier_released [OF 2(2) inv] 2 tp True show ?thesis
        unfolding released_def by (auto 0 3)
    qed (use inv in simp)
  next
    case False
    have "sc' = sc" using sanitize_value_other [OF s] sanitize_value_drop [OF s] tp False by (cases "ty = JStr ''identifier''") auto
    moreover have "released spec w" if "v = Some w" for w
    proof -
      have "pol \<noteq> JStr ''DROP''" using sanitize_value_drop [OF s] tp that by auto
      moreover have "ty \<noteq> JStr ''text''" using sanitize_value_text [OF s] tp that by auto
      ultimately show ?thesis using False tp unfolding released_def by simp
    qed
    ultimately show ?thesis using inv by simp
  qed
qed

text \<open>A row of the result: not empty, and every field declared and released by its policy.\<close>

definition row_ok :: "collector \<Rightarrow> (string \<times> json) list \<Rightarrow> bool" where
  "row_ok c kvs \<longleftrightarrow> (\<forall>(k, w) \<in> set kvs. \<exists>spec. dget (c_output_fields c) k = Some spec \<and> released spec w)"

lemma sanitize_field_ok:
  assumes "sanitize_field E c t (clean, s) kv = Inr (clean', s')" "row_ok c clean" "alias_inv (rs_scope s)"
  shows "row_ok c clean' \<and> alias_inv (rs_scope s') \<and> sc_session_id (rs_scope s') = sc_session_id (rs_scope s)"
proof -
  obtain k v where kv: "kv = (k, v)" by (cases kv)
  show ?thesis
  proof (cases "dget (c_output_fields c) k")
    case None
    with assms kv show ?thesis by (auto simp: sanitize_field_def)
  next
    case (Some spec)
    with assms(1) kv obtain kept sc where v: "sanitize_value E spec v (rs_scope s) t = Inr (kept, sc)"
      by (auto simp: sanitize_field_def bindE_Inr)
    note r = sanitize_value_released [OF v assms(3)]
    show ?thesis
    proof (cases kept)
      case None
      with assms(1,2) kv Some v r show ?thesis by (auto simp: sanitize_field_def bindE_Inr split: if_splits)
    next
      case (Some w)
      with assms(1) kv \<open>dget (c_output_fields c) k = Some spec\<close> v have "clean' = dset k w clean" "rs_scope s' = sc"
        by (auto simp: sanitize_field_def)
      moreover have "row_ok c (dset k w clean)"
        unfolding row_ok_def by (rule ball_dset) (use assms(2) r Some \<open>dget (c_output_fields c) k = Some spec\<close> in \<open>auto simp: row_ok_def\<close>)
      ultimately show ?thesis using r by simp
    qed
  qed
qed

definition rows_inv :: "collector \<Rightarrow> string \<Rightarrow> json list \<times> row_state \<Rightarrow> bool" where
  "rows_inv c sid st \<longleftrightarrow> (\<forall>r \<in> set (fst st). \<exists>kvs. r = JObj kvs \<and> kvs \<noteq> [] \<and> row_ok c kvs) \<and>
     alias_inv (rs_scope (snd st)) \<and> sc_session_id (rs_scope (snd st)) = sid"

lemma sanitize_row_ok:
  assumes "sanitize_row E c t st raw = Inr st'" "rows_inv c sid st"
  shows "rows_inv c sid st' \<and> length (fst st') \<le> Suc (length (fst st))"
proof -
  obtain rows s where st: "st = (rows, s)" by (cases st)
  with assms(1) obtain kvs clean s' where f: "foldE (sanitize_field E c t) ([], s) kvs = Inr (clean, s')"
    and st': "st' = (if clean = [] then rows else rows @ [JObj clean], s')"
    by (auto simp: sanitize_row_def bindE_Inr)
  have "row_ok c (fst (clean, s')) \<and> alias_inv (rs_scope (snd (clean, s'))) \<and> sc_session_id (rs_scope (snd (clean, s'))) = sid"
  proof (rule foldE_invariant [OF f])
    show "row_ok c (fst ([], s)) \<and> alias_inv (rs_scope (snd ([], s))) \<and> sc_session_id (rs_scope (snd ([], s))) = sid"
      using assms(2) st by (simp add: row_ok_def rows_inv_def)
  next
    fix u x u'
    assume "row_ok c (fst u) \<and> alias_inv (rs_scope (snd u)) \<and> sc_session_id (rs_scope (snd u)) = sid"
      "sanitize_field E c t u x = Inr u'"
    then show "row_ok c (fst u') \<and> alias_inv (rs_scope (snd u')) \<and> sc_session_id (rs_scope (snd u')) = sid"
      using sanitize_field_ok [of E c t "fst u" "snd u" x "fst u'" "snd u'"] by simp
  qed
  then show ?thesis using st' st assms(2) by (auto simp: rows_inv_def)
qed

lemma sanitize_row_fold:
  "foldE (sanitize_row E c t) st raws = Inr st' \<Longrightarrow> rows_inv c sid st \<Longrightarrow>
    rows_inv c sid st' \<and> length (fst st') \<le> length (fst st) + length raws"
proof (induction raws arbitrary: st)
  case (Cons r raws)
  then obtain u where u: "sanitize_row E c t st r = Inr u" "foldE (sanitize_row E c t) u raws = Inr st'"
    by (auto simp: bindE_Inr)
  from sanitize_row_ok [OF u(1) Cons.prems(2)] Cons.IH [OF u(2)] show ?case by auto
qed simp

lemma sanitize_rows_sound [fail_closed]:
  assumes "sanitize_rows E c raws sc t cap = Inr (p, sc')" and "alias_inv sc"
  shows "p_row_count p = int (length (p_rows p)) \<and> p_row_count p \<le> max 0 (min cap (min (c_row_limit c) MAX_ROWS_HARD)) \<and>
    (\<forall>r \<in> set (p_rows p). \<exists>kvs. r = JObj kvs \<and> kvs \<noteq> [] \<and>
       (\<forall>(k, w) \<in> set kvs. \<exists>spec. dget (c_output_fields c) k = Some spec \<and> released spec w)) \<and>
    alias_inv sc' \<and> sc_session_id sc' = sc_session_id sc"
proof -
  define lim where "lim = max 0 (min (min cap (c_row_limit c)) MAX_ROWS_HARD)"
  obtain xs where x: "raws = JArr xs" and ok: "\<not> list_ex (\<lambda>r. \<not> is_obj r) xs"
    using assms(1) by (cases raws) (auto simp: sanitize_rows_def Let_def split: if_split_asm)
  have "\<exists>rs. foldE (sanitize_row E c t) ([], \<lparr> rs_scope = sc, rs_dropped = 0, rs_invalid = 0 \<rparr>) (take (nat lim) xs) = Inr rs \<and>
      p_rows p = fst rs \<and> p_row_count p = int (length (fst rs)) \<and> sc' = rs_scope (snd rs)"
    using assms(1) ok unfolding x sanitize_rows_def json.case Let_def lim_def [symmetric]
    by (clarsimp simp only: if_False bindE_Inr split_beta) force
  then obtain rows s where
    f: "foldE (sanitize_row E c t) ([], \<lparr> rs_scope = sc, rs_dropped = 0, rs_invalid = 0 \<rparr>) (take (nat lim) xs) = Inr (rows, s)"
    and p: "p_rows p = rows" "p_row_count p = int (length rows)" "sc' = rs_scope s"
    by auto
  have "rows_inv c (sc_session_id sc) ([], \<lparr> rs_scope = sc, rs_dropped = 0, rs_invalid = 0 \<rparr>)"
    using assms(2) by (simp add: rows_inv_def)
  from sanitize_row_fold [OF f this] have i: "rows_inv c (sc_session_id sc) (rows, s)" "length rows \<le> length (take (nat lim) xs)"
    by simp_all
  have "length rows \<le> nat lim" "0 \<le> lim" using i(2) by (simp_all add: lim_def)
  then have "int (length rows) \<le> lim" by linarith
  then have "p_row_count p \<le> max 0 (min cap (min (c_row_limit c) MAX_ROWS_HARD))"
    using p(2) by (simp add: lim_def min.assoc)
  then show ?thesis using i(1) p unfolding rows_inv_def row_ok_def by simp
qed

definition example_rows :: json where
  "example_rows = JArr [JObj [(''host'', JStr ''h''), (''password'', JStr ''x'')]]"

definition example_masked_collector :: collector where
  "example_masked_collector = \<lparr> c_id = ''os.uptime'', c_kind = ''semantic_os'', c_domain = JStr ''os'', c_title = JStr ''t'', c_row_limit = 5,
     c_params = JObj [], c_output_fields = [(''host'', JObj [(''type'', JStr ''identifier''), (''policy'', JStr ''MASK'')])],
     c_rca = None, c_adapters = JObj [], c_reference = None, c_query_id = None, c_query_sha256 = None, c_versions = [''19c''],
     c_role_scope = FStr ''ANY'', c_container_scope = FStr ''NOT_APPLICABLE'', c_license = FStr ''none'', c_privileges = FList [],
     c_timeout = 15, c_cost_class = FStr ''LOW'', c_risk_class = FStr ''R0'' \<rparr>"


lemma digits_of_1: "digits_of (Suc 0) = ''1''"
  by code_simp

lemma example_identifier: "match_dollar IDENT ''h'' \<and> \<not> identifier_secret_shaped ''h''"
  by code_simp

lemma example_sanitized:
  "sanitize_rows example_env example_masked_collector example_rows (new_scope ''0'' ''s'') ''db'' 10 =
   Inr (\<lparr> p_columns = [''host''], p_rows = [JObj [(''host'', JStr ''obj-A1'')]], p_row_count = 1,
          p_limitations = [''FIELDS_DROPPED_BY_POLICY:1''] \<rparr>,
        snd (scope_alias (new_scope ''0'' ''s'') ''db'' ''obj'' ''h''))"
  using example_identifier
  by (simp add: sanitize_rows_def is_obj_def jitems_def jget_def or_else_def digits_of_1 example_rows_def example_masked_collector_def sanitize_row_def sanitize_field_def
      sanitize_value_def sanitize_identifier_def scope_alias_def new_scope_def jreq_def jget_or_def crash_def as_str_def
      MAX_ROWS_HARD_def alias_text_def dget_or_def Let_def)


end
