(* ===== verification/Json_Input.thy ===== *)
theory Json_Input
  imports Kb_Common
begin

section \<open>Strict JSON input (safety.py, server.py)\<close>

text \<open>
  Both places that parse untrusted JSON pass the same two hooks to the parser: a constant such as
  \<open>NaN\<close> raises, and so does an object with a repeated key. The lexical part of \<open>json.loads\<close> is a
  parameter that yields a raw tree (repeated keys and named constants still visible); the hooks,
  the size limits and the order of the checks are below. A file is what the operating system
  reports about a path; its content is a list of bytes.
\<close>

datatype raw =
    RNull
  | RBool bool
  | RInt int
  | RFloat pyfloat
  | RConst string
  | RStr string
  | RArr "raw list"
  | RObj "(string \<times> raw) list"

text \<open>The hooks: \<open>None\<close> is the \<open>ValueError\<close> they raise. Values are decoded before their object.\<close>

fun hooks :: "raw \<Rightarrow> json option" and hooks_all :: "raw list \<Rightarrow> json list option"
  and hooks_pairs :: "(string \<times> raw) list \<Rightarrow> (string \<times> json) list option" where
  "hooks RNull = Some JNull"
| "hooks (RBool b) = Some (JBool b)"
| "hooks (RInt i) = Some (JInt i)"
| "hooks (RFloat x) = Some (JFloat x)"
| "hooks (RConst _) = None"
| "hooks (RStr s) = Some (JStr s)"
| "hooks (RArr xs) = map_option JArr (hooks_all xs)"
| "hooks (RObj kvs) = (case hooks_pairs kvs of None \<Rightarrow> None
     | Some ps \<Rightarrow> if distinct (map fst ps) then Some (JObj ps) else None)"
| "hooks_all [] = Some []"
| "hooks_all (x # xs) = (case hooks x of None \<Rightarrow> None | Some v \<Rightarrow> map_option ((#) v) (hooks_all xs))"
| "hooks_pairs [] = Some []"
| "hooks_pairs ((k, x) # kvs) = (case hooks x of None \<Rightarrow> None | Some v \<Rightarrow> map_option ((#) (k, v)) (hooks_pairs kvs))"

text \<open>\<open>lex\<close>: decoding UTF-8, and the lexical part of \<open>json.loads\<close> (\<open>None\<close> for its errors).\<close>

record codec =
  utf8 :: "string \<Rightarrow> string option"
  lex :: "string \<Rightarrow> raw option"

definition strict_json :: "codec \<Rightarrow> string \<Rightarrow> json option" where
  "strict_json C bytes = (case utf8 C bytes of None \<Rightarrow> None
     | Some s \<Rightarrow> (case lex C s of None \<Rightarrow> None | Some r \<Rightarrow> hooks r))"

text \<open>A value without repeated keys, at any depth.\<close>

fun unique_keys :: "json \<Rightarrow> bool" where
  "unique_keys (JArr xs) = list_all unique_keys xs"
| "unique_keys (JObj kvs) = (distinct (map fst kvs) \<and> list_all (\<lambda>kv. unique_keys (snd kv)) kvs)"
| "unique_keys _ = True"

lemma hooks_unique:
  "hooks r = Some v \<Longrightarrow> unique_keys v"
  "hooks_all rs = Some vs \<Longrightarrow> list_all unique_keys vs"
  "hooks_pairs kvs = Some ps \<Longrightarrow> list_all (\<lambda>kv. unique_keys (snd kv)) ps"
  by (induction r and rs and kvs arbitrary: v and vs and ps rule: hooks_hooks_all_hooks_pairs.induct)
     (auto split: option.splits if_splits)

lemma strict_json_unique: "strict_json C bytes = Some v \<Longrightarrow> unique_keys v"
  by (auto simp: strict_json_def hooks_unique(1) split: option.splits)

subsection \<open>Reading a file\<close>

record file_info =
  f_is_file :: bool
  f_size :: nat
  f_bytes :: "string option"

definition MAX_INPUT_BYTES :: nat where "MAX_INPUT_BYTES = 2000000"

text \<open>At most one byte more than the limit is read; \<open>None\<close> is an \<open>OSError\<close>.\<close>

definition read_json_file :: "codec \<Rightarrow> (string \<Rightarrow> file_info) \<Rightarrow> string \<Rightarrow> nat \<Rightarrow> adv_error + json" where
  "read_json_file C files path limit =
     (if path = [] \<or> CHR 0x00 \<in> set path then Inl (AdvErr E_USAGE (Some ''input''))
      else let f = files path in
        if \<not> f_is_file f then adverr E_INPUT_UNREADABLE
        else if limit < f_size f then adverr E_INPUT_TOO_LARGE
        else (case f_bytes f of
            None \<Rightarrow> adverr E_INPUT_UNREADABLE
          | Some bytes \<Rightarrow>
              if limit < length (take (limit + 1) bytes) then adverr E_INPUT_TOO_LARGE
              else (case strict_json C (take (limit + 1) bytes) of
                  Some (JObj kvs) \<Rightarrow> Inr (JObj kvs)
                | Some (JArr xs) \<Rightarrow> Inr (JArr xs)
                | _ \<Rightarrow> adverr E_INPUT_INVALID)))"

lemma read_json_file_ok [fail_closed]:
  assumes "read_json_file C files path limit = Inr v"
  shows "(is_obj v \<or> is_arr v) \<and> unique_keys v \<and>
    (\<exists>bytes. f_bytes (files path) = Some bytes \<and> length bytes \<le> limit \<and> strict_json C bytes = Some v)"
proof -
  from assms obtain bytes where b: "f_bytes (files path) = Some bytes" and l: "\<not> limit < length (take (limit + 1) bytes)"
    and s: "strict_json C (take (limit + 1) bytes) = Some v" and v: "is_obj v \<or> is_arr v"
    by (auto simp: read_json_file_def Let_def json_tests split: if_splits option.splits json.splits)
  from l have n: "length bytes \<le> limit" by simp
  then have "take (limit + 1) bytes = bytes" by simp
  with b n s v strict_json_unique [OF s] show ?thesis by auto
qed

end
