(* ===== verification/Adapters.thy ===== *)
theory Adapters
  imports Json_Input Evidence Field_Validation
begin

section \<open>Adapters and bounded execution (mcp\_gateway/adapters.py)\<close>

text \<open>
  The registry maps a name to an adapter: the fixture adapter, which reads a confined JSON file, the
  stand-ins that only refuse, and adapters injected by the caller (the lab launcher), which are
  code outside this package. The world \<open>io\<close> gives the file system, what an injected adapter does,
  and how long a fetch takes; the deadline compares that time with the limit.
\<close>

datatype adapter =
    FixtureAdapter string
  | DisabledAdapter string adapter_status
  | ExtraAdapter string adapter_status "string list option" "(target \<Rightarrow> collector \<Rightarrow> int) option"

fun ad_name :: "adapter \<Rightarrow> string" where
  "ad_name (FixtureAdapter _) = ''fixture''"
| "ad_name (DisabledAdapter n _) = n"
| "ad_name (ExtraAdapter n _ _ _) = n"

fun ad_status :: "adapter \<Rightarrow> adapter_status" where
  "ad_status (FixtureAdapter _) = VERIFIED_FIXTURE"
| "ad_status (DisabledAdapter _ s) = s"
| "ad_status (ExtraAdapter _ s _ _) = s"

text \<open>The optional attributes \<open>implemented_collectors\<close> and \<open>row_cap\<close>.\<close>

fun ad_implemented :: "adapter \<Rightarrow> string list option" where
  "ad_implemented (ExtraAdapter _ _ i _) = i"
| "ad_implemented _ = None"

fun ad_row_cap :: "adapter \<Rightarrow> (target \<Rightarrow> collector \<Rightarrow> int) option" where
  "ad_row_cap (ExtraAdapter _ _ _ r) = r"
| "ad_row_cap _ = None"

record io =
  io_realpath :: "string \<Rightarrow> string"
  io_abs :: "string \<Rightarrow> bool"
  io_linked :: "string \<Rightarrow> string \<Rightarrow> bool"
  io_files :: "string \<Rightarrow> file_info"
  io_codec :: codec
  io_extra :: "string \<Rightarrow> target \<Rightarrow> collector \<Rightarrow> exc + json"
  io_elapsed :: rat

definition MAX_FIXTURE_BYTES :: nat where "MAX_FIXTURE_BYTES = 1000000"

text \<open>The constructor of the fixture adapter: the directory exists and is not a symbolic link.\<close>

definition fixture_adapter :: "(string \<Rightarrow> bool) \<Rightarrow> (string \<Rightarrow> bool) \<Rightarrow> (string \<Rightarrow> string) \<Rightarrow> json \<Rightarrow> py_exc + adapter" where
  "fixture_adapter isdir islink realpath fixtures_dir = (case fixtures_dir of
      JStr d \<Rightarrow> if \<not> isdir d \<or> islink d then Inl RuntimeError else Inr (FixtureAdapter (realpath d))
    | _ \<Rightarrow> Inl RuntimeError)"

definition fixture_fetch :: "io \<Rightarrow> string \<Rightarrow> target \<Rightarrow> collector \<Rightarrow> exc + json" where
  "fixture_fetch w dir t c =
     (case bindE (confine (io_realpath w) (io_abs w) (io_linked w) dir [t_alias t, c_id c @ ''.json''])
             (\<lambda>path. read_json_file (io_codec w) (io_files w) path MAX_FIXTURE_BYTES) of
        Inl (AdvErr _ _) \<Rightarrow> gwerr E_ADAPTER_FAILED
      | Inl (AdvCrash e) \<Rightarrow> Inl (Crash e)
      | Inr doc \<Rightarrow> (case doc of
            JObj kvs \<Rightarrow> (case dget kvs ''rows'' of None \<Rightarrow> gwerr E_RESULT_INVALID | Some rows \<Rightarrow> Inr rows)
          | _ \<Rightarrow> gwerr E_RESULT_INVALID))"

fun fetch :: "io \<Rightarrow> adapter \<Rightarrow> target \<Rightarrow> collector \<Rightarrow> exc + json" where
  "fetch w (FixtureAdapter dir) t c = fixture_fetch w dir t c"
| "fetch w (DisabledAdapter _ _) t c = gwerr E_ADAPTER_DISABLED"
| "fetch w (ExtraAdapter n _ _ _) t c = io_extra w n t c"

subsection \<open>The registry\<close>

type_synonym registry_of_adapters = "(string, adapter) dict"

definition adapter_registry :: "adapter \<Rightarrow> registry_of_adapters \<Rightarrow> registry_of_adapters" where
  "adapter_registry fixture extra = foldl (\<lambda>d (k, a). dset k a d)
     [(''fixture'', fixture), (''oracle_sql'', DisabledAdapter ''oracle_sql'' ADAPTER_DISABLED),
      (''oracle_diag_file'', DisabledAdapter ''oracle_diag_file'' CONTRACT_ONLY),
      (''os_readonly'', DisabledAdapter ''os_readonly'' CONTRACT_ONLY)] extra"

text \<open>A name comes from a target's configuration, so it can be any hashable value.\<close>

definition lookup_adapter :: "registry_of_adapters \<Rightarrow> json \<Rightarrow> exc + adapter option" where
  "lookup_adapter R name = (case name of JStr n \<Rightarrow> Inr (dget R n)
     | _ \<Rightarrow> if unhashable name then Inl (Crash TypeError) else Inr None)"

definition get_adapter :: "registry_of_adapters \<Rightarrow> json \<Rightarrow> exc + adapter" where
  "get_adapter R name = bindE (lookup_adapter R name)
     (\<lambda>a. case a of None \<Rightarrow> gwerr E_ADAPTER_DISABLED | Some b \<Rightarrow> Inr b)"

definition status_of :: "registry_of_adapters \<Rightarrow> json \<Rightarrow> exc + adapter_status" where
  "status_of R name = bindE (lookup_adapter R name)
     (\<lambda>a. Inr (case a of None \<Rightarrow> ADAPTER_UNSUPPORTED | Some b \<Rightarrow> ad_status b))"

fun adapter_status_name :: "adapter_status \<Rightarrow> string" where
  "adapter_status_name VERIFIED_FIXTURE = ''VERIFIED_FIXTURE''"
| "adapter_status_name VERIFIED_LAB = ''VERIFIED_LAB''"
| "adapter_status_name LAB_ENABLED = ''LAB_ENABLED''"
| "adapter_status_name CONTRACT_ONLY = ''CONTRACT_ONLY''"
| "adapter_status_name ADAPTER_DISABLED = ''DISABLED''"
| "adapter_status_name ADAPTER_UNSUPPORTED = ''UNSUPPORTED''"
| "adapter_status_name NOT_INTEGRATION_TESTED = ''NOT_INTEGRATION_TESTED''"

definition status_for :: "registry_of_adapters \<Rightarrow> string \<Rightarrow> string \<Rightarrow> json \<Rightarrow> json" where
  "status_for R name cid declared = (case dget R name of
      None \<Rightarrow> declared
    | Some a \<Rightarrow> (case ad_implemented a of
        Some ids \<Rightarrow> if cid \<notin> set ids then JStr (adapter_status_name ADAPTER_UNSUPPORTED)
          else JStr (adapter_status_name (ad_status a))
      | None \<Rightarrow> JStr (adapter_status_name (ad_status a))))"

definition describe_adapters :: "registry_of_adapters \<Rightarrow> json" where
  "describe_adapters R = JObj (map (\<lambda>(n, a). (n, JStr (adapter_status_name (ad_status a)))) (sort_key fst R))"

subsection \<open>The deadline\<close>

text \<open>
  The worker catches every exception: a gateway error is passed on, any other one becomes
  \<open>E_ADAPTER_FAILED\<close>. \<open>elapsed\<close> is the time the operation takes; past the deadline the worker is
  abandoned and its result is never looked at.
\<close>

definition run_with_timeout :: "rat \<Rightarrow> exc + json \<Rightarrow> rat \<Rightarrow> exc + json" where
  "run_with_timeout elapsed result timeout =
     (if min timeout DEFAULT_OPERATION_TIMEOUT_SECONDS < elapsed then gwerr E_TIMEOUT
      else (case result of
          Inl (GwErr c s) \<Rightarrow> Inl (GwErr c s)
        | Inl (Crash _) \<Rightarrow> gwerr E_ADAPTER_FAILED
        | Inr v \<Rightarrow> Inr v))"

lemma run_with_timeout_ok [fail_closed]:
  "run_with_timeout elapsed r timeout = Inr v \<Longrightarrow>
     r = Inr v \<and> elapsed \<le> timeout \<and> elapsed \<le> DEFAULT_OPERATION_TIMEOUT_SECONDS"
  by (auto simp: run_with_timeout_def split: if_splits sum.splits exc.splits)

lemma run_with_timeout_no_crash: "run_with_timeout elapsed r timeout \<noteq> Inl (Crash e)"
  by (auto simp: run_with_timeout_def split: sum.splits exc.splits)

lemma disabled_never_runs:
  "get_adapter R name = Inr (DisabledAdapter n s) \<Longrightarrow> fetch w (DisabledAdapter n s) t c = gwerr E_ADAPTER_DISABLED"
  by simp

text \<open>Without injected adapters, the fixture adapter is the only one whose fetch can succeed.\<close>

lemma only_fixture_runs:
  assumes "get_adapter (adapter_registry (FixtureAdapter d) []) name = Inr a" "fetch w a t c = Inr v"
  shows "a = FixtureAdapter d \<and> name = JStr ''fixture''"
  using assms
  by (auto simp: get_adapter_def lookup_adapter_def adapter_registry_def bindE_Inr split: json.splits option.splits if_splits)

lemma fixture_fetch_rows:
  assumes "fixture_fetch w dir t c = Inr rows"
  shows "\<exists>path kvs. confine (io_realpath w) (io_abs w) (io_linked w) dir [t_alias t, c_id c @ ''.json''] = Inr path \<and>
    read_json_file (io_codec w) (io_files w) path MAX_FIXTURE_BYTES = Inr (JObj kvs) \<and> dget kvs ''rows'' = Some rows"
  using assms by (auto simp: fixture_fetch_def bindE_Inr bindE_def split: sum.splits adv_error.splits json.splits option.splits)

end
