(* ===== verification/Gw_Tools.thy ===== *)
theory Gw_Tools
  imports Schemas Catalog Rca_Sanitize Canonical_Json
begin

section \<open>The tool registry of the gateway (mcp\_gateway/gateway.py)\<close>

text \<open>
  The five tools with their descriptions and argument schemas, the regular expressions their
  patterns stand for, the list that is published, and the JSON text of a response.
\<close>

subsection \<open>JSON text in insertion order\<close>

text \<open>\<open>json.dumps(v, ensure_ascii=True)\<close>; \<open>item\<close> and \<open>colon\<close> are the two separators.\<close>

fun dumps :: "(rat \<Rightarrow> string) \<Rightarrow> string \<Rightarrow> string \<Rightarrow> json \<Rightarrow> string" where
  "dumps frepr item colon (JArr xs) = ''['' @ join_on item (map (dumps frepr item colon) xs) @ '']''"
| "dumps frepr item colon (JObj kvs) = ''{'' @ join_on item
     (map (\<lambda>kv. json_string (fst kv) @ colon @ dumps frepr item colon (snd kv)) kvs) @ ''}''"
| "dumps frepr item colon v = canonical_json frepr v"

text \<open>With \<open>sort_keys\<close>: the same text of the value whose objects are sorted at every level.\<close>

fun sort_keys :: "json \<Rightarrow> json" where
  "sort_keys (JArr xs) = JArr (map sort_keys xs)"
| "sort_keys (JObj kvs) = JObj (sort_key fst (map (\<lambda>kv. (fst kv, sort_keys (snd kv))) kvs))"
| "sort_keys v = v"

subsection \<open>The tools\<close>

definition ALIAS_PATTERN :: string where
  "ALIAS_PATTERN = ''[a-z][a-z0-9-]{2,40}''"

definition COLLECTOR_PATTERN :: string where
  "COLLECTOR_PATTERN = ''[A-Za-z][A-Za-z0-9_.-]{2,64}''"

definition REF_PATTERN :: string where
  "REF_PATTERN = ''EVR-[0-9a-f]{24}''"

definition list_capabilities_text :: string where
  "list_capabilities_text =
     ''List which targets, collectors and adapters this LOCAL gateway really supports, with an explicit '' @
     ''capability status per target. Read-only; fixture mode is the only enabled adapter.''"

definition describe_collector_text :: string where
  "describe_collector_text =
     ''Describe one certified collector: domain, supported versions, role/container scope, license, minimum '' @
     ''privileges, limits and output fields with their sanitization policy. Never returns SQL text.''"

definition collect_text :: string where
  "collect_text =
     ''Run ONE certified read-only collector against ONE registered target alias and return sanitized, '' @
     ''minimized evidence plus an opaque evidence reference. No SQL, shell, path or connection input '' @
     ''exists. In this release the data is SYNTHETIC fixture data (provenance: FIXTURE).''"

definition get_evidence_text :: string where
  "get_evidence_text =
     ''Retrieve previously collected SANITIZED evidence by opaque reference within the same session and '' @
     ''target. Raw data is never stored or returned.''"

definition analyze_incident_text :: string where
  "analyze_incident_text =
     ''Run the local Phase 11 RCA engine over sanitized evidence collected in this session and hand the RCA '' @
     ''state to the Phase 12 change advisory (text only, execution_status NOT_EXECUTED_BY_ESTACK) and '' @
     ''knowledge-candidate state. Nothing is executed, approved or published; a non-confirmed RCA stays '' @
     ''non-confirmed.''"

definition list_capabilities_schema :: json where
  "list_capabilities_schema = JObj [(''type'', JStr ''object''), (''properties'', JObj []), (''additionalProperties'', JBool False)]"

definition describe_collector_schema :: json where
  "describe_collector_schema = JObj [(''type'', JStr ''object''), (''properties'', JObj [(''collector_id'', JObj [(''type'', JStr ''string''), (''maxLength'', JInt 64), (''pattern'', JStr COLLECTOR_PATTERN)])]),
     (''required'', JArr [JStr ''collector_id'']),
     (''additionalProperties'', JBool False)]"

definition collect_schema :: json where
  "collect_schema = JObj [(''type'', JStr ''object''), (''properties'', JObj [(''collector_id'', JObj [(''type'', JStr ''string''), (''maxLength'', JInt 64), (''pattern'', JStr COLLECTOR_PATTERN)]),
       (''target_alias'', JObj [(''type'', JStr ''string''), (''maxLength'', JInt 41), (''pattern'', JStr ALIAS_PATTERN)]),
       (''max_rows'', JObj [(''type'', JStr ''integer''), (''minimum'', JInt 1), (''maximum'', JInt 200)])]),
     (''required'', JArr [JStr ''collector_id'', JStr ''target_alias'']),
     (''additionalProperties'', JBool False)]"

definition get_evidence_schema :: json where
  "get_evidence_schema = JObj [(''type'', JStr ''object''), (''properties'', JObj [(''evidence_ref'', JObj [(''type'', JStr ''string''), (''maxLength'', JInt 28), (''pattern'', JStr REF_PATTERN)]),
       (''target_alias'', JObj [(''type'', JStr ''string''), (''maxLength'', JInt 41), (''pattern'', JStr ALIAS_PATTERN)])]),
     (''required'', JArr [JStr ''evidence_ref'', JStr ''target_alias'']),
     (''additionalProperties'', JBool False)]"

definition analyze_incident_schema :: json where
  "analyze_incident_schema = JObj [(''type'', JStr ''object''), (''properties'', JObj [(''target_alias'', JObj [(''type'', JStr ''string''), (''maxLength'', JInt 41), (''pattern'', JStr ALIAS_PATTERN)]),
       (''evidence_refs'', JObj [(''type'', JStr ''array''), (''maxItems'', JInt 10), (''items'', JObj [(''type'', JStr ''string''), (''maxLength'', JInt 28), (''pattern'', JStr REF_PATTERN)])])]),
     (''required'', JArr [JStr ''target_alias'', JStr ''evidence_refs'']),
     (''additionalProperties'', JBool False)]"

definition TOOLS :: "(string, string \<times> json) dict" where
  "TOOLS = [
    (''diagnostics.list_capabilities'', (list_capabilities_text, list_capabilities_schema)),
    (''diagnostics.describe_collector'', (describe_collector_text, describe_collector_schema)),
    (''diagnostics.collect'', (collect_text, collect_schema)),
    (''diagnostics.get_evidence'', (get_evidence_text, get_evidence_schema)),
    (''diagnostics.analyze_incident'', (analyze_incident_text, analyze_incident_schema))]"

definition LAB_DESCRIPTION_REWRITES :: "(string \<times> string) list" where
  "LAB_DESCRIPTION_REWRITES = [
    (''Read-only; fixture mode is the only enabled adapter.'',
     ''Read-only; a LAB launcher: one human-authorized non-production target may use the real read-only '' @
      ''oracle_sql adapter.''),
    ('' In this release the data is SYNTHETIC fixture data (provenance: FIXTURE).'',
     [])]"

text \<open>The regular expression of each pattern text.\<close>

definition rx_of_pattern :: "string \<Rightarrow> rx" where
  "rx_of_pattern p =
     (if p = ALIAS_PATTERN then ALIAS_RE
      else if p = COLLECTOR_PATTERN then COLLECTOR_ID_RE
      else if p = REF_PATTERN then Seq (lit ''EVR-'') (Rep 24 0 (Cls (\<lambda>c. is_digit c \<or> c \<in> set ''abcdef'')))
      else Zero)"

text \<open>What is published; the lab launcher rewrites the sentences about synthetic data.\<close>

definition lab_description :: "string \<Rightarrow> string \<Rightarrow> string" where
  "lab_description n desc = (let d = foldl (\<lambda>t (old, new). replace_all old new t) desc LAB_DESCRIPTION_REWRITES in
     if n \<in> {''diagnostics.collect'', ''diagnostics.get_evidence'', ''diagnostics.analyze_incident''}
     then rstrip d @ '' Every response states its provenance (FIXTURE or REAL); REAL evidence is sanitized before it is returned.''
     else d)"

definition tool_list :: "bool \<Rightarrow> json list" where
  "tool_list lab_mode = map (\<lambda>(n, desc, schema). JObj [(''name'', JStr n),
     (''description'', JStr (if lab_mode then lab_description n desc else desc)), (''inputSchema'', schema)]) TOOLS"

lemmas tool_schema_defs = list_capabilities_schema_def describe_collector_schema_def collect_schema_def
  get_evidence_schema_def analyze_incident_schema_def

text \<open>Every published schema passes the registration check, which the module runs when it is imported.\<close>

lemma tools_registered: "list_all (\<lambda>(n, d, s). check_schema s = Inr () \<and> nan_free s) TOOLS"
  by (simp add: TOOLS_def tool_schema_defs check_schema.simps [of "JObj _"] jget_def obj_items_def py_set_def
      py_set_of_def py_iter_def unhashable_def or_else_def json_tests ALLOWED_KEYWORDS_def SCHEMA_TYPES_def)

lemma tool_registered: "dget TOOLS n = Some (d, s) \<Longrightarrow> check_schema s = Inr () \<and> nan_free s"
  using tools_registered by (auto simp: list_all_iff dest!: map_of_SomeD)

lemma tool_names: "dget TOOLS n = Some x \<Longrightarrow> n \<in> {''diagnostics.list_capabilities'', ''diagnostics.describe_collector'',
    ''diagnostics.collect'', ''diagnostics.get_evidence'', ''diagnostics.analyze_incident''}"
  by (auto simp: TOOLS_def split: if_splits)

end
