(* ===== verification/Gateway.thy ===== *)
theory Gateway
  imports Gw_Tools Adapters Architecture
begin

section \<open>The gateway: authorization, budgets, tools and audit (mcp\_gateway/gateway.py)\<close>

text \<open>
  A call validates its arguments, refreshes the field registry, runs one of five handlers and
  audits what it returns. The state (session, store, registry, audit log) is passed explicitly and
  survives a raised error with the changes made before it. Everything outside the package is in two
  records: \<open>services\<close> (hashing, parsing, text of a value, the analysis pipeline of \<open>bridge.py\<close>), fixed
  for the process, and \<open>tick\<close> (random tokens, clock readings, file system, what the adapters do),
  fixed for one call.
\<close>

subsection \<open>State\<close>

record session =
  se_scope :: scope
  se_calls :: int
  se_target_calls :: "(string, int) dict"
  se_target_rows :: "(string, int) dict"
  se_observed :: "(string, observed) dict"

definition new_session :: "string \<Rightarrow> string \<Rightarrow> session" where
  "new_session token salt = \<lparr> se_scope = new_scope token salt, se_calls = 0, se_target_calls = [],
     se_target_rows = [], se_observed = [] \<rparr>"

record gateway =
  gw_collectors :: "(string, collector) dict"
  gw_targets :: "(string, target) dict"
  gw_adapters :: registry_of_adapters
  gw_lab_mode :: bool
  gw_timeout :: rat
  gw_max_calls :: int
  gw_max_rows :: int

record gstate =
  gs_session :: session
  gs_store :: store
  gs_registry :: registry
  gs_audit :: "json list"

type_synonym evidence_item = "collector \<times> string \<times> json"

record services =
  sv_env :: env
  sv_parse :: "string \<Rightarrow> json option"
  sv_str :: "json \<Rightarrow> string"
  sv_analyze :: "string \<Rightarrow> evidence_item list \<Rightarrow> exc + json"

record tick =
  tk_request :: string
  tk_token :: string
  tk_clock :: "nat \<Rightarrow> rat"
  tk_utc :: string
  tk_epoch :: "py_exc + int"
  tk_duration :: int
  tk_files :: file_system
  tk_io :: io

text \<open>Operations on the state that can raise; an error keeps the state reached so far.\<close>

type_synonym 'a op = "gstate \<Rightarrow> (exc + 'a) \<times> gstate"

definition lift :: "exc + 'a \<Rightarrow> 'a op" where
  "lift m = (\<lambda>s. (m, s))"

definition bindO :: "'a op \<Rightarrow> ('a \<Rightarrow> 'b op) \<Rightarrow> 'b op" where
  "bindO m f = (\<lambda>s. case m s of (Inl e, s') \<Rightarrow> (Inl e, s') | (Inr x, s') \<Rightarrow> f x s')"

definition modify :: "(gstate \<Rightarrow> gstate) \<Rightarrow> unit op" where
  "modify f = (\<lambda>s. (Inr (), f s))"

definition query :: "(gstate \<Rightarrow> exc + 'a) \<Rightarrow> 'a op" where
  "query f = (\<lambda>s. (f s, s))"

lemma bindO_Inr: "bindO m f s = (Inr y, s') \<longleftrightarrow> (\<exists>x t. m s = (Inr x, t) \<and> f x t = (Inr y, s'))"
  by (auto simp: bindO_def split: prod.splits sum.splits)

lemma lift_simps [simp]: "lift m s = (r, s') \<longleftrightarrow> m = r \<and> s' = s"
  by (auto simp: lift_def)

lemma modify_simps [simp]: "modify f s = (r, s') \<longleftrightarrow> r = Inr () \<and> s' = f s"
  by (auto simp: modify_def)

lemma query_simps [simp]: "query f s = (r, s') \<longleftrightarrow> f s = r \<and> s' = s"
  by (auto simp: query_def)

text \<open>An operation that keeps a relation from every state to the one it ends in, raised or not.\<close>

definition keeps :: "(gstate \<Rightarrow> gstate \<Rightarrow> bool) \<Rightarrow> 'a op \<Rightarrow> bool" where
  "keeps R m \<longleftrightarrow> (\<forall>s. R s (snd (m s)))"

lemma keeps_lift [intro!]: "reflp R \<Longrightarrow> keeps R (lift m)"
  by (simp add: keeps_def lift_def reflp_def)

lemma keeps_query [intro!]: "reflp R \<Longrightarrow> keeps R (query f)"
  by (simp add: keeps_def query_def reflp_def)

lemma keeps_bindO [intro!]: "transp R \<Longrightarrow> keeps R m \<Longrightarrow> (\<And>x. keeps R (f x)) \<Longrightarrow> keeps R (bindO m f)"
  unfolding keeps_def bindO_def transp_def by (auto split: prod.splits sum.splits) (metis snd_conv)+

lemma keeps_modify: "(\<And>s. R s (f s)) \<Longrightarrow> keeps R (modify f)"
  by (simp add: keeps_def modify_def)

subsection \<open>Names in envelopes\<close>

fun capability_name :: "capability \<Rightarrow> string" where
  "capability_name SUPPORTED = ''SUPPORTED''"
| "capability_name UNSUPPORTED = ''UNSUPPORTED''"
| "capability_name ENVIRONMENT_UNKNOWN = ''ENVIRONMENT_UNKNOWN''"
| "capability_name LICENSE_RESTRICTED = ''LICENSE_RESTRICTED''"
| "capability_name INSUFFICIENT_PRIVILEGES = ''INSUFFICIENT_PRIVILEGES''"
| "capability_name CAP_DISABLED = ''DISABLED''"
| "capability_name NOT_APPLICABLE = ''NOT_APPLICABLE''"

definition jcap :: "capability \<Rightarrow> json" where "jcap c = JStr (capability_name c)"

fun level_name :: "fv_level \<Rightarrow> string" where
  "level_name FIELD_VALIDATED = ''FIELD_VALIDATED''"
| "level_name FIELD_VALIDATED_OTHER_CONTEXT = ''FIELD_VALIDATED_OTHER_CONTEXT''"
| "level_name DOCUMENTATION_ONLY = ''DOCUMENTATION_ONLY''"

definition err_name :: "err_code \<Rightarrow> string" where
  "err_name c = (case filter (\<lambda>(_, d, _). d = c) ERROR_MESSAGES of (n, _) # _ \<Rightarrow> n | [] \<Rightarrow> [])"

definition jopt :: "string option \<Rightarrow> json" where
  "jopt v = (case v of None \<Rightarrow> JNull | Some s \<Rightarrow> JStr s)"

definition jflag :: "bool option \<Rightarrow> json" where
  "jflag v = (case v of None \<Rightarrow> JNull | Some b \<Rightarrow> JBool b)"

text \<open>The text of a value inside a message: a text is itself, anything else \<open>str(v)\<close>.\<close>

definition text_of :: "services \<Rightarrow> json \<Rightarrow> string" where
  "text_of S v = (case v of JStr s \<Rightarrow> s | _ \<Rightarrow> sv_str S v)"

text \<open>A difference of the operating system is shown as \<open>family/distribution\<close>.\<close>

definition os_text :: "services \<Rightarrow> json \<Rightarrow> json" where
  "os_text S v = (case v of JArr [f, d] \<Rightarrow> JStr (text_of S f @ ''/'' @ text_of S d) | _ \<Rightarrow> v)"

definition difference_json :: "services \<Rightarrow> mismatch \<Rightarrow> json" where
  "difference_json S m = (case m of (dm, a, b) \<Rightarrow>
     JObj [(''dimension'', JStr dm), (''validated'', if dm = ''os'' then os_text S a else a),
           (''target'', if dm = ''os'' then os_text S b else b)])"

definition assessment_json :: "services \<Rightarrow> assessment \<Rightarrow> json" where
  "assessment_json S a = JObj [(''level'', JStr (level_name (a_level a))), (''reason'', JStr (a_reason a)),
     (''validated_context'', case a_context a of None \<Rightarrow> JNull | Some v \<Rightarrow> v),
     (''differences'', JArr (map (difference_json S) (a_differences a))),
     (''not_compared'', JArr (map JStr (a_not_compared a))), (''change_ids'', JArr (map JStr (a_change_ids a))),
     (''evidence_refs'', JArr (map JStr (a_evidence_refs a))), (''registry_sha256'', jopt (a_registry_sha a))]"

subsection \<open>Envelopes\<close>

definition GATEWAY_NAME :: string where "GATEWAY_NAME = ''oracle-diagnostic-estack-mcp-gateway''"
definition GATEWAY_VERSION :: string where "GATEWAY_VERSION = ''1.0.1''"
definition SCHEMA_VERSION :: string where "SCHEMA_VERSION = ''1.0.0''"

type_synonym envelope = "(string \<times> json) list"

text \<open>\<open>env.update(news)\<close>.\<close>

definition upd :: "envelope \<Rightarrow> envelope \<Rightarrow> envelope" where
  "upd d news = foldl (\<lambda>e (k, v). dset k v e) d news"

definition base_envelope :: "services \<Rightarrow> string \<Rightarrow> session \<Rightarrow> string \<Rightarrow> target option \<Rightarrow> string option \<Rightarrow> envelope" where
  "base_envelope S tool s req t cid = [(''tool_id'', JStr tool), (''request_id'', JStr req),
     (''schema_version'', JStr SCHEMA_VERSION),
     (''gateway'', JObj [(''name'', JStr GATEWAY_NAME), (''version'', JStr GATEWAY_VERSION)]),
     (''collector_id'', jopt cid),
     (''target_token'', jopt (map_option (\<lambda>t. target_token (sv_env S) (se_scope s) (t_alias t)) t))]"

definition error_envelope :: "services \<Rightarrow> string \<Rightarrow> string \<Rightarrow> err_code \<Rightarrow> capability option \<Rightarrow> session \<Rightarrow> target option
    \<Rightarrow> envelope" where
  "error_envelope S tool req c cap s t = [(''status'', JStr ''ERROR''), (''tool_id'', JStr tool), (''request_id'', JStr req),
     (''schema_version'', JStr SCHEMA_VERSION), (''collector_id'', JNull),
     (''target_token'', jopt (map_option (\<lambda>t. target_token (sv_env S) (se_scope s) (t_alias t)) t)),
     (''capability_status'', jopt (map_option capability_name cap)),
     (''sanitization_status'', JStr ''NOT_APPLICABLE_NO_DATA''), (''evidence_refs'', JArr []), (''limitations'', JArr []),
     (''error'', JObj [(''code'', JStr (err_name c)), (''message'', JStr (message_of c))])]"

subsection \<open>Authorization and budgets\<close>

definition find_target :: "gateway \<Rightarrow> string \<Rightarrow> exc + target" where
  "find_target G a = (case dget (gw_targets G) a of None \<Rightarrow> gwerr E_TARGET_UNKNOWN | Some t \<Rightarrow> Inr t)"

definition over_budget :: "gateway \<Rightarrow> session \<Rightarrow> target \<Rightarrow> bool" where
  "over_budget G s t \<longleftrightarrow> gw_max_calls G \<le> se_calls s \<or> t_max_calls t \<le> dget_or (se_target_calls s) (t_alias t) 0
     \<or> t_max_rows t \<le> dget_or (se_target_rows s) (t_alias t) 0"

definition authorize :: "gateway \<Rightarrow> session \<Rightarrow> target \<Rightarrow> collector \<Rightarrow> bool \<Rightarrow> exc + capability" where
  "authorize G s t c count_call =
     (if \<not> t_enabled t then Inl (GwErr E_TARGET_DISABLED (Some CAP_DISABLED))
      else bindE (status_of (gw_adapters G) (t_adapter t)) (\<lambda>st.
        if JStr (c_id c) \<notin> set (t_allowed t) then Inl (GwErr E_COLLECTOR_NOT_ALLOWED (Some UNSUPPORTED))
        else bindE (crash (evaluate_capability t c st)) (\<lambda>cap.
          if cap \<noteq> SUPPORTED then Inl (GwErr E_CAPABILITY (Some cap))
          else if count_call \<and> over_budget G s t then gwerr E_BUDGET_EXCEEDED
          else Inr cap)))"

lemma authorize_ok [fail_closed]:
  assumes "authorize G s t c counted = Inr cap"
  shows "cap = SUPPORTED \<and> t_enabled t \<and> JStr (c_id c) \<in> set (t_allowed t) \<and> (counted \<longrightarrow> \<not> over_budget G s t) \<and>
    (\<exists>st. status_of (gw_adapters G) (t_adapter t) = Inr st \<and> evaluate_capability t c st = Inr SUPPORTED)"
  using assms by (auto simp: authorize_def bindE_Inr split: if_splits)

subsection \<open>The tool collect\<close>

text \<open>The clock of the database against the one of the gateway; rows of a fixture have no time.\<close>

definition CLOCK_COLLECTOR_ID :: string where "CLOCK_COLLECTOR_ID = ''Q-DISC-CLOCK-001''"
definition CLOCK_SKEW_SECONDS :: int where "CLOCK_SKEW_SECONDS = 300"

text \<open>\<open>db\<close> as Python's \<open>isinstance(db, int)\<close> sees it: a boolean is an integer.\<close>

definition as_pyint :: "json \<Rightarrow> int option" where
  "as_pyint v = (case v of JInt i \<Rightarrow> Some i | JBool b \<Rightarrow> Some (of_bool b) | _ \<Rightarrow> None)"

definition clock_check :: "py_exc + int \<Rightarrow> json list \<Rightarrow> string option \<Rightarrow> py_exc + envelope" where
  "clock_check epoch rows collected =
     bindE (case rows of [] \<Rightarrow> Inr None | r # _ \<Rightarrow> jget_attr r ''db_utc_epoch'') (\<lambda>w.
     let v = or_else w JNull in
     (case (as_pyint v, collected) of
        (Some db, Some u) \<Rightarrow>
          if u = [] then Inr [(''db_utc_epoch'', v), (''gateway_utc_epoch'', JNull), (''offset_seconds'', JNull),
            (''skew'', JBool False), (''compared'', JBool False)]
          else bindE epoch (\<lambda>gw. Inr [(''db_utc_epoch'', v), (''gateway_utc_epoch'', JInt gw), (''offset_seconds'', JInt (db - gw)),
            (''skew'', JBool (CLOCK_SKEW_SECONDS < \<bar>db - gw\<bar>)), (''threshold_seconds'', JInt CLOCK_SKEW_SECONDS),
            (''compared'', JBool True)])
      | _ \<Rightarrow> Inr [(''db_utc_epoch'', v), (''gateway_utc_epoch'', JNull), (''offset_seconds'', JNull),
            (''skew'', JBool False), (''compared'', JBool False)]))"

text \<open>Counters of the session.\<close>

definition charge :: "target \<Rightarrow> gstate \<Rightarrow> gstate" where
  "charge t g = (let s = gs_session g in g\<lparr>gs_session := s\<lparr>se_calls := se_calls s + 1,
     se_target_calls := dset (t_alias t) (dget_or (se_target_calls s) (t_alias t) 0 + 1) (se_target_calls s)\<rparr>\<rparr>)"

definition add_rows :: "target \<Rightarrow> int \<Rightarrow> gstate \<Rightarrow> gstate" where
  "add_rows t n g = (let s = gs_session g in g\<lparr>gs_session := s\<lparr>se_target_rows :=
     dset (t_alias t) (dget_or (se_target_rows s) (t_alias t) 0 + n) (se_target_rows s)\<rparr>\<rparr>)"

definition set_scope :: "scope \<Rightarrow> gstate \<Rightarrow> gstate" where
  "set_scope sc g = g\<lparr>gs_session := (gs_session g)\<lparr>se_scope := sc\<rparr>\<rparr>"

definition row_cap :: "gateway \<Rightarrow> session \<Rightarrow> target \<Rightarrow> collector \<Rightarrow> adapter \<Rightarrow> json \<Rightarrow> int" where
  "row_cap G s t c a args = (let
     asked = (case jget args ''max_rows'' of Some (JInt i) \<Rightarrow> i | _ \<Rightarrow> c_row_limit c);
     rows_left = t_max_rows t - dget_or (se_target_rows s) (t_alias t) 0;
     cap = min (min (min asked (c_row_limit c)) rows_left) (gw_max_rows G)
   in (case ad_row_cap a of None \<Rightarrow> cap | Some f \<Rightarrow> min cap (f t c)))"

text \<open>What is stored: the sanitized payload with its digest and where it came from.\<close>

definition payload_json :: "services \<Rightarrow> payload \<Rightarrow> bool \<Rightarrow> string \<Rightarrow> envelope" where
  "payload_json S p is_real utc = (let columns = JArr (map JStr (p_columns p)); rows = JArr (p_rows p) in
     [(''columns'', columns), (''rows'', rows), (''row_count'', JInt (p_row_count p)),
      (''limitations'', JArr (map JStr (p_limitations p))), (''digest_algorithm'', JStr ''sha256''),
      (''digest'', JStr (canonical_digest (sv_env S) (JObj [(''columns'', columns), (''rows'', rows)]))),
      (''provenance_kind'', JStr (if is_real then ''REAL'' else ''FIXTURE'')),
      (''collected_at_utc'', if is_real then JStr utc else JNull)])"

definition evidence_block :: "envelope \<Rightarrow> json" where
  "evidence_block p = JObj (map (\<lambda>k. (k, or_else (dget p k) JNull)) [''columns'', ''rows'', ''row_count'', ''digest''])"

definition add_limitations :: "string list \<Rightarrow> envelope \<Rightarrow> envelope" where
  "add_limitations ls env = (if ls = [] then env
     else dset ''limitations'' (JArr ((case dget env ''limitations'' of Some (JArr xs) \<Rightarrow> xs | _ \<Rightarrow> []) @ map JStr ls)) env)"

text \<open>What a real observation leaves in the session; a fixture never overrides a declaration.\<close>

definition no_observation :: observed where
  "no_observation = \<lparr> o_rac = None, o_asm = None, o_dataguard = None, o_role = None, o_os = None, o_facts = JNull, o_ru = None \<rparr>"

definition observe :: "string \<Rightarrow> (observed \<Rightarrow> observed) \<Rightarrow> gstate \<Rightarrow> gstate" where
  "observe a f g = (let s = gs_session g in
     g\<lparr>gs_session := s\<lparr>se_observed := dset a (f (dget_or (se_observed s) a no_observation)) (se_observed s)\<rparr>\<rparr>)"

definition declared_flag :: "target \<Rightarrow> string \<Rightarrow> json" where
  "declared_flag t k = (if truthy (t_architecture t) then jget_or (t_architecture t) k JNull else JNull)"

definition check_architecture :: "collector \<Rightarrow> target \<Rightarrow> json list \<Rightarrow> bool \<Rightarrow> envelope \<Rightarrow> envelope op" where
  "check_architecture c t rows is_real env =
     (if c_id c \<noteq> ARCH_COLLECTOR_ID then lift (Inr env)
      else let ob = derive (JArr rows) in
        bindO (lift (crash (arch_compare ob t))) (\<lambda>mismatches.
        bindO (modify (if is_real then observe (t_alias t) (\<lambda>old. ob\<lparr>o_ru := o_ru old\<rparr>) else id)) (\<lambda>_.
        lift (Inr (add_limitations (map (\<lambda>(dm, d, b). ''DECLARED_ARCHITECTURE_MISMATCH:'' @ dm) mismatches)
          (dset ''architecture_check'' (JObj [
             (''observed'', JObj [(''rac'', jflag (o_rac ob)), (''asm'', jflag (o_asm ob)), (''dataguard'', jflag (o_dataguard ob)),
                (''role'', jopt (o_role ob)), (''os_family'', jopt (o_os ob))]),
             (''declared'', JObj [(''rac'', declared_flag t ''rac''), (''asm'', declared_flag t ''asm''),
                (''dataguard'', declared_flag t ''dataguard''), (''role'', t_role t), (''os_family'', jget_or (t_os t) ''family'' JNull)]),
             (''mismatches'', JArr (map (\<lambda>(dm, d, b). JObj [(''dimension'', JStr dm), (''declared'', d), (''observed'', b)]) mismatches)),
             (''applies_to_field_validation'', JBool is_real)]) env))))))"

definition check_identity :: "collector \<Rightarrow> target \<Rightarrow> json list \<Rightarrow> bool \<Rightarrow> envelope \<Rightarrow> envelope op" where
  "check_identity c t rows is_real env =
     (if c_id c \<noteq> IDENTITY_COLLECTOR_ID then lift (Inr env)
      else bindO (lift (crash (release_update_from_identity (JArr rows)))) (\<lambda>ru.
        let declared = t_release_update t;
            known = (ru \<noteq> None \<and> ru \<noteq> Some []);
            mismatch = (known \<and> declared \<noteq> None \<and> declared \<noteq> Some [] \<and> ru \<noteq> declared) in
        bindO (modify (if is_real \<and> known then observe (t_alias t) (\<lambda>old. old\<lparr>o_ru := ru\<rparr>) else id)) (\<lambda>_.
        lift (Inr (add_limitations (if mismatch then [''DECLARED_RELEASE_UPDATE_MISMATCH''] else [])
          (dset ''release_update_check'' (JObj [(''observed'', jopt ru), (''declared'', jopt declared),
             (''mismatch'', JBool mismatch), (''applies_to_field_validation'', JBool (is_real \<and> known))]) env))))))"

definition check_clock :: "tick \<Rightarrow> collector \<Rightarrow> json list \<Rightarrow> bool \<Rightarrow> envelope \<Rightarrow> envelope op" where
  "check_clock tk c rows is_real env =
     (if c_id c \<noteq> CLOCK_COLLECTOR_ID then lift (Inr env)
      else bindO (lift (crash (clock_check (tk_epoch tk) rows (if is_real then Some (tk_utc tk) else None)))) (\<lambda>ck.
        lift (Inr (add_limitations (if dget ck ''skew'' = Some (JBool True) then [''CLOCK_SKEW''] else [])
          (dset ''clock_check'' (JObj ck) env)))))"

text \<open>The target as field validation sees it: what was really observed replaces the declaration.\<close>

definition fv_target :: "session \<Rightarrow> target \<Rightarrow> py_exc + target" where
  "fv_target s t = (case dget (se_observed s) (t_alias t) of None \<Rightarrow> Inr t | Some ob \<Rightarrow> observed_target t ob)"

definition assess_op :: "services \<Rightarrow> collector \<Rightarrow> target \<Rightarrow> assessment op" where
  "assess_op S c t = query (\<lambda>g. crash (bindE (fv_target (gs_session g) t) (\<lambda>u. assess (gs_registry g) c u)))"

definition put_op :: "services \<Rightarrow> tick \<Rightarrow> target \<Rightarrow> collector \<Rightarrow> envelope \<Rightarrow> string op" where
  "put_op S tk t c p = (\<lambda>g. let (ref, st) = store_put (sv_env S) (tk_clock tk 0) (tk_clock tk 1) (tk_token tk)
      (sc_session_id (se_scope (gs_session g))) (t_alias t) (c_id c) (JObj p) (gs_store g) in (Inr ref, g\<lparr>gs_store := st\<rparr>))"

text \<open>
  Sanitizing advances the alias tables of the session. (If the code of \<open>sanitize_rows\<close> itself
  crashed half-way, which the rules of the catalog exclude, the aliases given so far would stay;
  here they do not.)
\<close>

definition sanitize_op :: "services \<Rightarrow> collector \<Rightarrow> json \<Rightarrow> target \<Rightarrow> int \<Rightarrow> payload op" where
  "sanitize_op S c raw t cap = (\<lambda>g. case sanitize_rows (sv_env S) c raw (se_scope (gs_session g)) (t_alias t) cap of
      Inl e \<Rightarrow> (Inl e, g)
    | Inr (p, sc) \<Rightarrow> (Inr p, set_scope sc g))"

definition find_collector :: "gateway \<Rightarrow> string \<Rightarrow> exc + collector" where
  "find_collector G cid = (case dget (gw_collectors G) cid of None \<Rightarrow> gwerr E_COLLECTOR_UNKNOWN | Some c \<Rightarrow> Inr c)"

definition arg_text :: "json \<Rightarrow> string \<Rightarrow> exc + string" where
  "arg_text args k = crash (bindE (jreq args k) as_str)"

text \<open>The envelope of sanitized rows: they are stored, checked against the declaration and assessed.\<close>

definition collect_report :: "services \<Rightarrow> tick \<Rightarrow> string \<Rightarrow> target \<Rightarrow> collector \<Rightarrow> adapter \<Rightarrow> capability \<Rightarrow> payload \<Rightarrow> envelope op" where
  "collect_report S tk req t c a cap p =
     (let is_real = (ad_name a \<noteq> ''fixture''); doc = payload_json S p is_real (tk_utc tk) in
     bindO (put_op S tk t c doc) (\<lambda>ref.
     bindO (query (\<lambda>g. Inr (base_envelope S ''diagnostics.collect'' (gs_session g) req (Some t) (Some (c_id c))))) (\<lambda>base.
     let env = upd base [(''status'', JStr (if p_limitations p = [] then ''OK'' else ''DEGRADED'')), (''capability_status'', jcap cap),
         (''collected_at_utc'', or_else (dget doc ''collected_at_utc'') JNull),
         (''provenance'', JObj [(''kind'', JStr (if is_real then ''REAL'' else ''FIXTURE'')), (''real_observation'', JBool is_real)]),
         (''sanitization_status'', JStr ''SANITIZED''), (''evidence_refs'', JArr [JStr ref]), (''evidence'', evidence_block doc),
         (''query_sha256'', jopt (c_query_sha256 c)), (''limitations'', JArr (map JStr (p_limitations p)))] in
     bindO (check_architecture c t (p_rows p) is_real env) (\<lambda>env1.
     bindO (check_identity c t (p_rows p) is_real env1) (\<lambda>env2.
     bindO (check_clock tk c (p_rows p) is_real env2) (\<lambda>env3.
     bindO (assess_op S c t) (\<lambda>fv.
     lift (Inr (dset ''field_validation'' (assessment_json S fv) env3)))))))))"

text \<open>Everything after the call has been charged to the budgets.\<close>

definition collect_charged :: "services \<Rightarrow> gateway \<Rightarrow> tick \<Rightarrow> string \<Rightarrow> json \<Rightarrow> target \<Rightarrow> collector \<Rightarrow> adapter \<Rightarrow> capability
    \<Rightarrow> envelope op" where
  "collect_charged S G tk req args t c a cap =
     bindO (query (\<lambda>g. Inr (row_cap G (gs_session g) t c a args))) (\<lambda>cap_rows.
     bindO (lift (run_with_timeout (io_elapsed (tk_io tk)) (fetch (tk_io tk) a t c) (min (of_int (c_timeout c)) (gw_timeout G)))) (\<lambda>raw.
     bindO (sanitize_op S c raw t cap_rows) (\<lambda>p.
     bindO (modify (add_rows t (p_row_count p))) (\<lambda>_.
     collect_report S tk req t c a cap p))))"

definition tool_collect :: "services \<Rightarrow> gateway \<Rightarrow> tick \<Rightarrow> string \<Rightarrow> json \<Rightarrow> envelope op" where
  "tool_collect S G tk req args =
     bindO (lift (bindE (arg_text args ''target_alias'') (find_target G))) (\<lambda>t.
     bindO (lift (bindE (arg_text args ''collector_id'') (find_collector G))) (\<lambda>c.
     bindO (query (\<lambda>g. authorize G (gs_session g) t c True)) (\<lambda>cap.
     bindO (lift (get_adapter (gw_adapters G) (t_adapter t))) (\<lambda>a.
     bindO (modify (charge t)) (\<lambda>_.
     collect_charged S G tk req args t c a cap)))))"

subsection \<open>The catalog tools\<close>

definition capability_on :: "gateway \<Rightarrow> target \<Rightarrow> adapter_status \<Rightarrow> string \<Rightarrow> collector \<Rightarrow> exc + json" where
  "capability_on G t st cid c =
     (if JStr cid \<in> set (t_allowed t) then bindE (crash (evaluate_capability t c st)) (\<lambda>cap. Inr (jcap cap))
      else Inr (jcap UNSUPPORTED))"

definition target_view :: "gateway \<Rightarrow> target \<Rightarrow> exc + json" where
  "target_view G t =
     bindE (status_of (gw_adapters G) (t_adapter t)) (\<lambda>st.
     bindE (mapE (\<lambda>(cid, c). bindE (capability_on G t st cid c) (\<lambda>v. Inr (cid, v))) (sort_key fst (gw_collectors G))) (\<lambda>caps.
     Inr (case target_public_view t of
         JObj kvs \<Rightarrow> JObj (upd kvs [(''adapter_status'', JStr (adapter_status_name st)), (''capabilities'', JObj caps)])
       | v \<Rightarrow> v)))"

definition catalog_limitations :: "bool \<Rightarrow> string list" where
  "catalog_limitations lab = [
     if lab then ''LAB launcher: oracle_sql is LAB_ENABLED for one human-authorized non-production target only; '' @
                 ''this is not production readiness''
     else ''only the fixture adapter can run; real adapters are DISABLED or CONTRACT_ONLY'',
     ''a registered alias does not grant authorization; every call is evaluated per target and collector'']"

definition tool_list_capabilities :: "services \<Rightarrow> gateway \<Rightarrow> string \<Rightarrow> envelope op" where
  "tool_list_capabilities S G req =
     query (\<lambda>g. bindE (mapE (\<lambda>(a, t). target_view G t) (sort_key fst (gw_targets G))) (\<lambda>targets.
       Inr (upd (base_envelope S ''diagnostics.list_capabilities'' (gs_session g) req None None) [
         (''status'', JStr ''OK''), (''capability_status'', jcap SUPPORTED), (''sanitization_status'', JStr ''SANITIZED''),
         (''evidence_refs'', JArr []), (''provenance'', JObj [(''kind'', JStr ''CATALOG''), (''real_observation'', JBool False)]),
         (''adapters'', describe_adapters (gw_adapters G)), (''targets'', JArr targets),
         (''field_validation_registry'', registry_summary (gs_registry g)),
         (''collectors'', JArr (map (\<lambda>(cid, c). JObj [(''collector_id'', JStr cid), (''domain'', c_domain c),
             (''kind'', JStr (c_kind c)), (''title'', c_title c)]) (sort_key fst (gw_collectors G)))),
         (''limitations'', JArr (map JStr (catalog_limitations (gw_lab_mode G))))])))"

definition tool_describe_collector :: "services \<Rightarrow> gateway \<Rightarrow> string \<Rightarrow> json \<Rightarrow> envelope op" where
  "tool_describe_collector S G req args =
     bindO (lift (bindE (arg_text args ''collector_id'') (find_collector G))) (\<lambda>c.
     query (\<lambda>g.
       bindE (mapE (\<lambda>(a, t). bindE (status_of (gw_adapters G) (t_adapter t)) (\<lambda>st.
           bindE (capability_on G t st (c_id c) c) (\<lambda>v. Inr (a, v)))) (sort_key fst (gw_targets G))) (\<lambda>per_target.
       bindE (crash (collector_public_view c)) (\<lambda>view.
       bindE (crash (jitems (c_adapters c))) (\<lambda>declared.
       bindE (crash (assess_all_contexts (gs_registry g) c)) (\<lambda>contexts.
       bindE (mapE (\<lambda>(a, t). bindE (crash (assess (gs_registry g) c t)) (\<lambda>fv.
           Inr (a, JStr (level_name (a_level fv))))) (sort_key fst (gw_targets G))) (\<lambda>levels.
       let live = JObj (map (\<lambda>(n, d). (n, status_for (gw_adapters G) n (c_id c) d)) (sort_key fst declared)) in
       Inr (upd (base_envelope S ''diagnostics.describe_collector'' (gs_session g) req None (Some (c_id c))) [
         (''status'', JStr ''OK''), (''capability_status'', jcap SUPPORTED), (''sanitization_status'', JStr ''SANITIZED''),
         (''evidence_refs'', JArr []),
         (''collector'', case view of JObj kvs \<Rightarrow> JObj (dset ''adapter_status'' live kvs) | v \<Rightarrow> v),
         (''capability_by_target'', JObj per_target),
         (''field_validation'', JObj [(''validated_contexts'', JArr contexts), (''by_target'', JObj levels)]),
         (''limitations'', JArr [])]))))))))"

subsection \<open>The evidence tools\<close>

definition get_op :: "services \<Rightarrow> rat \<Rightarrow> string \<Rightarrow> target \<Rightarrow> entry op" where
  "get_op S now ref t = (\<lambda>g. let (r, st) = store_get (sv_env S) now ref (sc_session_id (se_scope (gs_session g))) (t_alias t) (gs_store g)
     in (r, g\<lparr>gs_store := st\<rparr>))"

definition collector_of :: "gateway \<Rightarrow> entry \<Rightarrow> exc + collector" where
  "collector_of G e = (case dget (gw_collectors G) (en_collector e) of None \<Rightarrow> Inl (Crash KeyError) | Some c \<Rightarrow> Inr c)"

definition enabled_target :: "gateway \<Rightarrow> json \<Rightarrow> exc + target" where
  "enabled_target G args = bindE (bindE (arg_text args ''target_alias'') (find_target G)) (\<lambda>t.
     if \<not> t_enabled t then Inl (GwErr E_TARGET_DISABLED (Some CAP_DISABLED)) else Inr t)"

definition field :: "json \<Rightarrow> string \<Rightarrow> exc + json" where
  "field p k = crash (jreq p k)"

text \<open>The parts of a stored payload that are shown again, and its limitations.\<close>

definition evidence_fields :: "json \<Rightarrow> exc + envelope \<times> json list" where
  "evidence_fields p =
     bindE (mapE (\<lambda>k. bindE (field p k) (\<lambda>v. Inr (k, v))) [''columns'', ''rows'', ''row_count'', ''digest'']) (\<lambda>block.
     bindE (bindE (field p ''limitations'') (\<lambda>v. crash (py_iter v))) (\<lambda>ls. Inr (block, ls)))"

definition tool_get_evidence :: "services \<Rightarrow> gateway \<Rightarrow> tick \<Rightarrow> string \<Rightarrow> json \<Rightarrow> envelope op" where
  "tool_get_evidence S G tk req args =
     bindO (lift (enabled_target G args)) (\<lambda>t.
     bindO (lift (arg_text args ''evidence_ref'')) (\<lambda>ref.
     bindO (get_op S (tk_clock tk 0) ref t) (\<lambda>e.
     bindO (lift (collector_of G e)) (\<lambda>c.
     let p = en_payload e; kind = jget_or p ''provenance_kind'' (JStr ''FIXTURE'') in
     bindO (lift (evidence_fields p)) (\<lambda>(block, ls).
     bindO (assess_op S c t) (\<lambda>fv.
     query (\<lambda>g. Inr (upd (base_envelope S ''diagnostics.get_evidence'' (gs_session g) req (Some t) (Some (c_id c))) [
       (''status'', JStr ''OK''), (''capability_status'', jcap SUPPORTED),
       (''collected_at_utc'', jget_or p ''collected_at_utc'' JNull),
       (''provenance'', JObj [(''kind'', kind), (''real_observation'', JBool (kind = JStr ''REAL''))]),
       (''sanitization_status'', JStr ''SANITIZED''), (''evidence_refs'', JArr [JStr ref]), (''evidence'', JObj block),
       (''limitations'', JArr ls), (''field_validation'', assessment_json S fv)]))))))))"

text \<open>\<open>list(dict.fromkeys(xs))\<close>: the first occurrence of each.\<close>

definition dedupe :: "'a list \<Rightarrow> 'a list" where
  "dedupe xs = rev (remdups (rev xs))"

text \<open>The reads of one analysis, in order; each purges the store with its own clock reading.\<close>

fun read_items :: "services \<Rightarrow> gateway \<Rightarrow> tick \<Rightarrow> target \<Rightarrow> nat \<Rightarrow> string list \<Rightarrow> evidence_item list op" where
  "read_items S G tk t i [] = lift (Inr [])"
| "read_items S G tk t i (ref # refs) =
     bindO (get_op S (tk_clock tk i) ref t) (\<lambda>e. bindO (lift (collector_of G e)) (\<lambda>c.
     bindO (read_items S G tk t (Suc i) refs) (\<lambda>rest. lift (Inr ((c, ref, en_payload e) # rest)))))"

definition level_of :: "services \<Rightarrow> gstate \<Rightarrow> target \<Rightarrow> evidence_item \<Rightarrow> exc + (string \<times> string \<times> fv_level)" where
  "level_of S g u = (\<lambda>(c, ref, p). bindE (crash (assess (gs_registry g) c u)) (\<lambda>fv. Inr (ref, c_id c, a_level fv)))"

definition ceiling_limitation :: "string \<times> string \<times> fv_level \<Rightarrow> string" where
  "ceiling_limitation x = (case x of (ref, cid, l) \<Rightarrow>
     ''EVIDENCE_NOT_FIELD_VALIDATED:'' @ cid @ '':'' @ level_name l @ '': conclusions are at most PROBABLE_CAUSE'')"

definition weak_items :: "(string \<times> string \<times> fv_level) list \<Rightarrow> (string \<times> string \<times> fv_level) list" where
  "weak_items = filter (\<lambda>(ref, cid, l). l \<noteq> FIELD_VALIDATED)"

definition analysis_envelope :: "services \<Rightarrow> session \<Rightarrow> string \<Rightarrow> target \<Rightarrow> string list \<Rightarrow> evidence_item list \<Rightarrow> json
    \<Rightarrow> (string \<times> string \<times> fv_level) list \<Rightarrow> envelope" where
  "analysis_envelope S s req t refs items analysis levels =
     (let is_real = list_ex (\<lambda>(c, r, p). jget p ''provenance_kind'' = Some (JStr ''REAL'')) items; weak = weak_items levels in
      upd (base_envelope S ''diagnostics.analyze_incident'' s req (Some t) None) [
       (''status'', JStr ''OK''), (''capability_status'', jcap SUPPORTED), (''collected_at_utc'', JNull),
       (''provenance'', JObj [(''kind'', JStr (if is_real then ''REAL'' else ''FIXTURE'')), (''real_observation'', JBool is_real)]),
       (''sanitization_status'', JStr ''SANITIZED''), (''evidence_refs'', JArr (map JStr refs)), (''analysis'', analysis),
       (''field_validation'', JObj [(''per_evidence'', JArr (map (\<lambda>(r, cid, l). JObj [(''evidence_ref'', JStr r),
            (''collector_id'', JStr cid), (''level'', JStr (level_name l))]) levels)),
          (''all_field_validated'', JBool (weak = [])),
          (''confidence_ceiling'', if weak = [] then JNull else JStr ''PROBABLE_CAUSE'')]),
       (''limitations'', JArr (map JStr (map ceiling_limitation weak
          @ [(if is_real then ''derived from sanitized REAL lab evidence'' else ''derived from sanitized fixture evidence'')
               @ ''; correlation in time is not causation (rca_engine contract)'',
             ''advisory and candidate are proposals: nothing is executed, approved or published by the gateway''])))])"

definition tool_analyze_incident :: "services \<Rightarrow> gateway \<Rightarrow> tick \<Rightarrow> string \<Rightarrow> json \<Rightarrow> envelope op" where
  "tool_analyze_incident S G tk req args =
     bindO (lift (enabled_target G args)) (\<lambda>t.
     bindO (lift (crash (bindE (bindE (jreq args ''evidence_refs'') py_iter) (mapE as_str)))) (\<lambda>given.
     let refs = dedupe given in
     if refs = [] then lift (gwerr E_INSUFFICIENT_EVIDENCE)
     else bindO (read_items S G tk t 0 refs) (\<lambda>items.
       bindO (lift (sv_analyze S (t_alias t) items)) (\<lambda>analysis.
       bindO (query (\<lambda>g. bindE (crash (fv_target (gs_session g) t)) (\<lambda>u. mapE (level_of S g u) items))) (\<lambda>levels.
       query (\<lambda>g. Inr (analysis_envelope S (gs_session g) req t refs items analysis levels)))))))"

subsection \<open>One call\<close>

text \<open>The audit record has fixed keys; the last 500 records are kept.\<close>

definition AUDIT_KEYS :: "string list" where
  "AUDIT_KEYS = [''ts_utc'', ''tool_id'', ''collector_id'', ''target_token'', ''status'', ''error_code'', ''duration_ms'',
     ''request_id'', ''session'']"

definition audit_record :: "string \<Rightarrow> envelope \<Rightarrow> envelope" where
  "audit_record utc info = dset ''ts_utc'' (JStr utc) (map (\<lambda>k. (k, or_else (dget info k) JNull)) AUDIT_KEYS)"

definition last_records :: "nat \<Rightarrow> 'a list \<Rightarrow> 'a list" where
  "last_records n xs = drop (length xs - n) xs"

definition record_audit :: "tick \<Rightarrow> envelope \<Rightarrow> gstate \<Rightarrow> gstate" where
  "record_audit tk info g = g\<lparr>gs_audit := last_records 500 (gs_audit g @ [JObj (audit_record (tk_utc tk) info)])\<rparr>"

definition handler :: "services \<Rightarrow> gateway \<Rightarrow> tick \<Rightarrow> string \<Rightarrow> string \<Rightarrow> json \<Rightarrow> envelope op" where
  "handler S G tk req name args =
     (if name = ''diagnostics.list_capabilities'' then tool_list_capabilities S G req
      else if name = ''diagnostics.describe_collector'' then tool_describe_collector S G req args
      else if name = ''diagnostics.collect'' then tool_collect S G tk req args
      else if name = ''diagnostics.get_evidence'' then tool_get_evidence S G tk req args
      else if name = ''diagnostics.analyze_incident'' then tool_analyze_incident S G tk req args
      else lift (Inl (Crash AttributeError)))"

text \<open>The last gate: the audit for secrets and the size of the response.\<close>

definition release :: "services \<Rightarrow> envelope \<Rightarrow> exc + envelope" where
  "release S env = bindE (final_audit (JObj env)) (\<lambda>_.
     if MAX_RESPONSE_BYTES < int (length (dumps (e_frepr (sv_env S)) '', '' '': '' (JObj env))) then gwerr E_OUTPUT_TOO_LARGE
     else Inr env)"

definition attempt :: "services \<Rightarrow> gateway \<Rightarrow> tick \<Rightarrow> string \<Rightarrow> string \<Rightarrow> json option \<Rightarrow> envelope op" where
  "attempt S G tk req name arguments = (case dget TOOLS name of
      None \<Rightarrow> lift (gwerr E_TOOL_UNKNOWN)
    | Some (desc, schema) \<Rightarrow>
        bindO (lift (validate rx_of_pattern (or_else arguments (JObj [])) schema 0)) (\<lambda>args.
        bindO (modify (\<lambda>g. g\<lparr>gs_registry := refresh (e_sha (sv_env S)) (sv_parse S) (tk_files tk) (gs_registry g)\<rparr>)) (\<lambda>_.
        bindO (handler S G tk req name args) (\<lambda>env.
        lift (release S (if ''status'' \<in> set (dkeys env) then env else dset ''status'' (JStr ''OK'') env))))))"

definition named_target :: "gateway \<Rightarrow> json option \<Rightarrow> target option" where
  "named_target G arguments = (case arguments of
      Some (JObj kvs) \<Rightarrow> (case dget kvs ''target_alias'' of Some (JStr a) \<Rightarrow> dget (gw_targets G) a | _ \<Rightarrow> None)
    | _ \<Rightarrow> None)"

text \<open>\<open>None\<close> is the argument \<open>None\<close>. The result is the envelope and the error flag.\<close>

definition outcome :: "services \<Rightarrow> gateway \<Rightarrow> string \<Rightarrow> string \<Rightarrow> json option \<Rightarrow> session \<Rightarrow> exc + envelope
    \<Rightarrow> envelope \<times> bool \<times> string option" where
  "outcome S G req name arguments s r = (let tool = (if name \<in> set (dkeys TOOLS) then name else ''unknown'') in
     (case r of
        Inr env \<Rightarrow> (env, dget env ''status'' = Some (JStr ''ERROR''), None)
      | Inl (GwErr c cap) \<Rightarrow> (error_envelope S tool req c cap s (named_target G arguments), True, Some (err_name c))
      | Inl (Crash e) \<Rightarrow> (error_envelope S tool req E_INTERNAL None s None, True, Some ''E_INTERNAL'')))"

definition error_code_of :: "envelope \<Rightarrow> json" where
  "error_code_of env = (case dget env ''error'' of Some (JObj kvs) \<Rightarrow> or_else (dget kvs ''code'') JNull | _ \<Rightarrow> JNull)"

definition call :: "services \<Rightarrow> gateway \<Rightarrow> tick \<Rightarrow> string \<Rightarrow> json option \<Rightarrow> gstate \<Rightarrow> (envelope \<times> bool) \<times> gstate" where
  "call S G tk name arguments g =
     (let req = ''REQ-'' @ tk_request tk;
          (r, g1) = attempt S G tk req name arguments g;
          (env, is_error, code) = outcome S G req name arguments (gs_session g1) r;
          info = [(''tool_id'', or_else (dget env ''tool_id'') JNull), (''collector_id'', or_else (dget env ''collector_id'') JNull),
            (''target_token'', or_else (dget env ''target_token'') JNull), (''status'', or_else (dget env ''status'') JNull),
            (''error_code'', case code of Some c \<Rightarrow> JStr c | None \<Rightarrow> error_code_of env), (''duration_ms'', JInt (tk_duration tk)),
            (''request_id'', JStr req), (''session'', JStr (sc_session_id (se_scope (gs_session g1))))]
      in ((env, is_error), record_audit tk info g1))"

subsection \<open>What a call keeps\<close>

text \<open>The counters of a session, which only \<open>collect\<close> moves.\<close>

definition counters :: "gstate \<Rightarrow> int \<times> (string, int) dict \<times> (string, int) dict" where
  "counters g = (let s = gs_session g in (se_calls s, se_target_calls s, se_target_rows s))"

text \<open>The parts that every operation keeps well-formed: store, alias tables, audit log and session id.\<close>

definition owned :: "string \<Rightarrow> store \<Rightarrow> bool" where
  "owned session st \<longleftrightarrow> (\<forall>(r, e) \<in> set (st_items st). en_session e = session)"

definition sound :: "services \<Rightarrow> gstate \<Rightarrow> bool" where
  "sound S g \<longleftrightarrow> store_ok (sv_env S) (gs_store g) \<and> st_max (gs_store g) = MAX_EVIDENCE_ENTRIES \<and>
     alias_inv (se_scope (gs_session g)) \<and> owned (sc_session_id (se_scope (gs_session g))) (gs_store g)"

lemma owned_purge: "owned session st \<Longrightarrow> owned session (purge now st)"
  by (auto simp: owned_def purge_def)

lemma owned_put: "owned session st \<Longrightarrow> owned session (snd (store_put E t1 t2 token session a cid p st))"
  by (auto simp: owned_def store_put_def Let_def purge_def evict_def split: option.splits if_splits dest!: in_dset)

definition frame :: "services \<Rightarrow> gstate \<Rightarrow> gstate \<Rightarrow> bool" where
  "frame S g g' \<longleftrightarrow> counters g' = counters g \<and> gs_audit g' = gs_audit g \<and>
     (sound S g \<longrightarrow> sound S g' \<and> sc_session_id (se_scope (gs_session g')) = sc_session_id (se_scope (gs_session g)))"

lemma frame_refl [simp]: "reflp (frame S)"
  by (simp add: reflp_def frame_def)

lemma frame_trans [simp]: "transp (frame S)"
  by (auto simp: transp_def frame_def)

lemma frame_get_op [intro!]: "keeps (frame S) (get_op S now ref t)"
proof -
  have "store_ok (sv_env S) (snd (store_get (sv_env S) now ref s a st)) \<and> st_max (snd (store_get (sv_env S) now ref s a st)) = st_max st \<and>
      owned s (snd (store_get (sv_env S) now ref s a st))" if "store_ok (sv_env S) st" "owned s st" for st s a
    using that by (simp add: store_get_def Let_def store_ok_purge owned_purge)
  then show ?thesis
    by (auto simp: keeps_def frame_def get_op_def counters_def sound_def Let_def split: prod.splits) (metis snd_conv)+
qed

lemma frame_put_op [intro!]: "keeps (frame S) (put_op S tk t c p)"
proof -
  have "store_ok (sv_env S) (snd (store_put (sv_env S) t1 t2 tok s a cid p st)) \<and> st_max (snd (store_put (sv_env S) t1 t2 tok s a cid p st)) = st_max st \<and>
      owned s (snd (store_put (sv_env S) t1 t2 tok s a cid p st))" if "store_ok (sv_env S) st" "owned s st" for st s a t1 t2 tok cid p
    using store_ok_put [OF that(1)] owned_put [OF that(2)] by (simp add: store_put_def Let_def)
  then show ?thesis
    by (auto simp: keeps_def frame_def put_op_def counters_def sound_def Let_def split: prod.splits) (metis snd_conv)+
qed

lemma frame_sanitize_op [intro!]: "keeps (frame S) (sanitize_op S c raw t cap)"
  unfolding keeps_def
proof
  fix g
  show "frame S g (snd (sanitize_op S c raw t cap g))"
  proof (cases "sanitize_rows (sv_env S) c raw (se_scope (gs_session g)) (t_alias t) cap")
    case (Inl e)
    then show ?thesis by (simp add: sanitize_op_def frame_def)
  next
    case (Inr x)
    obtain p sc where x: "x = (p, sc)" by (cases x)
    have r: "sanitize_rows (sv_env S) c raw (se_scope (gs_session g)) (t_alias t) cap = Inr (p, sc)" using Inr x by simp
    have "alias_inv (se_scope (gs_session g)) \<Longrightarrow> alias_inv sc \<and> sc_session_id sc = sc_session_id (se_scope (gs_session g))"
      using sanitize_rows_sound [OF r] by blast
    then show ?thesis
      using r by (simp add: sanitize_op_def frame_def set_scope_def counters_def sound_def Let_def)
  qed
qed

lemma frame_observe: "frame S g (observe a f g)"
  by (simp add: frame_def observe_def counters_def sound_def Let_def)

lemma frame_modify_observe [intro!]: "keeps (frame S) (modify (observe a f))" "keeps (frame S) (modify id)"
  by (rule keeps_modify, use frame_observe frame_refl in \<open>auto simp: reflp_def\<close>)+

lemma frame_lift [intro!]: "keeps (frame S) (lift m)" by (rule keeps_lift) simp
lemma frame_query [intro!]: "keeps (frame S) (query f)" by (rule keeps_query) simp
lemma frame_bindO [intro!]: "keeps (frame S) m \<Longrightarrow> (\<And>x. keeps (frame S) (f x)) \<Longrightarrow> keeps (frame S) (bindO m f)"
  by (rule keeps_bindO) simp_all

lemma frame_checks [intro!]:
  "keeps (frame S) (check_architecture c t rows b env)" "keeps (frame S) (check_identity c t rows b env)"
  "keeps (frame S) (check_clock tk c rows b env)" "keeps (frame S) (assess_op S' c t)"
  by (auto simp: check_architecture_def check_identity_def check_clock_def assess_op_def Let_def)

lemma frame_collect_report [intro!]: "keeps (frame S) (collect_report S tk req t c a cap p)"
  by (auto simp: collect_report_def Let_def)

lemma frame_read_items [intro!]: "keeps (frame S) (read_items S G tk t i refs)"
  by (induction refs arbitrary: i) auto

lemma frame_other_tools [intro!]:
  "keeps (frame S) (tool_list_capabilities S G req)" "keeps (frame S) (tool_describe_collector S G req args)"
  "keeps (frame S) (tool_get_evidence S G tk req args)" "keeps (frame S) (tool_analyze_incident S G tk req args)"
  by (auto simp: tool_list_capabilities_def tool_describe_collector_def tool_get_evidence_def tool_analyze_incident_def Let_def
      split: prod.splits)

lemma frame_refresh [intro!]: "keeps (frame S) (modify (\<lambda>g. g\<lparr>gs_registry := f (gs_registry g)\<rparr>))"
  by (rule keeps_modify) (simp add: frame_def counters_def sound_def)

text \<open>The budgets: what the counters of a session stay below.\<close>

definition gateway_ok :: "gateway \<Rightarrow> bool" where
  "gateway_ok G \<longleftrightarrow> dwf (gw_targets G) \<and> (\<forall>(a, t) \<in> set (gw_targets G). t_alias t = a)"

definition target_budget :: "session \<Rightarrow> string \<Rightarrow> target \<Rightarrow> bool" where
  "target_budget s a t \<longleftrightarrow>
     0 \<le> dget_or (se_target_calls s) a 0 \<and> dget_or (se_target_calls s) a 0 \<le> max 0 (t_max_calls t) \<and>
     0 \<le> dget_or (se_target_rows s) a 0 \<and> dget_or (se_target_rows s) a 0 \<le> max 0 (t_max_rows t)"

definition within_budget :: "gateway \<Rightarrow> gstate \<Rightarrow> bool" where
  "within_budget G g \<longleftrightarrow> (let s = gs_session g in
     0 \<le> se_calls s \<and> se_calls s \<le> max 0 (gw_max_calls G) \<and> (\<forall>(a, t) \<in> set (gw_targets G). target_budget s a t))"

lemma within_budget_counters: "counters g' = counters g \<Longrightarrow> within_budget G g' = within_budget G g"
  by (simp add: within_budget_def target_budget_def counters_def Let_def)

lemma find_target_ok:
  assumes "gateway_ok G" "find_target G a = Inr t"
  shows "(a, t) \<in> set (gw_targets G) \<and> t_alias t = a \<and> (\<forall>u. (a, u) \<in> set (gw_targets G) \<longrightarrow> u = t)"
proof -
  have d: "dget (gw_targets G) a = Some t" using assms(2) by (auto simp: find_target_def split: option.splits)
  then have "(a, t) \<in> set (gw_targets G)" by (rule map_of_SomeD)
  then show ?thesis using assms(1) d by (auto simp: gateway_ok_def dest: dwf_in_dget)
qed

text \<open>A change of the counters of one alias concerns the one target with that alias.\<close>

lemma budget_one_target:
  assumes "gateway_ok G" "find_target G a = Inr t" "within_budget G g"
    and "0 \<le> se_calls (gs_session g')" "se_calls (gs_session g') \<le> max 0 (gw_max_calls G)"
    and "target_budget (gs_session g') a t"
    and "\<And>b. b \<noteq> a \<Longrightarrow> dget_or (se_target_calls (gs_session g')) b 0 = dget_or (se_target_calls (gs_session g)) b 0"
    and "\<And>b. b \<noteq> a \<Longrightarrow> dget_or (se_target_rows (gs_session g')) b 0 = dget_or (se_target_rows (gs_session g)) b 0"
  shows "within_budget G g'"
proof -
  note t = find_target_ok [OF assms(1,2)]
  have "target_budget (gs_session g') b u" if "(b, u) \<in> set (gw_targets G)" for b u
  proof (cases "b = a")
    case True
    then show ?thesis using that t assms(6) by blast
  next
    case False
    have "target_budget (gs_session g) b u" using that assms(3) by (auto simp: within_budget_def Let_def)
    then show ?thesis by (simp add: target_budget_def assms(7,8) [OF False])
  qed
  then show ?thesis using assms(4,5) by (auto simp: within_budget_def Let_def)
qed

lemma budget_of_target:
  "gateway_ok G \<Longrightarrow> find_target G a = Inr t \<Longrightarrow> within_budget G g \<Longrightarrow> t_alias t = a \<and> target_budget (gs_session g) a t"
  using find_target_ok by (fastforce simp: within_budget_def Let_def)

lemma charge_budget:
  assumes "gateway_ok G" "find_target G a = Inr t" "within_budget G g" "\<not> over_budget G (gs_session g) t"
  shows "within_budget G (charge t g)"
  by (rule budget_one_target [OF assms(1-3)])
     (use assms budget_of_target [OF assms(1-3)] in \<open>auto simp: charge_def over_budget_def target_budget_def within_budget_def Let_def\<close>)

lemma add_rows_budget:
  assumes "gateway_ok G" "find_target G a = Inr t" "within_budget G g"
    and "0 \<le> n" "n \<le> max 0 (t_max_rows t - dget_or (se_target_rows (gs_session g)) (t_alias t) 0)"
  shows "within_budget G (add_rows t n g)"
  by (rule budget_one_target [OF assms(1-3)])
     (use assms budget_of_target [OF assms(1-3)] in \<open>auto simp: add_rows_def target_budget_def within_budget_def Let_def\<close>)

text \<open>What a call may change: it keeps the budgets and the soundness of the parts, and the audit log is left alone.\<close>

definition good :: "services \<Rightarrow> gateway \<Rightarrow> gstate \<Rightarrow> bool" where
  "good S G g \<longleftrightarrow> within_budget G g \<and> sound S g"

lemma frame_good: "frame S g g' \<Longrightarrow> good S G g \<Longrightarrow> good S G g' \<and> gs_audit g' = gs_audit g"
  using within_budget_counters [of g' g G] by (simp add: frame_def good_def)

lemma row_cap_left: "row_cap G s t c a args \<le> t_max_rows t - dget_or (se_target_rows s) (t_alias t) 0"
proof (cases "ad_row_cap a")
  case None
  show ?thesis unfolding row_cap_def Let_def None option.case by (rule min.coboundedI1 [OF min.cobounded2])
next
  case (Some f)
  show ?thesis unfolding row_cap_def Let_def Some option.case
    by (rule min.coboundedI1 [OF min.coboundedI1 [OF min.cobounded2]])
qed

lemma collect_charged_good:
  assumes "gateway_ok G" "find_target G ta = Inr t" "good S G g"
  shows "good S G (snd (collect_charged S G tk req args t c a cap g)) \<and>
    gs_audit (snd (collect_charged S G tk req args t c a cap g)) = gs_audit g"
proof (cases "run_with_timeout (io_elapsed (tk_io tk)) (fetch (tk_io tk) a t c) (min (of_int (c_timeout c)) (gw_timeout G))")
  case (Inl e)
  then show ?thesis using assms(3) by (simp add: collect_charged_def bindO_def query_def lift_def)
next
  case (Inr raw)
  let ?cap = "row_cap G (gs_session g) t c a args"
  show ?thesis
  proof (cases "sanitize_rows (sv_env S) c raw (se_scope (gs_session g)) (t_alias t) ?cap")
    case (Inl e)
    then show ?thesis using assms(3) Inr by (simp add: collect_charged_def bindO_def query_def lift_def sanitize_op_def)
  next
    case (Inr x)
    obtain p sc where x: "x = (p, sc)" by (cases x)
    have r: "sanitize_rows (sv_env S) c raw (se_scope (gs_session g)) (t_alias t) ?cap = Inr (p, sc)" using Inr x by simp
    let ?g1 = "set_scope sc g" and ?g2 = "add_rows t (p_row_count p) (set_scope sc g)"
    have e: "snd (collect_charged S G tk req args t c a cap g) = snd (collect_report S tk req t c a cap p ?g2)"
      using \<open>run_with_timeout _ _ _ = Inr raw\<close> r by (simp add: collect_charged_def bindO_def query_def lift_def sanitize_op_def modify_def)
    have "alias_inv (se_scope (gs_session g))" using assms(3) by (simp add: good_def sound_def)
    from sanitize_rows_sound [OF r this] have n: "p_row_count p = int (length (p_rows p))"
      "p_row_count p \<le> max 0 (min ?cap (min (c_row_limit c) MAX_ROWS_HARD))" "alias_inv sc" "sc_session_id sc = sc_session_id (se_scope (gs_session g))"
      by simp_all
    have "p_row_count p \<le> max 0 (t_max_rows t - dget_or (se_target_rows (gs_session g)) (t_alias t) 0)"
      using n(2) row_cap_left [of G "gs_session g" t c a args] by linarith
    then have le: "p_row_count p \<le> max 0 (t_max_rows t - dget_or (se_target_rows (gs_session ?g1)) (t_alias t) 0)"
      by (simp add: set_scope_def)
    have "within_budget G ?g1"
      using assms(3) within_budget_counters [of ?g1 g G] by (simp add: good_def set_scope_def counters_def Let_def)
    then have "within_budget G ?g2"
      by (rule add_rows_budget [OF assms(1,2)]) (use n(1) le in simp_all)
    moreover have "sound S ?g2" using assms(3) n(3,4) by (simp add: good_def sound_def set_scope_def add_rows_def Let_def)
    ultimately have "good S G ?g2" by (simp add: good_def)
    moreover have "frame S ?g2 (snd (collect_report S tk req t c a cap p ?g2))"
      using frame_collect_report by (simp add: keeps_def)
    moreover have "gs_audit ?g2 = gs_audit g" by (simp add: add_rows_def set_scope_def Let_def)
    ultimately show ?thesis unfolding e using frame_good by fastforce
  qed
qed

lemma tool_collect_good:
  assumes "gateway_ok G" "good S G g"
  shows "good S G (snd (tool_collect S G tk req args g)) \<and> gs_audit (snd (tool_collect S G tk req args g)) = gs_audit g"
proof -
  consider (refused) "snd (tool_collect S G tk req args g) = g"
    | (charged) ta t c a cap where "find_target G ta = Inr t" "authorize G (gs_session g) t c True = Inr cap"
        "snd (tool_collect S G tk req args g) = snd (collect_charged S G tk req args t c a cap (charge t g))"
  proof (cases "bindE (arg_text args ''target_alias'') (find_target G)")
    case (Inl e)
    then show ?thesis using refused by (simp add: tool_collect_def bindO_def lift_def)
  next
    case T: (Inr t)
    then obtain ta where ta: "find_target G ta = Inr t" by (auto simp: bindE_Inr)
    show ?thesis
    proof (cases "bindE (arg_text args ''collector_id'') (find_collector G)")
      case (Inl e)
      then show ?thesis using refused T by (simp add: tool_collect_def bindO_def lift_def)
    next
      case C: (Inr c)
      show ?thesis
      proof (cases "authorize G (gs_session g) t c True")
        case (Inl e)
        then show ?thesis using refused T C by (simp add: tool_collect_def bindO_def lift_def query_def)
      next
        case A: (Inr cap)
        show ?thesis
        proof (cases "get_adapter (gw_adapters G) (t_adapter t)")
          case (Inl e)
          then show ?thesis using refused T C A by (simp add: tool_collect_def bindO_def lift_def query_def)
        next
          case (Inr a)
          then show ?thesis using charged [OF ta A, of a] T C A by (simp add: tool_collect_def bindO_def lift_def query_def modify_def)
        qed
      qed
    qed
  qed
  then show ?thesis
  proof cases
    case refused
    then show ?thesis using assms(2) by simp
  next
    case charged
    have "within_budget G (charge t g)"
      using charge_budget [OF assms(1) charged(1)] assms(2) authorize_ok [OF charged(2)] by (simp add: good_def)
    then have "good S G (charge t g)" using assms(2) by (simp add: good_def sound_def charge_def Let_def)
    moreover have "gs_audit (charge t g) = gs_audit g" by (simp add: charge_def Let_def)
    ultimately show ?thesis unfolding charged(3) using collect_charged_good [OF assms(1) charged(1)] by fastforce
  qed
qed

lemma keeps_frame_good: "keeps (frame S) m \<Longrightarrow> good S G g \<Longrightarrow> good S G (snd (m g)) \<and> gs_audit (snd (m g)) = gs_audit g"
  unfolding keeps_def using frame_good [of S g "snd (m g)" G] by blast

lemma handler_good:
  assumes "gateway_ok G" "good S G g"
  shows "good S G (snd (handler S G tk req name args g)) \<and> gs_audit (snd (handler S G tk req name args g)) = gs_audit g"
proof -
  note other = keeps_frame_good [OF _ assms(2), of "_ :: envelope op"]
  show ?thesis
    unfolding handler_def
    using tool_collect_good [OF assms, of tk req args] other [OF frame_other_tools(1), of G req]
      other [OF frame_other_tools(2), of G req args] other [OF frame_other_tools(3), of G tk req args]
      other [OF frame_other_tools(4), of G tk req args] other [OF frame_lift, of "Inl (Crash AttributeError)"]
    by (simp split: if_split)
qed

lemma bindO_good:
  assumes "good S G (snd (m g)) \<and> gs_audit (snd (m g)) = gs_audit g"
    and "\<And>x g'. good S G g' \<Longrightarrow> good S G (snd (f x g')) \<and> gs_audit (snd (f x g')) = gs_audit g'"
  shows "good S G (snd (bindO m f g)) \<and> gs_audit (snd (bindO m f g)) = gs_audit g"
proof (cases "m g")
  case (Pair r g1)
  then show ?thesis using assms(1) assms(2) [of g1] by (cases r) (simp_all add: bindO_def)
qed

lemma attempt_good:
  assumes "gateway_ok G" "good S G g"
  shows "good S G (snd (attempt S G tk req name args g)) \<and> gs_audit (snd (attempt S G tk req name args g)) = gs_audit g"
proof (cases "dget TOOLS name")
  case None
  then show ?thesis using assms(2) by (simp add: attempt_def lift_def)
next
  case (Some x)
  obtain d s where x: "x = (d, s)" by (cases x)
  show ?thesis
    unfolding attempt_def Some x option.case prod.case
    by (intro bindO_good handler_good assms keeps_frame_good frame_lift frame_refresh)
qed

lemma call_state:
  "\<exists>info. snd (call S G tk name args g) = record_audit tk info (snd (attempt S G tk (''REQ-'' @ tk_request tk) name args g))"
proof -
  let ?req = "''REQ-'' @ tk_request tk"
  obtain r g1 where a: "attempt S G tk ?req name args g = (r, g1)" by fastforce
  obtain env b code where "outcome S G ?req name args (gs_session g1) r = (env, b, code)" by (metis prod_cases3)
  then show ?thesis unfolding call_def Let_def a by (simp only: prod.case snd_conv) blast
qed

subsection \<open>Sequences of calls\<close>

type_synonym call_event = "tick \<times> string \<times> json option"

definition gateway_step :: "services \<Rightarrow> gateway \<Rightarrow> gstate \<Rightarrow> call_event \<Rightarrow> gstate" where
  "gateway_step S G g e = (case e of (tk, name, args) \<Rightarrow> snd (call S G tk name args g))"

definition gateway_inv :: "services \<Rightarrow> gateway \<Rightarrow> gstate \<Rightarrow> bool" where
  "gateway_inv S G g \<longleftrightarrow> gateway_ok G \<longrightarrow> good S G g \<and> length (gs_audit g) \<le> 500"

lemma gateway_inv_step: "gateway_inv S G g \<Longrightarrow> gateway_inv S G (gateway_step S G g e)"
proof (cases e)
  case (fields tk name args)
  assume inv: "gateway_inv S G g"
  define g1 where g1: "g1 = snd (attempt S G tk (''REQ-'' @ tk_request tk) name args g)"
  obtain info where c: "snd (call S G tk name args g) = record_audit tk info g1"
    unfolding g1 by (rule exE [OF call_state])
  show ?thesis
  proof (unfold gateway_inv_def gateway_step_def fields prod.case, rule impI)
    assume G: "gateway_ok G"
    then have "good S G g1" using attempt_good [OF G] inv unfolding gateway_inv_def g1 by blast
    then show "good S G (snd (call S G tk name args g)) \<and> length (gs_audit (snd (call S G tk name args g))) \<le> 500"
      using within_budget_counters [of "record_audit tk info g1" g1 G]
      by (simp add: c good_def sound_def record_audit_def last_records_def counters_def)
  qed
qed

text \<open>The number of calls a session has made never goes down.\<close>

definition calls_le :: "gstate \<Rightarrow> gstate \<Rightarrow> bool" where
  "calls_le g g' \<longleftrightarrow> se_calls (gs_session g) \<le> se_calls (gs_session g')"

lemma calls_le_order [simp]: "reflp calls_le" "transp calls_le"
  by (auto simp: reflp_def transp_def calls_le_def)

lemma frame_calls: "keeps (frame S) m \<Longrightarrow> keeps calls_le m"
  by (auto simp: keeps_def frame_def calls_le_def counters_def Let_def)

lemma keeps_call_counters [intro!]: "keeps calls_le (modify (charge t))" "keeps calls_le (modify (add_rows t n))"
  by (rule keeps_modify, simp add: calls_le_def charge_def add_rows_def Let_def)+

lemma collect_calls: "keeps calls_le (tool_collect S G tk req args)"
  unfolding tool_collect_def collect_charged_def
  by (intro keeps_bindO keeps_lift keeps_query keeps_call_counters calls_le_order
      frame_calls [OF frame_sanitize_op] frame_calls [OF frame_collect_report])

lemma attempt_calls: "keeps calls_le (attempt S G tk req name args)"
proof -
  have h: "keeps calls_le (handler S G tk req name w)" for w
    unfolding handler_def using collect_calls frame_calls [OF frame_other_tools(1)] frame_calls [OF frame_other_tools(2)]
      frame_calls [OF frame_other_tools(3)] frame_calls [OF frame_other_tools(4)] by (auto intro: keeps_lift)
  show ?thesis
    unfolding attempt_def
    by (auto split: option.split intro!: keeps_bindO keeps_lift h frame_calls [OF frame_refresh])
qed

lemma gateway_step_calls: "se_calls (gs_session g) \<le> se_calls (gs_session (gateway_step S G g e))"
proof (cases e)
  case (fields tk name args)
  define g1 where g1: "g1 = snd (attempt S G tk (''REQ-'' @ tk_request tk) name args g)"
  obtain info where c: "snd (call S G tk name args g) = record_audit tk info g1"
    unfolding g1 by (rule exE [OF call_state])
  have "calls_le g g1" unfolding g1 using attempt_calls by (simp add: keeps_def)
  then show ?thesis by (simp add: gateway_step_def fields c record_audit_def calls_le_def)
qed

interpretation gateway_m: monotone_machine "gateway_step S G" "gateway_inv S G" "(\<le>)" "\<lambda>g. se_calls (gs_session g)"
  by unfold_locales (auto intro: gateway_inv_step gateway_step_calls)

definition start_state :: "string \<Rightarrow> string \<Rightarrow> registry \<Rightarrow> gstate" where
  "start_state token salt r = \<lparr> gs_session = new_session token salt, gs_store = new_store, gs_registry = r, gs_audit = [] \<rparr>"

lemma start_inv: "gateway_inv S G (start_state token salt r)"
  using new_store_ok [of "sv_env S"] new_scope_inv [of token salt]
  by (auto simp: gateway_inv_def good_def sound_def within_budget_def target_budget_def start_state_def new_session_def
      new_store_def owned_def dget_or_def Let_def)

lemma run_steps_append: "run_steps step s (es @ fs) = run_steps step (run_steps step s es) fs"
  by (simp add: run_steps_def)

text \<open>
  C7: no sequence of tool calls exceeds a budget. From a fresh session, whatever is called with
  whatever arguments, at any times and with adapters that return anything, the session's calls, each
  target's calls and each target's returned rows stay within their maxima, the store and the audit
  log stay bounded, and the number of calls charged never goes down.
\<close>

theorem gateway_budgets:
  assumes "gateway_ok G" and "g = run_steps (gateway_step S G) (start_state token salt r) es"
  shows "se_calls (gs_session g) \<le> max 0 (gw_max_calls G) \<and>
    (\<forall>(a, t) \<in> set (gw_targets G).
       dget_or (se_target_calls (gs_session g)) a 0 \<le> max 0 (t_max_calls t) \<and>
       dget_or (se_target_rows (gs_session g)) a 0 \<le> max 0 (t_max_rows t)) \<and>
    length (st_items (gs_store g)) \<le> MAX_EVIDENCE_ENTRIES \<and> length (gs_audit g) \<le> 500 \<and>
    se_calls (gs_session g) \<le> se_calls (gs_session (run_steps (gateway_step S G) g fs))"
proof -
  have i: "gateway_inv S G g" unfolding assms(2) by (rule gateway_m.run_ok [OF start_inv])
  then have g: "within_budget G g" "sound S g" "length (gs_audit g) \<le> 500"
    using assms(1) by (simp_all add: gateway_inv_def good_def)
  from gateway_m.run_le [OF i] g show ?thesis
    by (auto simp: within_budget_def target_budget_def sound_def store_ok_def Let_def)
qed

definition example_services :: services where
  "example_services = \<lparr> sv_env = example_env, sv_parse = (\<lambda>_. None), sv_str = (\<lambda>_. []), sv_analyze = (\<lambda>_ _. Inr (JObj [])) \<rparr>"

definition example_gateway :: gateway where
  "example_gateway = \<lparr> gw_collectors = [(''os.uptime'', example_masked_collector)], gw_targets = [(''fixture-db'', example_target)],
     gw_adapters = adapter_registry (FixtureAdapter ''/f'') [], gw_lab_mode = False, gw_timeout = 15,
     gw_max_calls = MAX_SESSION_CALLS, gw_max_rows = MAX_ROWS_HARD \<rparr>"

definition example_io :: io where
  "example_io = \<lparr> io_realpath = id, io_abs = starts_with ''/'', io_linked = (\<lambda>_ _. False),
     io_files = (\<lambda>_. \<lparr> f_is_file = True, f_size = 2, f_bytes = Some ''{}'' \<rparr>),
     io_codec = \<lparr> utf8 = Some, lex = (\<lambda>_. Some (RObj [(''rows'',
        RArr [RObj [(''host'', RStr ''h''), (''password'', RStr ''x'')]])])) \<rparr>,
     io_extra = (\<lambda>_ _ _. gwerr E_ADAPTER_FAILED), io_elapsed = 1 \<rparr>"

definition example_tick :: tick where
  "example_tick = \<lparr> tk_request = ''00'', tk_token = ''0a'', tk_clock = (\<lambda>_. 0), tk_utc = ''2026-01-01T00:00:00+00:00'',
     tk_epoch = Inr 0, tk_duration = 1, tk_files = \<lparr> fs_stat = (\<lambda>_. None), fs_read = (\<lambda>_. None) \<rparr>, tk_io = example_io \<rparr>"

definition example_request :: json where
  "example_request = JObj [(''collector_id'', JStr ''os.uptime''), (''target_alias'', JStr ''fixture-db'')]"

lemma example_gateway_ok: "gateway_ok example_gateway"
  by (simp add: gateway_ok_def example_gateway_def example_target_def dwf_def)

theorem gateway_budgets_witness:
  "dget_or (se_target_rows (gs_session (run_steps (gateway_step example_services example_gateway)
     (start_state ''a'' ''s'' example_registry) [(example_tick, ''diagnostics.collect'', Some example_request),
        (example_tick, ''diagnostics.collect'', Some example_request)]))) ''fixture-db'' 0 \<le> 1000"
  using gateway_budgets [OF example_gateway_ok refl, of example_services "''a''" "''s''" example_registry
      "[(example_tick, ''diagnostics.collect'', Some example_request), (example_tick, ''diagnostics.collect'', Some example_request)]" "[]"]
  by (simp add: example_gateway_def example_target_def)

end
