(* ===== verification/Gateway_Safety.thy ===== *)
theory Gateway_Safety
  imports Gateway
begin

section \<open>What the tools of the gateway guarantee\<close>

text \<open>
  The functional behaviour of \<open>collect\<close>, \<open>get_evidence\<close> and \<open>analyze_incident\<close> on every branch: what a
  success rests on, that a refusal changes nothing, that evidence read back is the evidence that
  was returned, the ceiling on conclusions, and the two forms an answer of the gateway can have.
\<close>

subsection \<open>The steps of a successful collect\<close>

lemma dget_upd [simp]: "dget (upd d news) k = (case dget (rev news) k of Some v \<Rightarrow> Some v | None \<Rightarrow> dget d k)"
proof (induction news arbitrary: d)
  case (Cons x news)
  obtain l v where x: "x = (l, v)" by (cases x)
  have "dget (upd d (x # news)) k = dget (upd (dset l v d) news) k" by (simp add: upd_def x)
  also have "\<dots> = (case dget (rev news) k of Some v \<Rightarrow> Some v | None \<Rightarrow> dget (dset l v d) k)" by (rule Cons.IH)
  also have "\<dots> = (case dget (rev (x # news)) k of Some v \<Rightarrow> Some v | None \<Rightarrow> dget d k)"
    by (auto simp: x map_add_def split: option.split)
  finally show ?case .
qed (simp add: upd_def)

lemma collect_steps:
  assumes "tool_collect S G tk req args g = (Inr env, g')"
  shows "\<exists>ta t cid c cap a raw p sc. arg_text args ''target_alias'' = Inr ta \<and> find_target G ta = Inr t \<and>
    arg_text args ''collector_id'' = Inr cid \<and> find_collector G cid = Inr c \<and>
    authorize G (gs_session g) t c True = Inr cap \<and> get_adapter (gw_adapters G) (t_adapter t) = Inr a \<and>
    run_with_timeout (io_elapsed (tk_io tk)) (fetch (tk_io tk) a t c) (min (of_int (c_timeout c)) (gw_timeout G)) = Inr raw \<and>
    sanitize_rows (sv_env S) c raw (se_scope (gs_session g)) (t_alias t) (row_cap G (gs_session (charge t g)) t c a args) = Inr (p, sc) \<and>
    collect_report S tk req t c a cap p (add_rows t (p_row_count p) (set_scope sc (charge t g))) = (Inr env, g')"
proof -
  from assms obtain t c cap a where
    t: "bindE (arg_text args ''target_alias'') (find_target G) = Inr t"
    and c: "bindE (arg_text args ''collector_id'') (find_collector G) = Inr c"
    and h: "authorize G (gs_session g) t c True = Inr cap" "get_adapter (gw_adapters G) (t_adapter t) = Inr a"
      "collect_charged S G tk req args t c a cap (charge t g) = (Inr env, g')"
    unfolding tool_collect_def by (auto simp: bindO_Inr)
  have sc: "se_scope (gs_session (charge t g)) = se_scope (gs_session g)" by (simp add: charge_def Let_def)
  from h(3) obtain raw p g1 where
    r: "run_with_timeout (io_elapsed (tk_io tk)) (fetch (tk_io tk) a t c) (min (of_int (c_timeout c)) (gw_timeout G)) = Inr raw"
    and s: "sanitize_op S c raw t (row_cap G (gs_session (charge t g)) t c a args) (charge t g) = (Inr p, g1)"
    and e: "collect_report S tk req t c a cap p (add_rows t (p_row_count p) g1) = (Inr env, g')"
    unfolding collect_charged_def by (auto simp: bindO_Inr)
  from s obtain s' where s': "sanitize_rows (sv_env S) c raw (se_scope (gs_session g)) (t_alias t)
      (row_cap G (gs_session (charge t g)) t c a args) = Inr (p, s')" "g1 = set_scope s' (charge t g)"
    by (auto simp: sanitize_op_def sc split: sum.splits prod.splits)
  from t c obtain ta cid where "arg_text args ''target_alias'' = Inr ta" "find_target G ta = Inr t"
    "arg_text args ''collector_id'' = Inr cid" "find_collector G cid = Inr c" by (auto simp: bindE_Inr)
  with h r s' e show ?thesis by blast
qed

text \<open>What \<open>collect_report\<close> leaves: the entry in the store, and the parts of the envelope.\<close>

definition report_entry :: "services \<Rightarrow> tick \<Rightarrow> gstate \<Rightarrow> target \<Rightarrow> collector \<Rightarrow> envelope \<Rightarrow> string \<times> store" where
  "report_entry S tk g t c doc = store_put (sv_env S) (tk_clock tk 0) (tk_clock tk 1) (tk_token tk)
     (sc_session_id (se_scope (gs_session g))) (t_alias t) (c_id c) (JObj doc) (gs_store g)"

definition same_but_observed :: "gstate \<Rightarrow> gstate \<Rightarrow> bool" where
  "same_but_observed g g' \<longleftrightarrow> gs_store g' = gs_store g \<and> se_scope (gs_session g') = se_scope (gs_session g) \<and>
     counters g' = counters g"

definition check_keys :: "string set" where
  "check_keys = {''limitations'', ''architecture_check'', ''release_update_check'', ''clock_check''}"

lemma add_limitations_other: "k \<noteq> ''limitations'' \<Longrightarrow> dget (add_limitations ls env) k = dget env k"
  by (simp add: add_limitations_def)

lemma check_steps:
  "check_architecture c t rows b env g = (Inr env', g') \<Longrightarrow>
     same_but_observed g g' \<and> (\<forall>k. k \<notin> check_keys \<longrightarrow> dget env' k = dget env k) \<and> (\<not> b \<longrightarrow> g' = g)"
  "check_identity c t rows b env g = (Inr env', g') \<Longrightarrow>
     same_but_observed g g' \<and> (\<forall>k. k \<notin> check_keys \<longrightarrow> dget env' k = dget env k) \<and> (\<not> b \<longrightarrow> g' = g)"
  "check_clock tk c rows b env g = (Inr env', g') \<Longrightarrow>
     same_but_observed g g' \<and> (\<forall>k. k \<notin> check_keys \<longrightarrow> dget env' k = dget env k) \<and> (\<not> b \<longrightarrow> g' = g)"
  by (auto simp: check_architecture_def check_identity_def check_clock_def bindO_Inr Let_def same_but_observed_def
      check_keys_def add_limitations_other observe_def counters_def split: if_splits)

lemma same_but_observed_trans: "same_but_observed g g1 \<Longrightarrow> same_but_observed g1 g2 \<Longrightarrow> same_but_observed g g2"
  by (simp add: same_but_observed_def)

lemma report_steps:
  assumes "collect_report S tk req t c a cap p g = (Inr env, g')"
  shows "let b = (ad_name a \<noteq> ''fixture''); doc = payload_json S p b (tk_utc tk); (ref, st) = report_entry S tk g t c doc in
    gs_store g' = st \<and> se_scope (gs_session g') = se_scope (gs_session g) \<and> counters g' = counters g \<and>
    (\<not> b \<longrightarrow> se_observed (gs_session g') = se_observed (gs_session g)) \<and>
    dget env ''status'' = Some (JStr (if p_limitations p = [] then ''OK'' else ''DEGRADED'')) \<and>
    dget env ''evidence_refs'' = Some (JArr [JStr ref]) \<and> dget env ''evidence'' = Some (evidence_block doc) \<and>
    dget env ''provenance'' = Some (JObj [(''kind'', JStr (if b then ''REAL'' else ''FIXTURE'')), (''real_observation'', JBool b)]) \<and>
    dget env ''collected_at_utc'' = Some (if b then JStr (tk_utc tk) else JNull) \<and>
    (\<exists>fv. assess_op S c t g' = (Inr fv, g') \<and> dget env ''field_validation'' = Some (assessment_json S fv))"
proof -
  define b where "b = (ad_name a \<noteq> ''fixture'')"
  define doc where "doc = payload_json S p b (tk_utc tk)"
  obtain ref st where rs: "report_entry S tk g t c doc = (ref, st)" by fastforce
  then have put: "put_op S tk t c doc g = (Inr ref, g\<lparr>gs_store := st\<rparr>)" by (simp add: put_op_def report_entry_def)
  let ?g = "g\<lparr>gs_store := st\<rparr>"
  define env0 where "env0 = upd (base_envelope S ''diagnostics.collect'' (gs_session ?g) req (Some t) (Some (c_id c)))
     [(''status'', JStr (if p_limitations p = [] then ''OK'' else ''DEGRADED'')), (''capability_status'', jcap cap),
         (''collected_at_utc'', or_else (dget doc ''collected_at_utc'') JNull),
         (''provenance'', JObj [(''kind'', JStr (if b then ''REAL'' else ''FIXTURE'')), (''real_observation'', JBool b)]),
         (''sanitization_status'', JStr ''SANITIZED''), (''evidence_refs'', JArr [JStr ref]), (''evidence'', evidence_block doc),
         (''query_sha256'', jopt (c_query_sha256 c)), (''limitations'', JArr (map JStr (p_limitations p)))]"
  from assms put obtain e1 g1 e2 g2 e3 g3 fv where
    s: "check_architecture c t (p_rows p) b env0 ?g = (Inr e1, g1)" "check_identity c t (p_rows p) b e1 g1 = (Inr e2, g2)"
      "check_clock tk c (p_rows p) b e2 g2 = (Inr e3, g3)" "assess_op S c t g3 = (Inr fv, g')"
      "env = dset ''field_validation'' (assessment_json S fv) e3"
    unfolding collect_report_def Let_def b_def [symmetric] doc_def [symmetric]
    by (auto simp: bindO_Inr env0_def simp del: dget_upd)
  have g': "g' = g3" using s(4) by (simp add: assess_op_def)
  have fv: "assess_op S c t g' = (Inr fv, g')" "dget env ''field_validation'' = Some (assessment_json S fv)"
    using s(4,5) g' by simp_all
  note c1 = check_steps(1) [OF s(1)] and c2 = check_steps(2) [OF s(2)] and c3 = check_steps(3) [OF s(3)]
  have same: "same_but_observed ?g g3" using c1 c2 c3 same_but_observed_trans by blast
  have keep: "dget env k = dget env0 k" if "k \<notin> check_keys" "k \<noteq> ''field_validation''" for k
    using c1 c2 c3 that by (simp add: s(5))
  have vals: "dget env0 ''status'' = Some (JStr (if p_limitations p = [] then ''OK'' else ''DEGRADED''))"
    "dget env0 ''evidence_refs'' = Some (JArr [JStr ref])" "dget env0 ''evidence'' = Some (evidence_block doc)"
    "dget env0 ''provenance'' = Some (JObj [(''kind'', JStr (if b then ''REAL'' else ''FIXTURE'')), (''real_observation'', JBool b)])"
    "dget env0 ''collected_at_utc'' = Some (or_else (dget doc ''collected_at_utc'') JNull)"
    by (simp_all add: env0_def)
  have ca: "or_else (dget doc ''collected_at_utc'') JNull = (if b then JStr (tk_utc tk) else JNull)"
    by (simp add: doc_def payload_json_def Let_def or_else_def)
  have obs: "\<not> b \<longrightarrow> se_observed (gs_session g') = se_observed (gs_session g)" using c1 c2 c3 g' by auto
  show ?thesis
    unfolding Let_def b_def [symmetric] doc_def [symmetric] rs prod.case
    using same obs vals ca keep g' fv by (simp add: same_but_observed_def counters_def check_keys_def Let_def)
qed

subsection \<open>Authorization\<close>


definition example_state :: gstate where "example_state = start_state ''a'' ''s'' example_registry"

lemma lower_none: "lower ''none'' = ''none''"
  by code_simp

lemma example_authorized:
  "authorize example_gateway (gs_session example_state) example_target example_masked_collector True = Inr SUPPORTED"
  by (simp add: authorize_def example_gateway_def example_target_def example_masked_collector_def example_state_def start_state_def
      new_session_def status_of_def lookup_adapter_def adapter_registry_def over_budget_def evaluate_capability_def crash_def
      license_text_def lower_none dget_or_def MAX_SESSION_CALLS_def)


subsection \<open>Evidence read back\<close>

lemma put_get:
  assumes "store_ok E st" "store_put E t1 t2 tok s a cid p st = (ref, st')" "now - t2 \<le> st_ttl st"
  shows "\<exists>e. fst (store_get E now ref s a st') = Inr e \<and> en_payload e = p \<and> en_collector e = cid"
proof -
  let ?e = "\<lparr> en_session = s, en_target = a, en_collector = cid, en_payload = p, en_digest = canonical_digest E p, en_time = t2 \<rparr>"
  have st: "st' = (evict (purge t1 st))\<lparr>st_items := dset ref ?e (st_items (evict (purge t1 st)))\<rparr>"
    using assms(2) by (auto simp: store_put_def Let_def)
  have "store_ok E st'" using store_ok_put [OF assms(1), of t1 t2 tok s a cid p] assms(2) by simp
  then have d: "dwf (st_items st')" by (simp add: store_ok_def)
  have "dget (st_items st') ref = Some ?e" by (simp add: st)
  moreover have "\<not> expired st' now ?e" using assms(3) by (simp add: expired_def st)
  ultimately have "dget (st_items (purge now st')) ref = Some ?e"
    by (simp add: purge_def dget_filter [OF d])
  then show ?thesis by (simp add: store_get_def Let_def)
qed

lemma get_evidence_steps:
  assumes "enabled_target G args = Inr t" "arg_text args ''evidence_ref'' = Inr ref"
    and "get_op S (tk_clock tk 0) ref t g = (Inr e, g2)" "collector_of G e = Inr c"
    and "evidence_fields (en_payload e) = Inr (block, ls)" "assess_op S c t g2 = (Inr fv, g2)"
  shows "tool_get_evidence S G tk req args g = (Inr (upd (base_envelope S ''diagnostics.get_evidence'' (gs_session g2) req (Some t) (Some (c_id c))) [
       (''status'', JStr ''OK''), (''capability_status'', jcap SUPPORTED),
       (''collected_at_utc'', jget_or (en_payload e) ''collected_at_utc'' JNull),
       (''provenance'', JObj [(''kind'', jget_or (en_payload e) ''provenance_kind'' (JStr ''FIXTURE'')),
          (''real_observation'', JBool (jget_or (en_payload e) ''provenance_kind'' (JStr ''FIXTURE'') = JStr ''REAL''))]),
       (''sanitization_status'', JStr ''SANITIZED''), (''evidence_refs'', JArr [JStr ref]), (''evidence'', JObj block),
       (''limitations'', JArr ls), (''field_validation'', assessment_json S fv)]), g2)"
  by (simp add: tool_get_evidence_def bindO_def assms lift_def query_def Let_def)

definition collectors_ok :: "gateway \<Rightarrow> bool" where
  "collectors_ok G \<longleftrightarrow> (\<forall>(cid, c) \<in> set (gw_collectors G). c_id c = cid)"


lemma example_fetch:
  "fetch example_io (FixtureAdapter ''/f'') example_target example_masked_collector = Inr example_rows"
  by (simp add: fixture_fetch_def confine_def bad_part_def inside_def example_io_def example_target_def example_masked_collector_def
      example_rows_def read_json_file_def strict_json_def MAX_FIXTURE_BYTES_def starts_with_def Let_def)

lemma example_sanitize:
  "\<exists>p sc. sanitize_rows example_env example_masked_collector example_rows (new_scope ''a'' ''s'') ''fixture-db'' 5 = Inr (p, sc)"
  using example_identifier
  by (simp add: sanitize_rows_def is_obj_def jitems_def jget_def or_else_def digits_of_1 example_rows_def example_masked_collector_def
      sanitize_row_def sanitize_field_def sanitize_value_def sanitize_identifier_def scope_alias_def new_scope_def jreq_def jget_or_def
      crash_def as_str_def MAX_ROWS_HARD_def alias_text_def dget_or_def Let_def)

lemma example_collects:
  "\<exists>env g1. tool_collect example_services example_gateway example_tick ''REQ-0'' example_request example_state = (Inr env, g1) \<and>
     dget env ''evidence_refs'' = Some (JArr [JStr ''EVR-0a''])"
proof -
  let ?a = "FixtureAdapter ''/f''" and ?g = "charge example_target example_state"
  obtain p sc where san: "sanitize_rows example_env example_masked_collector example_rows (new_scope ''a'' ''s'') ''fixture-db'' 5 = Inr (p, sc)"
    using example_sanitize by blast
  have cap: "row_cap example_gateway (gs_session ?g) example_target example_masked_collector ?a example_request = 5"
    by (simp add: row_cap_def example_gateway_def example_target_def example_masked_collector_def example_request_def jget_def
        charge_def example_state_def start_state_def new_session_def dget_or_def MAX_ROWS_HARD_def Let_def)
  have scope: "se_scope (gs_session ?g) = new_scope ''a'' ''s''"
    by (simp add: charge_def example_state_def start_state_def new_session_def Let_def)
  have san_op: "sanitize_op example_services example_masked_collector example_rows example_target 5 ?g = (Inr p, set_scope sc ?g)"
    using san by (simp add: sanitize_op_def scope example_services_def) (simp add: example_target_def)
  let ?h = "add_rows example_target (p_row_count p) (set_scope sc ?g)"
  have "\<exists>env g1. collect_report example_services example_tick ''REQ-0'' example_target example_masked_collector ?a SUPPORTED p ?h = (Inr env, g1)"
    by (simp add: collect_report_def bindO_def put_op_def query_def lift_def check_architecture_def check_identity_def check_clock_def
        ARCH_COLLECTOR_ID_def IDENTITY_COLLECTOR_ID_def CLOCK_COLLECTOR_ID_def assess_op_def fv_target_def assess_def crash_def
        example_masked_collector_def Let_def add_rows_def set_scope_def charge_def example_state_def start_state_def new_session_def
        split: prod.split)
  then obtain env g1 where rep: "collect_report example_services example_tick ''REQ-0'' example_target example_masked_collector ?a SUPPORTED p ?h
      = (Inr env, g1)" by blast
  have run: "run_with_timeout (io_elapsed (tk_io example_tick)) (fetch (tk_io example_tick) ?a example_target example_masked_collector)
      (min (of_int (c_timeout example_masked_collector)) (gw_timeout example_gateway)) = Inr example_rows"
    using example_fetch by (simp add: example_tick_def run_with_timeout_def DEFAULT_OPERATION_TIMEOUT_SECONDS_def
        example_masked_collector_def example_gateway_def) (simp add: example_io_def)
  have parts: "arg_text example_request ''target_alias'' = Inr ''fixture-db''" "arg_text example_request ''collector_id'' = Inr ''os.uptime''"
    "find_target example_gateway ''fixture-db'' = Inr example_target" "find_collector example_gateway ''os.uptime'' = Inr example_masked_collector"
    "get_adapter (gw_adapters example_gateway) (t_adapter example_target) = Inr ?a"
    by (simp_all add: arg_text_def example_request_def jreq_def as_str_def crash_def find_target_def find_collector_def example_gateway_def
        get_adapter_def lookup_adapter_def adapter_registry_def example_target_def)
  have "tool_collect example_services example_gateway example_tick ''REQ-0'' example_request example_state = (Inr env, g1)"
    by (simp add: tool_collect_def collect_charged_def bindO_def lift_def query_def modify_def parts example_authorized cap run san_op rep
        del: fetch.simps)
  moreover have "dget env ''evidence_refs'' = Some (JArr [JStr ''EVR-0a''])"
    using report_steps [OF rep] by (simp add: report_entry_def store_put_def example_tick_def Let_def)
  ultimately show ?thesis by blast
qed


subsection \<open>The answer of a call\<close>

lemma lookup_upd: "dget (rev news) k = Some v \<Longrightarrow> dget (upd d news) k = Some v"
  by simp

lemma handler_status:
  assumes "handler S G tk req name args g = (Inr env, g')"
  shows "dget env ''status'' \<in> {Some (JStr ''OK''), Some (JStr ''DEGRADED'')}"
proof -
  consider (list) "tool_list_capabilities S G req g = (Inr env, g')" | (describe) "tool_describe_collector S G req args g = (Inr env, g')"
    | (collect) "tool_collect S G tk req args g = (Inr env, g')" | (get) "tool_get_evidence S G tk req args g = (Inr env, g')"
    | (analyze) "tool_analyze_incident S G tk req args g = (Inr env, g')"
    using assms unfolding handler_def by (simp split: if_splits)
  then show ?thesis
  proof cases
    case list
    then show ?thesis by (auto simp: tool_list_capabilities_def bindE_Inr)
  next
    case describe
    then show ?thesis by (auto simp: tool_describe_collector_def bindO_Inr bindE_Inr Let_def)
  next
    case collect
    from collect_steps [OF collect] obtain t c cap a p h where "collect_report S tk req t c a cap p h = (Inr env, g')" by blast
    from report_steps [OF this] show ?thesis by (simp add: Let_def split: prod.splits)
  next
    case get
    then show ?thesis by (auto simp: tool_get_evidence_def bindO_Inr Let_def)
  next
    case analyze
    then show ?thesis by (auto simp: tool_analyze_incident_def bindO_Inr Let_def analysis_envelope_def split: if_splits)
  qed
qed

text \<open>The two forms of an answer.\<close>

definition released_answer :: "services \<Rightarrow> string \<Rightarrow> envelope \<Rightarrow> bool" where
  "released_answer S name env \<longleftrightarrow> name \<in> set (dkeys TOOLS) \<and>
     dget env ''status'' \<in> {Some (JStr ''OK''), Some (JStr ''DEGRADED'')} \<and> final_audit (JObj env) = Inr () \<and>
     int (length (dumps (e_frepr (sv_env S)) '', '' '': '' (JObj env))) \<le> MAX_RESPONSE_BYTES"

definition error_answer :: "services \<Rightarrow> string \<Rightarrow> envelope \<Rightarrow> bool" where
  "error_answer S req env \<longleftrightarrow> (\<exists>tool c cap s t. env = error_envelope S tool req c cap s t \<and> tool \<in> set (dkeys TOOLS) \<union> {''unknown''})"

lemma dget_key: "dget d k = Some v \<Longrightarrow> k \<in> set (dkeys d)"
  by (force dest: map_of_SomeD)

lemma attempt_released:
  assumes "attempt S G tk req name args g = (Inr env, g')"
  shows "released_answer S name env"
proof -
  from assms obtain d s where t: "dget TOOLS name = Some (d, s)" by (auto simp: attempt_def split: option.splits)
  from assms obtain w g1 env0 g2 where h: "handler S G tk req name w g1 = (Inr env0, g2)"
    and r: "release S (if ''status'' \<in> set (dkeys env0) then env0 else dset ''status'' (JStr ''OK'') env0) = Inr env"
    by (auto simp: attempt_def t bindO_Inr)
  have st: "dget env0 ''status'' \<in> {Some (JStr ''OK''), Some (JStr ''DEGRADED'')}" by (rule handler_status [OF h])
  then obtain v where "dget env0 ''status'' = Some v" by blast
  then have "''status'' \<in> set (dkeys env0)" by (rule dget_key)
  with r have "release S env0 = Inr env" by simp
  then have "env = env0" "final_audit (JObj env) = Inr ()"
    "int (length (dumps (e_frepr (sv_env S)) '', '' '': '' (JObj env))) \<le> MAX_RESPONSE_BYTES"
    by (auto simp: release_def bindE_Inr split: if_splits)
  moreover have "name \<in> set (dkeys TOOLS)" using t by (rule dget_key)
  ultimately show ?thesis using st by (simp add: released_answer_def)
qed



subsection \<open>Analysis of an incident\<close>

lemma get_op_entry:
  assumes "get_op S now ref t g = (Inr e, g')"
  shows "(ref, e) \<in> set (st_items (gs_store g)) \<and> en_session e = sc_session_id (se_scope (gs_session g)) \<and> en_target e = t_alias t \<and>
    gs_session g' = gs_session g \<and> gs_registry g' = gs_registry g \<and> set (st_items (gs_store g')) \<subseteq> set (st_items (gs_store g))"
proof -
  have s: "gs_store g' = purge now (gs_store g)" "gs_session g' = gs_session g" "gs_registry g' = gs_registry g"
    and f: "fst (store_get (sv_env S) now ref (sc_session_id (se_scope (gs_session g))) (t_alias t) (gs_store g)) = Inr e"
    using assms by (auto simp: get_op_def Let_def store_get_def split: prod.splits)
  from f have "dget (st_items (purge now (gs_store g))) ref = Some e" "en_session e = sc_session_id (se_scope (gs_session g))"
    "en_target e = t_alias t"
    by (auto simp: store_get_def Let_def split: option.splits if_splits)
  then show ?thesis using s purge_sub map_of_SomeD by fastforce
qed

definition own_item :: "gstate \<Rightarrow> target \<Rightarrow> evidence_item \<Rightarrow> bool" where
  "own_item g t = (\<lambda>(c, ref, p). \<exists>e. (ref, e) \<in> set (st_items (gs_store g)) \<and>
     en_session e = sc_session_id (se_scope (gs_session g)) \<and> en_target e = t_alias t \<and> en_payload e = p)"

lemma read_items_own:
  "read_items S G tk t i refs g = (Inr items, g') \<Longrightarrow> map (fst \<circ> snd) items = refs \<and> list_all (own_item g t) items \<and>
     gs_session g' = gs_session g \<and> gs_registry g' = gs_registry g"
proof (induction refs arbitrary: i g items)
  case (Cons ref refs)
  from Cons.prems obtain e g1 c rest where h: "get_op S (tk_clock tk i) ref t g = (Inr e, g1)"
    and r: "read_items S G tk t (Suc i) refs g1 = (Inr rest, g')" and i: "items = (c, ref, en_payload e) # rest"
    by (auto simp: bindO_Inr)
  note e = get_op_entry [OF h] and IH = Cons.IH [OF r]
  have "own_item g t x" if "own_item g1 t x" for x
    using that e by (auto simp: own_item_def)
  with IH have "list_all (own_item g t) rest" by (auto simp: list_all_iff)
  moreover have "own_item g t (c, ref, en_payload e)" using e by (auto simp: own_item_def)
  ultimately show ?case using IH e i by simp
qed simp

lemma dedupe_props: "distinct (dedupe xs)" "set (dedupe xs) = set xs"
  by (simp_all add: dedupe_def)


definition example_stored :: gstate where
  "example_stored = example_state\<lparr>gs_store := snd (store_put example_env 0 0 ''0a'' ''Sa'' ''fixture-db'' ''os.uptime'' (JObj []) new_store)\<rparr>"

definition example_analysis :: json where
  "example_analysis = JObj [(''target_alias'', JStr ''fixture-db''), (''evidence_refs'', JArr [JStr ''EVR-0a''])]"

lemma example_analyzes:
  "\<exists>env g'. tool_analyze_incident example_services example_gateway example_tick ''REQ-0'' example_analysis example_stored = (Inr env, g')"
proof -
  let ?st = "snd (store_put example_env 0 0 ''0a'' ''Sa'' ''fixture-db'' ''os.uptime'' (JObj []) new_store)"
  have p: "store_put example_env 0 0 ''0a'' ''Sa'' ''fixture-db'' ''os.uptime'' (JObj []) new_store = (''EVR-0a'', ?st)"
    by (simp add: store_put_def Let_def)
  have "0 - 0 \<le> st_ttl new_store" by (simp add: new_store_def EVIDENCE_TTL_SECONDS_def)
  from put_get [OF new_store_ok p this] obtain e where
    e: "fst (store_get example_env 0 ''EVR-0a'' ''Sa'' ''fixture-db'' ?st) = Inr e" "en_collector e = ''os.uptime''" by blast
  then obtain st where "store_get example_env 0 ''EVR-0a'' ''Sa'' ''fixture-db'' ?st = (Inr e, st)" by (metis prod.collapse)
  then have g: "get_op example_services (tk_clock example_tick 0) ''EVR-0a'' example_target example_stored
      = (Inr e, example_stored\<lparr>gs_store := st\<rparr>)"
    by (simp add: get_op_def example_stored_def example_state_def start_state_def new_session_def new_scope_def example_services_def
        example_tick_def Let_def) (simp add: example_target_def)
  have c: "collector_of example_gateway e = Inr example_masked_collector" by (simp add: collector_of_def example_gateway_def e(2))
  let ?g = "example_stored\<lparr>gs_store := st\<rparr>" and ?items = "[(example_masked_collector, ''EVR-0a'', en_payload e)]"
  have r: "read_items example_services example_gateway example_tick example_target 0 [''EVR-0a''] example_stored = (Inr ?items, ?g)"
    by (simp add: bindO_def g c lift_def)
  have a: "enabled_target example_gateway example_analysis = Inr example_target"
    by (simp add: enabled_target_def arg_text_def example_analysis_def jreq_def as_str_def crash_def find_target_def example_gateway_def
        example_target_def)
  have refs: "crash (bindE (bindE (jreq example_analysis ''evidence_refs'') py_iter) (mapE as_str)) = Inr [''EVR-0a'']"
    by (simp add: example_analysis_def jreq_def as_str_def crash_def py_iter_def)
  have sv: "sv_analyze example_services x y = Inr (JObj [])" for x y by (simp add: example_services_def)
  have fv: "fv_target (gs_session ?g) example_target = Inr example_target"
    by (simp add: fv_target_def example_stored_def example_state_def start_state_def new_session_def)
  have lv: "\<exists>l. bindE (crash (fv_target (gs_session ?g) example_target)) (\<lambda>u. mapE (level_of example_services ?g u) ?items) = Inr l"
    unfolding fv by (simp add: crash_def level_of_def assess_def example_masked_collector_def)
  then obtain l where l: "bindE (crash (fv_target (gs_session ?g) example_target)) (\<lambda>u. mapE (level_of example_services ?g u) ?items) = Inr l"
    by blast
  have d: "dedupe [''EVR-0a''] = [''EVR-0a'']" by (simp add: dedupe_def)
  show ?thesis
    unfolding tool_analyze_incident_def bindO_def lift_def query_def a refs sum.case prod.case Let_def d sv
    using l by (simp add: r del: read_items.simps)
qed


end
