(* ===== verification/Server.thy ===== *)
theory Server
  imports Gateway
begin

section \<open>The JSON-RPC server (mcp\_gateway/server.py)\<close>

text \<open>
  One line is one message. A message passes a size limit, a strict parser, a limit on depth and
  nodes and the shape of a request before a method is looked at; the lifecycle is NEW,
  INITIALIZING, READY. What is written is a list of messages, at most one for a line. The loop
  reads bounded lines from the input, here the list of bytes up to its end.
\<close>

subsection \<open>The complexity of a message\<close>

text \<open>
  \<open>_measure\<close> walks the value with a shared node counter and stops at the first node that is too deep
  or one too many: \<open>None\<close> is the \<open>ValueError\<close>, otherwise the counter is returned.
\<close>

fun measure_json :: "nat \<Rightarrow> nat \<Rightarrow> json \<Rightarrow> nat option"
  and measure_items :: "nat \<Rightarrow> nat \<Rightarrow> json list \<Rightarrow> nat option"
  and measure_pairs :: "nat \<Rightarrow> nat \<Rightarrow> (string \<times> json) list \<Rightarrow> nat option" where
  "measure_json depth budget v =
     (if MAX_JSON_DEPTH < depth \<or> MAX_JSON_ITEMS < Suc budget then None
      else (case v of
          JObj kvs \<Rightarrow> measure_pairs (Suc depth) (Suc budget) kvs
        | JArr xs \<Rightarrow> measure_items (Suc depth) (Suc budget) xs
        | _ \<Rightarrow> Some (Suc budget)))"
| "measure_items depth budget [] = Some budget"
| "measure_items depth budget (x # xs) = (case measure_json depth budget x of
      None \<Rightarrow> None | Some b \<Rightarrow> measure_items depth b xs)"
| "measure_pairs depth budget [] = Some budget"
| "measure_pairs depth budget ((k, x) # kvs) = (case measure_json depth budget x of
      None \<Rightarrow> None | Some b \<Rightarrow> measure_pairs depth b kvs)"

declare measure_json.simps [simp del]

subsection \<open>State and messages\<close>

datatype server_state = NEW | INITIALIZING | READY

record server =
  srv_state :: server_state
  srv_protocol :: "string option"
  srv_has_session :: bool
  srv_gateway :: gstate

definition new_server :: "gstate \<Rightarrow> server" where
  "new_server g = \<lparr> srv_state = NEW, srv_protocol = None, srv_has_session = False, srv_gateway = g \<rparr>"

definition PARSE_ERROR :: int where "PARSE_ERROR = -32700"
definition INVALID_REQUEST :: int where "INVALID_REQUEST = -32600"
definition METHOD_NOT_FOUND :: int where "METHOD_NOT_FOUND = -32601"
definition INVALID_PARAMS :: int where "INVALID_PARAMS = -32602"
definition INTERNAL_ERROR :: int where "INTERNAL_ERROR = -32603"

definition SUPPORTED_PROTOCOL_VERSIONS :: "string list" where
  "SUPPORTED_PROTOCOL_VERSIONS = [''2025-06-18'', ''2025-03-26'', ''2024-11-05'']"

definition result_message :: "json \<Rightarrow> json \<Rightarrow> json" where
  "result_message rid r = JObj [(''jsonrpc'', JStr ''2.0''), (''id'', rid), (''result'', r)]"

definition error_message :: "json \<Rightarrow> int \<Rightarrow> err_code \<Rightarrow> json" where
  "error_message rid code key = JObj [(''jsonrpc'', JStr ''2.0''), (''id'', rid),
     (''error'', JObj [(''code'', JInt code), (''message'', JStr (message_of key))])]"

text \<open>What the calls of one line get from outside: the two secrets of a session, and a tick.\<close>

record line_env =
  le_token :: string
  le_salt :: string
  le_tick :: tick

subsection \<open>Requests and notifications\<close>

definition notification :: "string \<Rightarrow> server \<Rightarrow> server" where
  "notification meth s =
     (if meth = ''notifications/initialized'' \<and> srv_state s = INITIALIZING then s\<lparr>srv_state := READY\<rparr> else s)"

definition instructions :: "bool \<Rightarrow> string" where
  "instructions lab = (if lab
     then ''Local read-only diagnostic gateway, LAB launcher: one human-authorized non-production Oracle target '' @
          ''may return REAL sanitized evidence; each response states its provenance. ''
     else ''Local read-only diagnostic gateway. Data in this release is synthetic fixture data. '') @
     ''Use diagnostics.list_capabilities first; tools accept only certified collector ids, registered target '' @
     ''aliases and opaque evidence references.''"

definition initialize :: "gateway \<Rightarrow> line_env \<Rightarrow> json \<Rightarrow> envelope \<Rightarrow> server \<Rightarrow> (exc + json) \<times> server" where
  "initialize G le rid params s =
     (if srv_state s \<noteq> NEW then (gwerr E_INVALID_REQUEST, s)
      else (case dget params ''protocolVersion'' of
          Some (JStr pv) \<Rightarrow>
            if \<not> is_obj (or_else (dget params ''capabilities'') (JObj [])) \<or> \<not> is_obj (or_else (dget params ''clientInfo'') (JObj []))
            then (gwerr E_INVALID_PARAMS, s)
            else let version = (if pv \<in> set SUPPORTED_PROTOCOL_VERSIONS then pv else hd SUPPORTED_PROTOCOL_VERSIONS) in
              (Inr (result_message rid (JObj [(''protocolVersion'', JStr version),
                 (''capabilities'', JObj [(''tools'', JObj [(''listChanged'', JBool False)])]),
                 (''serverInfo'', JObj [(''name'', JStr GATEWAY_NAME), (''version'', JStr GATEWAY_VERSION)]),
                 (''instructions'', JStr (instructions (gw_lab_mode G)))])),
               s\<lparr>srv_protocol := Some version, srv_has_session := True, srv_state := INITIALIZING,
                 srv_gateway := (srv_gateway s)\<lparr>gs_session := new_session (le_token le) (le_salt le)\<rparr>\<rparr>)
        | _ \<Rightarrow> (gwerr E_INVALID_PARAMS, s)))"

definition tools_call :: "services \<Rightarrow> gateway \<Rightarrow> line_env \<Rightarrow> json \<Rightarrow> envelope \<Rightarrow> server \<Rightarrow> (exc + json) \<times> server" where
  "tools_call S G le rid params s =
     (let arguments = (case dget params ''arguments'' of Some JNull \<Rightarrow> None | v \<Rightarrow> v);
          meta = or_else (dget params ''_meta'') (JObj []) in
      (case dget params ''name'' of
         Some (JStr name) \<Rightarrow>
           if \<not> set (dkeys params) \<subseteq> {''name'', ''arguments'', ''_meta''}
              \<or> (case arguments of None \<Rightarrow> False | Some a \<Rightarrow> \<not> is_obj a) \<or> \<not> is_obj meta
           then (gwerr E_INVALID_PARAMS, s)
           else let ((env, is_error), g) = call S G (le_tick le) name arguments (srv_gateway s) in
             (Inr (result_message rid (JObj [
                (''content'', JArr [JObj [(''type'', JStr ''text''),
                   (''text'', JStr (dumps (e_frepr (sv_env S)) '', '' '': '' (sort_keys (JObj env))))]]),
                (''structuredContent'', JObj env), (''isError'', JBool is_error)])),
              s\<lparr>srv_gateway := g\<rparr>)
       | _ \<Rightarrow> (gwerr E_INVALID_PARAMS, s)))"

definition request :: "services \<Rightarrow> gateway \<Rightarrow> line_env \<Rightarrow> json \<Rightarrow> string \<Rightarrow> envelope \<Rightarrow> server \<Rightarrow> (exc + json) \<times> server" where
  "request S G le rid meth params s =
     (if meth = ''initialize'' then initialize G le rid params s
      else if meth = ''ping'' then (Inr (result_message rid (JObj [])), s)
      else if srv_state s \<noteq> READY then (gwerr E_NOT_INITIALIZED, s)
      else if meth = ''tools/list'' then (Inr (result_message rid (JObj [(''tools'', JArr (tool_list (gw_lab_mode G)))])), s)
      else if meth = ''tools/call'' then tools_call S G le rid params s
      else (Inr (error_message rid METHOD_NOT_FOUND E_METHOD_NOT_FOUND), s))"

text \<open>The reply to a request: what it sends, or the error it raises.\<close>

definition reply :: "json \<Rightarrow> exc + json \<Rightarrow> json" where
  "reply rid r = (case r of
      Inr m \<Rightarrow> m
    | Inl (GwErr c _) \<Rightarrow> error_message rid (if c = E_INVALID_PARAMS then INVALID_PARAMS else INVALID_REQUEST) c
    | Inl (Crash _) \<Rightarrow> error_message rid INTERNAL_ERROR E_INTERNAL)"

subsection \<open>One line\<close>

definition valid_id :: "json \<Rightarrow> bool" where
  "valid_id v \<longleftrightarrow> (case v of JInt _ \<Rightarrow> True | JStr s \<Rightarrow> length s \<le> 64 | _ \<Rightarrow> False)"

definition echoed_id :: "json option \<Rightarrow> json" where
  "echoed_id v = (case v of Some (JInt i) \<Rightarrow> JInt i | Some (JStr t) \<Rightarrow> JStr t | _ \<Rightarrow> JNull)"

definition well_shaped :: "envelope \<Rightarrow> bool" where
  "well_shaped msg \<longleftrightarrow> dget msg ''jsonrpc'' = Some (JStr ''2.0'') \<and>
     (case dget msg ''method'' of Some (JStr _) \<Rightarrow> True | _ \<Rightarrow> False) \<and>
     set (dkeys msg) \<subseteq> {''jsonrpc'', ''id'', ''method'', ''params''}"

definition decode_message :: "codec \<Rightarrow> string \<Rightarrow> json option" where
  "decode_message C bytes = (case strict_json C bytes of
      None \<Rightarrow> None
    | Some v \<Rightarrow> if measure_json 0 0 v = None then None else Some v)"

definition method_of :: "envelope \<Rightarrow> string" where
  "method_of msg = (case dget msg ''method'' of Some (JStr m) \<Rightarrow> m | _ \<Rightarrow> [])"

text \<open>\<open>params\<close> is an object; left out and \<open>null\<close> count as the empty one.\<close>

definition params_of :: "envelope \<Rightarrow> envelope option" where
  "params_of msg = (case or_else (dget msg ''params'') (JObj []) of JObj p \<Rightarrow> Some p | JNull \<Rightarrow> Some [] | _ \<Rightarrow> None)"

definition handle_message :: "services \<Rightarrow> gateway \<Rightarrow> line_env \<Rightarrow> envelope \<Rightarrow> server \<Rightarrow> json list \<times> server" where
  "handle_message S G le msg s =
     (if \<not> well_shaped msg then ([error_message (echoed_id (dget msg ''id'')) INVALID_REQUEST E_INVALID_REQUEST], s)
      else if (case dget msg ''id'' of None \<Rightarrow> False | Some rid \<Rightarrow> \<not> valid_id rid)
      then ([error_message JNull INVALID_REQUEST E_INVALID_REQUEST], s)
      else (case params_of msg of
          None \<Rightarrow> ([error_message (or_else (dget msg ''id'') JNull) INVALID_PARAMS E_INVALID_PARAMS], s)
        | Some params \<Rightarrow> (case dget msg ''id'' of
              None \<Rightarrow> ([], notification (method_of msg) s)
            | Some rid \<Rightarrow> (let (r, s') = request S G le rid (method_of msg) params s in ([reply rid r], s')))))"

definition handle_line :: "services \<Rightarrow> gateway \<Rightarrow> codec \<Rightarrow> nat \<Rightarrow> line_env \<Rightarrow> string \<Rightarrow> server \<Rightarrow> json list \<times> server" where
  "handle_line S G C limit le bytes s =
     (if limit < length bytes then ([error_message JNull INVALID_REQUEST E_MESSAGE_TOO_LARGE], s)
      else (case decode_message C bytes of
          None \<Rightarrow> ([error_message JNull PARSE_ERROR E_PARSE], s)
        | Some (JObj msg) \<Rightarrow> handle_message S G le msg s
        | Some _ \<Rightarrow> ([error_message JNull INVALID_REQUEST E_INVALID_REQUEST], s)))"

subsection \<open>The loop\<close>

text \<open>\<open>readline(n)\<close>: up to and including the next line break, at most \<open>n\<close> bytes.\<close>

fun readline :: "nat \<Rightarrow> string \<Rightarrow> string \<times> string" where
  "readline n [] = ([], [])"
| "readline 0 s = ([], s)"
| "readline (Suc n) (c # s) = (if c = newline then ([c], s) else (let (a, b) = readline n s in (c # a, b)))"

lemma readline_split: "readline n s = (a, b) \<Longrightarrow> s = a @ b"
  by (induction n s arbitrary: a b rule: readline.induct) (auto split: prod.splits if_splits)

lemma readline_shorter: "readline (Suc n) s = (a, b) \<Longrightarrow> s \<noteq> [] \<Longrightarrow> length b < length s"
  by (cases s) (auto split: prod.splits if_splits dest!: readline_split)

definition rstrip_crlf :: "string \<Rightarrow> string" where
  "rstrip_crlf s = rev (dropWhile (\<lambda>c. c = newline \<or> c = CHR 0x0D) (rev s))"

definition byte_space :: "char \<Rightarrow> bool" where
  "byte_space c \<longleftrightarrow> c \<in> set [CHR '' '', CHR 0x09, newline, CHR 0x0B, CHR 0x0C, CHR 0x0D]"

definition ends_line :: "string \<Rightarrow> bool" where
  "ends_line s \<longleftrightarrow> s \<noteq> [] \<and> last s = newline"

text \<open>The inner loop: the rest of an oversize line is read and thrown away.\<close>

function discard :: "nat \<Rightarrow> string \<Rightarrow> string" where
  "discard n s = (let (a, b) = readline (Suc n) s in if a = [] \<or> ends_line a then b else discard n b)"
  by pat_completeness auto
termination
proof (relation "measure (\<lambda>(n, s). length s)", goal_cases)
  case (2 n s x a b)
  then have r: "readline (Suc n) s = (a, b)" and "a \<noteq> []" by auto
  then have "s \<noteq> []" by auto
  with r show ?case using readline_shorter by simp
qed simp

declare discard.simps [simp del]

lemma discard_shorter: "length (discard n s) \<le> length s"
proof (induction n s rule: discard.induct)
  case (1 n s)
  obtain a b where r: "readline (Suc n) s = (a, b)" by fastforce
  then have "length b \<le> length s" using readline_split by fastforce
  then show ?case using 1 [OF r [symmetric] refl] by (subst discard.simps) (auto simp: r)
qed

text \<open>\<open>les\<close> gives each handled line its randomness and clock, by number.\<close>

function serve_lines :: "services \<Rightarrow> gateway \<Rightarrow> codec \<Rightarrow> nat \<Rightarrow> (nat \<Rightarrow> line_env) \<Rightarrow> nat \<Rightarrow> string \<Rightarrow> server \<Rightarrow> json list \<times> server" where
  "serve_lines S G C limit les i input s =
     (let (line, rest) = readline (limit + 2) input in
      if line = [] then ([], s)
      else if limit < length line \<and> \<not> ends_line line then
        (let (out, s') = serve_lines S G C limit les i (discard (limit + 1) rest) s in
         (error_message JNull INVALID_REQUEST E_MESSAGE_TOO_LARGE # out, s'))
      else (let body = rstrip_crlf line in
        if list_all byte_space body then serve_lines S G C limit les i rest s
        else (let (out1, s1) = handle_line S G C limit (les i) body s;
                  (out2, s2) = serve_lines S G C limit les (Suc i) rest s1 in (out1 @ out2, s2))))"
  by pat_completeness auto
termination
proof (relation "measure (\<lambda>(S, G, C, limit, les, i, input, s). length input)", goal_cases)
  case 1
  show ?case by simp
next
  case (2 S G C limit les i input s x line rest)
  then have r: "readline (Suc (limit + 1)) input = (line, rest)" and "line \<noteq> []" by auto
  then have "input \<noteq> []" by auto
  from readline_shorter [OF r this] discard_shorter [of "limit + 1" rest] show ?case by simp
next
  case (3 S G C limit les i input s x line rest body)
  then have r: "readline (Suc (limit + 1)) input = (line, rest)" and "line \<noteq> []" by auto
  then have "input \<noteq> []" by auto
  from readline_shorter [OF r this] show ?case by simp
next
  case (4 S G C limit les i input s x line rest body y out1 s1)
  then have r: "readline (Suc (limit + 1)) input = (line, rest)" and "line \<noteq> []" by auto
  then have "input \<noteq> []" by auto
  from readline_shorter [OF r this] show ?case by simp
qed

declare serve_lines.simps [simp del]

text \<open>At the end of the input the evidence of the session is deleted.\<close>

definition serve :: "services \<Rightarrow> gateway \<Rightarrow> codec \<Rightarrow> nat \<Rightarrow> (nat \<Rightarrow> line_env) \<Rightarrow> string \<Rightarrow> server \<Rightarrow> json list \<times> server" where
  "serve S G C limit les input s =
     (let (out, s') = serve_lines S G C limit les 0 input s; g = srv_gateway s' in
      (out, if srv_has_session s'
            then s'\<lparr>srv_gateway := g\<lparr>gs_store := snd (clear_session (sc_session_id (se_scope (gs_session g))) (gs_store g))\<rparr>\<rparr>
            else s'))"

subsection \<open>The limit on complexity is exact\<close>

lemma jdepth_shift:
  "d + jdepth (JArr xs) \<le> n \<longleftrightarrow> d \<le> n \<and> (\<forall>x \<in> set xs. Suc d + jdepth x \<le> n)"
  "d + jdepth (JObj kvs) \<le> n \<longleftrightarrow> d \<le> n \<and> (\<forall>x \<in> set kvs. Suc d + jdepth (snd x) \<le> n)"
proof -
  have "d + jdepth (JArr xs) \<le> n \<longleftrightarrow> d \<le> n \<and> jdepth (JArr xs) \<le> n - d" by linarith
  also have "\<dots> \<longleftrightarrow> d \<le> n \<and> (\<forall>x \<in> set xs. Suc d + jdepth x \<le> n)" by fastforce
  finally show "d + jdepth (JArr xs) \<le> n \<longleftrightarrow> d \<le> n \<and> (\<forall>x \<in> set xs. Suc d + jdepth x \<le> n)" .
  have "d + jdepth (JObj kvs) \<le> n \<longleftrightarrow> d \<le> n \<and> jdepth (JObj kvs) \<le> n - d" by linarith
  also have "\<dots> \<longleftrightarrow> d \<le> n \<and> (\<forall>x \<in> set kvs. Suc d + jdepth (snd x) \<le> n)" by fastforce
  finally show "d + jdepth (JObj kvs) \<le> n \<longleftrightarrow> d \<le> n \<and> (\<forall>x \<in> set kvs. Suc d + jdepth (snd x) \<le> n)" .
qed

lemma measure_counts:
  "b \<le> MAX_JSON_ITEMS \<Longrightarrow> measure_json d b v =
     (if d + jdepth v \<le> MAX_JSON_DEPTH \<and> b + jnodes v \<le> MAX_JSON_ITEMS then Some (b + jnodes v) else None)"
  "b \<le> MAX_JSON_ITEMS \<Longrightarrow> measure_items d b xs =
     (if (\<forall>x \<in> set xs. d + jdepth x \<le> MAX_JSON_DEPTH) \<and> b + sum_list (map jnodes xs) \<le> MAX_JSON_ITEMS
      then Some (b + sum_list (map jnodes xs)) else None)"
  "b \<le> MAX_JSON_ITEMS \<Longrightarrow> measure_pairs d b kvs =
     (if (\<forall>x \<in> set kvs. d + jdepth (snd x) \<le> MAX_JSON_DEPTH) \<and> b + sum_list (map (jnodes \<circ> snd) kvs) \<le> MAX_JSON_ITEMS
      then Some (b + sum_list (map (jnodes \<circ> snd) kvs)) else None)"
proof (induction d b v and d b xs and d b kvs rule: measure_json_measure_items_measure_pairs.induct)
  case (1 d b v)
  show ?case
  proof (cases "MAX_JSON_DEPTH < d \<or> MAX_JSON_ITEMS < Suc b")
    case True
    have "1 \<le> jnodes v" by (cases v) simp_all
    with True show ?thesis by (auto simp: measure_json.simps)
  next
    case False
    then show ?thesis
      using 1 by (cases v) (simp_all add: measure_json.simps jdepth_shift comp_def)
  qed
qed (auto split: option.split)

text \<open>
  C33: the guard against deep and wide messages is exact. The walk with its shared counter and early
  exit accepts a value exactly when its depth and its number of nodes are within the two limits.
\<close>

theorem measure_exact:
  "measure_json 0 0 v \<noteq> None \<longleftrightarrow> jdepth v \<le> MAX_JSON_DEPTH \<and> jnodes v \<le> MAX_JSON_ITEMS"
  by (simp add: measure_counts(1))

subsection \<open>One answer for one message\<close>

definition answers :: "json \<Rightarrow> json \<Rightarrow> bool" where
  "answers rid m \<longleftrightarrow> (\<exists>r. m = result_message rid r) \<or> (\<exists>c k. m = error_message rid c k)"

text \<open>What a line asks for: nothing acceptable, a notification, or a request with its id.\<close>

definition accepted :: "codec \<Rightarrow> nat \<Rightarrow> string \<Rightarrow> json option option" where
  "accepted C limit bytes = (if limit < length bytes then None else (case decode_message C bytes of
      Some (JObj msg) \<Rightarrow>
        if \<not> well_shaped msg \<or> params_of msg = None then None
        else (case dget msg ''id'' of None \<Rightarrow> Some None | Some rid \<Rightarrow> if valid_id rid then Some (Some rid) else None)
    | _ \<Rightarrow> None))"

lemma answers_simps [simp]: "answers rid (result_message rid r)" "answers rid (error_message rid c k)"
  by (auto simp: answers_def)

lemma tools_call_answers: "fst (tools_call S G le rid params s) = Inr m \<Longrightarrow> answers rid m"
  by (auto simp: tools_call_def Let_def split: option.splits json.splits prod.splits if_splits)

lemma initialize_answers: "fst (initialize G le rid params s) = Inr m \<Longrightarrow> answers rid m"
  by (auto simp: initialize_def Let_def split: option.splits json.splits if_splits)

lemma request_answers: "fst (request S G le rid meth params s) = Inr m \<Longrightarrow> answers rid m"
  using tools_call_answers initialize_answers by (auto simp: request_def split: if_splits)

lemma reply_answers: "request S G le rid meth params s = (r, s') \<Longrightarrow> answers rid (reply rid r)"
  using request_answers [of S G le rid meth params s] by (cases r) (auto simp: reply_def split: exc.splits)

lemma handle_message_accepted:
  assumes "handle_message S G le msg s = (out, s')" and "decode_message C bytes = Some (JObj msg)" "length bytes \<le> limit"
  shows "case accepted C limit bytes of
      Some None \<Rightarrow> out = [] \<and> s' = notification (method_of msg) s
    | Some (Some rid) \<Rightarrow> (\<exists>params r. request S G le rid (method_of msg) params s = (r, s') \<and> out = [reply rid r])
    | None \<Rightarrow> \<exists>rid c k. out = [error_message rid c k] \<and> s' = s \<and> (rid = JNull \<or> dget msg ''id'' = Some rid)"
proof (cases "well_shaped msg \<and> \<not> (case dget msg ''id'' of None \<Rightarrow> False | Some rid \<Rightarrow> \<not> valid_id rid)")
  case False
  then show ?thesis using assms unfolding handle_message_def accepted_def
    by (auto simp: echoed_id_def split: if_splits option.splits json.splits)
next
  case True
  then show ?thesis using assms unfolding handle_message_def accepted_def
    by (auto simp: or_else_def split: option.splits prod.splits)
qed

lemma handle_line_accepted:
  assumes "handle_line S G C limit le bytes s = (out, s')"
  shows "case accepted C limit bytes of
      Some None \<Rightarrow> out = [] \<and> (\<exists>meth. s' = notification meth s)
    | Some (Some rid) \<Rightarrow> (\<exists>meth params r. request S G le rid meth params s = (r, s') \<and> out = [reply rid r])
    | None \<Rightarrow> \<exists>rid c k. out = [error_message rid c k] \<and> s' = s \<and>
        (rid = JNull \<or> (\<exists>msg. decode_message C bytes = Some (JObj msg) \<and> dget msg ''id'' = Some rid))"
proof (cases "length bytes \<le> limit \<and> (\<exists>msg. decode_message C bytes = Some (JObj msg))")
  case True
  then obtain msg where m: "decode_message C bytes = Some (JObj msg)" and l: "length bytes \<le> limit" by blast
  then have h: "handle_message S G le msg s = (out, s')" using assms by (simp add: handle_line_def)
  from handle_message_accepted [OF this m l] show ?thesis using m by (auto split: option.splits)
next
  case False
  then have "accepted C limit bytes = None" by (auto simp: accepted_def split: option.splits json.splits)
  moreover have "\<exists>c k. out = [error_message JNull c k] \<and> s' = s" using False assms
    by (auto simp: handle_line_def split: if_splits option.splits json.splits)
  ultimately show ?thesis by (auto intro: exI [of _ JNull])
qed


subsection \<open>The lifecycle\<close>

text \<open>The transitions a message can cause, and what each may touch.\<close>

inductive server_step :: "services \<Rightarrow> gateway \<Rightarrow> server \<Rightarrow> server \<Rightarrow> bool" for S G where
  step_initialize: "srv_state s = NEW \<Longrightarrow> v \<in> set SUPPORTED_PROTOCOL_VERSIONS \<Longrightarrow>
     server_step S G s (s\<lparr>srv_protocol := Some v, srv_has_session := True, srv_state := INITIALIZING,
       srv_gateway := (srv_gateway s)\<lparr>gs_session := new_session token salt\<rparr>\<rparr>)"
| step_initialized: "srv_state s = INITIALIZING \<Longrightarrow> server_step S G s (s\<lparr>srv_state := READY\<rparr>)"
| step_call: "srv_state s = READY \<Longrightarrow> server_step S G s (s\<lparr>srv_gateway := gateway_step S G (srv_gateway s) e\<rparr>)"

inductive_cases server_stepE: "server_step S G s s'"

lemma notification_step: "notification meth s = s \<or> server_step S G s (notification meth s)"
  by (auto simp: notification_def intro: step_initialized)

lemma initialize_step: "snd (initialize G le rid params s) = s \<or> server_step S G s (snd (initialize G le rid params s))"
proof (cases "srv_state s = NEW")
  case True
  have v: "(if pv \<in> set SUPPORTED_PROTOCOL_VERSIONS then pv else hd SUPPORTED_PROTOCOL_VERSIONS) \<in> set SUPPORTED_PROTOCOL_VERSIONS" for pv
    by (simp add: SUPPORTED_PROTOCOL_VERSIONS_def)
  show ?thesis
    using step_initialize [OF True v] True unfolding initialize_def Let_def by (simp split: option.split json.split)
qed (simp add: initialize_def)

lemma tools_call_step:
  "snd (tools_call S G le rid params s) = s \<or>
   (\<exists>e. snd (tools_call S G le rid params s) = s\<lparr>srv_gateway := gateway_step S G (srv_gateway s) e\<rparr>)"
proof -
  have c: "\<exists>e. snd (let ((env, is_error), g) = call S G tk name args (srv_gateway s) in (x env is_error, s\<lparr>srv_gateway := g\<rparr>))
      = s\<lparr>srv_gateway := gateway_step S G (srv_gateway s) e\<rparr>" for tk name args and x :: "envelope \<Rightarrow> bool \<Rightarrow> exc + json"
    by (rule exI [of _ "(tk, name, args)"]) (simp add: gateway_step_def split: prod.split)
  show ?thesis unfolding tools_call_def Let_def using c unfolding Let_def
    by (simp split: option.split json.split)
qed

lemma request_step: "snd (request S G le rid meth params s) = s \<or> server_step S G s (snd (request S G le rid meth params s))"
proof (cases "meth = ''tools/call'' \<and> srv_state s = READY")
  case True
  then have "request S G le rid meth params s = tools_call S G le rid params s" by (simp add: request_def)
  with tools_call_step [of S G le rid params s] True step_call [of s] show ?thesis by metis
next
  case False
  with initialize_step [of G le rid params s S] show ?thesis by (auto simp: request_def)
qed

lemma handle_line_step: "snd (handle_line S G C limit le bytes s) = s \<or> server_step S G s (snd (handle_line S G C limit le bytes s))"
proof -
  obtain out s' where h: "handle_line S G C limit le bytes s = (out, s')" by fastforce
  have r: "request S G le rid meth params s = (r, s') \<Longrightarrow> s' = s \<or> server_step S G s s'" for rid meth params r
    using request_step [of S G le rid meth params s] by simp
  from handle_line_accepted [OF h] have "s' = s \<or> server_step S G s s'"
    using notification_step [of _ s S G] r by (auto split: option.splits)
  then show ?thesis by (simp add: h)
qed

subsection \<open>What the lifecycle protects\<close>

text \<open>Before a session exists nothing is stored; afterwards the invariant of the gateway holds.\<close>

definition server_inv :: "services \<Rightarrow> gateway \<Rightarrow> server \<Rightarrow> bool" where
  "server_inv S G s \<longleftrightarrow> gateway_inv S G (srv_gateway s) \<and> (srv_has_session s \<longleftrightarrow> srv_state s \<noteq> NEW) \<and>
     (srv_state s \<noteq> NEW \<longrightarrow> srv_protocol s \<in> Some ` set SUPPORTED_PROTOCOL_VERSIONS) \<and>
     (srv_state s = NEW \<longrightarrow> st_items (gs_store (srv_gateway s)) = [])"

lemma new_session_inv:
  assumes "gateway_inv S G g" "st_items (gs_store g) = []"
  shows "gateway_inv S G (g\<lparr>gs_session := new_session token salt\<rparr>)"
proof -
  have "within_budget G (g\<lparr>gs_session := new_session token salt\<rparr>)"
    by (auto simp: within_budget_def target_budget_def new_session_def dget_or_def Let_def)
  then show ?thesis
    using assms new_scope_inv [of token salt] by (simp add: gateway_inv_def good_def sound_def owned_def new_session_def)
qed

lemma server_inv_step: "server_step S G s s' \<Longrightarrow> server_inv S G s \<Longrightarrow> server_inv S G s'"
  by (erule server_stepE) (simp_all add: server_inv_def new_session_inv gateway_inv_step)

definition server_rank :: "server \<Rightarrow> nat" where
  "server_rank s = (case srv_state s of NEW \<Rightarrow> 0 | INITIALIZING \<Rightarrow> 1 | READY \<Rightarrow> 2)"

lemma server_rank_step: "server_step S G s s' \<Longrightarrow> server_rank s \<le> server_rank s'"
  by (erule server_stepE) (simp_all add: server_rank_def)

definition server_turn :: "services \<Rightarrow> gateway \<Rightarrow> codec \<Rightarrow> nat \<Rightarrow> server \<Rightarrow> line_env \<times> string \<Rightarrow> server" where
  "server_turn S G C limit s e = snd (handle_line S G C limit (fst e) (snd e) s)"

lemma turn_step: "server_turn S G C limit s e = s \<or> server_step S G s (server_turn S G C limit s e)"
  unfolding server_turn_def by (rule handle_line_step)

lemma turn_ok: "server_inv S G s \<Longrightarrow> server_inv S G (server_turn S G C limit s e)"
  using turn_step [of S G C limit s e] server_inv_step by metis

lemma turn_rank: "server_rank s \<le> server_rank (server_turn S G C limit s e)"
  using turn_step [of S G C limit s e] server_rank_step by (metis order_refl)

interpretation server_m: step_machine "server_turn S G C limit" "server_inv S G"
  by unfold_locales (rule turn_ok)

interpretation rank_m: monotone_machine "server_turn S G C limit" "\<lambda>_. True" "(\<le>)" server_rank
  by unfold_locales (auto intro: turn_rank)

text \<open>
  C29: the lifecycle is enforced. A line leaves the server as it is or moves it along one transition:
  a new server becomes initializing, with a supported version and a fresh session; an initializing
  one becomes ready; the gateway is called only in a ready server. A reachable server never goes back.
\<close>

theorem lifecycle:
  "(server_turn S G C limit s e = s \<or> server_step S G s (server_turn S G C limit s e)) \<and>
   (srv_state s = READY \<or> gs_audit (srv_gateway (server_turn S G C limit s e)) = gs_audit (srv_gateway s) \<and>
      gs_store (srv_gateway (server_turn S G C limit s e)) = gs_store (srv_gateway s)) \<and>
   server_rank s \<le> server_rank (run_steps (server_turn S G C limit) s es)"
  using turn_step [of S G C limit s e] rank_m.run_le [OF TrueI] by (auto elim: server_stepE)

subsection \<open>Framing\<close>

text \<open>
  The reference: the input is cut at its line breaks, with a flag telling whether the line was ended
  by one, and every line is then handled or refused as a whole. Bounded reads do not appear.
\<close>

fun split_lines :: "string \<Rightarrow> (string \<times> bool) list" where
  "split_lines [] = []"
| "split_lines (c # cs) = (if c = newline then ([], True) # split_lines cs
     else (case split_lines cs of
         [] \<Rightarrow> [([c], False)]
       | (l, t) # ls \<Rightarrow> (c # l, t) # ls))"

fun serve_frames :: "services \<Rightarrow> gateway \<Rightarrow> codec \<Rightarrow> nat \<Rightarrow> (nat \<Rightarrow> line_env) \<Rightarrow> nat \<Rightarrow> (string \<times> bool) list \<Rightarrow> server \<Rightarrow> json list \<times> server" where
  "serve_frames S G C limit les i [] s = ([], s)"
| "serve_frames S G C limit les i ((l, ended) # ls) s =
     (if (if ended then limit + 1 else limit) < length l then
        (let (out, s') = serve_frames S G C limit les i ls s in
         (error_message JNull INVALID_REQUEST E_MESSAGE_TOO_LARGE # out, s'))
      else if list_all byte_space (rstrip_crlf l) then serve_frames S G C limit les i ls s
      else (let (out1, s1) = handle_line S G C limit (les i) (rstrip_crlf l) s;
                (out2, s2) = serve_frames S G C limit les (Suc i) ls s1 in (out1 @ out2, s2)))"

lemma split_lines_ended: "newline \<notin> set l \<Longrightarrow> split_lines (l @ newline # r) = (l, True) # split_lines r"
  by (induction l) auto

lemma split_lines_last: "newline \<notin> set l \<Longrightarrow> l \<noteq> [] \<Longrightarrow> split_lines l = [(l, False)]"
proof (induction l)
  case (Cons c l)
  then show ?case by (cases "l = []") auto
qed simp

lemma readline_ended: "newline \<notin> set l \<Longrightarrow> readline n (l @ newline # r) =
   (if length l < n then (l @ [newline], r) else (take n l, drop n l @ newline # r))"
proof (induction l arbitrary: n)
  case Nil
  then show ?case by (cases n) simp_all
next
  case (Cons c l)
  then show ?case by (cases n) auto
qed

lemma readline_last: "newline \<notin> set l \<Longrightarrow> readline n l = (take n l, drop n l)"
  by (induction n l rule: readline.induct) auto

lemma ends_line_last: "ends_line (l @ [newline])" "newline \<notin> set l \<Longrightarrow> \<not> ends_line l"
  by (simp_all add: ends_line_def) (metis last_in_set)

lemma discard_ended: "newline \<notin> set l \<Longrightarrow> discard n (l @ newline # r) = r"
proof (induction l rule: length_induct)
  case (1 l)
  show ?case
  proof (cases "length l < Suc n")
    case True
    then show ?thesis using 1(2) by (subst discard.simps) (simp add: readline_ended ends_line_last)
  next
    case False
    then have "discard n (drop (Suc n) l @ newline # r) = r" 
      using 1(2) False in_set_dropD [of newline "Suc n" l] by (intro 1(1) [rule_format]) auto
    then show ?thesis using False 1(2) ends_line_last(2) [of "take (Suc n) l"]
      by (subst discard.simps) (auto simp: readline_ended dest: in_set_takeD)
  qed
qed

lemma discard_last: "newline \<notin> set l \<Longrightarrow> discard n l = []"
proof (induction l rule: length_induct)
  case (1 l)
  show ?case
  proof (cases "l = []")
    case False
    then have "discard n (drop (Suc n) l) = []" 
      using 1(2) False in_set_dropD [of newline "Suc n" l] by (intro 1(1) [rule_format]) auto
    then show ?thesis using 1(2) ends_line_last(2) [of "take (Suc n) l"]
      by (subst discard.simps) (auto simp: readline_last dest: in_set_takeD)
  qed (subst discard.simps, simp)
qed

lemma rstrip_crlf_newline [simp]: "rstrip_crlf (l @ [newline]) = rstrip_crlf l"
  by (simp add: rstrip_crlf_def)

lemma line_cases:
  obtains (empty) "input = []" | (ended) l r where "newline \<notin> set l" "input = l @ newline # r"
    | (last) "newline \<notin> set input" "input \<noteq> []"
  by (metis split_list_first)

lemma serve_lines_framed: "serve_lines S G C limit les i input s = serve_frames S G C limit les i (split_lines input) s"
proof (induction "length input" arbitrary: i input s rule: less_induct)
  case less
  show ?case
  proof (cases input rule: line_cases)
    case empty
    then show ?thesis by (subst serve_lines.simps) simp
  next
    case (ended l r)
    have IH: "serve_lines S G C limit les j r u = serve_frames S G C limit les j (split_lines r) u" for j u
      using less [of r] ended by simp
    show ?thesis
    proof (cases "length l < limit + 2")
      case True
      then show ?thesis using ended ends_line_last(1) [of l]
        by (subst serve_lines.simps) (simp add: readline_ended split_lines_ended IH Let_def)
    next
      case False
      have t: "newline \<notin> set (take (limit + 2) l)" "newline \<notin> set (drop (limit + 2) l)" "limit < length (take (limit + 2) l)"
          "take (limit + 2) l \<noteq> []"
        using False ended(1) by (auto dest: in_set_takeD in_set_dropD)
      then show ?thesis using False ended ends_line_last(2) [OF t(1)]
        by (subst serve_lines.simps) (simp add: readline_ended split_lines_ended discard_ended IH Let_def)
    qed
  next
    case last
    have E: "serve_lines S G C limit les j [] u = ([], u)" for j u by (subst serve_lines.simps) simp
    have t: "newline \<notin> set (take (limit + 2) input)" "newline \<notin> set (drop (limit + 2) input)" "take (limit + 2) input \<noteq> []"
      using last by (auto dest: in_set_takeD in_set_dropD)
    show ?thesis
    proof (cases "limit < length input")
      case True
      then show ?thesis using t last ends_line_last(2) [OF t(1)]
        by (subst serve_lines.simps) (simp add: readline_last split_lines_last discard_last E Let_def)
    next
      case False
      then show ?thesis using t last
        by (subst serve_lines.simps) (simp add: readline_last split_lines_last E Let_def)
    qed
  qed
qed

text \<open>
  C30: the loop's bounded reads frame the input correctly. Reading at most limit plus two bytes at a
  time and discarding the rest of an oversize line gives what cutting the input at its line breaks
  gives: every line within the limit is handled once and in order, every longer one is answered by
  one error and changes nothing, blank lines are skipped, and the line after an oversize one is intact.
\<close>

theorem framing:
  "serve_lines S G C limit les 0 input s = serve_frames S G C limit les 0 (split_lines input) s"
  by (rule serve_lines_framed)

subsection \<open>A whole run\<close>

lemma serve_frames_turns:
  "\<exists>es. snd (serve_frames S G C limit les i fs s) = run_steps (server_turn S G C limit) s es"
proof (induction fs arbitrary: i s)
  case Nil
  then show ?case by (auto intro: exI [of _ "[]"] simp: run_steps_def)
next
  case (Cons f fs)
  obtain l t where f: "f = (l, t)" by (cases f)
  have skip: "\<exists>es. snd (serve_frames S G C limit les j fs u) = run_steps (server_turn S G C limit) u es" for j u
    by (rule Cons)
  obtain out1 s1 where h: "handle_line S G C limit (les i) (rstrip_crlf l) s = (out1, s1)" by fastforce
  obtain es where e: "snd (serve_frames S G C limit les (Suc i) fs s1) = run_steps (server_turn S G C limit) s1 es"
    using skip by blast
  have "server_turn S G C limit s (les i, rstrip_crlf l) = s1" by (simp add: server_turn_def h)
  then have "run_steps (server_turn S G C limit) s ((les i, rstrip_crlf l) # es) = run_steps (server_turn S G C limit) s1 es"
    by (simp add: run_steps_def)
  with e have "\<exists>es. snd (serve_frames S G C limit les (Suc i) fs s1) = run_steps (server_turn S G C limit) s es" by metis
  then show ?case using skip [of i s] by (auto simp: f h split: prod.splits)
qed

lemma new_server_inv: "server_inv S G (new_server (start_state token salt r))"
  using start_inv by (simp add: server_inv_def new_server_def start_state_def new_store_def)

text \<open>
  C31: whatever bytes a client sends, a run of the server stays within its bounds and leaves nothing
  behind. The calls and rows of the session are within the maxima of the gateway and of each target,
  and when the input ends the evidence store is empty.
\<close>

theorem serve_bounded:
  assumes "gateway_ok G" and "serve S G C limit les input (new_server (start_state token salt r)) = (out, s')"
  shows "within_budget G (srv_gateway s') \<and> length (gs_audit (srv_gateway s')) \<le> 500 \<and>
    st_items (gs_store (srv_gateway s')) = []"
proof -
  define s1 where "s1 = snd (serve_lines S G C limit les 0 input (new_server (start_state token salt r)))"
  obtain es where "s1 = run_steps (server_turn S G C limit) (new_server (start_state token salt r)) es"
    unfolding s1_def serve_lines_framed using serve_frames_turns by blast
  then have i: "server_inv S G s1" using server_m.run_ok [OF new_server_inv] by simp
  then have g: "within_budget G (srv_gateway s1)" "sound S (srv_gateway s1)" "length (gs_audit (srv_gateway s1)) \<le> 500"
    using assms(1) by (simp_all add: server_inv_def gateway_inv_def good_def)
  have s': "s' = (if srv_has_session s1 then s1\<lparr>srv_gateway := (srv_gateway s1)\<lparr>gs_store :=
      snd (clear_session (sc_session_id (se_scope (gs_session (srv_gateway s1)))) (gs_store (srv_gateway s1)))\<rparr>\<rparr> else s1)"
    using assms(2) by (auto simp: serve_def s1_def Let_def split: prod.splits)
  show ?thesis
  proof (cases "srv_has_session s1")
    case True
    let ?g = "(srv_gateway s1)\<lparr>gs_store := snd (clear_session (sc_session_id (se_scope (gs_session (srv_gateway s1)))) (gs_store (srv_gateway s1)))\<rparr>"
    have "within_budget G ?g" using g(1) within_budget_counters [of ?g "srv_gateway s1" G] by (simp add: counters_def)
    moreover have "st_items (gs_store ?g) = []" using g(2)
      by (auto simp: clear_session_def sound_def owned_def filter_empty_conv)
    ultimately show ?thesis using g(3) by (simp add: s' True)
  next
    case False
    then show ?thesis using g i by (simp add: s' server_inv_def)
  qed
qed

theorem serve_bounded_witness:
  "st_items (gs_store (srv_gateway (snd (serve example_services example_gateway (io_codec example_io) 10
     (\<lambda>_. \<lparr> le_token = ''a'', le_salt = ''s'', le_tick = example_tick \<rparr>) ''{}''
     (new_server (start_state ''a'' ''s'' example_registry)))))) = []"
  by (rule serve_bounded [OF example_gateway_ok surjective_pairing, THEN conjunct2, THEN conjunct2])

end
