(* ===== verification/Rca_Rules.thy ===== *)
theory Rca_Rules
  imports Rca_Sanitize
begin

section \<open>Rules of the root-cause engine (rca\_engine/rules.py, common.py)\<close>

text \<open>
  A rules catalog is decoded JSON; what the code reads of it can be of any type, and each access
  raises what Python raises. Evidence is the record that intake and timeline build. A rule is
  evaluated against a list of evidence: symptoms, supporting and contradicting conditions, and a
  temporal proof. Reading and parsing the file is outside.
\<close>

datatype rca_error = IntakeError | SanError san_error | RulesError | RcaCrash py_exc

definition rcrash :: "py_exc + 'a \<Rightarrow> rca_error + 'a" where
  "rcrash m = map_sum RcaCrash id m"

lemma rcrash_Inr [simp]: "rcrash m = Inr x \<longleftrightarrow> m = Inr x"
  by (cases m) (auto simp: rcrash_def)

subsection \<open>Vocabulary\<close>

definition CAUSAL_ELIGIBLE_EVENT_TYPES :: "string list" where
  "CAUSAL_ELIGIBLE_EVENT_TYPES = [''SYMPTOM_OBSERVED'', ''ALERT_TRIGGERED'', ''CONFIG_CHANGE'', ''CAPACITY_EVENT'',
     ''INVESTIGATION_STEP'']"

definition ALL_EVENT_TYPES :: "string list" where
  "ALL_EVENT_TYPES = ''RECOVERY'' # CAUSAL_ELIGIBLE_EVENT_TYPES"

definition ALLOWED_DOMAINS :: "string list" where
  "ALLOWED_DOMAINS = [''oracle'', ''os'', ''rac'', ''asm'', ''dataguard'', ''multitenant'', ''rman'', ''network'',
     ''security'', ''capacity'', ''performance'']"

text \<open>What intake makes of an item of evidence, and what the timeline adds to it.\<close>

record intake_item =
  ev_id :: string
  ev_domain :: string
  ev_source :: string
  ev_type :: string
  ev_timestamp :: json
  ev_sig :: signature_status
  ev_canonical :: "string option"
  ev_token :: "string option"
  ev_summary :: json
  ev_attributes :: "(string, json) dict"

record evidence = intake_item +
  ev_utc :: "string option"
  ev_degraded :: bool
  ev_reason :: "string option"
  ev_index :: nat

subsection \<open>Comparisons of decoded values\<close>

datatype comparison = Less | LessEq | Greater | GreaterEq

fun cmp_float :: "comparison \<Rightarrow> pyfloat \<Rightarrow> pyfloat \<Rightarrow> bool" where
  "cmp_float Less x y = flt_lt x y"
| "cmp_float LessEq x y = flt_le x y"
| "cmp_float Greater x y = flt_lt y x"
| "cmp_float GreaterEq x y = flt_le y x"

fun cmp_lin :: "comparison \<Rightarrow> 'a :: linorder \<Rightarrow> 'a \<Rightarrow> bool" where
  "cmp_lin Less x y = (x < y)"
| "cmp_lin LessEq x y = (x \<le> y)"
| "cmp_lin Greater x y = (y < x)"
| "cmp_lin GreaterEq x y = (y \<le> x)"

text \<open>Numbers and texts compare among themselves; lists at their first unequal elements.\<close>

fun py_cmp :: "comparison \<Rightarrow> json \<Rightarrow> json \<Rightarrow> py_exc + bool"
  and py_cmp_list :: "comparison \<Rightarrow> json list \<Rightarrow> json list \<Rightarrow> py_exc + bool" where
  "py_cmp c (JStr s) b = (case b of JStr t \<Rightarrow> Inr (cmp_lin c s t) | _ \<Rightarrow> Inl TypeError)"
| "py_cmp c (JArr xs) b = (case b of JArr ys \<Rightarrow> py_cmp_list c xs ys | _ \<Rightarrow> Inl TypeError)"
| "py_cmp c a b = (case (num_of a, num_of b) of (Some x, Some y) \<Rightarrow> Inr (cmp_float c x y) | _ \<Rightarrow> Inl TypeError)"
| "py_cmp_list c [] ys = Inr (cmp_lin c 0 (length ys))"
| "py_cmp_list c (x # xs) ys = (case ys of
      [] \<Rightarrow> Inr (cmp_lin c (Suc (length xs)) 0)
    | y # zs \<Rightarrow> if py_eq x y then py_cmp_list c xs zs else py_cmp c x y)"

text \<open>\<open>a in b\<close>.\<close>

definition py_in :: "json \<Rightarrow> json \<Rightarrow> py_exc + bool" where
  "py_in a b = (case b of
      JArr xs \<Rightarrow> Inr (list_ex (py_eq a) xs)
    | JObj kvs \<Rightarrow> if unhashable a then Inl TypeError else Inr (case a of JStr k \<Rightarrow> k \<in> set (dkeys kvs) | _ \<Rightarrow> False)
    | JStr t \<Rightarrow> (case a of JStr s \<Rightarrow> Inr (contains s t) | _ \<Rightarrow> Inl TypeError)
    | _ \<Rightarrow> Inl TypeError)"

text \<open>The table of operators; the ordering ones answer \<open>False\<close> for \<open>None\<close> on the left.\<close>

definition rule_op :: "string \<Rightarrow> (json \<Rightarrow> json \<Rightarrow> py_exc + bool) option" where
  "rule_op name = dget [
     (''=='', \<lambda>a b. Inr (py_eq a b)),
     (''!='', \<lambda>a b. Inr (\<not> py_eq a b)),
     (''>'', \<lambda>a b. if a = JNull then Inr False else py_cmp Greater a b),
     (''>='', \<lambda>a b. if a = JNull then Inr False else py_cmp GreaterEq a b),
     (''<'', \<lambda>a b. if a = JNull then Inr False else py_cmp Less a b),
     (''<='', \<lambda>a b. if a = JNull then Inr False else py_cmp LessEq a b),
     (''in'', py_in)] name"

subsection \<open>Loading\<close>

definition REQUIRED_RULE_FIELDS :: "string list" where
  "REQUIRED_RULE_FIELDS = [''rule_id'', ''domain'', ''statement'', ''causal_chain'', ''symptom_match'',
     ''supporting_conditions'', ''contradicting_conditions'', ''min_independent_sources'']"

definition check_rule :: "json list \<Rightarrow> json \<Rightarrow> rca_error + json list" where
  "check_rule seen rule =
     bindE (foldE (\<lambda>_ f. bindE (rcrash (py_in (JStr f) rule)) (\<lambda>b. if b then Inr () else Inl RulesError)) () REQUIRED_RULE_FIELDS) (\<lambda>_.
     bindE (rcrash (jreq rule ''rule_id'')) (\<lambda>rid.
     if unhashable rid then Inl (RcaCrash TypeError)
     else if list_ex (py_eq rid) seen then Inl RulesError
     else Inr (rid # seen)))"

definition load_rules :: "json \<Rightarrow> rca_error + json" where
  "load_rules data =
     bindE (rcrash (py_in (JStr ''rules_version'') data)) (\<lambda>v. if \<not> v then Inl RulesError else
     bindE (rcrash (py_in (JStr ''rules'') data)) (\<lambda>r. if \<not> r then Inl RulesError else
     bindE (rcrash (jreq data ''rules'')) (\<lambda>rs. (case rs of
         JArr (x # xs) \<Rightarrow> bindE (foldE check_rule [] (x # xs)) (\<lambda>_. Inr data)
       | _ \<Rightarrow> Inl RulesError))))"

definition strings_among :: "json list \<Rightarrow> string list" where
  "strings_among vs = concat (map (\<lambda>v. case v of JStr s \<Rightarrow> [s] | _ \<Rightarrow> []) vs)"

definition signatures_of :: "json \<Rightarrow> py_exc + json list" where
  "signatures_of rule =
     bindE (jget_attr rule ''symptom_match'') (\<lambda>sm.
     bindE (jget_attr (or_else sm (JObj [])) ''signature_any'') (\<lambda>sigs.
     py_set_of (or_else sigs (JArr []))))"

text \<open>Both sets hold decoded values; only their texts can ever equal a text.\<close>

definition collect_certified_signatures :: "json \<Rightarrow> py_exc + string list" where
  "collect_certified_signatures catalog =
     bindE (jreq catalog ''rules'') (\<lambda>rs. bindE (py_iter rs) (\<lambda>rules.
     bindE (mapE signatures_of rules) (\<lambda>sigs. Inr (strings_among (concat sigs)))))"

definition CROSS_CUTTING_ATTRIBUTE_KEYS :: "string list" where
  "CROSS_CUTTING_ATTRIBUTE_KEYS = [''source_clock_offset_seconds'']"

definition attribute_of :: "json \<Rightarrow> py_exc + json" where
  "attribute_of cond = bindE (jreq cond ''attribute'') (\<lambda>a. if unhashable a then Inl TypeError else Inr a)"

definition attribute_keys_of :: "json \<Rightarrow> py_exc + json list" where
  "attribute_keys_of rule =
     bindE (bindE (jreq rule ''supporting_conditions'') py_iter) (\<lambda>ss. bindE (mapE attribute_of ss) (\<lambda>s.
     bindE (bindE (jreq rule ''contradicting_conditions'') py_iter) (\<lambda>cs. bindE (mapE attribute_of cs) (\<lambda>c.
     bindE (jget_attr rule ''temporal_proof_condition'') (\<lambda>tp.
     if truthy (or_else tp JNull) then bindE (attribute_of (or_else tp JNull)) (\<lambda>t. Inr (s @ c @ [t]))
     else Inr (s @ c))))))"

definition collect_allowed_attribute_keys :: "json \<Rightarrow> py_exc + string list" where
  "collect_allowed_attribute_keys catalog =
     bindE (jreq catalog ''rules'') (\<lambda>rs. bindE (py_iter rs) (\<lambda>rules.
     bindE (mapE attribute_keys_of rules) (\<lambda>ks. Inr (CROSS_CUTTING_ATTRIBUTE_KEYS @ strings_among (concat ks)))))"

subsection \<open>Matching\<close>

text \<open>A \<open>TypeError\<close> of the operator or of reading the value is an answer, any other error is raised.\<close>

definition condition_matches :: "evidence \<Rightarrow> json \<Rightarrow> rca_error + bool" where
  "condition_matches e cond =
     (if ev_type e \<notin> set CAUSAL_ELIGIBLE_EVENT_TYPES then Inr False
      else bindE (rcrash (jget_attr cond ''domain'')) (\<lambda>d.
        if or_else d JNull \<noteq> JNull \<and> \<not> py_eq (JStr (ev_domain e)) (or_else d JNull) then Inr False
        else bindE (rcrash (attribute_of cond)) (\<lambda>a. (case a of
            JStr key \<Rightarrow> (case dget (ev_attributes e) key of
                None \<Rightarrow> Inr False
              | Some v \<Rightarrow> let name = or_else (jget cond ''op'') (JStr ''=='') in
                  if unhashable name then Inl (RcaCrash TypeError)
                  else (case (case name of JStr n \<Rightarrow> rule_op n | _ \<Rightarrow> None) of
                      None \<Rightarrow> Inl RulesError
                    | Some f \<Rightarrow> (case bindE (jreq cond ''value'') (f v) of
                          Inr b \<Rightarrow> Inr b
                        | Inl TypeError \<Rightarrow> Inr False
                        | Inl x \<Rightarrow> Inl (RcaCrash x))))
          | _ \<Rightarrow> Inr False))))"

definition symptom_matches :: "evidence \<Rightarrow> json \<Rightarrow> py_exc + bool" where
  "symptom_matches e sm =
     (if ev_type e \<notin> set CAUSAL_ELIGIBLE_EVENT_TYPES then Inr False
      else bindE (jget_attr sm ''signature_any'') (\<lambda>sa. let sigs = or_else sa JNull in
        bindE (if truthy sigs \<and> ev_sig e = CERTIFIED
               then py_in (case ev_canonical e of None \<Rightarrow> JNull | Some s \<Rightarrow> JStr s) sigs else Inr False) (\<lambda>hit.
        if hit then Inr True
        else bindE (jget_attr sm ''event_type_any'') (\<lambda>ea. let types = or_else ea JNull in
          bindE (if truthy types then py_in (JStr (ev_type e)) types else Inr False) (\<lambda>typed.
          Inr (typed \<and> \<not> truthy sigs))))))"

subsection \<open>Evaluating a rule\<close>

fun filterE :: "('a \<Rightarrow> 'e + bool) \<Rightarrow> 'a list \<Rightarrow> 'e + 'a list" where
  "filterE p [] = Inr []"
| "filterE p (x # xs) = bindE (p x) (\<lambda>b. bindE (filterE p xs) (\<lambda>ys. Inr (if b then x # ys else ys)))"

text \<open>\<open>any(...)\<close> stops at the first hit.\<close>

fun anyE :: "('a \<Rightarrow> 'e + bool) \<Rightarrow> 'a list \<Rightarrow> 'e + bool" where
  "anyE p [] = Inr False"
| "anyE p (x # xs) = bindE (p x) (\<lambda>b. if b then Inr True else anyE p xs)"

lemma filterE_Inr: "filterE p xs = Inr ys \<Longrightarrow> set ys = {x \<in> set xs. p x = Inr True}"
  by (induction xs arbitrary: ys) (auto simp: bindE_Inr split: if_splits)

lemma anyE_Inr: "anyE p xs = Inr True \<Longrightarrow> \<exists>x \<in> set xs. p x = Inr True"
  by (induction xs) (auto simp: bindE_Inr split: if_splits)

definition add_new :: "'a \<Rightarrow> 'a list \<Rightarrow> 'a list" where
  "add_new x xs = (if x \<in> set xs then xs else xs @ [x])"

lemma set_add_new [simp]: "set (add_new x xs) = insert x (set xs)"
  by (auto simp: add_new_def)

lemma distinct_add_new [simp]: "distinct (add_new x xs) = distinct xs"
  by (simp add: add_new_def)

lemma set_fold_add_new: "set (fold add_new xs ys) = set xs \<union> set ys"
  by (induction xs arbitrary: ys) auto

lemma distinct_fold_add_new: "distinct (fold add_new xs ys) = distinct ys"
  by (induction xs arbitrary: ys) auto

record evaluation =
  er_symptom :: "string list"
  er_supporting :: "string list"
  er_contradicting :: "string list"
  er_critical :: bool
  er_missing :: "json list"
  er_temporal :: bool
  er_sources :: nat

text \<open>
  The description of a condition without one: its domain and attribute, joined by a dot. \<open>pstr\<close> is
  \<open>str\<close> of the values other than texts, integers and \<open>None\<close>.
\<close>

definition fmt :: "(json \<Rightarrow> string) \<Rightarrow> json \<Rightarrow> string" where
  "fmt pstr v = (case v of JStr s \<Rightarrow> s | JNull \<Rightarrow> ''None'' | JInt i \<Rightarrow> str_of_int i | _ \<Rightarrow> pstr v)"

definition describe_condition :: "(json \<Rightarrow> string) \<Rightarrow> json \<Rightarrow> py_exc + json" where
  "describe_condition pstr cond =
     bindE (jget_attr cond ''domain'') (\<lambda>d. bindE (jreq cond ''attribute'') (\<lambda>a.
     Inr (or_else (jget cond ''description'') (JStr (fmt pstr (or_else d JNull) @ ''.'' @ fmt pstr a)))))"

text \<open>One supporting condition: the ids and sources gathered so far, and what is missing.\<close>

definition support_step :: "(json \<Rightarrow> string) \<Rightarrow> evidence list \<Rightarrow> string list \<times> string list \<times> json list \<Rightarrow> json
    \<Rightarrow> rca_error + string list \<times> string list \<times> json list" where
  "support_step pstr items acc cond = (case acc of (ids, sources, missing) \<Rightarrow>
     bindE (filterE (\<lambda>e. condition_matches e cond) items) (\<lambda>matched.
     if matched \<noteq> [] then Inr (fold add_new (map ev_id matched) ids, fold add_new (map ev_source matched) sources, missing)
     else bindE (rcrash (describe_condition pstr cond)) (\<lambda>m. Inr (ids, sources, missing @ [m]))))"

definition contradict_step :: "evidence list \<Rightarrow> string list \<times> bool \<Rightarrow> json \<Rightarrow> rca_error + string list \<times> bool" where
  "contradict_step items acc cond = (case acc of (ids, critical) \<Rightarrow>
     bindE (filterE (\<lambda>e. condition_matches e cond) items) (\<lambda>matched.
     Inr (fold add_new (map ev_id matched) ids,
          critical \<or> (matched \<noteq> [] \<and> truthy (or_else (jget cond ''critical'') (JBool True))))))"

definition temporal_proof :: "json \<Rightarrow> evidence list \<Rightarrow> rca_error + bool" where
  "temporal_proof rule items =
     bindE (rcrash (jget_attr rule ''temporal_proof_condition'')) (\<lambda>tp.
     if truthy (or_else tp JNull) then anyE (\<lambda>e. condition_matches e (or_else tp JNull)) items else Inr False)"

definition rule_conditions :: "json \<Rightarrow> string \<Rightarrow> rca_error + json list" where
  "rule_conditions rule k = rcrash (bindE (jreq rule k) py_iter)"

definition evaluate_rule :: "(json \<Rightarrow> string) \<Rightarrow> json \<Rightarrow> evidence list \<Rightarrow> rca_error + evaluation" where
  "evaluate_rule pstr rule items =
     bindE (filterE (\<lambda>e. rcrash (bindE (jreq rule ''symptom_match'') (symptom_matches e))) items) (\<lambda>symptoms.
     bindE (rule_conditions rule ''supporting_conditions'') (\<lambda>ss.
     bindE (foldE (support_step pstr items) ([], [], []) ss) (\<lambda>(ids, sources, missing).
     bindE (rule_conditions rule ''contradicting_conditions'') (\<lambda>cs.
     bindE (foldE (contradict_step items) ([], False) cs) (\<lambda>(against, critical).
     bindE (temporal_proof rule items) (\<lambda>tp.
     Inr \<lparr> er_symptom = map ev_id symptoms, er_supporting = ids, er_contradicting = against, er_critical = critical,
       er_missing = missing, er_temporal = tp, er_sources = length sources \<rparr>))))))"

subsection \<open>What an evaluation says\<close>

lemma condition_eligible: "condition_matches e cond = Inr True \<Longrightarrow> ev_type e \<in> set CAUSAL_ELIGIBLE_EVENT_TYPES"
  by (auto simp: condition_matches_def split: if_splits)

lemma symptom_eligible: "symptom_matches e sm = Inr True \<Longrightarrow> ev_type e \<in> set CAUSAL_ELIGIBLE_EVENT_TYPES"
  by (auto simp: symptom_matches_def split: if_splits)

text \<open>The evidence that a list of conditions picks out.\<close>

definition matching :: "json list \<Rightarrow> evidence list \<Rightarrow> evidence set" where
  "matching conds items = {e \<in> set items. \<exists>c \<in> set conds. condition_matches e c = Inr True}"

lemma matching_simps [simp]: "matching [] items = {}"
  "matching (c # cs) items = {e \<in> set items. condition_matches e c = Inr True} \<union> matching cs items"
  by (auto simp: matching_def)

lemma support_stepD:
  assumes "support_step pstr items (ids, sources, missing) c = Inr acc"
  shows "\<exists>matched missing1. filterE (\<lambda>e. condition_matches e c) items = Inr matched \<and>
    acc = (fold add_new (map ev_id matched) ids, fold add_new (map ev_source matched) sources, missing1)"
  using assms unfolding support_step_def prod.case bindE_Inr by (elim exE conjE) (auto simp: bindE_Inr split: if_splits)

lemma contradict_stepD:
  assumes "contradict_step items (ids, crit) c = Inr acc"
  shows "\<exists>matched. filterE (\<lambda>e. condition_matches e c) items = Inr matched \<and>
    acc = (fold add_new (map ev_id matched) ids, crit \<or> (matched \<noteq> [] \<and> truthy (or_else (jget c ''critical'') (JBool True))))"
  using assms unfolding contradict_step_def prod.case bindE_Inr by auto

lemma support_fold:
  "foldE (support_step pstr items) (ids, sources, missing) ss = Inr (ids', sources', missing') \<Longrightarrow>
   set ids' = set ids \<union> ev_id ` matching ss items \<and> set sources' = set sources \<union> ev_source ` matching ss items \<and>
   distinct sources' = distinct sources"
proof (induction ss arbitrary: ids sources missing)
  case (Cons c ss)
  from Cons.prems obtain acc where a: "support_step pstr items (ids, sources, missing) c = Inr acc"
    "foldE (support_step pstr items) acc ss = Inr (ids', sources', missing')" by (auto simp: bindE_Inr)
  from support_stepD [OF a(1)] obtain matched missing1 where
    m: "filterE (\<lambda>e. condition_matches e c) items = Inr matched" and
    acc: "acc = (fold add_new (map ev_id matched) ids, fold add_new (map ev_source matched) sources, missing1)" by blast
  show ?case
    using Cons.IH [OF a(2) [unfolded acc]] filterE_Inr [OF m] by (auto simp: set_fold_add_new distinct_fold_add_new)
qed simp

lemma contradict_fold:
  "foldE (contradict_step items) (ids, crit) cs = Inr (ids', crit') \<Longrightarrow>
   set ids' = set ids \<union> ev_id ` matching cs items \<and>
   crit' = (crit \<or> (\<exists>c \<in> set cs. truthy (or_else (jget c ''critical'') (JBool True)) \<and> matching [c] items \<noteq> {}))"
proof (induction cs arbitrary: ids crit)
  case (Cons c cs)
  from Cons.prems obtain acc where a: "contradict_step items (ids, crit) c = Inr acc"
    "foldE (contradict_step items) acc cs = Inr (ids', crit')" by (auto simp: bindE_Inr)
  from contradict_stepD [OF a(1)] obtain matched where
    m: "filterE (\<lambda>e. condition_matches e c) items = Inr matched" and
    acc: "acc = (fold add_new (map ev_id matched) ids, crit \<or> (matched \<noteq> [] \<and> truthy (or_else (jget c ''critical'') (JBool True))))"
    by blast
  have "matched \<noteq> [] \<longleftrightarrow> matching [c] items \<noteq> {}" using filterE_Inr [OF m] by (auto simp: matching_def simp flip: set_empty)
  then show ?case using Cons.IH [OF a(2) [unfolded acc]] filterE_Inr [OF m] by (auto simp: set_fold_add_new)
qed simp

lemma evaluate_rule_ok [fail_closed]:
  assumes "evaluate_rule pstr rule items = Inr r"
  obtains ss cs where "rule_conditions rule ''supporting_conditions'' = Inr ss"
    "rule_conditions rule ''contradicting_conditions'' = Inr cs"
    "set (er_supporting r) = ev_id ` matching ss items" "er_sources r = card (ev_source ` matching ss items)"
    "set (er_contradicting r) = ev_id ` matching cs items"
    "er_critical r \<longleftrightarrow> (\<exists>c \<in> set cs. truthy (or_else (jget c ''critical'') (JBool True)) \<and> matching [c] items \<noteq> {})"
    "temporal_proof rule items = Inr (er_temporal r)"
    "set (er_symptom r) \<subseteq> ev_id ` {e \<in> set items. ev_type e \<in> set CAUSAL_ELIGIBLE_EVENT_TYPES}"
proof -
  from assms obtain symptoms ss ids sources missing cs against critical tp where
    e: "filterE (\<lambda>e. rcrash (bindE (jreq rule ''symptom_match'') (symptom_matches e))) items = Inr symptoms"
      "rule_conditions rule ''supporting_conditions'' = Inr ss"
      "foldE (support_step pstr items) ([], [], []) ss = Inr (ids, sources, missing)"
      "rule_conditions rule ''contradicting_conditions'' = Inr cs"
      "foldE (contradict_step items) ([], False) cs = Inr (against, critical)" "temporal_proof rule items = Inr tp" and
    r: "r = \<lparr> er_symptom = map ev_id symptoms, er_supporting = ids, er_contradicting = against, er_critical = critical,
       er_missing = missing, er_temporal = tp, er_sources = length sources \<rparr>"
    unfolding evaluate_rule_def by (auto simp: bindE_Inr)
  have sy: "set symptoms \<subseteq> {e \<in> set items. ev_type e \<in> set CAUSAL_ELIGIBLE_EVENT_TYPES}"
    using filterE_Inr [OF e(1)] by (auto simp: bindE_Inr dest: symptom_eligible)
  note s = support_fold [OF e(3)] and c = contradict_fold [OF e(5)]
  have "length sources = card (ev_source ` matching ss items)"
    using s distinct_card [of sources] by simp
  then show ?thesis using that [OF e(2,4)] s c e(6) sy by (auto simp: r)
qed

lemma symptom_present:
  assumes "evaluate_rule pstr rule items = Inr r" and "er_symptom r \<noteq> []"
  shows "\<exists>e \<in> set items. bindE (jreq rule ''symptom_match'') (symptom_matches e) = Inr True"
proof -
  from assms(1) obtain symptoms where
    f: "filterE (\<lambda>e. rcrash (bindE (jreq rule ''symptom_match'') (symptom_matches e))) items = Inr symptoms"
    and s: "er_symptom r = map ev_id symptoms" unfolding evaluate_rule_def by (auto simp: bindE_Inr)
  from assms(2) obtain e where "e \<in> set symptoms" using s by (cases symptoms) auto
  then show ?thesis using filterE_Inr [OF f] by auto
qed

end
