(* ===== verification/Rca_Hypothesis.thy ===== *)
theory Rca_Hypothesis
  imports Rca_Rules
begin

section \<open>Hypotheses and causality (rca\_engine/hypothesis.py, causality.py)\<close>

text \<open>
  Every rule whose symptom is present becomes a hypothesis with a status and a confidence; the
  hypotheses are ranked and cut at the policy's maximum. Missing declared evidence caps them, and
  what is left is rolled up into one result with its recommendations. A dash outside Latin-1 in a
  fixed text is written as a hyphen.
\<close>

subsection \<open>Sorting decoded values\<close>

text \<open>A stable sort by \<open><\<close>: an element goes before the first one it is less than.\<close>

fun insert_by :: "('a \<Rightarrow> 'a \<Rightarrow> bool) \<Rightarrow> 'a \<Rightarrow> 'a list \<Rightarrow> 'a list" where
  "insert_by lt x [] = [x]"
| "insert_by lt x (y # ys) = (if lt x y then x # y # ys else y # insert_by lt x ys)"

definition sort_by :: "('a \<Rightarrow> 'a \<Rightarrow> bool) \<Rightarrow> 'a list \<Rightarrow> 'a list" where
  "sort_by lt xs = fold (insert_by lt) xs []"

lemma set_insert_by [simp]: "set (insert_by lt x ys) = insert x (set ys)"
  by (induction ys) auto

lemma length_insert_by [simp]: "length (insert_by lt x ys) = Suc (length ys)"
  by (induction ys) auto

lemma sort_by_fold: "set (fold (insert_by lt) xs ys) = set xs \<union> set ys \<and> length (fold (insert_by lt) xs ys) = length xs + length ys"
  by (induction xs arbitrary: ys) auto

lemma set_sort_by [simp]: "set (sort_by lt xs) = set xs"
  by (simp add: sort_by_def sort_by_fold)

text \<open>Elements that cannot be compared make the sort raise, whichever comparison meets them.\<close>

fun comparable_all :: "('a \<Rightarrow> 'a \<Rightarrow> py_exc + bool) \<Rightarrow> 'a list \<Rightarrow> bool" where
  "comparable_all lt [] = True"
| "comparable_all lt (x # xs) = (list_all (\<lambda>y. lt x y \<noteq> Inl TypeError) xs \<and> comparable_all lt xs)"

definition sorted_by :: "('a \<Rightarrow> 'a \<Rightarrow> py_exc + bool) \<Rightarrow> 'a list \<Rightarrow> py_exc + 'a list" where
  "sorted_by lt xs = (if comparable_all lt xs then Inr (sort_by (\<lambda>a b. lt a b = Inr True) xs) else Inl TypeError)"

lemma sorted_by_set: "sorted_by lt xs = Inr ys \<Longrightarrow> set ys = set xs"
  by (auto simp: sorted_by_def split: if_splits)

text \<open>\<open>xs[:n]\<close> and \<open>xs[n:]\<close> for a bound that is any value.\<close>

definition slice_at :: "json \<Rightarrow> 'a list \<Rightarrow> py_exc + 'a list \<times> 'a list" where
  "slice_at n xs = (case n of
      JNull \<Rightarrow> Inr (xs, xs)
    | JInt i \<Rightarrow> let k = (if i < 0 then nat (int (length xs) + i) else nat i) in Inr (take k xs, drop k xs)
    | JBool b \<Rightarrow> Inr (take (of_bool b) xs, drop (of_bool b) xs)
    | _ \<Rightarrow> Inl TypeError)"

lemma slice_at_subset: "slice_at n xs = Inr (a, b) \<Longrightarrow> set a \<subseteq> set xs"
  by (auto simp: slice_at_def Let_def split: json.splits dest: in_set_takeD)

subsection \<open>Hypotheses\<close>

datatype hypothesis_status = H_OPEN | H_SUPPORTED | H_WEAKENED | H_REJECTED | H_CONFIRMED | H_INSUFFICIENT_EVIDENCE

datatype confidence = HIGH | MEDIUM | LOW | INSUFFICIENT

record hypothesis =
  hy_id :: string
  hy_rule :: json
  hy_domain :: json
  hy_statement :: json
  hy_chain :: "json list"
  hy_status :: hypothesis_status
  hy_supporting :: "string list"
  hy_contradicting :: "string list"
  hy_critical :: bool
  hy_missing :: "json list"
  hy_sources :: nat
  hy_temporal :: bool
  hy_confidence :: confidence

definition DEFAULT_MAX_HYPOTHESES :: int where "DEFAULT_MAX_HYPOTHESES = 10"

definition status_and_confidence :: "evaluation \<Rightarrow> json \<Rightarrow> py_exc + hypothesis_status \<times> confidence" where
  "status_and_confidence r min_sources =
     (if er_critical r then Inr (if er_supporting r \<noteq> [] then (H_WEAKENED, LOW) else (H_REJECTED, INSUFFICIENT))
      else if er_temporal r then Inr (H_CONFIRMED, HIGH)
      else bindE (py_cmp GreaterEq (JInt (int (er_sources r))) min_sources) (\<lambda>enough.
        Inr (if enough then (H_CONFIRMED, HIGH)
             else if 1 \<le> er_sources r then (H_SUPPORTED, MEDIUM)
             else (H_INSUFFICIENT_EVIDENCE, INSUFFICIENT))))"

text \<open>One rule: \<open>None\<close> when no symptom is present.\<close>

definition candidate_hypothesis :: "(json \<Rightarrow> string) \<Rightarrow> string \<Rightarrow> evidence list \<Rightarrow> json \<Rightarrow> rca_error + hypothesis option" where
  "candidate_hypothesis pstr incident_id items rule =
     bindE (evaluate_rule pstr rule items) (\<lambda>r.
     if er_symptom r = [] then Inr None
     else bindE (rcrash (jreq rule ''min_independent_sources'')) (\<lambda>m.
       bindE (rcrash (status_and_confidence r m)) (\<lambda>(status, conf).
       bindE (rcrash (jreq rule ''rule_id'')) (\<lambda>rid.
       bindE (rcrash (jreq rule ''domain'')) (\<lambda>dom.
       bindE (rcrash (jreq rule ''statement'')) (\<lambda>st.
       bindE (rule_conditions rule ''causal_chain'') (\<lambda>chain.
       Inr (Some \<lparr> hy_id = ''HYP-'' @ incident_id @ ''-'' @ fmt pstr rid, hy_rule = rid, hy_domain = dom,
         hy_statement = st, hy_chain = chain, hy_status = status, hy_supporting = er_supporting r,
         hy_contradicting = er_contradicting r, hy_critical = er_critical r, hy_missing = er_missing r,
         hy_sources = er_sources r, hy_temporal = er_temporal r, hy_confidence = conf \<rparr>))))))))"

text \<open>The ranking: more independent sources first, then the rule id.\<close>

definition ranks_before :: "hypothesis \<Rightarrow> hypothesis \<Rightarrow> py_exc + bool" where
  "ranks_before a b = (if hy_sources a \<noteq> hy_sources b then Inr (hy_sources b < hy_sources a)
     else if py_eq (hy_rule a) (hy_rule b) then Inr False
     else py_cmp Less (hy_rule a) (hy_rule b))"

definition generate_hypotheses :: "(json \<Rightarrow> string) \<Rightarrow> string \<Rightarrow> json \<Rightarrow> evidence list \<Rightarrow> (string, json) dict
    \<Rightarrow> rca_error + hypothesis list \<times> json list" where
  "generate_hypotheses pstr incident_id catalog items policy =
     (let limit = dget_or policy ''max_hypotheses'' (JInt DEFAULT_MAX_HYPOTHESES) in
      bindE (rule_conditions catalog ''rules'') (\<lambda>rules.
      bindE (mapE (candidate_hypothesis pstr incident_id items) rules) (\<lambda>found.
      bindE (rcrash (sorted_by ranks_before (List.map_filter id found))) (\<lambda>ranked.
      bindE (rcrash (slice_at limit ranked)) (\<lambda>(kept, cut). Inr (kept, map hy_rule cut))))))"

subsection \<open>The completeness gate and the root cause\<close>

record manifest =
  mf_declared :: "string list"
  mf_present :: "string list"
  mf_missing :: "string list"
  mf_complete :: bool

definition cap_hypothesis :: "hypothesis \<Rightarrow> hypothesis" where
  "cap_hypothesis h = (if hy_status h = H_CONFIRMED
     then h\<lparr>hy_status := H_SUPPORTED, hy_confidence := MEDIUM,
       hy_missing := hy_missing h @ [JStr ''declared evidence reference(s) missing - capped below CONFIRMED'']\<rparr>
     else h)"

definition apply_evidence_completeness_gate :: "hypothesis list \<Rightarrow> manifest \<Rightarrow> hypothesis list" where
  "apply_evidence_completeness_gate hs m = (if mf_complete m then hs else map cap_hypothesis hs)"

datatype rc_completeness = RC_CONFIRMED | RC_PROBABLE | RC_INCONCLUSIVE | RC_INSUFFICIENT_EVIDENCE

record root_cause =
  rc_id :: string
  rc_completeness :: rc_completeness
  rc_confirmed :: "string list"
  rc_competing :: "string list"
  rc_reasoning :: string

definition with_status :: "hypothesis_status \<Rightarrow> hypothesis list \<Rightarrow> hypothesis list" where
  "with_status st hs = filter (\<lambda>h. hy_status h = st) hs"

text \<open>The supported hypotheses with the most independent sources.\<close>

definition top_supported :: "hypothesis list \<Rightarrow> hypothesis list" where
  "top_supported hs = (let supported = with_status H_SUPPORTED hs; best = Max (set (map hy_sources supported))
     in filter (\<lambda>h. hy_sources h = best) supported)"

definition str_of_nat :: "nat \<Rightarrow> string" where "str_of_nat n = digits_of n"

definition aggregate_root_cause :: "string \<Rightarrow> hypothesis list \<Rightarrow> root_cause" where
  "aggregate_root_cause incident_id hs =
     (let rid = ''RCA-'' @ incident_id @ ''-001''; confirmed = with_status H_CONFIRMED hs; supported = with_status H_SUPPORTED hs;
          top = top_supported hs; n = str_of_nat (length confirmed) in
      if confirmed \<noteq> [] then \<lparr> rc_id = rid, rc_completeness = RC_CONFIRMED, rc_confirmed = map hy_id confirmed, rc_competing = [],
        rc_reasoning = (if length confirmed = 1
          then n @ '' hypothesis(es) reached CONFIRMED (>= min independent evidence '' @
            ''sources or unambiguous temporal proof, no unresolved critical contradiction).''
          else n @ '' independent hypotheses each individually reached CONFIRMED - multiple root causes, never collapsed into one.'') \<rparr>
      else if supported = [] then \<lparr> rc_id = rid, rc_completeness = RC_INSUFFICIENT_EVIDENCE, rc_confirmed = [], rc_competing = [],
        rc_reasoning = ''No hypothesis reached sufficient evidentiary support - evidence insufficient '' @
          ''to confirm, weaken or reject any candidate cause.'' \<rparr>
      else if length top = 1 then \<lparr> rc_id = rid, rc_completeness = RC_PROBABLE, rc_confirmed = [], rc_competing = [],
        rc_reasoning = ''Single strongest candidate ('' @ hy_id (hd top) @ '') is supported by evidence '' @
          ''but does not meet the confirmation bar (independent sources or temporal proof).'' \<rparr>
      else \<lparr> rc_id = rid, rc_completeness = RC_INCONCLUSIVE, rc_confirmed = [], rc_competing = map hy_id top,
        rc_reasoning = str_of_nat (length top) @ '' hypotheses are equally supported (independent_source_count='' @
          str_of_nat (hy_sources (hd top)) @ '') with no differentiating evidence - no forced winner; result is explicitly inconclusive.'' \<rparr>)"

subsection \<open>Recommendations and domains\<close>

record recommendation =
  re_id :: string
  re_linked :: string
  re_summary :: json
  re_precheck :: json
  re_risk :: json
  re_postcheck :: json
  re_requires_change :: bool
  re_status :: string

text \<open>\<open>{seq:03d}\<close>.\<close>

definition pad3 :: "nat \<Rightarrow> string" where
  "pad3 n = (let d = digits_of n in replicate (3 - length d) CHR ''0'' @ d)"

definition recommend :: "string \<Rightarrow> nat \<Rightarrow> json \<Rightarrow> py_exc + recommendation" where
  "recommend rid seq action =
     bindE (jreq action ''action_summary'') (\<lambda>su. bindE (jreq action ''precheck'') (\<lambda>pre.
     bindE (jreq action ''risk'') (\<lambda>ri. bindE (jreq action ''postcheck'') (\<lambda>po.
     Inr \<lparr> re_id = ''REC-'' @ rid @ ''-'' @ pad3 seq, re_linked = rid, re_summary = su, re_precheck = pre, re_risk = ri,
       re_postcheck = po, re_requires_change = truthy (or_else (jget action ''requires_change'') (JBool True)),
       re_status = ''NOT_EXECUTED'' \<rparr>))))"

text \<open>The table of rules by id; of rules with equal ids the last one counts, and no rule is an empty object.\<close>

definition rule_table :: "json list \<Rightarrow> py_exc + (json \<times> json) list" where
  "rule_table rules = mapE (\<lambda>r. bindE (jreq r ''rule_id'') (\<lambda>i. if unhashable i then Inl TypeError else Inr (i, r))) rules"

definition rule_with_id :: "(json \<times> json) list \<Rightarrow> json \<Rightarrow> json" where
  "rule_with_id table rid = (case filter (\<lambda>(i, r). py_eq i rid) (rev table) of [] \<Rightarrow> JObj [] | (i, r) # _ \<Rightarrow> r)"

definition recommendations_of :: "(json \<times> json) list \<Rightarrow> string \<Rightarrow> recommendation list \<Rightarrow> hypothesis \<Rightarrow> py_exc + recommendation list" where
  "recommendations_of table rid recs h =
     bindE (jget_attr (rule_with_id table (hy_rule h)) ''manual_actions'') (\<lambda>acts.
     bindE (py_iter (or_else acts (JArr []))) (\<lambda>actions.
     foldE (\<lambda>rs a. bindE (recommend rid (Suc (length rs)) a) (\<lambda>r. Inr (rs @ [r]))) recs actions))"

definition build_recommendations :: "json \<Rightarrow> hypothesis list \<Rightarrow> root_cause \<Rightarrow> rca_error + recommendation list" where
  "build_recommendations catalog hs rc =
     (if rc_completeness rc \<noteq> RC_CONFIRMED then Inr []
      else bindE (rule_conditions catalog ''rules'') (\<lambda>rules. rcrash (bindE (rule_table rules) (\<lambda>table.
        foldE (recommendations_of table (rc_id rc)) [] (filter (\<lambda>h. hy_id h \<in> set (rc_confirmed rc)) hs)))))"

definition add_eq :: "json list \<Rightarrow> json \<Rightarrow> py_exc + json list" where
  "add_eq seen v = (if unhashable v then Inl TypeError else Inr (if list_ex (py_eq v) seen then seen else seen @ [v]))"

definition domains_of :: "evidence list \<Rightarrow> json list \<Rightarrow> hypothesis \<Rightarrow> py_exc + json list" where
  "domains_of items seen h =
     foldE add_eq seen (map (JStr \<circ> ev_domain)
       (List.map_filter (\<lambda>i. dget (rev (map (\<lambda>e. (ev_id e, e)) items)) i) (hy_supporting h @ hy_contradicting h)) @ [hy_domain h])"

definition cross_domain_domains_involved :: "evidence list \<Rightarrow> hypothesis list \<Rightarrow> py_exc + json list" where
  "cross_domain_domains_involved items hs =
     bindE (foldE (domains_of items) [] hs) (sorted_by (py_cmp Less))"

subsection \<open>What a confirmed hypothesis rests on\<close>

lemma status_confirmed: "status_and_confidence r m = Inr (H_CONFIRMED, conf) \<Longrightarrow>
   conf = HIGH \<and> \<not> er_critical r \<and> (er_temporal r \<or> py_cmp GreaterEq (JInt (int (er_sources r))) m = Inr True)"
  by (auto simp: status_and_confidence_def bindE_Inr split: if_splits)

lemma candidate_ok:
  assumes "candidate_hypothesis pstr inc items rule = Inr (Some h)"
  obtains r m where "evaluate_rule pstr rule items = Inr r" "er_symptom r \<noteq> []" "jget rule ''min_independent_sources'' = Some m"
    "status_and_confidence r m = Inr (hy_status h, hy_confidence h)" "hy_supporting h = er_supporting r"
    "hy_contradicting h = er_contradicting r" "hy_sources h = er_sources r" "hy_critical h = er_critical r"
proof -
  from assms obtain r where e: "evaluate_rule pstr rule items = Inr r" and rest: "er_symptom r \<noteq> []"
    "bindE (rcrash (jreq rule ''min_independent_sources'')) (\<lambda>m.
       bindE (rcrash (status_and_confidence r m)) (\<lambda>(status, conf).
       bindE (rcrash (jreq rule ''rule_id'')) (\<lambda>rid.
       bindE (rcrash (jreq rule ''domain'')) (\<lambda>dom.
       bindE (rcrash (jreq rule ''statement'')) (\<lambda>st.
       bindE (rule_conditions rule ''causal_chain'') (\<lambda>chain.
       Inr (Some \<lparr> hy_id = ''HYP-'' @ inc @ ''-'' @ fmt pstr rid, hy_rule = rid, hy_domain = dom,
         hy_statement = st, hy_chain = chain, hy_status = status, hy_supporting = er_supporting r,
         hy_contradicting = er_contradicting r, hy_critical = er_critical r, hy_missing = er_missing r,
         hy_sources = er_sources r, hy_temporal = er_temporal r, hy_confidence = conf \<rparr>))))))) = Inr (Some h)"
    unfolding candidate_hypothesis_def by (auto simp: bindE_Inr split: if_splits)
  then show ?thesis using that [OF e] by (auto simp: bindE_Inr)
qed

lemma generated_candidate:
  assumes "generate_hypotheses pstr inc catalog items policy = Inr (hs, dropped)" and "h \<in> set hs"
  shows "\<exists>rules rule. rule_conditions catalog ''rules'' = Inr rules \<and> rule \<in> set rules \<and>
    candidate_hypothesis pstr inc items rule = Inr (Some h)"
proof -
  from assms(1) obtain rules found ranked rest where
    r: "rule_conditions catalog ''rules'' = Inr rules" and f: "mapE (candidate_hypothesis pstr inc items) rules = Inr found" and
    s: "sorted_by ranks_before (List.map_filter id found) = Inr ranked" and
    k: "slice_at (dget_or policy ''max_hypotheses'' (JInt DEFAULT_MAX_HYPOTHESES)) ranked = Inr (hs, rest)"
    by (auto simp: generate_hypotheses_def Let_def bindE_Inr)
  have "h \<in> set (List.map_filter id found)" using assms(2) slice_at_subset [OF k] sorted_by_set [OF s] by auto
  then have "Some h \<in> set found" by (auto simp: List.map_filter_def)
  with mapE_in_result [OF f this] r show ?thesis by blast
qed

lemma temporal_proofD: "temporal_proof rule items = Inr True \<Longrightarrow>
   \<exists>tp. jget rule ''temporal_proof_condition'' = Some tp \<and> matching [tp] items \<noteq> {}"
proof -
  assume "temporal_proof rule items = Inr True"
  then obtain tp where "jget_attr rule ''temporal_proof_condition'' = Inr tp" and t: "truthy (or_else tp JNull)"
    and a: "anyE (\<lambda>e. condition_matches e (or_else tp JNull)) items = Inr True"
    by (auto simp: temporal_proof_def bindE_Inr split: if_splits)
  moreover from t obtain v where "tp = Some v" by (cases tp) (auto simp: or_else_def truthy_def)
  moreover from anyE_Inr [OF a] have "matching [or_else tp JNull] items \<noteq> {}" by (auto simp: matching_def)
  ultimately show ?thesis by (auto simp: jget_attr_def jget_def or_else_def split: json.splits)
qed


definition example_rule :: json where
  "example_rule = JObj [(''rule_id'', JStr ''R1''), (''domain'', JStr ''os''), (''statement'', JStr ''s''), (''causal_chain'', JArr []),
     (''symptom_match'', JObj [(''signature_any'', JArr [JStr ''ORA-27300''])]),
     (''supporting_conditions'', JArr [JObj [(''domain'', JStr ''os''), (''attribute'', JStr ''nproc''), (''op'', JStr ''>=''), (''value'', JInt 99)]]),
     (''contradicting_conditions'', JArr [JObj [(''attribute'', JStr ''nproc''), (''op'', JStr ''<''), (''value'', JInt 80)]]),
     (''min_independent_sources'', JInt 1),
     (''manual_actions'', JArr [JObj [(''action_summary'', JStr ''a''), (''precheck'', JStr ''p''), (''risk'', JStr ''r''), (''postcheck'', JStr ''q'')]])]"

definition example_catalog :: json where
  "example_catalog = JObj [(''rules_version'', JStr ''1''), (''rules'', JArr [example_rule])]"

definition example_item :: evidence where
  "example_item = \<lparr> ev_id = ''EVD-1'', ev_domain = ''os'', ev_source = ''SRC-1'', ev_type = ''ALERT_TRIGGERED'',
     ev_timestamp = JStr ''2026-01-01T00:00:00Z'', ev_sig = CERTIFIED, ev_canonical = Some ''ORA-27300'', ev_token = None,
     ev_summary = JNull, ev_attributes = [(''nproc'', JInt 100)], ev_utc = Some ''2026-01-01T00:00:00+00:00'',
     ev_degraded = False, ev_reason = None, ev_index = 0 \<rparr>"

definition example_hypothesis :: hypothesis where
  "example_hypothesis = \<lparr> hy_id = ''HYP-I-R1'', hy_rule = JStr ''R1'', hy_domain = JStr ''os'', hy_statement = JStr ''s'', hy_chain = [],
     hy_status = H_CONFIRMED, hy_supporting = [''EVD-1''], hy_contradicting = [], hy_critical = False, hy_missing = [],
     hy_sources = 1, hy_temporal = False, hy_confidence = HIGH \<rparr>"

lemma example_generates:
  "generate_hypotheses (\<lambda>_. []) ''I'' example_catalog [example_item] [] = Inr ([example_hypothesis], [])"
  by code_simp


subsection \<open>A cautious root cause\<close>

lemma top_supported_unique:
  assumes "top_supported hs = [h]"
  shows "\<exists>xs ys. hs = xs @ h # ys \<and> hy_status h = H_SUPPORTED \<and>
    (\<forall>g \<in> set (xs @ ys). hy_status g = H_SUPPORTED \<longrightarrow> hy_sources g < hy_sources h)"
proof -
  define best where "best = Max (set (map hy_sources (with_status H_SUPPORTED hs)))"
  have t: "filter (\<lambda>g. hy_status g = H_SUPPORTED \<and> hy_sources g = best) hs = [h]"
    using assms by (simp add: top_supported_def with_status_def best_def Let_def conj_commute)
  then have h: "hy_status h = H_SUPPORTED" "hy_sources h = best" by (auto simp: filter_eq_Cons_iff)
  from t obtain xs ys where l: "hs = xs @ h # ys"
    "\<forall>g \<in> set xs. \<not> (hy_status g = H_SUPPORTED \<and> hy_sources g = best)"
    "filter (\<lambda>g. hy_status g = H_SUPPORTED \<and> hy_sources g = best) ys = []" by (auto simp: filter_eq_Cons_iff)
  have "hy_sources g \<le> best" if "g \<in> set hs" "hy_status g = H_SUPPORTED" for g
    unfolding best_def using that by (intro Max_ge) (auto simp: with_status_def)
  with l have "\<forall>g \<in> set (xs @ ys). hy_status g = H_SUPPORTED \<longrightarrow> hy_sources g < hy_sources h"
    unfolding h(2) by (fastforce simp: filter_empty_conv order.strict_iff_order)
  with l(1) h(1) show ?thesis by blast
qed

lemma top_supported_ties:
  assumes "with_status H_SUPPORTED hs \<noteq> []"
  shows "top_supported hs \<noteq> []"
    "\<forall>h \<in> set (top_supported hs). hy_status h = H_SUPPORTED \<and> hy_sources h = Max (set (map hy_sources (with_status H_SUPPORTED hs)))"
    "\<forall>g \<in> set hs. hy_status g = H_SUPPORTED \<longrightarrow> hy_sources g \<le> Max (set (map hy_sources (with_status H_SUPPORTED hs)))"
proof -
  have "Max (set (map hy_sources (with_status H_SUPPORTED hs))) \<in> set (map hy_sources (with_status H_SUPPORTED hs))"
    using assms by (intro Max_in) auto
  then show "top_supported hs \<noteq> []" by (auto simp: top_supported_def Let_def filter_empty_conv)
qed (auto simp: top_supported_def with_status_def Let_def intro!: Max_ge)

lemma recommendations_fold:
  "foldE (recommendations_of table rid) recs hs = Inr recs' \<Longrightarrow> \<forall>r \<in> set recs. re_status r = ''NOT_EXECUTED'' \<and> re_linked r = rid \<Longrightarrow>
   \<forall>r \<in> set recs'. re_status r = ''NOT_EXECUTED'' \<and> re_linked r = rid"
proof (rule foldE_invariant [where f = "recommendations_of table rid"], assumption, assumption)
  fix rs h rs'
  assume ok: "\<forall>r \<in> set rs. re_status r = ''NOT_EXECUTED'' \<and> re_linked r = rid" and "recommendations_of table rid rs h = Inr rs'"
  then obtain actions where "foldE (\<lambda>rs a. bindE (recommend rid (Suc (length rs)) a) (\<lambda>r. Inr (rs @ [r]))) rs actions = Inr rs'"
    by (auto simp: recommendations_of_def bindE_Inr)
  then show "\<forall>r \<in> set rs'. re_status r = ''NOT_EXECUTED'' \<and> re_linked r = rid"
    by (rule foldE_invariant) (use ok in \<open>auto simp: bindE_Inr recommend_def\<close>)
qed

lemma gate_status:
  "mf_complete m \<Longrightarrow> apply_evidence_completeness_gate hs m = hs"
  "\<not> mf_complete m \<Longrightarrow> with_status H_CONFIRMED (apply_evidence_completeness_gate hs m) = []"
  by (auto simp: apply_evidence_completeness_gate_def with_status_def cap_hypothesis_def filter_empty_conv)

text \<open>
  C18: the root cause claims no more than the hypotheses show. It is confirmed exactly when a
  hypothesis is and no declared evidence is missing, and then names all of those; it is probable for
  one supported hypothesis with strictly more sources than any other, inconclusive with all of the
  tied ones named otherwise, insufficient when nothing is supported. Recommendations exist only for
  a confirmed root cause, are linked to it and are not executed.
\<close>

theorem root_cause_cautious:
  assumes "gs = apply_evidence_completeness_gate hs m" and "rc = aggregate_root_cause inc gs"
    and "build_recommendations catalog gs rc = Inr recs"
  shows "(rc_completeness rc = RC_CONFIRMED \<longleftrightarrow> mf_complete m \<and> (\<exists>h \<in> set hs. hy_status h = H_CONFIRMED)) \<and>
    (case rc_completeness rc of
       RC_CONFIRMED \<Rightarrow> rc_confirmed rc = map hy_id (filter (\<lambda>h. hy_status h = H_CONFIRMED) hs)
     | RC_PROBABLE \<Rightarrow> rc_confirmed rc = [] \<and> (\<exists>xs h ys. gs = xs @ h # ys \<and> hy_status h = H_SUPPORTED \<and>
         (\<forall>g \<in> set (xs @ ys). hy_status g = H_SUPPORTED \<longrightarrow> hy_sources g < hy_sources h))
     | RC_INCONCLUSIVE \<Rightarrow> rc_confirmed rc = [] \<and> (\<exists>n. 2 \<le> length (rc_competing rc) \<and>
         rc_competing rc = map hy_id (filter (\<lambda>h. hy_status h = H_SUPPORTED \<and> hy_sources h = n) gs) \<and>
         (\<forall>g \<in> set gs. hy_status g = H_SUPPORTED \<longrightarrow> hy_sources g \<le> n))
     | RC_INSUFFICIENT_EVIDENCE \<Rightarrow> \<forall>g \<in> set gs. hy_status g \<noteq> H_CONFIRMED \<and> hy_status g \<noteq> H_SUPPORTED) \<and>
    (recs = [] \<or> rc_completeness rc = RC_CONFIRMED) \<and>
    (\<forall>r \<in> set recs. re_status r = ''NOT_EXECUTED'' \<and> re_linked r = rc_id rc)"
proof -
  have rec: "(recs = [] \<or> rc_completeness rc = RC_CONFIRMED) \<and> (\<forall>r \<in> set recs. re_status r = ''NOT_EXECUTED'' \<and> re_linked r = rc_id rc)"
    using assms(3) recommendations_fold [of _ "rc_id rc" "[]"]
    by (auto simp: build_recommendations_def bindE_Inr split: if_splits)
  show ?thesis
  proof (cases "with_status H_CONFIRMED gs = []")
    case False
    then have m: "mf_complete m" and g: "gs = hs" using gate_status [where hs = hs] assms(1) by auto
    from False have c: "rc_completeness rc = RC_CONFIRMED" "rc_confirmed rc = map hy_id (with_status H_CONFIRMED gs)"
      by (simp_all add: assms(2) aggregate_root_cause_def Let_def)
    then show ?thesis using rec m False unfolding g by (auto simp: with_status_def filter_empty_conv)
  next
    case no: True
    then have nc: "\<not> (mf_complete m \<and> (\<exists>h \<in> set hs. hy_status h = H_CONFIRMED))"
      using gate_status(1) assms(1) by (auto simp: with_status_def filter_empty_conv)
    show ?thesis
    proof (cases "with_status H_SUPPORTED gs = []")
      case True
      then have "rc_completeness rc = RC_INSUFFICIENT_EVIDENCE" using no by (simp add: assms(2) aggregate_root_cause_def Let_def)
      then show ?thesis using rec nc True no by (auto simp: with_status_def filter_empty_conv)
    next
      case False
      note ties = top_supported_ties [OF this]
      show ?thesis
      proof (cases "length (top_supported gs) = 1")
        case True
        then obtain h where h: "top_supported gs = [h]" by (cases "top_supported gs") auto
        have "rc_completeness rc = RC_PROBABLE" "rc_confirmed rc = []"
          using no False True by (simp_all add: assms(2) aggregate_root_cause_def Let_def)
        then show ?thesis using rec nc top_supported_unique [OF h] by simp blast
      next
        case two: False
        define n where "n = Max (set (map hy_sources (with_status H_SUPPORTED gs)))"
        have e: "rc_completeness rc = RC_INCONCLUSIVE" "rc_confirmed rc = []" "rc_competing rc = map hy_id (top_supported gs)"
          using no False two by (simp_all add: assms(2) aggregate_root_cause_def Let_def)
        have "top_supported gs = filter (\<lambda>h. hy_status h = H_SUPPORTED \<and> hy_sources h = n) gs"
          by (simp add: top_supported_def with_status_def n_def Let_def conj_commute)
        moreover have "2 \<le> length (top_supported gs)" using two ties(1) by (cases "top_supported gs"; cases "tl (top_supported gs)") auto
        ultimately have "2 \<le> length (rc_competing rc) \<and>
            rc_competing rc = map hy_id (filter (\<lambda>h. hy_status h = H_SUPPORTED \<and> hy_sources h = n) gs) \<and>
            (\<forall>g \<in> set gs. hy_status g = H_SUPPORTED \<longrightarrow> hy_sources g \<le> n)"
          using e(3) ties(3) unfolding n_def by simp
        then show ?thesis using rec nc e(1,2) by auto
      qed
    qed
  qed
qed

definition example_manifest :: manifest where
  "example_manifest = \<lparr> mf_declared = [''EVD-9''], mf_present = [''EVD-1''], mf_missing = [''EVD-9''], mf_complete = False \<rparr>"

theorem root_cause_cautious_witness:
  "rc_completeness (aggregate_root_cause ''I'' (apply_evidence_completeness_gate [example_hypothesis] example_manifest)) \<noteq> RC_CONFIRMED"
proof -
  let ?gs = "apply_evidence_completeness_gate [example_hypothesis] example_manifest"
  have "build_recommendations example_catalog ?gs (aggregate_root_cause ''I'' ?gs) = Inr []"
    by (simp add: build_recommendations_def apply_evidence_completeness_gate_def cap_hypothesis_def example_manifest_def
        example_hypothesis_def aggregate_root_cause_def with_status_def top_supported_def)
  from root_cause_cautious [OF refl refl this] show ?thesis by (simp add: example_manifest_def)
qed

text \<open>
  A rule that asks for no sources confirms a bare symptom: nothing in \<open>load_rules\<close> refuses
  \<open>min_independent_sources\<close> below one.
\<close>

definition sourceless_catalog :: json where
  "sourceless_catalog = JObj [(''rules_version'', JStr ''1''), (''rules'', JArr [JObj [(''rule_id'', JStr ''R''), (''domain'', JStr ''os''),
     (''statement'', JStr ''s''), (''causal_chain'', JArr []), (''symptom_match'', JObj [(''signature_any'', JArr [JStr ''ORA-27300''])]),
     (''supporting_conditions'', JArr []), (''contradicting_conditions'', JArr []), (''min_independent_sources'', JInt 0)]])]"

lemma bare_symptom_confirmed:
  "load_rules sourceless_catalog = Inr sourceless_catalog \<and>
   map_sum id (map hy_status \<circ> fst) (generate_hypotheses (\<lambda>_. []) ''I'' sourceless_catalog [example_item] []) = Inr [H_CONFIRMED]"
  by code_simp

end
