(* ===== verification/Rca_Timeline.thy ===== *)
theory Rca_Timeline
  imports Rca_Hypothesis "HOL-Library.Product_Lexorder" "HOL-Library.Sublist" "HOL-Library.Multiset"
begin

section \<open>The timeline (rca\_engine/timeline.py)\<close>

text \<open>
  Timestamps are normalized, never guessed; evidence is ordered, and events of one source, domain,
  type and signature within one window are merged with their provenance. Parsing a timestamp and
  reading a UTC text as seconds since the epoch are the parameters \<open>iso\<close> and \<open>epoch\<close>; seconds are
  exact rationals.
\<close>

text \<open>
  \<open>cl_iso\<close>: the UTC text of a timestamp and whether it had an offset; \<open>ValueError\<close> is the error of
  \<open>fromisoformat\<close>, any other is raised by the conversion. \<open>cl_repr\<close> is \<open>repr\<close> of a decoded value.
\<close>

record clock_lib =
  cl_iso :: "string \<Rightarrow> py_exc + string \<times> bool"
  cl_epoch :: "string \<Rightarrow> rat"
  cl_repr :: "json \<Rightarrow> string"

definition DEFAULT_DEDUP_WINDOW_SECONDS :: int where "DEFAULT_DEDUP_WINDOW_SECONDS = 1"
definition DEFAULT_CLOCK_SKEW_THRESHOLD_SECONDS :: int where "DEFAULT_CLOCK_SKEW_THRESHOLD_SECONDS = 5"

subsection \<open>Normalization\<close>

definition parse_timestamp :: "clock_lib \<Rightarrow> json \<Rightarrow> py_exc + string option \<times> bool" where
  "parse_timestamp L raw = (case raw of
      JStr s \<Rightarrow> if s = [] then Inr (None, False)
        else (let t = strip s; t' = (if ends_with ''Z'' t then take (length t - 1) t @ ''+00:00'' else t) in
          (case cl_iso L t' of
              Inr (utc, had) \<Rightarrow> Inr (Some utc, had)
            | Inl ValueError \<Rightarrow> Inr (None, False)
            | Inl x \<Rightarrow> Inl x))
    | _ \<Rightarrow> Inr (None, False))"

record validation_issue =
  vi_type :: string
  vi_path :: string
  vi_detail :: string

definition json_abs :: "json \<Rightarrow> json" where
  "json_abs v = (case v of JInt i \<Rightarrow> JInt \<bar>i\<bar> | JBool b \<Rightarrow> JInt (of_bool b) | JFloat x \<Rightarrow> JFloat (flt_abs x) | _ \<Rightarrow> v)"

text \<open>The sources whose declared clock offset exceeds the threshold.\<close>

definition skewed :: "json \<Rightarrow> 'a intake_item_scheme \<Rightarrow> py_exc + bool" where
  "skewed threshold e = (case dget (ev_attributes e) ''source_clock_offset_seconds'' of
      Some v \<Rightarrow> if num_of v \<noteq> None then py_cmp Greater (json_abs v) threshold else Inr False
    | None \<Rightarrow> Inr False)"

definition naive_reason :: string where
  "naive_reason = ''naive timestamp without explicit UTC offset - normalized as UTC but degraded''"

definition skew_reason :: string where
  "skew_reason = ''clock skew detected for this source beyond threshold - timeline confidence '' @
     ''degraded, timestamp never silently corrected''"

definition reason_of :: "bool \<Rightarrow> bool \<Rightarrow> string option" where
  "reason_of had_offset skew =
     (if \<not> had_offset then Some (naive_reason @ (if skew then ''; source clock skew also detected'' else []))
      else if skew then Some skew_reason else None)"

definition normalize_item :: "clock_lib \<Rightarrow> string list \<Rightarrow> nat \<times> intake_item \<Rightarrow> py_exc + evidence \<times> validation_issue list" where
  "normalize_item L skewed_sources x = (case x of (idx, e) \<Rightarrow>
     bindE (parse_timestamp L (ev_timestamp e)) (\<lambda>(utc, had).
     let skew = ev_source e \<in> set skewed_sources;
         reason = (if utc = None then None else reason_of had skew) in
     Inr (\<lparr> ev_id = ev_id e, ev_domain = ev_domain e, ev_source = ev_source e, ev_type = ev_type e,
            ev_timestamp = ev_timestamp e, ev_sig = ev_sig e, ev_canonical = ev_canonical e, ev_token = ev_token e,
            ev_summary = ev_summary e, ev_attributes = ev_attributes e, ev_utc = utc,
            ev_degraded = (reason \<noteq> None), ev_reason = reason, ev_index = idx \<rparr>,
          if utc = None then [\<lparr> vi_type = ''INVALID_TIMESTAMP'', vi_path = ''evidence['' @ str_of_nat idx @ ''].timestamp'',
            vi_detail = ''unparseable timestamp: '' @ cl_repr L (ev_timestamp e) \<rparr>] else [])))"

definition normalize_evidence :: "clock_lib \<Rightarrow> intake_item list \<Rightarrow> (string, json) dict
    \<Rightarrow> py_exc + evidence list \<times> validation_issue list" where
  "normalize_evidence L raw policy =
     (let threshold = dget_or policy ''clock_skew_threshold_seconds'' (JInt DEFAULT_CLOCK_SKEW_THRESHOLD_SECONDS) in
      bindE (filterE (skewed threshold) raw) (\<lambda>sk.
      bindE (mapE (normalize_item L (map ev_source sk)) (enumerate 0 raw)) (\<lambda>xs.
      Inr (map fst xs, concat (map snd xs)))))"

subsection \<open>Events\<close>

record timeline_event =
  te_key :: string
  te_domain :: string
  te_type :: string
  te_sig :: signature_status
  te_canonical :: "string option"
  te_token :: "string option"
  te_time :: string
  te_count :: nat
  te_first :: string
  te_last :: string
  te_ids :: "string list"
  te_sources :: "string list"
  te_degraded :: bool

definition signature_group_key :: "evidence \<Rightarrow> string option" where
  "signature_group_key e = (if ev_sig e = CERTIFIED then ev_canonical e else ev_token e)"

type_synonym dedup_key = "string \<times> string \<times> string \<times> string option \<times> int"

text \<open>\<open>int(t // window)\<close>, or \<open>int(t)\<close> for a window that is not positive.\<close>

definition bucket_of :: "rat \<Rightarrow> json \<Rightarrow> py_exc + int" where
  "bucket_of t window = (case num_of window of
      None \<Rightarrow> Inl TypeError
    | Some (Fin w) \<Rightarrow> Inr (if 0 < w then \<lfloor>t / w\<rfloor> else truncate_rat t)
    | Some PInf \<Rightarrow> Inr (if t < 0 then - 1 else 0)
    | Some _ \<Rightarrow> Inr (truncate_rat t))"

definition dedup_key_of :: "clock_lib \<Rightarrow> json \<Rightarrow> evidence \<Rightarrow> string \<Rightarrow> py_exc + dedup_key" where
  "dedup_key_of L window e utc =
     bindE (bucket_of (cl_epoch L utc) window) (\<lambda>b.
     Inr (ev_source e, ev_domain e, ev_type e, signature_group_key e, b))"

definition group_by :: "('k \<times> 'a) list \<Rightarrow> ('k, 'a list) dict" where
  "group_by xs = fold (\<lambda>(k, x) g. dset k (dget_or g k [] @ [x]) g) xs []"

definition event_key :: "dedup_key \<Rightarrow> string" where
  "event_key k = (case k of (s, d, t, g, b) \<Rightarrow>
     join_on ''|'' [s, d, t, (case g of None \<Rightarrow> ''None'' | Some x \<Rightarrow> x), str_of_int b])"

definition time_of :: "evidence \<Rightarrow> string" where "time_of e = or_else (ev_utc e) []"

definition event_of :: "dedup_key \<times> evidence list \<Rightarrow> timeline_event" where
  "event_of x = (case x of (k, ms) \<Rightarrow> let first = hd ms; times = map time_of ms in
     \<lparr> te_key = event_key k, te_domain = ev_domain first, te_type = ev_type first, te_sig = ev_sig first,
       te_canonical = ev_canonical first, te_token = ev_token first, te_time = time_of first, te_count = length ms,
       te_first = Min (set times), te_last = Max (set times), te_ids = sort (remdups (map ev_id ms)),
       te_sources = sort (remdups (map ev_source ms)), te_degraded = list_ex ev_degraded ms \<rparr>)"

record timeline =
  tl_events :: "timeline_event list"
  tl_degraded :: bool
  tl_reasons :: "string list"

definition timed :: "evidence list \<Rightarrow> evidence list" where
  "timed es = sort_key (\<lambda>e. (time_of e, ev_index e)) (filter (\<lambda>e. ev_utc e \<noteq> None) es)"

definition build_timeline :: "clock_lib \<Rightarrow> evidence list \<Rightarrow> (string, json) dict \<Rightarrow> py_exc + timeline" where
  "build_timeline L es policy =
     (let window = dget_or policy ''dedup_window_seconds'' (JInt DEFAULT_DEDUP_WINDOW_SECONDS) in
      bindE (mapE (\<lambda>e. bindE (dedup_key_of L window e (time_of e)) (\<lambda>k. Inr (k, e))) (timed es)) (\<lambda>keyed.
      Inr \<lparr> tl_events = map event_of (group_by keyed), tl_degraded = list_ex ev_degraded es,
        tl_reasons = sort (remdups (filter (\<lambda>r. r \<noteq> []) (List.map_filter ev_reason es))) \<rparr>))"

subsection \<open>Grouping\<close>

lemma group_by_snoc: "group_by (xs @ [(k, x)]) = dset k (dget_or (group_by xs) k [] @ [x]) (group_by xs)"
  by (simp add: group_by_def)

lemma dget_or_group: "dget_or (group_by xs) k [] = map snd (filter (\<lambda>y. fst y = k) xs)"
  by (induction xs rule: rev_induct) (auto simp: group_by_snoc split_paired_all, simp add: group_by_def dget_or_def)

lemma group_by_keys: "set (dkeys (group_by xs)) = fst ` set xs \<and> distinct (dkeys (group_by xs))"
proof (induction xs rule: rev_induct)
  case Nil
  then show ?case by (simp add: group_by_def)
next
  case (snoc y xs)
  then show ?case by (cases y) (simp add: group_by_snoc distinct_update del: set_map)
qed

lemma group_by_members: "(k, ms) \<in> set (group_by xs) \<Longrightarrow> ms = map snd (filter (\<lambda>y. fst y = k) xs) \<and> ms \<noteq> []"
proof -
  assume a: "(k, ms) \<in> set (group_by xs)"
  have d: "distinct (dkeys (group_by xs))" using group_by_keys by blast
  then have "dget (group_by xs) k = Some ms" using a by simp
  then have m: "ms = map snd (filter (\<lambda>y. fst y = k) xs)" using dget_or_group [of xs k] by (simp add: dget_or_def)
  have "k \<in> fst ` set xs" using a group_by_keys [of xs] by force
  then have "filter (\<lambda>y. fst y = k) xs \<noteq> []" by (auto simp: filter_empty_conv)
  with m show ?thesis by simp
qed

lemma update_snoc: "k \<notin> set (dkeys d) \<Longrightarrow> dset k v d = d @ [(k, v)]"
  by (induction d) auto

lemma heads_dset: "dget d k = Some ms \<Longrightarrow> ms \<noteq> [] \<Longrightarrow> map (hd \<circ> snd) (dset k (ms @ [x]) d) = map (hd \<circ> snd) d"
  by (induction d) auto

lemma count_dset: "dget d k = Some ms \<Longrightarrow> sum_list (map (length \<circ> snd) (dset k (ms @ [x]) d)) = Suc (sum_list (map (length \<circ> snd) d))"
  by (induction d) auto

text \<open>The first members of the groups, in order, are a subsequence; and nothing is lost.\<close>

lemma group_by_shape:
  "subseq (map (hd \<circ> snd) (group_by xs)) (map snd xs) \<and> sum_list (map (length \<circ> snd) (group_by xs)) = length xs"
proof (induction xs rule: rev_induct)
  case Nil
  then show ?case by (simp add: group_by_def)
next
  case (snoc y xs)
  obtain k x where y: "y = (k, x)" by (cases y)
  show ?case
  proof (cases "dget (group_by xs) k")
    case None
    then have "k \<notin> set (dkeys (group_by xs))" by (simp add: dget_None_iff)
    then show ?thesis using snoc None by (simp add: y group_by_snoc update_snoc dget_or_def)
  next
    case (Some ms)
    then have "ms \<noteq> []" using group_by_members [of k ms xs] dget_Some_in by fastforce
    from heads_dset [OF Some this, of x] count_dset [OF Some, of x]
    show ?thesis
      unfolding y group_by_snoc dget_or_def Some option.case
      using snoc by (simp add: subseq_rev_drop_many del: comp_apply)
  qed
qed

subsection \<open>A faithful timeline\<close>

lemma reason_of_None [simp]: "reason_of had sk = None \<longleftrightarrow> had \<and> \<not> sk"
  by (simp add: reason_of_def)

lemma normalize_item_ok:
  assumes "normalize_item L sk (i, e) = Inr (n, vs)"
  shows "ev_id n = ev_id e \<and> ev_source n = ev_source e \<and> ev_timestamp n = ev_timestamp e \<and>
   length vs = (if ev_utc n = None then 1 else 0) \<and>
   (\<exists>had. parse_timestamp L (ev_timestamp e) = Inr (ev_utc n, had) \<and>
     (ev_degraded n \<longleftrightarrow> ev_utc n \<noteq> None \<and> (\<not> had \<or> ev_source e \<in> set sk)))"
proof -
  obtain utc had where p: "parse_timestamp L (ev_timestamp e) = Inr (utc, had)"
    using assms by (cases "parse_timestamp L (ev_timestamp e)") (auto simp: normalize_item_def)
  then show ?thesis using assms by (cases utc) (auto simp: normalize_item_def Let_def simp del: not_None_eq)
qed

lemma normalize_all2:
  "mapE (normalize_item L sk) (enumerate k raw) = Inr xs \<Longrightarrow>
   list_all2 (\<lambda>r x. \<exists>i. normalize_item L sk (i, r) = Inr x) raw xs"
proof (induction raw arbitrary: k xs)
  case (Cons r raw)
  then show ?case by (fastforce simp: bindE_Inr)
qed simp

lemma issues_length:
  "list_all2 (\<lambda>r x. \<exists>i. normalize_item L sk (i, r) = Inr x) raw xs \<Longrightarrow>
   length (concat (map snd xs)) = length (filter (\<lambda>e. ev_utc e = None) (map fst xs)) \<and> map ev_id (map fst xs) = map ev_id raw"
proof (induction rule: list_all2_induct)
  case (Cons r raw x xs)
  obtain n vs where x: "x = (n, vs)" by (cases x)
  from Cons(1) obtain i where "normalize_item L sk (i, r) = Inr (n, vs)" unfolding x by blast
  from normalize_item_ok [OF this] Cons(3) show ?case by (simp add: x)
qed simp

lemma normalize_evidence_ok [fail_closed]:
  assumes "normalize_evidence L raw policy = Inr (es, issues)"
  shows "map ev_id es = map ev_id raw" "length issues = length (filter (\<lambda>e. ev_utc e = None) es)"
    "\<forall>e \<in> set es. \<exists>had. parse_timestamp L (ev_timestamp e) = Inr (ev_utc e, had) \<and>
       (ev_degraded e \<longleftrightarrow> ev_utc e \<noteq> None \<and> (\<not> had \<or> (\<exists>r \<in> set raw. ev_source r = ev_source e \<and>
         skewed (dget_or policy ''clock_skew_threshold_seconds'' (JInt DEFAULT_CLOCK_SKEW_THRESHOLD_SECONDS)) r = Inr True)))"
proof -
  let ?t = "dget_or policy ''clock_skew_threshold_seconds'' (JInt DEFAULT_CLOCK_SKEW_THRESHOLD_SECONDS)"
  from assms obtain sk xs where s: "filterE (skewed ?t) raw = Inr sk" and
    m: "mapE (normalize_item L (map ev_source sk)) (enumerate 0 raw) = Inr xs" and
    x: "es = map fst xs" "issues = concat (map snd xs)" by (auto simp: normalize_evidence_def Let_def bindE_Inr)
  note a = normalize_all2 [OF m]
  show "map ev_id es = map ev_id raw" "length issues = length (filter (\<lambda>e. ev_utc e = None) es)"
    using issues_length [OF a] by (simp_all add: x)
  have sk: "s \<in> set (map ev_source sk) \<longleftrightarrow> (\<exists>r \<in> set raw. ev_source r = s \<and> skewed ?t r = Inr True)" for s
    using filterE_Inr [OF s] by auto
  show "\<forall>e \<in> set es. \<exists>had. parse_timestamp L (ev_timestamp e) = Inr (ev_utc e, had) \<and>
       (ev_degraded e \<longleftrightarrow> ev_utc e \<noteq> None \<and> (\<not> had \<or> (\<exists>r \<in> set raw. ev_source r = ev_source e \<and> skewed ?t r = Inr True)))"
  proof
    fix e assume "e \<in> set es"
    then obtain vs where "(e, vs) \<in> set xs" by (auto simp: x)
    then obtain r i where "normalize_item L (map ev_source sk) (i, r) = Inr (e, vs)"
      using a by (auto simp: list_all2_conv_all_nth in_set_conv_nth)
    from normalize_item_ok [OF this] show "\<exists>had. parse_timestamp L (ev_timestamp e) = Inr (ev_utc e, had) \<and>
       (ev_degraded e \<longleftrightarrow> ev_utc e \<noteq> None \<and> (\<not> had \<or> (\<exists>r \<in> set raw. ev_source r = ev_source e \<and> skewed ?t r = Inr True)))"
      unfolding sk by metis
  qed
qed

lemma timed_sorted: "sorted (map time_of (timed es))"
proof -
  have "sorted (map (\<lambda>e. (time_of e, ev_index e)) (timed es))" unfolding timed_def by (rule sorted_sort_key)
  then show ?thesis unfolding sorted_map by (rule sorted_wrt_mono_rel [rotated]) (auto simp: less_eq_prod_def)
qed

lemma sorted_subseq: "subseq xs ys \<Longrightarrow> sorted ys \<Longrightarrow> sorted xs"
  by (induction rule: list_emb.induct) (auto dest: list_emb_set)

lemma build_timeline_ok:
  assumes "build_timeline L es policy = Inr T"
  obtains keyed where "map snd keyed = timed es" "tl_events T = map event_of (group_by keyed)"
    "tl_degraded T = list_ex ev_degraded es"
proof -
  let ?w = "dget_or policy ''dedup_window_seconds'' (JInt DEFAULT_DEDUP_WINDOW_SECONDS)"
  from assms obtain keyed where
    m: "mapE (\<lambda>e. bindE (dedup_key_of L ?w e (time_of e)) (\<lambda>k. Inr (k, e))) (timed es) = Inr keyed" and
    r: "tl_events T = map event_of (group_by keyed)" "tl_degraded T = list_ex ev_degraded es"
    by (auto simp: build_timeline_def Let_def bindE_Inr)
  have "map snd keyed = timed es"
    using m [unfolded mapE_Inr_iff] by (induction rule: list_all2_induct) (auto simp: bindE_Inr)
  then show ?thesis using that r by blast
qed

lemma event_of_ok:
  assumes "ms \<noteq> []" and "sorted (map time_of ms)" and "ev = event_of (k, ms)"
  shows "te_time ev = time_of (hd ms) \<and> te_first ev = te_time ev \<and> te_last ev = time_of (last ms) \<and> te_count ev = length ms \<and>
    set (te_ids ev) = ev_id ` set ms \<and> sorted (te_ids ev) \<and> distinct (te_ids ev)"
proof -
  obtain m rest where m: "ms = m # rest" using assms(1) by (cases ms) auto
  have "Min (set (map time_of ms)) = time_of m"
    using assms(2) by (intro Min_eqI) (auto simp: m)
  moreover have "Max (set (map time_of ms)) = time_of (last ms)"
  proof (intro Max_eqI)
    fix t assume "t \<in> set (map time_of ms)"
    then obtain i where i: "i < length ms" "t = time_of (ms ! i)" by (auto simp: in_set_conv_nth)
    have "map time_of ms ! i \<le> map time_of ms ! (length ms - 1)"
      using i assms(1) by (intro sorted_nth_mono [OF assms(2)]) auto
    then show "t \<le> time_of (last ms)" using i assms(1) by (simp add: last_conv_nth)
  qed (use assms(1) in auto)
  moreover have "set (te_ids ev) = ev_id ` set ms" "sorted (te_ids ev)" "distinct (te_ids ev)"
    by (simp_all add: assms(3) event_of_def Let_def)
  ultimately show ?thesis by (simp add: assms(3) event_of_def Let_def m)
qed


definition example_clock :: clock_lib where
  "example_clock = \<lparr> cl_iso = (\<lambda>s. if s = ''2026-01-01T00:00:00+00:00'' then Inr (s, True) else Inl ValueError),
     cl_epoch = (\<lambda>_. 0), cl_repr = (\<lambda>v. case v of JStr s \<Rightarrow> [CHR 0x27] @ s @ [CHR 0x27] | _ \<Rightarrow> []) \<rparr>"

definition example_intake :: intake_item where
  "example_intake = \<lparr> ev_id = ''EVD-1'', ev_domain = ''os'', ev_source = ''SRC-1'', ev_type = ''ALERT_TRIGGERED'',
     ev_timestamp = JStr ''2026-01-01T00:00:00Z'', ev_sig = CERTIFIED, ev_canonical = Some ''ORA-27300'', ev_token = None,
     ev_summary = JNull, ev_attributes = [(''nproc'', JInt 100)] \<rparr>"

lemma example_normalized: "normalize_evidence example_clock [example_intake] [] = Inr ([example_item], [])"
  by code_simp


end
