(* ===== verification/Rca_Intake.thy ===== *)
theory Rca_Intake
  imports Rca_Timeline
begin

section \<open>Intake (rca\_engine/intake.py)\<close>

text \<open>
  The one place through which incident and evidence enter the engine: identifiers are checked,
  names of targets and sources become tokens, signatures are classified, texts are redacted and
  attributes reduced to what the rules read. SHA-256 is the parameter \<open>sha\<close>. The table from tokens
  back to raw names is returned separately.
\<close>

definition SAFE_IDENTIFIER_SHAPE :: rx where
  "SAFE_IDENTIFIER_SHAPE = Seq (Cls is_letter) (Rep 0 63 (Cls (\<lambda>c. is_alnum c \<or> c \<in> set ''._-'')))"

definition require_safe_identifier :: "json \<Rightarrow> rca_error + string" where
  "require_safe_identifier v = (case v of
      JStr s \<Rightarrow> if match_dollar SAFE_IDENTIFIER_SHAPE s then Inr s else Inl IntakeError
    | _ \<Rightarrow> Inl IntakeError)"

text \<open>\<open>sanitize_text\<close> of any value: what counts as false stays, a text is redacted, anything else raises.\<close>

definition sanitize_json_text :: "json \<Rightarrow> rca_error + json" where
  "sanitize_json_text v = (if \<not> truthy v then Inr v
     else (case v of JStr s \<Rightarrow> Inr (JStr (or_else (sanitize_text (Some s)) [])) | _ \<Rightarrow> Inl (RcaCrash TypeError)))"

definition substitute_json :: "json \<Rightarrow> string \<Rightarrow> string \<Rightarrow> json" where
  "substitute_json v raw token = (case v of JStr s \<Rightarrow> JStr (or_else (substitute_literal (Some s) (Some raw) token) []) | _ \<Rightarrow> v)"

definition require_fields :: "json \<Rightarrow> string list \<Rightarrow> bool" where
  "require_fields v fs \<longleftrightarrow> list_all (\<lambda>f. truthy (or_else (jget v f) JNull)) fs"

definition REQUIRED_INCIDENT_FIELDS :: "string list" where
  "REQUIRED_INCIDENT_FIELDS = [''id'', ''target_id'', ''symptom_description'']"

definition REQUIRED_EVIDENCE_FIELDS :: "string list" where
  "REQUIRED_EVIDENCE_FIELDS = [''evidence_id'', ''domain'', ''source_id'', ''timestamp'', ''event_type'']"

text \<open>A text that is more than white space.\<close>

definition require_name :: "json \<Rightarrow> rca_error + string" where
  "require_name v = (case v of JStr s \<Rightarrow> if strip s = [] then Inl IntakeError else Inr s | _ \<Rightarrow> Inl IntakeError)"

definition require_member :: "json \<Rightarrow> string list \<Rightarrow> rca_error + string" where
  "require_member v allowed = (case v of
      JStr s \<Rightarrow> if s \<in> set allowed then Inr s else Inl IntakeError
    | _ \<Rightarrow> if unhashable v then Inl (RcaCrash TypeError) else Inl IntakeError)"

type_synonym token_map = "(string, json) dict"

text \<open>\<open>token_map.setdefault\<close>.\<close>

definition set_default :: "string \<Rightarrow> json \<Rightarrow> token_map \<Rightarrow> token_map" where
  "set_default k v m = (case dget m k of None \<Rightarrow> dset k v m | Some _ \<Rightarrow> m)"

record incident =
  in_id :: string
  in_target :: string
  in_symptom :: json
  in_refs :: "string list"

definition declared_refs :: "json \<Rightarrow> rca_error + string list" where
  "declared_refs v = bindE (rcrash (py_iter v)) (\<lambda>xs. Inr (filter
     (\<lambda>s. match_dollar SAFE_IDENTIFIER_SHAPE s \<and> \<not> contains_secret_pattern (Some s)) (strings_among xs)))"

definition signature_text :: "json option \<Rightarrow> rca_error + string option" where
  "signature_text v = (case v of None \<Rightarrow> Inr None | Some JNull \<Rightarrow> Inr None | Some (JStr s) \<Rightarrow> Inr (Some s)
     | Some _ \<Rightarrow> Inl (RcaCrash TypeError))"

text \<open>What intake of one item needs besides the item.\<close>

record intake_context =
  ic_sha :: "string \<Rightarrow> string"
  ic_incident :: string
  ic_raw_target :: string
  ic_target_token :: string
  ic_attributes :: "string list"
  ic_signatures :: "string list"

definition intake_attributes :: "json option \<Rightarrow> string list \<Rightarrow> rca_error + (string, json) dict" where
  "intake_attributes v allowed = (case sanitize_attributes (or_else v (JObj [])) allowed of
      Inr kvs \<Rightarrow> Inr kvs | Inl _ \<Rightarrow> Inl IntakeError)"

definition intake_one :: "intake_context \<Rightarrow> string list \<times> intake_item list \<times> token_map \<Rightarrow> json
    \<Rightarrow> rca_error + string list \<times> intake_item list \<times> token_map" where
  "intake_one X acc item = (case acc of (seen, items, tokens) \<Rightarrow>
     if \<not> is_obj item \<or> \<not> require_fields item REQUIRED_EVIDENCE_FIELDS then Inl IntakeError
     else bindE (require_member (jget_or item ''event_type'' JNull) ALL_EVENT_TYPES) (\<lambda>ty.
     bindE (require_member (jget_or item ''domain'' JNull) ALLOWED_DOMAINS) (\<lambda>dom.
     bindE (require_safe_identifier (jget_or item ''evidence_id'' JNull)) (\<lambda>eid.
     if contains_secret_pattern (Some eid) \<or> eid \<in> set seen then Inl IntakeError
     else bindE (require_name (jget_or item ''source_id'' JNull)) (\<lambda>source.
     let source_token = or_else (derive_source_token (ic_sha X) (ic_incident X) (Some source)) [];
         tokens1 = set_default source_token (JStr source) tokens in
     bindE (signature_text (jget item ''signature'')) (\<lambda>sg.
     let (st, canonical, stoken) = classify_signature (ic_sha X) sg (ic_incident X) (ic_signatures X);
         tokens2 = (case (st, stoken) of
            (UNRECOGNIZED_SIGNATURE, Some t) \<Rightarrow> set_default t (JStr (or_else sg [])) tokens1 | _ \<Rightarrow> tokens1) in
     bindE (sanitize_json_text (jget_or item ''summary'' JNull)) (\<lambda>sm.
     let sm' = substitute_json (substitute_json sm (ic_raw_target X) (ic_target_token X)) source source_token in
     bindE (intake_attributes (jget item ''attributes'') (ic_attributes X)) (\<lambda>attrs.
     Inr (eid # seen,
          items @ [\<lparr> ev_id = eid, ev_domain = dom, ev_source = source_token, ev_type = ty,
            ev_timestamp = jget_or item ''timestamp'' JNull, ev_sig = st, ev_canonical = canonical, ev_token = stoken,
            ev_summary = sm', ev_attributes = attrs \<rparr>],
          tokens2)))))))))"

definition allowlists :: "json \<Rightarrow> rca_error + string list \<times> string list" where
  "allowlists catalog = (case bindE (collect_allowed_attribute_keys catalog) (\<lambda>ks.
       bindE (collect_certified_signatures catalog) (\<lambda>ss. Inr (ks, ss))) of
      Inr x \<Rightarrow> Inr x | Inl _ \<Rightarrow> Inl IntakeError)"

definition validate_and_sanitize :: "(string \<Rightarrow> string) \<Rightarrow> json \<Rightarrow> json \<Rightarrow> rca_error + incident \<times> intake_item list \<times> token_map" where
  "validate_and_sanitize sha fixture catalog =
     (case (jget fixture ''incident'', jget fixture ''evidence'') of
        (Some (JObj raw), Some (JArr items)) \<Rightarrow>
          if \<not> require_fields (JObj raw) REQUIRED_INCIDENT_FIELDS then Inl IntakeError
          else bindE (require_safe_identifier (jget_or (JObj raw) ''id'' JNull)) (\<lambda>inc.
          bindE (require_name (jget_or (JObj raw) ''target_id'' JNull)) (\<lambda>target.
          let token = or_else (derive_target_token sha inc (Some target)) [] in
          bindE (sanitize_json_text (jget_or (JObj raw) ''symptom_description'' JNull)) (\<lambda>sd.
          bindE (declared_refs (jget_or (JObj raw) ''declared_evidence_refs'' (JArr []))) (\<lambda>refs.
          bindE (allowlists catalog) (\<lambda>(keys, sigs).
          let X = \<lparr> ic_sha = sha, ic_incident = inc, ic_raw_target = target, ic_target_token = token,
                    ic_attributes = keys, ic_signatures = sigs \<rparr> in
          bindE (foldE (intake_one X) ([], [], [(token, JStr target)]) items) (\<lambda>(seen, evs, tokens).
          Inr (\<lparr> in_id = inc, in_target = token, in_symptom = substitute_json sd target token, in_refs = refs \<rparr>,
               evs, tokens)))))))
      | _ \<Rightarrow> Inl IntakeError)"

definition build_evidence_manifest :: "incident \<Rightarrow> 'a intake_item_scheme list \<Rightarrow> manifest" where
  "build_evidence_manifest inc evs =
     (let present = sort (remdups (map ev_id evs));
          missing = sort (remdups (filter (\<lambda>r. r \<notin> set present) (in_refs inc))) in
      \<lparr> mf_declared = sort (in_refs inc), mf_present = present, mf_missing = missing, mf_complete = (missing = []) \<rparr>)"

subsection \<open>What intake guarantees\<close>

text \<open>An item that passed intake.\<close>

definition clean_item :: "intake_context \<Rightarrow> intake_item \<Rightarrow> bool" where
  "clean_item X e \<longleftrightarrow>
     match_dollar SAFE_IDENTIFIER_SHAPE (ev_id e) \<and> \<not> contains_secret_pattern (Some (ev_id e)) \<and>
     ev_domain e \<in> set ALLOWED_DOMAINS \<and> ev_type e \<in> set ALL_EVENT_TYPES \<and>
     (\<exists>raw. strip raw \<noteq> [] \<and> derive_source_token (ic_sha X) (ic_incident X) (Some raw) = Some (ev_source e)) \<and>
     (case ev_sig e of
        CERTIFIED \<Rightarrow> ev_token e = None \<and> (\<exists>s. ev_canonical e = Some s \<and>
          (match_dollar CERTIFIED_CODE_PATTERN s \<or> s \<in> set (ic_signatures X)))
      | UNRECOGNIZED_SIGNATURE \<Rightarrow> ev_canonical e = None \<and>
          (\<exists>s. ev_token e = derive_signature_token (ic_sha X) (ic_incident X) (Some s))
      | SIGNATURE_ABSENT \<Rightarrow> ev_canonical e = None \<and> ev_token e = None) \<and>
     (\<forall>(k, v) \<in> set (ev_attributes e). k \<in> set (ic_attributes X) \<and> typed_scalar v)"

lemma require_member_ok: "require_member v allowed = Inr s \<Longrightarrow> s \<in> set allowed"
  by (auto simp: require_member_def split: json.splits if_splits)

lemma require_safe_ok: "require_safe_identifier v = Inr s \<Longrightarrow> match_dollar SAFE_IDENTIFIER_SHAPE s"
  by (auto simp: require_safe_identifier_def split: json.splits if_splits)

lemma require_name_ok: "require_name v = Inr s \<Longrightarrow> strip s \<noteq> []"
  by (auto simp: require_name_def split: json.splits if_splits)

lemma typed_items_ok: "\<forall>(k, w) \<in> set (typed_items allowed safe). k \<in> set allowed \<and> typed_scalar w"
  by (auto simp: typed_items_def split: json.splits)

lemma intake_attributes_ok:
  assumes "intake_attributes v allowed = Inr out"
  shows "\<forall>(k, w) \<in> set out. k \<in> set allowed \<and> typed_scalar w"
proof -
  from assms have "sanitize_attributes (or_else v (JObj [])) allowed = Inr out" by (simp add: intake_attributes_def split: sum.splits)
  then obtain safe where "out = typed_items allowed safe" by (auto simp: sanitize_attributes_def bindE_Inr split: if_splits)
  then show ?thesis using typed_items_ok by blast
qed

lemma classify_ok:
  "classify_signature sha raw inc certified = (st, canonical, token) \<Longrightarrow>
   (case st of
      CERTIFIED \<Rightarrow> token = None \<and> (\<exists>s. canonical = Some s \<and> (match_dollar CERTIFIED_CODE_PATTERN s \<or> s \<in> set certified))
    | UNRECOGNIZED_SIGNATURE \<Rightarrow> canonical = None \<and> (\<exists>s. token = derive_signature_token sha inc (Some s))
    | SIGNATURE_ABSENT \<Rightarrow> canonical = None \<and> token = None)"
  by (auto simp: classify_signature_def split: option.splits if_splits)

lemma intake_one_ok:
  assumes "intake_one X (seen, items, tokens) item = Inr (seen', items', tokens')"
  shows "\<exists>e. clean_item X e \<and> ev_id e \<notin> set seen \<and> seen' = ev_id e # seen \<and> items' = items @ [e] \<and>
    ev_timestamp e = jget_or item ''timestamp'' JNull"
proof -
  from assms obtain ty where ty: "require_member (jget_or item ''event_type'' JNull) ALL_EVENT_TYPES = Inr ty"
    unfolding intake_one_def by (auto simp only: bindE_Inr prod.case split: if_splits)
  from assms obtain dom where dom: "require_member (jget_or item ''domain'' JNull) ALLOWED_DOMAINS = Inr dom"
    unfolding intake_one_def by (auto simp only: bindE_Inr prod.case split: if_splits)
  from assms obtain eid where eid: "require_safe_identifier (jget_or item ''evidence_id'' JNull) = Inr eid"
    unfolding intake_one_def by (auto simp only: bindE_Inr prod.case split: if_splits)
  from assms obtain source where source: "require_name (jget_or item ''source_id'' JNull) = Inr source"
    unfolding intake_one_def by (auto simp only: bindE_Inr prod.case split: if_splits)
  from assms obtain sg where sg: "signature_text (jget item ''signature'') = Inr sg"
    unfolding intake_one_def by (auto simp only: bindE_Inr prod.case Let_def split: if_splits)
  obtain st canonical token where c: "classify_signature (ic_sha X) sg (ic_incident X) (ic_signatures X) = (st, canonical, token)"
    by (metis prod_cases3)
  have ok: "\<not> (\<not> is_obj item \<or> \<not> require_fields item REQUIRED_EVIDENCE_FIELDS)"
    "\<not> (contains_secret_pattern (Some eid) \<or> eid \<in> set seen)"
    using assms ty dom eid by (auto simp: intake_one_def split: if_splits)
  from assms obtain sm attrs where sm: "sanitize_json_text (jget_or item ''summary'' JNull) = Inr sm" and
    attrs: "intake_attributes (jget item ''attributes'') (ic_attributes X) = Inr attrs"
    unfolding intake_one_def prod.case ty dom eid source sg c Let_def by (simp only: ok c if_False bindE_simps prod.case bindE_Inr) blast
  let ?tok = "or_else (derive_source_token (ic_sha X) (ic_incident X) (Some source)) []"
  define e where "e = \<lparr> ev_id = eid, ev_domain = dom, ev_source = ?tok, ev_type = ty,
      ev_timestamp = jget_or item ''timestamp'' JNull, ev_sig = st, ev_canonical = canonical, ev_token = token,
      ev_summary = substitute_json (substitute_json sm (ic_raw_target X) (ic_target_token X)) source ?tok, ev_attributes = attrs \<rparr>"
  have r: "seen' = eid # seen" "items' = items @ [e]"
    using assms unfolding intake_one_def prod.case ty dom eid source sg c Let_def e_def
    by (simp_all only: ok c if_False bindE_simps prod.case sm attrs sum.inject prod.inject simp_thms)
  have "ev_source e = ?tok" "derive_source_token (ic_sha X) (ic_incident X) (Some source) = Some ?tok"
    by (simp_all add: e_def derive_source_token_def or_else_def)
  then have "clean_item X e"
    using ok(2) require_member_ok [OF ty] require_member_ok [OF dom] require_safe_ok [OF eid] require_name_ok [OF source]
      classify_ok [OF c] intake_attributes_ok [OF attrs]
    unfolding clean_item_def by (cases st) (auto simp: e_def)
  then show ?thesis using r ok(2) by (intro exI [of _ e]) (simp add: e_def)
qed

lemma intake_fold_ok:
  "foldE (intake_one X) (seen, items, tokens) raws = Inr (seen', items', tokens') \<Longrightarrow>
   \<exists>es. items' = items @ es \<and> list_all2 (\<lambda>e raw. clean_item X e \<and> ev_timestamp e = jget_or raw ''timestamp'' JNull) es raws \<and>
     distinct (map ev_id es) \<and> set (map ev_id es) \<inter> set seen = {}"
proof (induction raws arbitrary: seen items tokens)
  case (Cons raw raws)
  from Cons.prems obtain acc where a: "intake_one X (seen, items, tokens) raw = Inr acc"
    "foldE (intake_one X) acc raws = Inr (seen', items', tokens')" by (auto simp: bindE_Inr)
  obtain seen1 items1 tokens1 where acc: "acc = (seen1, items1, tokens1)" by (cases acc)
  from intake_one_ok [OF a(1) [unfolded acc]] obtain e where e: "clean_item X e" "ev_id e \<notin> set seen" "seen1 = ev_id e # seen"
    "items1 = items @ [e]" "ev_timestamp e = jget_or raw ''timestamp'' JNull" by blast
  from Cons.IH [OF a(2) [unfolded acc]] obtain es where "items' = items1 @ es"
    "list_all2 (\<lambda>e raw. clean_item X e \<and> ev_timestamp e = jget_or raw ''timestamp'' JNull) es raws"
    "distinct (map ev_id es)" "set (map ev_id es) \<inter> set seen1 = {}" by blast
  then show ?case using e by (intro exI [of _ "e # es"]) auto
qed simp

lemma intake_ok [fail_closed]:
  assumes "validate_and_sanitize sha fixture catalog = Inr (inc, evs, tokens)"
  obtains raws target keys sigs where "jget fixture ''evidence'' = Some (JArr raws)" "allowlists catalog = Inr (keys, sigs)"
    "match_dollar SAFE_IDENTIFIER_SHAPE (in_id inc)" "Some (in_target inc) = derive_target_token sha (in_id inc) (Some target)"
    "\<forall>r \<in> set (in_refs inc). match_dollar SAFE_IDENTIFIER_SHAPE r \<and> \<not> contains_secret_pattern (Some r)"
    "list_all2 (\<lambda>e raw. clean_item \<lparr> ic_sha = sha, ic_incident = in_id inc, ic_raw_target = target,
        ic_target_token = in_target inc, ic_attributes = keys, ic_signatures = sigs \<rparr> e \<and>
        ev_timestamp e = jget_or raw ''timestamp'' JNull) evs raws"
    "distinct (map ev_id evs)"
proof -
  from assms obtain raw raws where f: "jget fixture ''incident'' = Some (JObj raw)" "jget fixture ''evidence'' = Some (JArr raws)"
    by (auto simp: validate_and_sanitize_def split: option.splits json.splits)
  note v = assms [unfolded validate_and_sanitize_def f prod.case option.case json.case]
  from v obtain i where i: "require_safe_identifier (jget_or (JObj raw) ''id'' JNull) = Inr i"
    by (auto simp only: bindE_Inr split: if_splits)
  from v obtain target where t: "require_name (jget_or (JObj raw) ''target_id'' JNull) = Inr target"
    by (auto simp only: bindE_Inr split: if_splits)
  let ?tok = "or_else (derive_target_token sha i (Some target)) []"
  from v have v1: "bindE (sanitize_json_text (jget_or (JObj raw) ''symptom_description'' JNull)) (\<lambda>sd.
          bindE (declared_refs (jget_or (JObj raw) ''declared_evidence_refs'' (JArr []))) (\<lambda>refs.
          bindE (allowlists catalog) (\<lambda>(keys, sigs).
          bindE (foldE (intake_one \<lparr> ic_sha = sha, ic_incident = i, ic_raw_target = target, ic_target_token = ?tok,
                    ic_attributes = keys, ic_signatures = sigs \<rparr>) ([], [], [(?tok, JStr target)]) raws) (\<lambda>(seen, evs, tokens).
          Inr (\<lparr> in_id = i, in_target = ?tok, in_symptom = substitute_json sd target ?tok, in_refs = refs \<rparr>,
               evs, tokens))))) = Inr (inc, evs, tokens)"
    unfolding i t Let_def
    by (cases "require_fields (JObj raw) REQUIRED_INCIDENT_FIELDS") (simp_all only: bindE_simps if_True if_False simp_thms sum.distinct)
  from v1 obtain sd refs keys sigs seen where
    r: "declared_refs (jget_or (JObj raw) ''declared_evidence_refs'' (JArr [])) = Inr refs" and a: "allowlists catalog = Inr (keys, sigs)" and
    g: "foldE (intake_one \<lparr> ic_sha = sha, ic_incident = i, ic_raw_target = target, ic_target_token = ?tok,
                    ic_attributes = keys, ic_signatures = sigs \<rparr>) ([], [], [(?tok, JStr target)]) raws = Inr (seen, evs, tokens)" and
    inc: "inc = \<lparr> in_id = i, in_target = ?tok, in_symptom = substitute_json sd target ?tok, in_refs = refs \<rparr>"
    by (clarsimp simp: bindE_Inr)
  have tok: "Some (in_target inc) = derive_target_token sha (in_id inc) (Some target)"
    by (simp add: inc derive_target_token_def or_else_def)
  have refs: "\<forall>r \<in> set (in_refs inc). match_dollar SAFE_IDENTIFIER_SHAPE r \<and> \<not> contains_secret_pattern (Some r)"
    using r by (auto simp: inc declared_refs_def bindE_Inr)
  show ?thesis
    using that [OF f(2) a _ tok refs] require_safe_ok [OF i] intake_fold_ok [OF g] by (auto simp: inc)
qed


definition example_fixture :: "string \<Rightarrow> json" where
  "example_fixture timestamp = JObj [
     (''incident'', JObj [(''id'', JStr ''I''), (''target_id'', JStr ''db1''), (''symptom_description'', JStr ''db1 down'')]),
     (''evidence'', JArr [JObj [(''evidence_id'', JStr ''E1''), (''domain'', JStr ''os''), (''source_id'', JStr ''h''),
        (''timestamp'', JStr timestamp), (''event_type'', JStr ''ALERT_TRIGGERED''), (''signature'', JStr ''ORA-27300''),
        (''attributes'', JObj [(''nproc'', JInt 100), (''user'', JStr ''x'')])]])]"

definition example_sha :: "string \<Rightarrow> string" where "example_sha s = replicate 64 (if s = [] then CHR ''0'' else last s)"

definition example_incident :: incident where
  "example_incident = \<lparr> in_id = ''I'', in_target = ''TGT-1111111111111111'', in_symptom = JStr ''TGT-1111111111111111 down'', in_refs = [] \<rparr>"

definition example_taken :: intake_item where
  "example_taken = \<lparr> ev_id = ''E1'', ev_domain = ''os'', ev_source = ''SRC-hhhhhhhhhhhhhhhh'', ev_type = ''ALERT_TRIGGERED'',
     ev_timestamp = JStr ''pwd=x'', ev_sig = CERTIFIED, ev_canonical = Some ''ORA-27300'', ev_token = None,
     ev_summary = JNull, ev_attributes = [(''nproc'', JInt 100)] \<rparr>"

lemma example_intake_run:
  "validate_and_sanitize example_sha (example_fixture ''pwd=x'') example_catalog =
     Inr (example_incident, [example_taken],
          [(''TGT-1111111111111111'', JStr ''db1''), (''SRC-hhhhhhhhhhhhhhhh'', JStr ''h'')])"
  by code_simp


lemma sort_empty [simp]: "sort xs = [] \<longleftrightarrow> xs = []" for xs :: "string list"
  by (metis set_empty set_sort)

lemma manifest_complete: "mf_complete (build_evidence_manifest inc evs) \<longleftrightarrow> set (in_refs inc) \<subseteq> ev_id ` set evs"
  by (auto simp: build_evidence_manifest_def Let_def filter_empty_conv)

end
