(* ===== verification/Rca_Engine.thy ===== *)
theory Rca_Engine
  imports Rca_Intake
begin

section \<open>The root-cause engine (rca\_engine/engine.py)\<close>

text \<open>
  The pipeline: load the rules, take in the fixture, normalize and order the evidence, evaluate the
  hypotheses, gate them by the manifest, aggregate, recommend. The result is a record; the decoded
  rules file, the wall clock and the libraries of the parts are parameters.
\<close>

definition CONTRACT_VERSION :: string where "CONTRACT_VERSION = ''1.0.0''"
definition ENGINE_VERSION :: string where "ENGINE_VERSION = ''rca_engine.rules_engine/1.0.0''"

definition DEFAULT_POLICY :: "(string, json) dict" where
  "DEFAULT_POLICY = [(''max_hypotheses'', JInt 10), (''min_independent_sources_default'', JInt 2),
     (''dedup_window_seconds'', JInt 1), (''clock_skew_threshold_seconds'', JInt 5)]"

record rca_result =
  rr_contract :: string
  rr_engine :: string
  rr_rules :: json
  rr_incident :: string
  rr_target :: string
  rr_origin :: string
  rr_timeline :: timeline
  rr_event_count :: nat
  rr_manifest :: manifest
  rr_hypotheses :: "hypothesis list"
  rr_root_cause :: root_cause
  rr_recommendations :: "recommendation list"
  rr_domains :: "json list"
  rr_issues :: "validation_issue list"
  rr_limitations :: "string list"
  rr_generated_at :: string

definition merge_policy :: "(string, json) dict \<Rightarrow> (string, json) dict" where
  "merge_policy policy = fold (\<lambda>(k, v). dset k v) policy DEFAULT_POLICY"

text \<open>The latest timestamp, or \<open>UNKNOWN\<close>.\<close>

definition analysis_origin :: "evidence list \<Rightarrow> string" where
  "analysis_origin es = (let ts = List.map_filter ev_utc es in if ts = [] then ''UNKNOWN'' else Max (set ts))"

definition limitations_of :: "(json \<Rightarrow> string) \<Rightarrow> (string, json) dict \<Rightarrow> json list \<Rightarrow> validation_issue list \<Rightarrow> manifest \<Rightarrow> timeline
    \<Rightarrow> py_exc + string list" where
  "limitations_of pstr policy truncated issues m T =
     bindE (mapE as_str truncated) (\<lambda>ids. Inr (
       (if ids \<noteq> [] then [str_of_nat (length ids) @ '' additional candidate rule(s) matched but were '' @
          ''truncated by policy.max_hypotheses='' @ fmt pstr (dget_or policy ''max_hypotheses'' JNull) @ '': '' @ join_on '', '' ids] else []) @
       (if issues \<noteq> [] then [str_of_nat (length issues) @
          '' evidence item(s) excluded from the timeline due to unparseable timestamps.''] else []) @
       (if \<not> mf_complete m then [''evidence_manifest completeness=INCOMPLETE_REFS - no hypothesis may reach '' @
          ''CONFIRMED while a declared evidence reference is missing.''] else []) @
       (if tl_degraded T then [''timeline_confidence degraded - see timeline.degradation_reasons.''] else []) @
       [''Synthetic fixture-based deterministic rule evaluation - not a substitute for production '' @
        ''validation or professional DBA judgment.'']))"

definition run_rca :: "(string \<Rightarrow> string) \<Rightarrow> clock_lib \<Rightarrow> (json \<Rightarrow> string) \<Rightarrow> string \<Rightarrow> json \<Rightarrow> json \<Rightarrow> (string, json) dict
    \<Rightarrow> rca_error + rca_result \<times> token_map" where
  "run_rca sha L pstr generated_at fixture rules_data policy0 =
     (let policy = merge_policy policy0 in
      bindE (load_rules rules_data) (\<lambda>catalog.
      bindE (validate_and_sanitize sha fixture catalog) (\<lambda>(inc, raw, tokens).
      bindE (rcrash (normalize_evidence L raw policy)) (\<lambda>(es, issues).
      bindE (rcrash (build_timeline L es policy)) (\<lambda>T.
      let m = build_evidence_manifest inc raw in
      bindE (generate_hypotheses pstr (in_id inc) catalog es policy) (\<lambda>(found, truncated).
      let hs = apply_evidence_completeness_gate found m; rc = aggregate_root_cause (in_id inc) hs in
      bindE (build_recommendations catalog hs rc) (\<lambda>recs.
      bindE (rcrash (cross_domain_domains_involved es hs)) (\<lambda>doms.
      bindE (rcrash (limitations_of pstr policy truncated issues m T)) (\<lambda>lims.
      bindE (rcrash (jreq catalog ''rules_version'')) (\<lambda>version.
      Inr (\<lparr> rr_contract = CONTRACT_VERSION, rr_engine = ENGINE_VERSION, rr_rules = version, rr_incident = in_id inc,
         rr_target = in_target inc, rr_origin = analysis_origin es, rr_timeline = T, rr_event_count = length (tl_events T),
         rr_manifest = m, rr_hypotheses = hs, rr_root_cause = rc, rr_recommendations = recs, rr_domains = doms,
         rr_issues = issues, rr_limitations = lims, rr_generated_at = generated_at \<rparr>, tokens)))))))))))"

lemma run_rca_steps:
  assumes "run_rca sha L pstr at0 fixture rules_data policy0 = Inr (res, tokens)"
  obtains catalog inc raw es issues found truncated where
    "load_rules rules_data = Inr catalog" "validate_and_sanitize sha fixture catalog = Inr (inc, raw, tokens)"
    "normalize_evidence L raw (merge_policy policy0) = Inr (es, issues)"
    "build_timeline L es (merge_policy policy0) = Inr (rr_timeline res)"
    "generate_hypotheses pstr (in_id inc) catalog es (merge_policy policy0) = Inr (found, truncated)"
    "rr_manifest res = build_evidence_manifest inc raw"
    "rr_hypotheses res = apply_evidence_completeness_gate found (rr_manifest res)"
    "rr_root_cause res = aggregate_root_cause (in_id inc) (rr_hypotheses res)"
    "build_recommendations catalog (rr_hypotheses res) (rr_root_cause res) = Inr (rr_recommendations res)"
    "rr_origin res = analysis_origin es" "rr_issues res = issues" "rr_incident res = in_id inc"
  using assms that unfolding run_rca_def Let_def by (clarsimp simp: bindE_Inr)

lemma gate_keeps_lists:
  "h \<in> set (apply_evidence_completeness_gate hs m) \<Longrightarrow>
   \<exists>h0 \<in> set hs. hy_supporting h = hy_supporting h0 \<and> hy_contradicting h = hy_contradicting h0 \<and> hy_critical h = hy_critical h0 \<and>
     (hy_status h = H_CONFIRMED \<longrightarrow> hy_status h0 = H_CONFIRMED \<and> mf_complete m)"
  by (auto simp: apply_evidence_completeness_gate_def cap_hypothesis_def split: if_splits)

lemma generated_ok:
  assumes "generate_hypotheses pstr inc catalog items policy = Inr (hs, dropped)" and "h \<in> set hs"
  shows "set (hy_supporting h) \<union> set (hy_contradicting h) \<subseteq> ev_id ` set items \<and> (hy_status h = H_CONFIRMED \<longrightarrow> \<not> hy_critical h)"
proof -
  from generated_candidate [OF assms] obtain rule where c: "candidate_hypothesis pstr inc items rule = Inr (Some h)" by blast
  obtain r m where r: "evaluate_rule pstr rule items = Inr r" "status_and_confidence r m = Inr (hy_status h, hy_confidence h)"
    "hy_supporting h = er_supporting r" "hy_contradicting h = er_contradicting r" "hy_critical h = er_critical r"
    by (rule candidate_ok [OF c])
  obtain ss cs where "set (er_supporting r) = ev_id ` matching ss items" "set (er_contradicting r) = ev_id ` matching cs items"
    by (rule evaluate_rule_ok [OF r(1)])
  moreover have "matching ss items \<subseteq> set items" "matching cs items \<subseteq> set items" by (auto simp: matching_def)
  moreover have "hy_status h = H_CONFIRMED \<Longrightarrow> \<not> er_critical r" using status_confirmed [of r m "hy_confidence h"] r(2) by simp
  ultimately show ?thesis using r(3-5) by auto
qed

lemma confirmed_root:
  "rc_completeness (aggregate_root_cause inc hs) = RC_CONFIRMED \<Longrightarrow> \<exists>h \<in> set hs. hy_status h = H_CONFIRMED"
  by (auto simp: aggregate_root_cause_def with_status_def Let_def filter_empty_conv split: if_splits)

lemma origin_latest: "e \<in> set es \<Longrightarrow> ev_utc e = Some t \<Longrightarrow> t \<le> analysis_origin es"
proof -
  assume e: "e \<in> set es" "ev_utc e = Some t"
  then have "t \<in> set (List.map_filter ev_utc es)" by (force simp: List.map_filter_def)
  then have "List.map_filter ev_utc es \<noteq> []" "t \<le> Max (set (List.map_filter ev_utc es))" by auto
  then show ?thesis by (simp add: analysis_origin_def)
qed

lemma event_members:
  assumes "build_timeline L es policy = Inr T" and "ev \<in> set (tl_events T)"
  shows "\<exists>ms. ms \<noteq> [] \<and> set ms \<subseteq> {e \<in> set es. ev_utc e \<noteq> None} \<and> te_last ev = Max (time_of ` set ms) \<and> set (te_ids ev) = ev_id ` set ms"
proof -
  obtain keyed where k: "map snd keyed = timed es" "tl_events T = map event_of (group_by keyed)"
    by (rule build_timeline_ok [OF assms(1)])
  obtain q ms where x: "(q, ms) \<in> set (group_by keyed)" "ev = event_of (q, ms)" using assms(2) by (auto simp: k(2))
  from group_by_members [OF x(1)] have ms: "ms = map snd (filter (\<lambda>y. fst y = q) keyed)" "ms \<noteq> []" by blast+
  have "set ms \<subseteq> set (map snd keyed)" unfolding ms(1) by auto
  then have "set ms \<subseteq> {e \<in> set es. ev_utc e \<noteq> None}" unfolding k(1) by (auto simp: timed_def)
  then show ?thesis using ms(2) by (intro exI [of _ ms]) (simp add: x(2) event_of_def Let_def)
qed


definition example_normal :: evidence where
  "example_normal = \<lparr> ev_id = ''E1'', ev_domain = ''os'', ev_source = ''SRC-hhhhhhhhhhhhhhhh'', ev_type = ''ALERT_TRIGGERED'',
     ev_timestamp = JStr ''pwd=x'', ev_sig = CERTIFIED, ev_canonical = Some ''ORA-27300'', ev_token = None,
     ev_summary = JNull, ev_attributes = [(''nproc'', JInt 100)], ev_utc = None, ev_degraded = False, ev_reason = None, ev_index = 0 \<rparr>"

definition example_issue :: validation_issue where
  "example_issue = \<lparr> vi_type = ''INVALID_TIMESTAMP'', vi_path = ''evidence[0].timestamp'',
     vi_detail = ''unparseable timestamp: '' @ [CHR 0x27] @ ''pwd=x'' @ [CHR 0x27] \<rparr>"

definition example_found :: hypothesis where
  "example_found = \<lparr> hy_id = ''HYP-I-R1'', hy_rule = JStr ''R1'', hy_domain = JStr ''os'', hy_statement = JStr ''s'', hy_chain = [],
     hy_status = H_CONFIRMED, hy_supporting = [''E1''], hy_contradicting = [], hy_critical = False, hy_missing = [],
     hy_sources = 1, hy_temporal = False, hy_confidence = HIGH \<rparr>"

definition example_root :: root_cause where "example_root = aggregate_root_cause ''I'' [example_found]"

definition example_timeline :: timeline where "example_timeline = \<lparr> tl_events = [], tl_degraded = False, tl_reasons = [] \<rparr>"

lemma example_load: "load_rules example_catalog = Inr example_catalog"
  by code_simp

lemma example_normalize:
  "normalize_evidence example_clock [example_taken] (merge_policy []) = Inr ([example_normal], [example_issue])"
  by code_simp

lemma example_time: "build_timeline example_clock [example_normal] (merge_policy []) = Inr example_timeline"
  by code_simp

lemma example_generate:
  "generate_hypotheses (\<lambda>_. []) ''I'' example_catalog [example_normal] (merge_policy []) = Inr ([example_found], [])"
  by code_simp

lemma example_domains: "cross_domain_domains_involved [example_normal] [example_found] = Inr [JStr ''os'']"
  by code_simp

lemmas example_stages = example_load example_normalize example_time example_generate example_domains

lemma example_gated: "apply_evidence_completeness_gate hs (build_evidence_manifest example_incident evs) = hs"
  by (simp add: gate_status(1) manifest_complete example_incident_def)

lemma example_recommends:
  "\<not> isl (build_recommendations example_catalog [example_found] example_root)"
  by code_simp

lemma example_limited: "\<not> isl (limitations_of (\<lambda>_. []) p [] vs m T)"
  by (simp add: limitations_of_def)

lemma example_run:
  "\<exists>res tokens. run_rca example_sha example_clock (\<lambda>_. []) [] (example_fixture ''pwd=x'') example_catalog [] = Inr (res, tokens) \<and>
     rr_issues res = [example_issue]"
proof -
  have inc: "in_id example_incident = ''I''" by (simp add: example_incident_def)
  obtain recs where r: "build_recommendations example_catalog [example_found] example_root = Inr recs"
    using example_recommends by (metis obj_sumE isl_def)
  obtain lims where l: "limitations_of (\<lambda>_. []) (merge_policy []) [] [example_issue]
      (build_evidence_manifest example_incident [example_taken]) example_timeline = Inr lims"
    using example_limited by (metis obj_sumE isl_def)
  have v: "jreq example_catalog ''rules_version'' = Inr (JStr ''1'')"
    by (simp add: example_catalog_def jreq_def)
  have c: "rcrash (Inr x) = Inr x" for x :: 'a by (simp add: rcrash_def)
  show ?thesis
    unfolding run_rca_def Let_def example_stages(1) bindE_simps example_intake_run prod.case example_stages(2) c example_stages(3)
      example_stages(4) example_gated inc example_root_def [symmetric] r example_stages(5) l v
    by simp
qed

text \<open>
  A timestamp that cannot be parsed goes into the report as it was given: the detail of the issue
  quotes the raw value, which no stage has redacted.
\<close>

lemma timestamp_echoed:
  "contains_secret_pattern (Some ''pwd=x'') \<and>
   (\<exists>res tokens u w. run_rca example_sha example_clock (\<lambda>_. []) [] (example_fixture ''pwd=x'') example_catalog [] = Inr (res, tokens) \<and>
     map vi_detail (rr_issues res) = [u @ ''pwd=x'' @ w])"
proof
  show "contains_secret_pattern (Some ''pwd=x'')" by code_simp
  from example_run obtain res tokens where
    r: "run_rca example_sha example_clock (\<lambda>_. []) [] (example_fixture ''pwd=x'') example_catalog [] = Inr (res, tokens)"
      "rr_issues res = [example_issue]" by blast
  then show "\<exists>res tokens u w. run_rca example_sha example_clock (\<lambda>_. []) [] (example_fixture ''pwd=x'') example_catalog [] = Inr (res, tokens) \<and>
     map vi_detail (rr_issues res) = [u @ ''pwd=x'' @ w]"
    by (intro exI [of _ res] exI [of _ tokens] exI [of _ "''unparseable timestamp: '' @ [CHR 0x27]"] exI [of _ "[CHR 0x27]"])
       (simp add: example_issue_def)
qed


text \<open>The wall clock only reaches the field for it: two runs on the same input agree on everything else.\<close>

lemma map_bindE: "map_sum id f (bindE m k) = bindE m (\<lambda>x. map_sum id f (k x))"
  by (cases m) simp_all

lemma run_rca_reproducible:
  "run_rca sha L pstr at1 fixture rules_data policy0 =
   map_sum id (\<lambda>(res, tokens). (res\<lparr>rr_generated_at := at1\<rparr>, tokens)) (run_rca sha L pstr at0 fixture rules_data policy0)"
  unfolding run_rca_def Let_def map_bindE by (simp add: map_bindE prod.case_distrib [of "map_sum id _"])

end
