(* ===== verification/Safe_Ids.thy ===== *)
theory Safe_Ids
  imports Safety
begin

section \<open>Identifiers that are certainly safe\<close>

text \<open>
  \<open>is_safe_id\<close> runs six secret patterns over every segment of an identifier. This theory gives a
  sufficient condition on its characters alone: a harmless text lacks a character that each of
  the structured patterns needs, and a plain text has no long word either. \<open>id_check\<close> is the condition for a whole identifier,
  and it is cheap to evaluate.
\<close>

subsection \<open>A character that every match contains\<close>

definition must :: "(char \<Rightarrow> bool) \<Rightarrow> rx \<Rightarrow> bool" where
  "must f r \<longleftrightarrow> (\<forall>p s q. mt p s q r \<longrightarrow> (\<exists>c \<in> set s. f c))"

lemma must_Cls: "(\<And>c. g c \<Longrightarrow> f c) \<Longrightarrow> must f (Cls g)"
  by (auto simp: must_def)

lemma must_Seq: "must f r \<or> must f s \<Longrightarrow> must f (Seq r s)"
  by (fastforce simp: must_def mt_Seq_iff)

lemma must_seqs: "r \<in> set rs \<Longrightarrow> must f r \<Longrightarrow> must f (seqs rs)"
  by (induction rs rule: seqs.induct) (auto intro: must_Seq)

lemma must_lit: "c \<in> set t \<Longrightarrow> f c \<Longrightarrow> must f (lit t)"
  by (auto simp: must_def)

lemma must_ilit: "x \<in> set (lower t) \<Longrightarrow> must (\<lambda>c. lower_char c = x) (ilit t)"
  unfolding must_def mt_ilit lower_def by (metis (no_types, lifting) in_set_conv_nth length_map nth_map nth_mem)

lemma search_must: "search r s \<Longrightarrow> must f r \<Longrightarrow> \<exists>c \<in> set s. f c"
  unfolding search_iff must_def by fastforce

lemma mt_Rep_all: "list_all f w \<Longrightarrow> m \<le> length w \<Longrightarrow> length w \<le> m + n \<Longrightarrow> mt p w q (Rep m n (Cls f))"
proof (induction m arbitrary: w p)
  case 0
  then show ?case
  proof (induction n arbitrary: w p)
    case (Suc n)
    show ?case
    proof (cases w)
      case (Cons c v)
      with Suc.prems Suc.IH [of v "Some c"] have "mt (Some c) v q (Rep 0 n (Cls f))" by simp
      with Suc.prems Cons mt_RepO [of p "[c]" v q "Cls f" n] show ?thesis by simp
    qed (simp add: mt_Rep0)
  qed (simp add: mt_Rep0)
next
  case (Suc m)
  then obtain c v where w: "w = c # v" by (cases w) auto
  with Suc have "mt (Some c) v q (Rep m n (Cls f))" by simp
  with Suc.prems w mt_RepS [of p "[c]" v q "Cls f" m n] show ?case by simp
qed

subsection \<open>Plain texts\<close>

definition harmless :: "string \<Rightarrow> bool" where
  "harmless s \<longleftrightarrow> (list_all (\<lambda>c. c \<notin> set '':='') s \<or> list_all (\<lambda>c. lower_char c \<notin> set ''pso'') s) \<and>
     \<not> list_all (\<lambda>x. x \<in> set s) ''@:/'' \<and> \<not> list_all (\<lambda>x. x \<in> set s) ''-BEGIN'' \<and> (list_all (\<lambda>c. \<not> is_space c) s \<or> \<not> list_all (\<lambda>x. x \<in> set (lower s)) ''bear'') \<and>
     \<not> list_all (\<lambda>x. x \<in> set s) ''KI'' \<and> runs_below is_hex 32 s"

definition plain :: "string \<Rightarrow> bool" where
  "plain s \<longleftrightarrow> harmless s \<and> runs_below token_char 20 s"

lemma must_alts: "(\<And>r. r \<in> set rs \<Longrightarrow> must f r) \<Longrightarrow> must f (alts rs)"
  unfolding must_def mt_alts by blast

lemma must_mono: "must f r \<Longrightarrow> (\<And>c. f c \<Longrightarrow> g c) \<Longrightarrow> must g r"
  unfolding must_def by blast

text \<open>A key-value secret has a separator, and a keyword with one of three letters.\<close>

lemma key_value_needs: "must (\<lambda>c. c \<in> set '':='') KEY_VALUE_SECRET" "must (\<lambda>c. lower_char c \<in> set ''pso'') KEY_VALUE_SECRET"
proof -
  show "must (\<lambda>c. c \<in> set '':='') KEY_VALUE_SECRET"
    unfolding KEY_VALUE_SECRET_def by (rule must_seqs [of "Cls (\<lambda>c. c \<in> set '':='')"]) (simp, rule must_Cls)
  let ?f = "\<lambda>c. lower_char c \<in> set ''pso''"
  let ?api = "seqs [ilit ''api'', opt (Cls (\<lambda>c. c \<in> set ''_-'')), ilit ''key'']"
  let ?ks = "[ilit ''password'', ilit ''pwd'', ilit ''passwd'', ilit ''secret'', ?api, ilit ''apikey'', ilit ''token'', ilit ''authorization'']"
  have w: "must ?f (ilit t)" if "x \<in> set (lower t)" "x \<in> set ''pso''" for x t
    using must_ilit [OF that(1)] by (rule must_mono) (use that(2) in simp)
  have l: "list_ex (\<lambda>x. x \<in> set ''pso'') (lower t)" if "t \<in> set [''password'', ''pwd'', ''passwd'', ''secret'', ''api'', ''apikey'', ''token'', ''authorization'']" for t
  proof -
    have "list_all (\<lambda>t. list_ex (\<lambda>x. x \<in> set ''pso'') (lower t)) [''password'', ''pwd'', ''passwd'', ''secret'', ''api'', ''apikey'', ''token'', ''authorization'']"
      by code_simp
    with that show ?thesis unfolding list_all_iff by blast
  qed
  have k: "must ?f (ilit t)" if "t \<in> set [''password'', ''pwd'', ''passwd'', ''secret'', ''api'', ''apikey'', ''token'', ''authorization'']" for t
    using l [OF that] w unfolding list_ex_iff by blast
  have "must ?f (alts ?ks)"
  proof (rule must_alts)
    fix r assume "r \<in> set ?ks"
    moreover have "must ?f ?api" by (rule must_seqs [of "ilit ''api''"]) (simp, rule k, simp)
    ultimately show "must ?f r" using k by auto
  qed
  then show "must ?f KEY_VALUE_SECRET"
    unfolding KEY_VALUE_SECRET_def by (rule must_seqs [rotated]) simp
qed

lemma harmless_not_structured:
  assumes "harmless s"
  shows "\<not> structured_secret s"
proof -
  have p: "list_all (\<lambda>c. c \<notin> set '':='') s \<or> list_all (\<lambda>c. lower_char c \<notin> set ''pso'') s"
    "\<not> (\<forall>x \<in> set ''-BEGIN''. x \<in> set s)" "(\<forall>c \<in> set s. \<not> is_space c) \<or> \<not> (\<forall>x \<in> set ''bear''. x \<in> set (lower s))" "\<not> (\<forall>x \<in> set ''KI''. x \<in> set s)" "runs_below is_hex 32 s"
    using assms unfolding harmless_def list_all_iff by blast+
  have "\<not> search KEY_VALUE_SECRET s"
    using search_must [of KEY_VALUE_SECRET s] key_value_needs p(1) by (metis list_all_iff)
  moreover have "\<not> search BEARER_TOKEN s"
  proof
    assume b: "search BEARER_TOKEN s"
    have "x \<in> set (lower s)" if "x \<in> set ''bear''" for x
    proof -
      have "must (\<lambda>c. lower_char c = x) BEARER_TOKEN"
        unfolding BEARER_TOKEN_def
        by (rule must_seqs [of "ilit ''Bearer''"], simp, rule must_ilit) (use that in \<open>auto simp: lower_def, code_simp+\<close>)
      from search_must [OF b this] show ?thesis by (auto simp: lower_def)
    qed
    moreover have "must is_space BEARER_TOKEN"
      unfolding BEARER_TOKEN_def
      by (rule must_seqs [of "plus1 space_rx"]) (simp, simp add: plus1_def space_rx_def must_Seq must_Cls)
    ultimately show False using search_must [OF b] p(3) by blast
  qed
  moreover have "\<not> search AWS_ACCESS_KEY s"
  proof
    assume a: "search AWS_ACCESS_KEY s"
    have "x \<in> set s" if "x \<in> set ''KI''" for x
    proof -
      have "must (\<lambda>c. c = x) AWS_ACCESS_KEY"
        unfolding AWS_ACCESS_KEY_def
        by (rule must_seqs [of "lit ''AKIA''"], simp, rule must_lit [of x]) (use that in auto)
      from search_must [OF a this] show ?thesis by auto
    qed
    with p show False by blast
  qed
  moreover have "\<not> search PEM_PRIVATE_KEY s"
  proof
    assume a: "search PEM_PRIVATE_KEY s"
    have "x \<in> set s" if "x \<in> set ''-BEGIN''" for x
    proof -
      have "must (\<lambda>c. c = x) PEM_PRIVATE_KEY"
        unfolding PEM_PRIVATE_KEY_def by (rule must_seqs [of "lit ''-----BEGIN ''"], simp, rule must_lit [of x]) (use that in auto)
      from search_must [OF a this] show ?thesis by auto
    qed
    with p show False by blast
  qed
  moreover have "\<not> search LONG_HEX_HASH s"
  proof
    assume "search LONG_HEX_HASH s"
    then obtain a b c where b: "s = a @ b @ c" "32 \<le> length b" "list_all is_hex b"
      unfolding search_iff LONG_HEX_HASH_def by (auto simp: mt_Bnd_Seq mt_Seq_Bnd mt_run)
    from runs_below_no_match [OF p(5) _ b(1,2)] b(3) show False by simp
  qed
  ultimately show ?thesis by (simp add: structured_secret_def STRUCTURED_PATTERNS_def)
qed

lemma findall_runs: "runs_below f k s \<Longrightarrow> 0 < k \<Longrightarrow> findall e (run_rx f k) p s = []"
proof (induction s arbitrary: p)
  case (Cons c t)
  have "match_at e (run_rx f k) p (c # t) = None"
  proof (rule ccontr)
    assume "match_at e (run_rx f k) p (c # t) \<noteq> None"
    then obtain n where n: "match_at e (run_rx f k) p (c # t) = Some n" by blast
    from match_at_Some [OF n] have m: "k \<le> length (take n (c # t))" "list_all f (take n (c # t))" unfolding mt_run by blast+
    have "c # t = [] @ take n (c # t) @ drop n (c # t)" by (simp only: append_take_drop_id append_Nil)
    from runs_below_no_match [OF Cons.prems(1,2) this m(1)] m(2) show False by blast
  qed
  with Cons show ?case by (simp add: findall_steps)
qed (simp add: findall_steps)

lemma harmless_no_credentials: "harmless s \<Longrightarrow> \<not> search CONNECTION_STRING_CREDENTIALS s"
proof
  assume p: "harmless s" and a: "search CONNECTION_STRING_CREDENTIALS s"
  have "x \<in> set s" if x: "x \<in> set ''@:/''" for x
  proof -
    have "must (\<lambda>c. c = x) (lit ''://'') \<or> must (\<lambda>c. c = x) (lit ''@'')" using x must_lit [of x _ "\<lambda>c. c = x"] by (auto simp del: lit.simps)
    then have "must (\<lambda>c. c = x) CONNECTION_STRING_CREDENTIALS"
      unfolding CONNECTION_STRING_CREDENTIALS_def Let_def
      by (elim disjE) (rule must_seqs [of "lit ''://''"], simp, assumption, rule must_seqs [of "lit ''@''"], simp, assumption)
    from search_must [OF a this] show ?thesis by auto
  qed
  with p show False unfolding harmless_def list_all_iff by blast
qed

lemma plain_not_secret: "plain s \<Longrightarrow> \<not> contains_secret_pattern (Some s)"
  using harmless_no_credentials harmless_not_structured findall_runs [of token_char 20 s]
  by (simp add: contains_secret_pattern_def plain_def BARE_TOKEN_WORD_def)

subsection \<open>The shape of an identifier\<close>

lemma id_shape: "p \<in> set ID_PREFIXES \<Longrightarrow> list_all id_char b \<Longrightarrow> 1 \<le> length b \<Longrightarrow> length b \<le> 60 \<Longrightarrow>
    match_dollar ID_SHAPE (p @ ''-'' @ b)"
proof -
  assume a: "p \<in> set ID_PREFIXES" "list_all id_char b" "1 \<le> length b" "length b \<le> 60"
  have "mt x b None (Rep 1 59 (Cls id_char))" for x by (rule mt_Rep_all) (use a in simp_all)
  then have "mt x (''-'' @ b) None (Seq (lit ''-'') (Rep 1 59 (Cls id_char)))" for x
    by (intro mt_Seq) (simp_all del: lit.simps)
  moreover have "mt None p q (alts (map lit ID_PREFIXES))" for q using a(1) by (auto simp: mt_alts)
  ultimately have "mt None (p @ ''-'' @ b) None ID_SHAPE" unfolding ID_SHAPE_def seqs.simps by (intro mt_Seq [of _ p]) blast+
  then show ?thesis by (simp add: match_dollar_iff)
qed

definition id_check :: "string list \<Rightarrow> string \<Rightarrow> bool" where
  "id_check ps s \<longleftrightarrow> (let p = takeWhile (\<lambda>c. c \<noteq> CHR ''-'') s; b = drop (Suc (length p)) s in
     s = p @ ''-'' @ b \<and> p \<in> set ID_PREFIXES \<and> p \<in> set ps \<and> list_all id_char b \<and> 1 \<le> length b \<and> length b \<le> 60 \<and>
     (case dget STRICT_BODY p of None \<Rightarrow> True | Some r \<Rightarrow> match_dollar r b) \<and>
     list_all (\<lambda>seg. length seg \<le> MAX_ID_SEGMENT \<and> plain seg) (split_by id_sep s) \<and>
     plain (map (\<lambda>c. if id_sep c then CHR '' '' else c) s))"

lemma id_check_safe: "id_check ps s \<Longrightarrow> is_safe_id (JStr s) (Some ps)"
proof -
  define p where "p = takeWhile (\<lambda>c. c \<noteq> CHR ''-'') s"
  define b where "b = drop (Suc (length p)) s"
  assume "id_check ps s"
  then have c: "s = p @ ''-'' @ b" "p \<in> set ID_PREFIXES" "p \<in> set ps" "list_all id_char b" "1 \<le> length b" "length b \<le> 60"
    "case dget STRICT_BODY p of None \<Rightarrow> True | Some r \<Rightarrow> match_dollar r b"
    "list_all (\<lambda>seg. length seg \<le> MAX_ID_SEGMENT \<and> plain seg) (split_by id_sep s)"
    "plain (map (\<lambda>c. if id_sep c then CHR '' '' else c) s)"
    unfolding id_check_def Let_def p_def [symmetric] b_def [symmetric] by blast+
  have "list_all safe_segment (split_by id_sep s)"
    using c(8) plain_not_secret by (auto simp: list_all_iff safe_segment_def)
  moreover have "match_dollar ID_SHAPE s" using id_shape [OF c(2,4,5,6)] c(1) by simp
  ultimately show ?thesis
    using c(3,7) plain_not_secret [OF c(9)] unfolding is_safe_id_def Let_def json.case p_def [symmetric] b_def [symmetric] by simp
qed

subsection \<open>Texts that pass the audit\<close>

lemma findall_chars: "w \<in> set (findall e r p s) \<Longrightarrow> set w \<subseteq> set s"
proof (induction s arbitrary: p rule: length_induct)
  case (1 s)
  show ?case
  proof (cases s)
    case Nil
    with 1 show ?thesis by (simp add: findall_steps)
  next
    case (Cons c t)
    show ?thesis
    proof (cases "match_at e r p s")
      case None
      with 1 Cons show ?thesis by (fastforce simp: findall_steps)
    next
      case (Some m)
      show ?thesis
      proof (cases m)
        case 0
        with 1 Cons Some show ?thesis by (fastforce simp: findall_steps)
      next
        case (Suc n)
        have "w = c # take n t \<or> w \<in> set (findall e r (Some (last (c # take n t))) (drop n t))"
          using 1(2) Some unfolding Cons Suc by (simp only: findall_steps(4) list.set insert_iff)
        then show ?thesis
        proof
          assume "w = c # take n t"
          then show ?thesis using Cons set_take_subset [of n t] by auto
        next
          assume "w \<in> set (findall e r (Some (last (c # take n t))) (drop n t))"
          moreover have "length (drop n t) < length s" using Cons by simp
          ultimately have "set w \<subseteq> set (drop n t)" using 1(1) by blast
          then show ?thesis using Cons set_drop_subset [of n t] by auto
        qed
      qed
    qed
  qed
qed

lemma harmless_not_structured_secret: "harmless s \<Longrightarrow> \<not> contains_structured_secret s"
proof -
  assume p: "harmless s"
  have "findall Longest KEY_VALUE_SECRET None s = []"
  proof (rule ccontr)
    assume "findall Longest KEY_VALUE_SECRET None s \<noteq> []"
    then obtain w where w: "w \<in> set (findall Longest KEY_VALUE_SECRET None s)" by (meson last_in_set)
    obtain q q' where q: "mt q w q' KEY_VALUE_SECRET" using findall_match [OF w] by blast
    from key_value_needs q obtain c d where "c \<in> set w" "c \<in> set '':=''" "d \<in> set w" "lower_char d \<in> set ''pso''"
      unfolding must_def by blast
    with findall_chars [OF w] p show False unfolding harmless_def list_all_iff by blast
  qed
  then show ?thesis using harmless_not_structured [OF p] harmless_no_credentials [OF p]
    by (simp add: contains_structured_secret_def structured_secret_def STRUCTURED_PATTERNS_def)
qed

lemma mapE_units: "(\<And>x. x \<in> set xs \<Longrightarrow> f x = Inr ()) \<Longrightarrow> bindE (mapE f xs) (\<lambda>_. Inr ()) = Inr ()"
  by (induction xs) (auto simp: bindE_Inr)

lemma audit_passes:
  "(\<And>s. s \<in> set (jstrings v) \<Longrightarrow> \<not> contains_structured_secret s) \<Longrightarrow> d + jdepth v \<le> 12 \<Longrightarrow> audit_strings v d = Inr ()"
proof (induction v arbitrary: d)
  case (JArr xs)
  have "d \<le> 12" using JArr.prems(2) by linarith
  moreover have "audit_strings x (Suc d) = Inr ()" if "x \<in> set xs" for x
  proof (rule JArr.IH [OF that])
    have "jdepth (JArr xs) \<le> 12 - d" using JArr.prems(2) by linarith
    with that have "Suc (jdepth x) \<le> 12 - d" by simp
    then show "Suc d + jdepth x \<le> 12" by linarith
  qed (use JArr.prems(1) that in auto)
  ultimately show ?case by (subst audit_strings.simps) (simp add: mapE_units)
next
  case (JObj kvs)
  have d: "d \<le> 12" using JObj.prems(2) by linarith
  have "(if contains_structured_secret (fst kv) then adverr E_SANITIZATION_CDK else audit_strings (snd kv) (Suc d)) = Inr ()"
    if kv: "kv \<in> set kvs" for kv
  proof -
    have "audit_strings (snd kv) (Suc d) = Inr ()"
    proof (rule JObj.IH [OF kv])
      show "snd kv \<in> Basic_BNFs.snds kv" by (cases kv) (simp add: snds.simps)
      have "jdepth (JObj kvs) \<le> 12 - d" using JObj.prems(2) by linarith
      with kv have "Suc (jdepth (snd kv)) \<le> 12 - d" by simp
      then show "Suc d + jdepth (snd kv) \<le> 12" by linarith
    qed (use JObj.prems(1) kv in auto)
    moreover have "\<not> contains_structured_secret (fst kv)" using JObj.prems(1) [of "fst kv"] kv by auto
    ultimately show ?thesis by simp
  qed
  with d show ?case by (subst audit_strings.simps) (simp add: mapE_units)
qed (subst audit_strings.simps, simp)+

text \<open>A cheap sufficient condition for the audit of a value.\<close>

fun shallow :: "nat \<Rightarrow> json \<Rightarrow> bool" where
  "shallow d (JArr xs) = (0 < d \<and> list_all (shallow (d - 1)) xs)"
| "shallow d (JObj kvs) = (0 < d \<and> list_all (\<lambda>kv. shallow (d - 1) (snd kv)) kvs)"
| "shallow d _ = True"

lemma shallow_depth: "shallow d v \<Longrightarrow> jdepth v \<le> d"
proof (induction d v rule: shallow.induct)
  case (1 d xs)
  then have "Suc (jdepth x) \<le> d" if "x \<in> set xs" for x using that by (fastforce simp: list_all_iff)
  then show ?case by simp
next
  case (2 d kvs)
  then have "Suc (jdepth (snd x)) \<le> d" if "x \<in> set kvs" for x using that by (fastforce simp: list_all_iff)
  then show ?case by simp
qed (simp_all add: jdepth.simps)

lemma audit_harmless: "list_all harmless (jstrings v) \<Longrightarrow> shallow 12 v \<Longrightarrow> audit_strings v 0 = Inr ()"
  by (rule audit_passes) (use harmless_not_structured_secret shallow_depth in \<open>auto simp: list_all_iff\<close>)

end
