(* ===== verification/Kb_Schema.thy ===== *)
theory Kb_Schema
  imports Safe_Ids Rca_Hypothesis
begin

section \<open>Strict validators and the RCA contract adapter (change\_documentation\_knowledge/schema.py)\<close>

text \<open>
  The advisory package validates its own inputs strictly, and projects an RCA result onto a
  sanitized view. States of the RCA are verified and never repaired; texts are taken from the
  versioned rules catalog. An exception of a built-in operation (a missing catalog field, an
  unhashable value) is \<open>AdvCrash\<close>. \<open>str\<close> of a decoded value is the parameter \<open>pstr\<close>. The Phase 11
  sanitizer is taken to be importable.
\<close>

definition ensure :: "bool \<Rightarrow> 'e \<Rightarrow> 'e + unit" where
  "ensure b e = (if b then Inr () else Inl e)"

lemma ensure_Inr [simp, result_simps]: "ensure b e = Inr u \<longleftrightarrow> b"
  by (simp add: ensure_def)

abbreviation field_err :: "adv_code \<Rightarrow> string \<Rightarrow> adv_error" where
  "field_err c f \<equiv> AdvErr c (Some f)"

abbreviation dkey :: "json \<Rightarrow> string \<Rightarrow> adv_error + json" where
  "dkey v k \<equiv> advcrash (jreq v k)"

abbreviation getn :: "json \<Rightarrow> string \<Rightarrow> json" where
  "getn v k \<equiv> jget_or v k JNull"

text \<open>\<open>s.upper()\<close>, for the letters of ASCII.\<close>

definition upper :: "string \<Rightarrow> string" where
  "upper s = map (\<lambda>c. if is_lower c then char_of (ord c - 32) else c) s"

definition MAX_LIST_ITEMS :: nat where "MAX_LIST_ITEMS = 100"

subsection \<open>Generic strict helpers\<close>

definition req_dict :: "json \<Rightarrow> string \<Rightarrow> adv_error + json" where
  "req_dict v field = (case v of JObj _ \<Rightarrow> Inr v | _ \<Rightarrow> Inl (field_err E_INPUT_INVALID field))"

definition req_list :: "json \<Rightarrow> string \<Rightarrow> nat \<Rightarrow> adv_error + json list" where
  "req_list v field max_items = (case v of
      JArr xs \<Rightarrow> if length xs \<le> max_items then Inr xs else Inl (field_err E_INPUT_INVALID field)
    | _ \<Rightarrow> Inl (field_err E_INPUT_INVALID field))"

definition strict_keys :: "json \<Rightarrow> string list \<Rightarrow> string list \<Rightarrow> string \<Rightarrow> adv_error + unit" where
  "strict_keys obj required optional field = bindE (advcrash (jitems obj)) (\<lambda>kvs.
     ensure (set required \<subseteq> set (dkeys kvs) \<and> set (dkeys kvs) \<subseteq> set required \<union> set optional)
       (field_err E_INPUT_INVALID field))"

definition req_enum :: "json \<Rightarrow> string list \<Rightarrow> string \<Rightarrow> adv_error + string" where
  "req_enum v allowed field = (case v of
      JStr s \<Rightarrow> if s \<in> set allowed then Inr s else Inl (field_err E_INPUT_INVALID field)
    | _ \<Rightarrow> Inl (field_err E_INPUT_INVALID field))"

definition req_bool :: "json \<Rightarrow> string \<Rightarrow> adv_error + bool" where
  "req_bool v field = (case v of JBool b \<Rightarrow> Inr b | _ \<Rightarrow> Inl (field_err E_INPUT_INVALID field))"

definition req_int :: "json \<Rightarrow> string \<Rightarrow> int \<Rightarrow> int \<Rightarrow> adv_error + int" where
  "req_int v field lo hi = (case v of
      JInt i \<Rightarrow> if lo \<le> i \<and> i \<le> hi then Inr i else Inl (field_err E_INPUT_INVALID field)
    | _ \<Rightarrow> Inl (field_err E_INPUT_INVALID field))"

definition req_utc :: "(string \<Rightarrow> bool) \<Rightarrow> json \<Rightarrow> string \<Rightarrow> adv_error + string" where
  "req_utc iso_ok v field = (case v of
      JStr s \<Rightarrow> if is_utc_timestamp iso_ok v then Inr s else Inl (field_err E_INPUT_INVALID field)
    | _ \<Rightarrow> Inl (field_err E_INPUT_INVALID field))"

definition id_list :: "json \<Rightarrow> string list \<Rightarrow> string \<Rightarrow> nat \<Rightarrow> adv_error + string list" where
  "id_list v prefixes field max_items =
     bindE (req_list v field max_items) (\<lambda>items.
     bindE (mapE (\<lambda>x. require_id x (Some prefixes) (Some field)) items) (\<lambda>out.
     if distinct out then Inr out else Inl (field_err E_INPUT_INVALID field)))"

definition text_list :: "json \<Rightarrow> string \<Rightarrow> nat \<Rightarrow> nat \<Rightarrow> adv_error + string list" where
  "text_list v field max_items mlen =
     bindE (req_list v field max_items) (mapE (\<lambda>x. clean_text x mlen (Some field)))"

lemma req_dict_Inr [result_simps]: "req_dict v f = Inr w \<longleftrightarrow> w = v \<and> is_obj v"
  by (auto simp: req_dict_def is_obj_def split: json.splits)

lemma req_list_Inr [result_simps]: "req_list v f n = Inr xs \<longleftrightarrow> v = JArr xs \<and> length xs \<le> n"
  by (auto simp: req_list_def split: json.splits)

lemma req_bool_Inr [result_simps]: "req_bool v f = Inr b \<longleftrightarrow> v = JBool b"
  by (auto simp: req_bool_def split: json.splits)

lemma require_id_Inr: "require_id v ps f = Inr s \<longleftrightarrow> v = JStr s \<and> is_safe_id (JStr s) ps"
  by (auto simp: require_id_def split: json.splits)

lemma id_list_Inr: "id_list v ps f n = Inr ids \<Longrightarrow> distinct ids \<and> length ids \<le> n \<and> v = JArr (map JStr ids) \<and>
    (\<forall>i \<in> set ids. is_safe_id (JStr i) (Some ps))"
proof -
  assume "id_list v ps f n = Inr ids"
  then obtain xs where v: "v = JArr xs" "length xs \<le> n" "distinct ids"
    and m: "mapE (\<lambda>x. require_id x (Some ps) (Some f)) xs = Inr ids"
    unfolding id_list_def bindE_Inr req_list_Inr by (auto split: if_splits)
  from m have "list_all2 (\<lambda>x y. x = JStr y \<and> is_safe_id (JStr y) (Some ps)) xs ids"
    unfolding mapE_Inr_iff require_id_Inr .
  then have "xs = map JStr ids \<and> (\<forall>i \<in> set ids. is_safe_id (JStr i) (Some ps))"
    by (induction rule: list_all2_induct) auto
  with v show ?thesis by auto
qed

subsection \<open>Vocabulary of the RCA contract\<close>

definition SUPPORTED_RCA_CONTRACT_VERSIONS :: "string list" where
  "SUPPORTED_RCA_CONTRACT_VERSIONS = [''1.0.0'']"

definition hex16 :: "string \<Rightarrow> rx" where
  "hex16 prefix = Seq (lit prefix) (Rep 16 0 (Cls (\<lambda>c. is_digit c \<or> btw 97 102 c)))"

definition TOKEN_TGT :: rx where "TOKEN_TGT = hex16 ''TGT-''"
definition TOKEN_SRC :: rx where "TOKEN_SRC = hex16 ''SRC-''"
definition TOKEN_SIG :: rx where "TOKEN_SIG = hex16 ''SIG-''"
definition TS :: rx where "TS = UTC_RE"

definition HYP_STATUSES :: "string list" where
  "HYP_STATUSES = [''OPEN'', ''SUPPORTED'', ''WEAKENED'', ''REJECTED'', ''CONFIRMED'', ''INSUFFICIENT_EVIDENCE'']"

definition RC_STATES :: "string list" where
  "RC_STATES = [''CONFIRMED'', ''PROBABLE'', ''INCONCLUSIVE'', ''INSUFFICIENT_EVIDENCE'']"

definition CONFIDENCES :: "string list" where
  "CONFIDENCES = [''HIGH'', ''MEDIUM'', ''LOW'', ''INSUFFICIENT'']"

definition SIG_STATUSES :: "string list" where
  "SIG_STATUSES = [''CERTIFIED'', ''UNRECOGNIZED_SIGNATURE'', ''INSUFFICIENT_EVIDENCE'']"

text \<open>\<open>v not in S\<close> for a set of strings: an unhashable value raises.\<close>

definition contract_enum :: "json \<Rightarrow> string list \<Rightarrow> string \<Rightarrow> adv_error + string" where
  "contract_enum v allowed field = bindE (advcrash (str_in_set v allowed)) (\<lambda>b. (case v of
      JStr s \<Rightarrow> if b then Inr s else Inl (field_err E_RCA_CONTRACT field)
    | _ \<Rightarrow> Inl (field_err E_RCA_CONTRACT field)))"

lemma contract_enum_Inr [result_simps]: "contract_enum v S f = Inr s \<longleftrightarrow> v = JStr s \<and> s \<in> set S"
  by (cases v) (auto simp: contract_enum_def str_in_set_def advcrash_def)

definition contract_token :: "rx \<Rightarrow> json \<Rightarrow> string \<Rightarrow> adv_error + string" where
  "contract_token r v field = (case v of
      JStr s \<Rightarrow> if match_dollar r s then Inr s else Inl (field_err E_RCA_CONTRACT field)
    | _ \<Rightarrow> Inl (field_err E_RCA_CONTRACT field))"

text \<open>The same for a field that may be \<open>None\<close>.\<close>

definition optional_token :: "rx \<Rightarrow> json \<Rightarrow> string \<Rightarrow> adv_error + string option" where
  "optional_token r v field = (if v = JNull then Inr None else bindE (contract_token r v field) (\<lambda>s. Inr (Some s)))"

subsection \<open>The timeline\<close>

record adapted_event =
  ae_domain :: string
  ae_type :: string
  ae_sig :: string
  ae_canonical :: "string option"
  ae_token :: "string option"
  ae_time :: "string option"
  ae_count :: int
  ae_evidence :: "string list"
  ae_sources :: "string list"
  ae_degraded :: bool

text \<open>A signature declared certified is certified again; any other carries at most a token.\<close>

definition adapt_signature :: "(string \<Rightarrow> string) \<Rightarrow> string \<Rightarrow> string list \<Rightarrow> string \<Rightarrow> json \<Rightarrow> json
    \<Rightarrow> adv_error + string option \<times> string option" where
  "adapt_signature sha incident_id certified sig_status canonical token =
     (if sig_status = ''CERTIFIED'' then (case canonical of
          JStr c \<Rightarrow> (case classify_signature sha (Some c) incident_id certified of
              (CERTIFIED, canon2, _) \<Rightarrow> Inr (canon2, None)
            | _ \<Rightarrow> Inl (field_err E_RCA_CONTRACT ''timeline.canonical_signature''))
        | _ \<Rightarrow> Inl (field_err E_RCA_CONTRACT ''timeline.canonical_signature''))
      else if canonical \<noteq> JNull then Inl (field_err E_RCA_CONTRACT ''timeline.canonical_signature'')
      else bindE (optional_token TOKEN_SIG token ''timeline.signature_token'') (\<lambda>t. Inr (None, t)))"

definition adapt_event :: "(string \<Rightarrow> string) \<Rightarrow> string \<Rightarrow> string list \<Rightarrow> json \<Rightarrow> adv_error + adapted_event" where
  "adapt_event sha incident_id certified ev0 =
     bindE (req_dict ev0 ''timeline.events'') (\<lambda>ev.
     bindE (contract_enum (getn ev ''domain'') ALLOWED_DOMAINS ''timeline.domain'') (\<lambda>domain.
     bindE (contract_enum (getn ev ''event_type'') ALL_EVENT_TYPES ''timeline.event_type'') (\<lambda>etype.
     bindE (contract_enum (getn ev ''signature_status'') SIG_STATUSES ''timeline.signature_status'') (\<lambda>sig.
     bindE (adapt_signature sha incident_id certified sig (getn ev ''canonical_signature'') (getn ev ''signature_token'')) (\<lambda>ct.
     bindE (req_list (jget_or ev ''source_ids'' (JArr [])) ''timeline.source_ids'' 50) (\<lambda>ss.
     bindE (mapE (\<lambda>s. contract_token TOKEN_SRC s ''timeline.source_ids'') ss) (\<lambda>srcs.
     bindE (optional_token TS (getn ev ''timestamp_utc'') ''timeline.timestamp_utc'') (\<lambda>ts.
     bindE (req_int (jget_or ev ''count'' (JInt 1)) ''timeline.count'' 1 1000000) (\<lambda>n.
     bindE (id_list (jget_or ev ''evidence_ids'' (JArr [])) [''EVD''] ''timeline.evidence_ids'' 200) (\<lambda>evds.
       Inr \<lparr> ae_domain = domain, ae_type = etype, ae_sig = sig, ae_canonical = fst ct, ae_token = snd ct, ae_time = ts,
         ae_count = n, ae_evidence = evds, ae_sources = srcs,
         ae_degraded = truthy (jget_or ev ''timeline_degraded'' (JBool False)) \<rparr>))))))))))"

definition adapt_timeline :: "(string \<Rightarrow> string) \<Rightarrow> json \<Rightarrow> string \<Rightarrow> string list \<Rightarrow> adv_error + adapted_event list \<times> bool \<times> string list" where
  "adapt_timeline sha T incident_id certified =
     bindE (req_dict T ''timeline'') (\<lambda>tl.
     bindE (req_list (jget_or tl ''events'' (JArr [])) ''timeline.events'' 500) (\<lambda>evs.
     bindE (mapE (adapt_event sha incident_id certified) evs) (\<lambda>events.
     bindE (req_list (jget_or tl ''degradation_reasons'' (JArr [])) ''timeline.degradation_reasons'' 50) (\<lambda>rs.
     bindE (mapE (\<lambda>r. clean_text r 200 (Some ''timeline.degradation_reasons'')) rs) (\<lambda>reasons.
       Inr (events, truthy (jget_or tl ''degraded'' (JBool False)), reasons))))))"

text \<open>The readers of decoded values, for evaluating an example.\<close>

lemmas json_reads = req_dict_def jget_or_def jget_def or_else_def id_list_def req_list_def require_id_def
  ensure_def str_in_def advcrash_def as_str_def jreq_def str_in_set_def contract_enum_def optional_token_def

end
