(* ===== verification/Kb_Adapter.thy ===== *)
theory Kb_Adapter
  imports Kb_Schema
begin

section \<open>The RCA contract adapter (change\_documentation\_knowledge/schema.py)\<close>

text \<open>
  \<open>adapt_rca_result\<close> in the stages of the function: rules catalog, evidence manifest, timeline,
  hypotheses, root cause, recommendations, findings. A stage sees only what the previous ones
  validated.
\<close>

subsection \<open>The rules catalog as a dictionary\<close>

text \<open>\<open>{r["rule_id"]: r for r in rules}\<close>: a later rule with an equal key replaces the earlier one.\<close>

fun eput :: "json \<Rightarrow> 'a \<Rightarrow> (json \<times> 'a) list \<Rightarrow> (json \<times> 'a) list" where
  "eput k v [] = [(k, v)]"
| "eput k v ((l, w) # d) = (if py_eq k l then (l, v) # d else (l, w) # eput k v d)"

definition index_rule :: "(json \<times> json) list \<Rightarrow> json \<Rightarrow> adv_error + (json \<times> json) list" where
  "index_rule d r = bindE (dkey r ''rule_id'') (\<lambda>k. if unhashable k then Inl (AdvCrash TypeError) else Inr (eput k r d))"

definition catalog_index :: "json \<Rightarrow> adv_error + (json \<times> json) list" where
  "catalog_index rules_catalog =
     bindE (advcrash (jget_attr rules_catalog ''rules'')) (\<lambda>rs.
     bindE (advcrash (py_iter (or_else rs (JArr [])))) (foldE index_rule []))"

definition rule_of :: "(json \<times> json) list \<Rightarrow> string \<Rightarrow> json option" where
  "rule_of d s = map_option snd (List.find (\<lambda>(k, r). k = JStr s) d)"

subsection \<open>Evidence manifest\<close>

record adapted_manifest =
  am_completeness :: string
  am_declared :: "string list"
  am_present :: "string list"
  am_missing :: "string list"

definition disjoint :: "string list \<Rightarrow> string list \<Rightarrow> bool" where
  "disjoint xs ys \<longleftrightarrow> list_all (\<lambda>x. x \<notin> set ys) xs"

definition adapt_manifest :: "json \<Rightarrow> adv_error + adapted_manifest" where
  "adapt_manifest v =
     bindE (req_dict v ''rca.evidence_manifest'') (\<lambda>em.
     let completeness = getn em ''completeness'' in
     bindE (ensure (str_in completeness [''COMPLETE'', ''INCOMPLETE_REFS'']) (field_err E_RCA_CONTRACT ''rca.evidence_manifest.completeness'')) (\<lambda>_.
     bindE (id_list (jget_or em ''declared_refs'' (JArr [])) [''EVD''] ''evidence_manifest.declared_refs'' 500) (\<lambda>declared.
     bindE (id_list (jget_or em ''present_refs'' (JArr [])) [''EVD''] ''evidence_manifest.present_refs'' 500) (\<lambda>present.
     bindE (id_list (jget_or em ''missing_refs'' (JArr [])) [''EVD''] ''evidence_manifest.missing_refs'' 500) (\<lambda>missing.
     bindE (ensure (disjoint missing present \<and> \<not> (completeness = JStr ''COMPLETE'' \<and> missing \<noteq> []))
         (field_err E_RCA_CONTRACT ''rca.evidence_manifest'')) (\<lambda>_.
     bindE (advcrash (as_str completeness)) (\<lambda>c.
       Inr \<lparr> am_completeness = c, am_declared = declared, am_present = present, am_missing = missing \<rparr>)))))))"

subsection \<open>Hypotheses\<close>

record adapted_hyp =
  ah_id :: string
  ah_rule :: string
  ah_domain :: json
  ah_statement :: json
  ah_chain :: "json list"
  ah_status :: string
  ah_supporting :: "string list"
  ah_contradicting :: "string list"
  ah_unresolved :: bool
  ah_missing :: "string list"
  ah_sources :: int
  ah_temporal :: bool
  ah_confidence :: string

text \<open>Whether the statement or the chain differs from the rule's; \<open>or\<close> reads the chain only if the statements agree.\<close>

definition reanchored :: "json \<Rightarrow> json \<Rightarrow> adv_error + bool" where
  "reanchored h rule =
     bindE (dkey rule ''statement'') (\<lambda>st. if \<not> py_eq (getn h ''statement'') st then Inr True
       else bindE (dkey rule ''causal_chain'') (\<lambda>ch. Inr (\<not> py_eq (getn h ''causal_chain'') ch)))"

definition hyp_evidence :: "string list \<Rightarrow> json \<Rightarrow> adv_error + string list \<times> string list" where
  "hyp_evidence known h =
     bindE (id_list (jget_or h ''supporting_evidence_ids'' (JArr [])) [''EVD''] ''hypothesis.supporting_evidence_ids'' 200) (\<lambda>sup.
     bindE (id_list (jget_or h ''contradicting_evidence_ids'' (JArr [])) [''EVD''] ''hypothesis.contradicting_evidence_ids'' 200) (\<lambda>con.
     bindE (ensure (set sup \<union> set con \<subseteq> set known) (field_err E_REFERENCE ''hypothesis.evidence_ids'')) (\<lambda>_. Inr (sup, con))))"

text \<open>Identity of a hypothesis: a known rule, the derived identifier, not seen before, the rule's domain.\<close>

definition hyp_identity :: "(json \<times> json) list \<Rightarrow> string \<Rightarrow> string list \<Rightarrow> json \<Rightarrow> adv_error + string \<times> json \<times> string \<times> json" where
  "hyp_identity catalog incident_id seen h = (case getn h ''rule_id'' of
      JStr rid \<Rightarrow> (case rule_of catalog rid of
          None \<Rightarrow> Inl (field_err E_REFERENCE ''hypothesis.rule_id'')
        | Some rule \<Rightarrow> let hid = ''HYP-'' @ incident_id @ ''-'' @ rid in
            bindE (ensure (getn h ''hypothesis_id'' = JStr hid \<and> hid \<notin> set seen) (field_err E_REFERENCE ''hypothesis.hypothesis_id'')) (\<lambda>_.
            bindE (dkey rule ''domain'') (\<lambda>d.
            bindE (ensure (py_eq (getn h ''domain'') d) (field_err E_RCA_CONTRACT ''hypothesis.domain'')) (\<lambda>_.
            bindE (advcrash (str_in_set d ALLOWED_DOMAINS)) (\<lambda>b.
            bindE (ensure b (field_err E_RCA_CONTRACT ''hypothesis.domain'')) (\<lambda>_. Inr (rid, rule, hid, d)))))))
    | _ \<Rightarrow> Inl (field_err E_REFERENCE ''hypothesis.rule_id''))"

definition adapt_hypothesis :: "(json \<times> json) list \<Rightarrow> string \<Rightarrow> string list \<Rightarrow> string list \<Rightarrow> json \<Rightarrow> adv_error + adapted_hyp \<times> bool" where
  "adapt_hypothesis catalog incident_id known seen h0 =
     bindE (req_dict h0 ''rca.hypotheses'') (\<lambda>h.
     bindE (hyp_identity catalog incident_id seen h) (\<lambda>(rid, rule, hid, domain).
     bindE (contract_enum (getn h ''status'') HYP_STATUSES ''hypothesis.status'') (\<lambda>status.
     bindE (hyp_evidence known h) (\<lambda>(sup, con).
     bindE (req_bool (jget_or h ''unresolved_critical_contradiction'' (JBool False)) ''hypothesis.unresolved'') (\<lambda>unresolved.
     bindE (ensure (\<not> (status = ''CONFIRMED'' \<and> (unresolved \<or> sup = []))) (field_err E_RCA_CONTRACT ''hypothesis.status'')) (\<lambda>_.
     bindE (reanchored h rule) (\<lambda>re.
     bindE (contract_enum (getn h ''confidence'') CONFIDENCES ''hypothesis.confidence'') (\<lambda>conf.
     bindE (req_list (jget_or h ''missing_evidence'' (JArr [])) ''hypothesis.missing_evidence'' 30) (\<lambda>ms.
     bindE (mapE (\<lambda>m. clean_text m 200 (Some ''hypothesis.missing_evidence'')) ms) (\<lambda>missing.
     bindE (dkey rule ''statement'') (\<lambda>st.
     bindE (bindE (dkey rule ''causal_chain'') (\<lambda>c. advcrash (py_iter c))) (\<lambda>chain.
     bindE (req_int (jget_or h ''independent_source_count'' (JInt 0)) ''hypothesis.independent_source_count'' 0 1000) (\<lambda>n.
     bindE (req_bool (jget_or h ''temporal_proof'' (JBool False)) ''hypothesis.temporal_proof'') (\<lambda>tp.
       Inr (\<lparr> ah_id = hid, ah_rule = rid, ah_domain = domain, ah_statement = st, ah_chain = chain, ah_status = status,
         ah_supporting = sup, ah_contradicting = con, ah_unresolved = unresolved, ah_missing = missing, ah_sources = n,
         ah_temporal = tp, ah_confidence = conf \<rparr>, re)))))))))))))))"

definition hyp_step :: "(json \<times> json) list \<Rightarrow> string \<Rightarrow> string list \<Rightarrow> adapted_hyp list \<times> string list \<Rightarrow> json
    \<Rightarrow> adv_error + adapted_hyp list \<times> string list" where
  "hyp_step catalog incident_id known acc h = (case acc of (hyps, warnings) \<Rightarrow>
     bindE (adapt_hypothesis catalog incident_id known (map ah_id hyps) h) (\<lambda>(a, re).
       Inr (hyps @ [a], if re then warnings @ [''HYPOTHESIS_TEXT_REANCHORED_ON_CATALOG''] else warnings)))"

definition adapt_hypotheses :: "(json \<times> json) list \<Rightarrow> string \<Rightarrow> string list \<Rightarrow> json \<Rightarrow> adv_error + adapted_hyp list \<times> string list" where
  "adapt_hypotheses catalog incident_id known v =
     bindE (req_list v ''rca.hypotheses'' 100) (foldE (hyp_step catalog incident_id known) ([], []))"

subsection \<open>Root cause\<close>

record adapted_root =
  ar_id :: string
  ar_completeness :: string
  ar_confirmed :: "string list"
  ar_competing :: "string list"

definition status_of_hyp :: "adapted_hyp list \<Rightarrow> string \<Rightarrow> string option" where
  "status_of_hyp hyps i = map_option ah_status (List.find (\<lambda>h. ah_id h = i) hyps)"

definition root_state_ok :: "string \<Rightarrow> string list \<Rightarrow> adapted_hyp list \<Rightarrow> string \<Rightarrow> bool" where
  "root_state_ok state confirmed hyps completeness =
     (if state = ''CONFIRMED'' then confirmed \<noteq> [] \<and> list_all (\<lambda>i. status_of_hyp hyps i = Some ''CONFIRMED'') confirmed
        \<and> completeness \<noteq> ''INCOMPLETE_REFS''
      else \<not> (confirmed \<noteq> [] \<and> state \<in> set [''INCONCLUSIVE'', ''INSUFFICIENT_EVIDENCE'']))"

definition adapt_root :: "string \<Rightarrow> adapted_hyp list \<Rightarrow> string \<Rightarrow> json \<Rightarrow> adv_error + adapted_root" where
  "adapt_root incident_id hyps completeness v =
     bindE (req_dict v ''rca.root_cause'') (\<lambda>rc.
     let rid = ''RCA-'' @ incident_id @ ''-001'' in
     bindE (ensure (getn rc ''rca_id'' = JStr rid \<and> is_safe_id (JStr rid) (Some [''RCA''])) (field_err E_REFERENCE ''root_cause.rca_id'')) (\<lambda>_.
     bindE (contract_enum (getn rc ''completeness'') RC_STATES ''root_cause.completeness'') (\<lambda>state.
     bindE (id_list (jget_or rc ''confirmed_hypothesis_ids'' (JArr [])) [''HYP''] ''root_cause.confirmed_hypothesis_ids'' 50) (\<lambda>confirmed.
     bindE (id_list (jget_or rc ''competing_hypothesis_ids'' (JArr [])) [''HYP''] ''root_cause.competing_hypothesis_ids'' 50) (\<lambda>competing.
     bindE (ensure (set confirmed \<union> set competing \<subseteq> set (map ah_id hyps)) (field_err E_REFERENCE ''root_cause.hypothesis_ids'')) (\<lambda>_.
     bindE (ensure (root_state_ok state confirmed hyps completeness) (field_err E_RCA_CONTRACT ''root_cause.completeness'')) (\<lambda>_.
       Inr \<lparr> ar_id = rid, ar_completeness = state, ar_confirmed = confirmed, ar_competing = competing \<rparr>)))))))"

subsection \<open>Recommendations\<close>

text \<open>Every manual action of the catalog with its rule and its summary (a key of a set of pairs).\<close>

definition actions_of_rule :: "json \<Rightarrow> adv_error + (json \<times> json \<times> json) list" where
  "actions_of_rule r =
     bindE (dkey r ''rule_id'') (\<lambda>rid.
     bindE (advcrash (jget_attr r ''manual_actions'')) (\<lambda>acts.
     bindE (advcrash (py_iter (or_else acts (JArr [])))) (mapE (\<lambda>a.
       bindE (dkey a ''action_summary'') (\<lambda>s. if unhashable s then Inl (AdvCrash TypeError) else Inr (rid, s, a))))))"

definition catalog_actions :: "(json \<times> json) list \<Rightarrow> adv_error + (json \<times> json \<times> json) list" where
  "catalog_actions catalog = bindE (mapE (\<lambda>(k, r). actions_of_rule r) catalog) (\<lambda>xss. Inr (concat xss))"

record adapted_rec =
  ac_id :: string
  ac_linked :: string
  ac_hyps :: "string list"
  ac_fields :: "(string \<times> json) list"
  ac_requires_change :: bool
  ac_execution :: string
  ac_provenance :: string

definition rec_names :: "string list" where
  "rec_names = [''action_summary'', ''precheck'', ''risk'', ''postcheck'']"

definition same_action :: "json \<Rightarrow> json \<Rightarrow> adv_error + bool" where
  "same_action r a = bindE (anyE (\<lambda>n. bindE (dkey a n) (\<lambda>v. Inr (\<not> py_eq (getn r n) v))) rec_names) (\<lambda>b. Inr (\<not> b))"

text \<open>The text fields: those of the catalog, verbatim, or those of the input, cleaned.\<close>

definition catalog_fields :: "json \<Rightarrow> adv_error + (string \<times> json) list" where
  "catalog_fields a = mapE (\<lambda>n. bindE (dkey a n) (\<lambda>v. Inr (n, v))) rec_names"

definition cleaned_fields :: "json \<Rightarrow> adv_error + (string \<times> json) list" where
  "cleaned_fields r =
     mapE (\<lambda>n. bindE (clean_text (getn r n) 400 (Some (''recommendation.'' @ n))) (\<lambda>t. Inr (n, JStr t))) rec_names"

definition rec_fields :: "(json \<times> json \<times> json) list \<Rightarrow> json \<Rightarrow> adv_error + (string \<times> json) list \<times> bool" where
  "rec_fields acts r =
     bindE (case List.find (\<lambda>(rid, s, a). py_eq s (getn r ''action_summary'')) acts of
         None \<Rightarrow> Inr None
       | Some (rid, s, a) \<Rightarrow> bindE (same_action r a) (\<lambda>b. Inr (if b then Some a else None))) (\<lambda>found. (case found of
         Some a \<Rightarrow> bindE (catalog_fields a) (\<lambda>fs. Inr (fs, True))
       | None \<Rightarrow> bindE (cleaned_fields r) (\<lambda>fs. Inr (fs, False))))"

definition no_executable :: "(string \<times> json) list \<Rightarrow> adv_error + unit" where
  "no_executable fs = foldE (\<lambda>_ (n, v). ensure (\<not> has_executable_content v) (field_err E_UNSAFE_CONTENT (''recommendation.'' @ n))) () fs"

definition hyp_refs :: "(json \<times> json \<times> json) list \<Rightarrow> adapted_hyp list \<Rightarrow> json \<Rightarrow> string list" where
  "hyp_refs acts hyps summary = sort (map ah_id (filter (\<lambda>h. ah_status h \<in> set [''CONFIRMED'', ''SUPPORTED''] \<and>
     list_ex (\<lambda>(rid, s, a). py_eq rid (JStr (ah_rule h)) \<and> py_eq s summary) acts) hyps))"

definition rec_identity :: "string \<Rightarrow> json \<Rightarrow> adv_error + string" where
  "rec_identity rca_id r = (case getn r ''rec_id'' of
      JStr rid \<Rightarrow>
        if match_dollar (seqs [lit (''REC-'' @ rca_id @ ''-''), Rep 3 0 d_rx]) rid \<and> is_safe_id (JStr rid) (Some [''REC''])
        then bindE (ensure (getn r ''linked_to'' = JStr rca_id) (field_err E_REFERENCE ''recommendation.linked_to'')) (\<lambda>_.
             bindE (ensure (getn r ''execution_status'' = JStr ''NOT_EXECUTED'') (field_err E_RCA_CONTRACT ''recommendation.execution_status''))
               (\<lambda>_. Inr rid))
        else Inl (field_err E_REFERENCE ''recommendation.rec_id'')
    | _ \<Rightarrow> Inl (field_err E_REFERENCE ''recommendation.rec_id''))"

definition adapt_recommendation :: "string \<Rightarrow> (json \<times> json \<times> json) list \<Rightarrow> adapted_hyp list \<Rightarrow> json \<Rightarrow> adv_error + adapted_rec \<times> string list" where
  "adapt_recommendation rca_id acts hyps r0 =
     bindE (req_dict r0 ''rca.recommendations'') (\<lambda>r.
     bindE (rec_identity rca_id r) (\<lambda>rid.
     bindE (rec_fields acts r) (\<lambda>(fs, catalogued).
     bindE (no_executable fs) (\<lambda>_.
     bindE (advcrash (mapE as_str (map snd fs))) (\<lambda>texts.
     bindE (req_bool (jget_or r ''requires_change'' (JBool False)) ''recommendation.requires_change'') (\<lambda>change.
       Inr (\<lparr> ac_id = rid, ac_linked = rca_id, ac_hyps = hyp_refs acts hyps (getn r ''action_summary''), ac_fields = fs,
           ac_requires_change = change, ac_execution = ''NOT_EXECUTED'',
           ac_provenance = (if catalogued then ''CATALOGUED'' else ''UNCATALOGUED_SANITIZED'') \<rparr>,
         (if catalogued then [] else [''RECOMMENDATION_TEXT_NOT_IN_RULES_CATALOG'']) @
         (if has_instruction_markers (JStr (join_on '' '' texts)) then [''INSTRUCTION_LIKE_TEXT_TREATED_AS_DATA''] else []))))))))"

definition adapt_recommendations :: "string \<Rightarrow> (json \<times> json \<times> json) list \<Rightarrow> adapted_hyp list \<Rightarrow> json \<Rightarrow> adv_error + adapted_rec list \<times> string list" where
  "adapt_recommendations rca_id acts hyps v =
     bindE (req_list v ''rca.recommendations'' 100) (\<lambda>rs.
     bindE (mapE (adapt_recommendation rca_id acts hyps) rs) (\<lambda>out.
     bindE (ensure (distinct (map (ac_id \<circ> fst) out)) (field_err E_REFERENCE ''recommendation.rec_id'')) (\<lambda>_.
       Inr (map fst out, concat (map snd out)))))"

subsection \<open>Findings and the view\<close>

record finding =
  fn_id :: string
  fn_event :: adapted_event

text \<open>One finding per event of the timeline, numbered from 1; nothing else is a finding.\<close>

definition findings_of :: "string \<Rightarrow> adapted_event list \<Rightarrow> finding list" where
  "findings_of incident_id evs = map (\<lambda>(i, e). \<lparr> fn_id = ''FND-'' @ incident_id @ ''-'' @ pad3 i, fn_event = e \<rparr>)
     (zip [1..<Suc (length evs)] evs)"

definition KNOWN_RCA_FIELDS :: "string list" where
  "KNOWN_RCA_FIELDS = [''contract_version'', ''engine_version'', ''rules_version'', ''incident_id'', ''target_id'',
     ''analysis_origin'', ''timeline'', ''evidence_manifest'', ''hypotheses'', ''root_cause'', ''recommendations'',
     ''cross_domain_domains_involved'', ''validation_issues'', ''limitations'', ''generated_at'']"

record rca_view =
  vw_incident :: string
  vw_target :: "string option"
  vw_contract :: string
  vw_rules_version :: string
  vw_manifest :: adapted_manifest
  vw_events :: "adapted_event list"
  vw_degraded :: bool
  vw_reasons :: "string list"
  vw_findings :: "finding list"
  vw_hyps :: "adapted_hyp list"
  vw_root :: adapted_root
  vw_recs :: "adapted_rec list"
  vw_domains :: "string list"
  vw_limitations :: "string list"
  vw_warnings :: "string list"

text \<open>\<open>known_evidence\<close>: the references present and those the events cite.\<close>

definition known_evidence :: "adapted_manifest \<Rightarrow> adapted_event list \<Rightarrow> string list" where
  "known_evidence m evs = am_present m @ concat (map ae_evidence evs)"

definition adapt_domains :: "json \<Rightarrow> adv_error + string list" where
  "adapt_domains v =
     bindE (req_list v ''rca.domains'' 20) (\<lambda>ds.
     bindE (advcrash (filterE (\<lambda>d. str_in_set d ALLOWED_DOMAINS) ds)) (\<lambda>known. Inr (sort (remdups (strings_among known)))))"

definition adapt_rca_result :: "(string \<Rightarrow> string) \<Rightarrow> (json \<Rightarrow> string) \<Rightarrow> json \<Rightarrow> json \<Rightarrow> adv_error + rca_view" where
  "adapt_rca_result sha pstr rca0 rules_catalog =
     bindE (req_dict rca0 ''rca'') (\<lambda>rca.
     bindE (advcrash (str_in_set (getn rca ''contract_version'') SUPPORTED_RCA_CONTRACT_VERSIONS)) (\<lambda>supported.
     bindE (ensure supported (field_err E_UNSUPPORTED_SCHEMA_VERSION ''rca.contract_version'')) (\<lambda>_.
     bindE (require_id (getn rca ''incident_id'') (Some [''INC'']) (Some ''rca.incident_id'')) (\<lambda>incident_id.
     bindE (optional_token TOKEN_TGT (getn rca ''target_id'') ''rca.target_id'') (\<lambda>target.
     bindE (catalog_index rules_catalog) (\<lambda>catalog.
     bindE (advcrash (collect_certified_signatures rules_catalog)) (\<lambda>certified.
     bindE (adapt_manifest (getn rca ''evidence_manifest'')) (\<lambda>manifest.
     bindE (adapt_timeline sha (jget_or rca ''timeline'' (JObj [])) incident_id certified) (\<lambda>(events, degraded, reasons).
     bindE (adapt_hypotheses catalog incident_id (known_evidence manifest events) (jget_or rca ''hypotheses'' (JArr []))) (\<lambda>(hyps, w1).
     bindE (adapt_root incident_id hyps (am_completeness manifest) (getn rca ''root_cause'')) (\<lambda>rc.
     bindE (catalog_actions catalog) (\<lambda>acts.
     bindE (adapt_recommendations (ar_id rc) acts hyps (jget_or rca ''recommendations'' (JArr []))) (\<lambda>(recs, w2).
     bindE (text_list (jget_or rca ''limitations'' (JArr [])) ''rca.limitations'' 30 300) (\<lambda>limitations.
     bindE (advcrash (jitems rca)) (\<lambda>fields.
     let w3 = (if set (dkeys fields) \<subseteq> set KNOWN_RCA_FIELDS then [] else [''UNKNOWN_RCA_FIELDS_DROPPED'']) in
     bindE (adapt_domains (jget_or rca ''cross_domain_domains_involved'' (JArr []))) (\<lambda>domains.
     bindE (advcrash (as_str (getn rca ''contract_version''))) (\<lambda>contract.
     bindE (clean_text (JStr (fmt pstr (jget_or rules_catalog ''rules_version'' (JStr [])))) 32 None) (\<lambda>version.
       Inr \<lparr> vw_incident = incident_id, vw_target = target, vw_contract = contract, vw_rules_version = version,
         vw_manifest = manifest, vw_events = events, vw_degraded = degraded, vw_reasons = reasons,
         vw_findings = findings_of incident_id events, vw_hyps = hyps, vw_root = rc, vw_recs = recs, vw_domains = domains,
         vw_limitations = limitations, vw_warnings = sort (remdups (w1 @ w2 @ w3)) \<rparr>))))))))))))))))))"

subsection \<open>What the adapter guarantees\<close>

text \<open>A hypothesis of the view against the one of the input: the same state, known evidence, no unsupported confirmation.\<close>

definition hyp_faithful :: "string list \<Rightarrow> adapted_hyp \<Rightarrow> json \<Rightarrow> bool" where
  "hyp_faithful known a j \<longleftrightarrow> jget j ''status'' = Some (JStr (ah_status a)) \<and>
     jget_or j ''supporting_evidence_ids'' (JArr []) = JArr (map JStr (ah_supporting a)) \<and>
     jget_or j ''contradicting_evidence_ids'' (JArr []) = JArr (map JStr (ah_contradicting a)) \<and>
     set (ah_supporting a) \<union> set (ah_contradicting a) \<subseteq> set known \<and>
     (ah_status a = ''CONFIRMED'' \<longrightarrow> ah_supporting a \<noteq> [] \<and> \<not> ah_unresolved a)"

lemma getn_JStr: "getn v k = JStr s \<Longrightarrow> jget v k = Some (JStr s)"
  by (auto simp: jget_or_def or_else_def split: option.splits)

lemma hyp_evidence_known: "hyp_evidence known h = Inr (s, c) \<Longrightarrow> jget_or h ''supporting_evidence_ids'' (JArr []) = JArr (map JStr s) \<and>
    jget_or h ''contradicting_evidence_ids'' (JArr []) = JArr (map JStr c) \<and> set s \<union> set c \<subseteq> set known"
  unfolding hyp_evidence_def bindE_Inr ensure_Inr by (elim exE conjE) (drule id_list_Inr, drule id_list_Inr, simp only: sum.inject prod.inject simp_thms)

lemma hyp_identity_new: "hyp_identity cat inc seen h = Inr (rid, rule, hid, d) \<Longrightarrow> hid \<notin> set seen"
  by (auto simp: hyp_identity_def bindE_Inr Let_def split: json.splits option.splits)

lemma adapt_hypothesis_ok:
  assumes "adapt_hypothesis cat inc known seen j = Inr (a, re)"
  shows "hyp_faithful known a j \<and> ah_id a \<notin> set seen"
  using assms
  unfolding adapt_hypothesis_def bindE_Inr ensure_Inr req_dict_Inr contract_enum_Inr split_paired_Ex case_prod_conv
    sum.inject prod.inject
  apply (elim exE conjE)
  apply (hypsubst, drule hyp_evidence_known, drule hyp_identity_new, drule getn_JStr)
  apply (unfold hyp_faithful_def adapted_hyp.simps)
  apply (intro conjI; (assumption | blast))
  done

lemma hyp_step_ok:
  assumes "hyp_step cat inc known (hs, w) j = Inr (hs', w')"
  shows "\<exists>a. hs' = hs @ [a] \<and> hyp_faithful known a j \<and> ah_id a \<notin> set (map ah_id hs)"
proof -
  from assms obtain a re where "adapt_hypothesis cat inc known (map ah_id hs) j = Inr (a, re)" and "hs' = hs @ [a]"
    by (auto simp: hyp_step_def bindE_Inr)
  with adapt_hypothesis_ok show ?thesis by blast
qed

lemma hyp_fold_ok:
  "foldE (hyp_step cat inc known) (hs, w) js = Inr (hs', w') \<Longrightarrow> distinct (map ah_id hs) \<Longrightarrow>
     \<exists>new. hs' = hs @ new \<and> list_all2 (hyp_faithful known) new js \<and> distinct (map ah_id hs')"
proof (induction js arbitrary: hs w)
  case (Cons j js)
  from Cons.prems(1) obtain h1 w1 where st: "hyp_step cat inc known (hs, w) j = Inr (h1, w1)"
    and rest: "foldE (hyp_step cat inc known) (h1, w1) js = Inr (hs', w')" by (auto simp: bindE_Inr)
  from hyp_step_ok [OF st] obtain a where a: "h1 = hs @ [a]" "hyp_faithful known a j" "ah_id a \<notin> set (map ah_id hs)" by blast
  with Cons.prems(2) have "distinct (map ah_id h1)" by simp
  from Cons.IH [OF rest this] obtain new where "hs' = h1 @ new" "list_all2 (hyp_faithful known) new js" "distinct (map ah_id hs')"
    by blast
  with a show ?case by (intro exI [of _ "a # new"]) simp
qed simp

lemma adapt_hypotheses_ok:
  assumes "adapt_hypotheses cat inc known v = Inr (hs, w)"
  shows "\<exists>js. v = JArr js \<and> list_all2 (hyp_faithful known) hs js \<and> distinct (map ah_id hs)"
proof -
  from assms obtain js where v: "v = JArr js" and f: "foldE (hyp_step cat inc known) ([], []) js = Inr (hs, w)"
    unfolding adapt_hypotheses_def bindE_Inr req_list_Inr by blast
  from hyp_fold_ok [OF f] v show ?thesis by simp
qed

text \<open>A root cause is declared confirmed only with confirmed hypotheses and a complete manifest.\<close>

lemma adapt_root_ok:
  assumes "adapt_root inc hs mc v = Inr rc"
  shows "jget v ''completeness'' = Some (JStr (ar_completeness rc)) \<and> root_state_ok (ar_completeness rc) (ar_confirmed rc) hs mc \<and>
    set (ar_confirmed rc) \<union> set (ar_competing rc) \<subseteq> set (map ah_id hs)"
  using assms unfolding adapt_root_def bindE_Inr Let_def ensure_Inr req_dict_Inr contract_enum_Inr
  by (elim exE conjE) (simp add: getn_JStr, hypsubst, simp)

lemma adapt_manifest_ok: "adapt_manifest v = Inr m \<Longrightarrow> am_completeness m \<in> {''COMPLETE'', ''INCOMPLETE_REFS''} \<and>
    (am_completeness m = ''COMPLETE'' \<longrightarrow> am_missing m = []) \<and> set (am_missing m) \<inter> set (am_present m) = {}"
  unfolding adapt_manifest_def bindE_Inr Let_def ensure_Inr advcrash_Inr as_str_Inr
  by (elim exE conjE) (auto simp: str_in_iff disjoint_def list_all_iff)

lemma status_of_hyp_in: "status_of_hyp hs i = Some s \<Longrightarrow> \<exists>h \<in> set hs. ah_id h = i \<and> ah_status h = s"
  by (auto simp: status_of_hyp_def find_Some_iff)

lemma no_executable_ok: "no_executable fs = Inr u \<Longrightarrow> \<forall>(n, v) \<in> set fs. \<not> has_executable_content v"
proof (induction fs)
  case (Cons f fs)
  then show ?case by (cases f) (auto simp: no_executable_def bindE_Inr)
qed simp

definition rec_safe :: "adapted_rec \<Rightarrow> bool" where
  "rec_safe r \<longleftrightarrow> ac_execution r = ''NOT_EXECUTED'' \<and> (\<forall>(n, v) \<in> set (ac_fields r). \<not> has_executable_content v)"

lemma adapt_recommendation_ok:
  assumes "adapt_recommendation rid acts hs j = Inr (r, w)"
  shows "rec_safe r \<and> ac_linked r = rid \<and> jget j ''execution_status'' = Some (JStr ''NOT_EXECUTED'')"
proof -
  from assms obtain x c where e: "no_executable (ac_fields r) = Inr ()" and n: "ac_execution r = ''NOT_EXECUTED''"
    and l: "ac_linked r = rid" and i: "rec_identity rid j = Inr x"
    unfolding adapt_recommendation_def bindE_Inr req_dict_Inr split_paired_Ex case_prod_conv sum.inject prod.inject
    by (elim exE conjE, hypsubst) simp
  from i have "getn j ''execution_status'' = JStr ''NOT_EXECUTED''"
    by (auto simp: rec_identity_def bindE_Inr split: json.splits if_splits)
  with no_executable_ok [OF e] n l getn_JStr show ?thesis by (simp add: rec_safe_def)
qed

lemma adapt_recommendations_ok:
  assumes "adapt_recommendations rid acts hs v = Inr (rs, w)"
  shows "\<forall>r \<in> set rs. rec_safe r"
proof -
  from assms obtain js out where m: "mapE (adapt_recommendation rid acts hs) js = Inr out" and rs: "rs = map fst out"
    unfolding adapt_recommendations_def bindE_Inr by (auto simp: bindE_Inr)
  have "rec_safe (fst x)" if "x \<in> set out" for x
    using mapE_in_result [OF m that] adapt_recommendation_ok by (cases x) fastforce
  with rs show ?thesis by simp
qed

lemma findings_of_events [simp]: "map fn_event (findings_of inc evs) = evs"
proof -
  have "map fn_event (findings_of inc evs) = map snd (zip [1..<Suc (length evs)] evs)"
    unfolding findings_of_def map_map by (rule map_cong) auto
  also have "\<dots> = evs" by (rule map_snd_zip) (cases evs; simp del: upt_Suc)
  finally show ?thesis .
qed

text \<open>The stages an accepted result went through.\<close>

lemma adapt_stages:
  assumes "adapt_rca_result sha pstr rca catalog = Inr V"
  shows "\<exists>cat inc w1 acts w2.
    adapt_manifest (getn rca ''evidence_manifest'') = Inr (vw_manifest V) \<and>
    adapt_hypotheses cat inc (known_evidence (vw_manifest V) (vw_events V)) (jget_or rca ''hypotheses'' (JArr [])) = Inr (vw_hyps V, w1) \<and>
    adapt_root inc (vw_hyps V) (am_completeness (vw_manifest V)) (getn rca ''root_cause'') = Inr (vw_root V) \<and>
    adapt_recommendations (ar_id (vw_root V)) acts (vw_hyps V) (jget_or rca ''recommendations'' (JArr [])) = Inr (vw_recs V, w2) \<and>
    vw_findings V = findings_of inc (vw_events V)"
  using assms
  unfolding adapt_rca_result_def bindE_Inr req_dict_Inr split_paired_Ex case_prod_conv Let_def sum.inject prod.inject
  apply (elim exE conjE)
  apply hypsubst
  apply (unfold rca_view.simps)
  apply (intro exI conjI; (assumption | rule refl))
  done

text \<open>
  C11: the adapter never promotes. When an RCA result is accepted, the root cause has the state the
  input declares, and every hypothesis of the view, in order, has the status and the evidence of its
  input, cites only evidence that is present or in the timeline, and is confirmed only with supporting evidence
  and without an unresolved critical contradiction. A confirmed root cause comes with a complete
  manifest and names at least one hypothesis, each confirmed. The findings are the events of
  the timeline, one to one, and no recommendation is executed or contains an executable text.
\<close>

theorem adapter_never_promotes:
  assumes "adapt_rca_result sha pstr rca catalog = Inr V"
  shows "jget (getn rca ''root_cause'') ''completeness'' = Some (JStr (ar_completeness (vw_root V))) \<and>
    (\<exists>js. jget_or rca ''hypotheses'' (JArr []) = JArr js \<and>
       list_all2 (hyp_faithful (known_evidence (vw_manifest V) (vw_events V))) (vw_hyps V) js) \<and>
    (ar_completeness (vw_root V) = ''CONFIRMED'' \<longrightarrow> am_completeness (vw_manifest V) = ''COMPLETE'' \<and> am_missing (vw_manifest V) = [] \<and>
       ar_confirmed (vw_root V) \<noteq> [] \<and>
       (\<forall>i \<in> set (ar_confirmed (vw_root V)). \<exists>h \<in> set (vw_hyps V). ah_id h = i \<and> ah_status h = ''CONFIRMED'')) \<and>
    map fn_event (vw_findings V) = vw_events V \<and> (\<forall>r \<in> set (vw_recs V). rec_safe r)"
proof -
  from assms obtain cat inc w1 acts w2 where
    m: "adapt_manifest (getn rca ''evidence_manifest'') = Inr (vw_manifest V)"
    and h: "adapt_hypotheses cat inc (known_evidence (vw_manifest V) (vw_events V)) (jget_or rca ''hypotheses'' (JArr [])) = Inr (vw_hyps V, w1)"
    and r: "adapt_root inc (vw_hyps V) (am_completeness (vw_manifest V)) (getn rca ''root_cause'') = Inr (vw_root V)"
    and c: "adapt_recommendations (ar_id (vw_root V)) acts (vw_hyps V) (jget_or rca ''recommendations'' (JArr [])) = Inr (vw_recs V, w2)"
    and f: "vw_findings V = findings_of inc (vw_events V)"
    using adapt_stages by blast
  from adapt_root_ok [OF r] adapt_manifest_ok [OF m] status_of_hyp_in [of "vw_hyps V"]
  have "ar_completeness (vw_root V) = ''CONFIRMED'' \<longrightarrow> am_completeness (vw_manifest V) = ''COMPLETE'' \<and> am_missing (vw_manifest V) = [] \<and>
       ar_confirmed (vw_root V) \<noteq> [] \<and>
       (\<forall>i \<in> set (ar_confirmed (vw_root V)). \<exists>h \<in> set (vw_hyps V). ah_id h = i \<and> ah_status h = ''CONFIRMED'')"
    by (auto simp: root_state_ok_def list_all_iff)
  with adapt_root_ok [OF r] adapt_hypotheses_ok [OF h] adapt_recommendations_ok [OF c] f show ?thesis by auto
qed

definition sample_rca :: json where
  "sample_rca = JObj [(''contract_version'', JStr ''1.0.0''), (''incident_id'', JStr ''INC-20260101-001''),
     (''evidence_manifest'', JObj [(''completeness'', JStr ''COMPLETE''), (''present_refs'', JArr [JStr ''EVD-a1''])]),
     (''hypotheses'', JArr [JObj [(''rule_id'', JStr ''R1''), (''hypothesis_id'', JStr ''HYP-INC-20260101-001-R1''),
        (''domain'', JStr ''os''), (''status'', JStr ''CONFIRMED''), (''confidence'', JStr ''HIGH''),
        (''supporting_evidence_ids'', JArr [JStr ''EVD-a1''])]]),
     (''root_cause'', JObj [(''rca_id'', JStr ''RCA-INC-20260101-001-001''), (''completeness'', JStr ''CONFIRMED''),
        (''confirmed_hypothesis_ids'', JArr [JStr ''HYP-INC-20260101-001-R1''])])]"

definition sample_rules :: json where
  "sample_rules = JObj [(''rules_version'', JStr ''1''), (''rules'', JArr [JObj [(''rule_id'', JStr ''R1''), (''domain'', JStr ''os''),
     (''statement'', JStr ''s''), (''causal_chain'', JArr [JStr ''a''])]])]"

lemma sample_ids: "is_safe_id (JStr ''INC-20260101-001'') (Some [''INC''])" "is_safe_id (JStr ''EVD-a1'') (Some [''EVD''])"
  "is_safe_id (JStr ''RCA-INC-20260101-001-001'') (Some [''RCA''])" "is_safe_id (JStr ''HYP-INC-20260101-001-R1'') (Some [''HYP''])"
  by (rule id_check_safe, code_simp)+

lemma sample_manifest: "adapt_manifest (JObj [(''completeness'', JStr ''COMPLETE''), (''present_refs'', JArr [JStr ''EVD-a1''])])
    = Inr \<lparr> am_completeness = ''COMPLETE'', am_declared = [], am_present = [''EVD-a1''], am_missing = [] \<rparr>"
  by (simp add: adapt_manifest_def sample_ids disjoint_def json_reads)

definition sample_rule :: json where
  "sample_rule = JObj [(''rule_id'', JStr ''R1''), (''domain'', JStr ''os''), (''statement'', JStr ''s''), (''causal_chain'', JArr [JStr ''a''])]"

lemma sample_catalog: "catalog_index sample_rules = Inr [(JStr ''R1'', sample_rule)]"
  "collect_certified_signatures sample_rules = Inr []"
  "catalog_actions [(JStr ''R1'', sample_rule)] = Inr []"
  by code_simp+

definition sample_hyp :: adapted_hyp where
  "sample_hyp = \<lparr> ah_id = ''HYP-INC-20260101-001-R1'', ah_rule = ''R1'', ah_domain = JStr ''os'', ah_statement = JStr ''s'',
      ah_chain = [JStr ''a''], ah_status = ''CONFIRMED'', ah_supporting = [''EVD-a1''], ah_contradicting = [],
      ah_unresolved = False, ah_missing = [], ah_sources = 0, ah_temporal = False, ah_confidence = ''HIGH'' \<rparr>"

lemma sample_hyps: "adapt_hypotheses [(JStr ''R1'', sample_rule)] ''INC-20260101-001'' [''EVD-a1'']
    (JArr [JObj [(''rule_id'', JStr ''R1''), (''hypothesis_id'', JStr ''HYP-INC-20260101-001-R1''),
        (''domain'', JStr ''os''), (''status'', JStr ''CONFIRMED''), (''confidence'', JStr ''HIGH''),
        (''supporting_evidence_ids'', JArr [JStr ''EVD-a1''])]])
  = Inr ([sample_hyp],
     [''HYPOTHESIS_TEXT_REANCHORED_ON_CATALOG''])"
  by (simp add: sample_hyp_def adapt_hypotheses_def hyp_step_def adapt_hypothesis_def hyp_identity_def hyp_evidence_def reanchored_def sample_rule_def
      rule_of_def sample_ids json_reads HYP_STATUSES_def CONFIDENCES_def ALLOWED_DOMAINS_def req_bool_def req_int_def py_iter_def
      py_eq.simps num_of_def)

lemma sample_root: "adapt_root ''INC-20260101-001'' [sample_hyp] ''COMPLETE'' (JObj [(''rca_id'', JStr ''RCA-INC-20260101-001-001''),
    (''completeness'', JStr ''CONFIRMED''), (''confirmed_hypothesis_ids'', JArr [JStr ''HYP-INC-20260101-001-R1''])])
  = Inr \<lparr> ar_id = ''RCA-INC-20260101-001-001'', ar_completeness = ''CONFIRMED'', ar_confirmed = [''HYP-INC-20260101-001-R1''],
      ar_competing = [] \<rparr>"
  by (simp add: adapt_root_def json_reads sample_ids RC_STATES_def root_state_ok_def status_of_hyp_def sample_hyp_def)

lemma sample_adapts:
  "\<exists>V. adapt_rca_result id (\<lambda>_. []) sample_rca sample_rules = Inr V \<and> ar_completeness (vw_root V) = ''CONFIRMED''"
  using sample_catalog
  by (simp add: adapt_rca_result_def sample_rca_def json_reads SUPPORTED_RCA_CONTRACT_VERSIONS_def sample_ids sample_manifest
    sample_hyps sample_root adapt_timeline_def known_evidence_def adapt_recommendations_def text_list_def adapt_domains_def
    clean_text_def jitems_def)

theorem adapter_never_promotes_witness:
  "\<exists>V. adapt_rca_result id (\<lambda>_. []) sample_rca sample_rules = Inr V \<and> am_completeness (vw_manifest V) = ''COMPLETE''"
proof -
  obtain V where V: "adapt_rca_result id (\<lambda>_. []) sample_rca sample_rules = Inr V" and c: "ar_completeness (vw_root V) = ''CONFIRMED''"
    using sample_adapts by blast
  from adapter_never_promotes [OF V] c V show ?thesis by simp
qed

end
