(* ===== verification/Authorization.thy ===== *)
theory Authorization
  imports Kb_Schema
begin

section \<open>External human authorization records (change\_documentation\_knowledge/authorization.py)\<close>

text \<open>
  The record of a human decision is supplied from outside. Its structure is checked strictly, and
  it must name the artifact, its current digest and its version; the reviewer must not be one of the
  proposers. Nothing here proves who wrote the record, and the declaration says so.
  Acceptance by \<open>datetime.fromisoformat\<close> is the parameter \<open>iso_ok\<close>. After \<open>strict_keys\<close> every
  required key is present, so \<open>rec[k]\<close> and \<open>rec.get(k)\<close> agree.
\<close>

definition low_hex :: "char \<Rightarrow> bool" where "low_hex c \<longleftrightarrow> is_digit c \<or> btw 97 102 c"

definition AUTH_DIGEST :: rx where "AUTH_DIGEST = Rep 64 0 (Cls low_hex)"
definition AUTH_VERSION :: rx where "AUTH_VERSION = Rep 1 3 (Cls is_digit)"

definition VERIFICATION_LEVEL :: string where
  "VERIFICATION_LEVEL = ''STRUCTURAL_ONLY_IDENTITY_NOT_VERIFIED''"

definition AUTH_REQUIRED :: "string list" where
  "AUTH_REQUIRED = [''authorization_id'', ''artifact_id'', ''decision'', ''reviewer_id'', ''decision_at_utc'',
     ''artifact_digest'', ''version'', ''review_notes_sanitized'']"

record authorization =
  au_id :: string
  au_artifact :: string
  au_decision :: string
  au_reviewer :: string
  au_at :: string
  au_digest :: string
  au_version :: string
  au_notes :: string
  au_flagged :: bool

text \<open>\<open>except AdvisoryError\<close>: any rejected identifier becomes one error.\<close>

definition ids_error :: "adv_error + 'a \<Rightarrow> adv_error + 'a" where
  "ids_error m = (case m of Inl (AdvErr _ _) \<Rightarrow> Inl (field_err E_AUTH_INVALID ''authorization.ids'') | _ \<Rightarrow> m)"

definition auth_ids :: "json \<Rightarrow> adv_error + string \<times> string \<times> string" where
  "auth_ids r = ids_error (
     bindE (require_id (getn r ''authorization_id'') (Some [''AUTH'']) (Some ''authorization.authorization_id'')) (\<lambda>i.
     bindE (require_id (getn r ''artifact_id'') (Some [''CHG'', ''KB'', ''KBV'', ''KBC'']) (Some ''authorization.artifact_id'')) (\<lambda>a.
     bindE (require_id (getn r ''reviewer_id'') (Some [''REV'']) (Some ''authorization.reviewer_id'')) (\<lambda>rv. Inr (i, a, rv)))))"

definition auth_str :: "rx \<Rightarrow> json \<Rightarrow> string \<Rightarrow> adv_error + string" where
  "auth_str r v field = (case v of
      JStr s \<Rightarrow> if match_dollar r s then Inr s else Inl (field_err E_AUTH_INVALID field)
    | _ \<Rightarrow> Inl (field_err E_AUTH_INVALID field))"

definition auth_decision :: "json \<Rightarrow> adv_error + string" where
  "auth_decision v = (case v of
      JStr s \<Rightarrow> if s \<in> set [''APPROVED'', ''REJECTED''] then Inr s else Inl (field_err E_AUTH_INVALID ''authorization.decision'')
    | _ \<Rightarrow> Inl (field_err E_AUTH_INVALID ''authorization.decision''))"

definition auth_time :: "(string \<Rightarrow> bool) \<Rightarrow> json \<Rightarrow> adv_error + string" where
  "auth_time iso_ok v = (case v of
      JStr s \<Rightarrow> if is_utc_timestamp iso_ok v then Inr s else Inl (field_err E_AUTH_INVALID ''authorization.decision_at_utc'')
    | _ \<Rightarrow> Inl (field_err E_AUTH_INVALID ''authorization.decision_at_utc''))"

definition parse_authorization :: "(string \<Rightarrow> bool) \<Rightarrow> json \<Rightarrow> adv_error + authorization" where
  "parse_authorization iso_ok v =
     bindE (req_dict v ''authorization'') (\<lambda>r.
     bindE (strict_keys r AUTH_REQUIRED [] ''authorization'') (\<lambda>_.
     bindE (auth_decision (getn r ''decision'')) (\<lambda>decision.
     bindE (auth_time iso_ok (getn r ''decision_at_utc'')) (\<lambda>t.
     bindE (auth_str AUTH_DIGEST (getn r ''artifact_digest'') ''authorization.artifact_digest'') (\<lambda>digest.
     bindE (auth_str AUTH_VERSION (getn r ''version'') ''authorization.version'') (\<lambda>version.
     bindE (auth_ids r) (\<lambda>(i, a, rv).
     bindE (clean_text (getn r ''review_notes_sanitized'') 300 (Some ''authorization.review_notes_sanitized'')) (\<lambda>notes.
       Inr \<lparr> au_id = i, au_artifact = a, au_decision = decision, au_reviewer = rv, au_at = t, au_digest = digest,
         au_version = version, au_notes = notes, au_flagged = has_instruction_markers (getn r ''review_notes_sanitized'') \<rparr>))))))))"

record auth_decl =
  dc_auth :: string
  dc_reviewer :: string
  dc_decision :: string
  dc_at :: string
  dc_digest :: string
  dc_version :: string
  dc_notes :: string
  dc_verification :: string

text \<open>\<open>set(proposer_ids or ())\<close>.\<close>

definition proposers_of :: "json \<Rightarrow> py_exc + json list" where
  "proposers_of v = (if truthy v then py_set_of v else Inr [])"

definition auth_decl_of :: "authorization \<Rightarrow> auth_decl" where
  "auth_decl_of a = \<lparr> dc_auth = au_id a, dc_reviewer = au_reviewer a, dc_decision = au_decision a, dc_at = au_at a,
     dc_digest = au_digest a, dc_version = au_version a, dc_notes = au_notes a, dc_verification = VERIFICATION_LEVEL \<rparr>"

definition verify_authorization :: "(string \<Rightarrow> bool) \<Rightarrow> json \<Rightarrow> string \<Rightarrow> json \<Rightarrow> string \<Rightarrow> json \<Rightarrow> string \<Rightarrow> adv_error + auth_decl" where
  "verify_authorization iso_ok v artifact_id artifact_digest version proposer_ids require_decision =
     (if v = JNull then adverr E_AUTH_MISSING
      else bindE (parse_authorization iso_ok v) (\<lambda>a.
        if au_decision a \<noteq> require_decision then Inl (field_err E_AUTH_INVALID ''authorization.decision'')
        else if au_artifact a \<noteq> artifact_id \<or> JStr (au_digest a) \<noteq> artifact_digest \<or> au_version a \<noteq> version
        then adverr E_AUTH_DIGEST_MISMATCH
        else bindE (advcrash (proposers_of proposer_ids)) (\<lambda>ps.
          if JStr (au_reviewer a) \<in> set ps then adverr E_AUTH_SELF_APPROVAL else Inr (auth_decl_of a))))"

subsection \<open>What a declaration proves\<close>

text \<open>The record as a specification: exactly the required keys, each of its shape, and the named values.\<close>

definition valid_record :: "(string \<Rightarrow> bool) \<Rightarrow> json \<Rightarrow> authorization \<Rightarrow> bool" where
  "valid_record iso_ok v a \<longleftrightarrow> (\<exists>kvs notes. v = JObj kvs \<and> set (dkeys kvs) = set AUTH_REQUIRED \<and>
     getn v ''decision'' = JStr (au_decision a) \<and> au_decision a \<in> {''APPROVED'', ''REJECTED''} \<and>
     getn v ''decision_at_utc'' = JStr (au_at a) \<and> is_utc_timestamp iso_ok (JStr (au_at a)) \<and>
     getn v ''artifact_digest'' = JStr (au_digest a) \<and> match_dollar AUTH_DIGEST (au_digest a) \<and>
     getn v ''version'' = JStr (au_version a) \<and> match_dollar AUTH_VERSION (au_version a) \<and>
     getn v ''authorization_id'' = JStr (au_id a) \<and> is_safe_id (JStr (au_id a)) (Some [''AUTH'']) \<and>
     getn v ''artifact_id'' = JStr (au_artifact a) \<and> is_safe_id (JStr (au_artifact a)) (Some [''CHG'', ''KB'', ''KBV'', ''KBC'']) \<and>
     getn v ''reviewer_id'' = JStr (au_reviewer a) \<and> is_safe_id (JStr (au_reviewer a)) (Some [''REV'']) \<and>
     getn v ''review_notes_sanitized'' = JStr notes \<and> au_notes a = clean_str 300 notes \<and>
     au_flagged a = has_instruction_markers (JStr notes))"

lemma auth_parts [result_simps]:
  "auth_str r v f = Inr s \<longleftrightarrow> v = JStr s \<and> match_dollar r s"
  "auth_decision v = Inr s \<longleftrightarrow> v = JStr s \<and> s \<in> {''APPROVED'', ''REJECTED''}"
  "auth_time iso_ok v = Inr s \<longleftrightarrow> v = JStr s \<and> is_utc_timestamp iso_ok (JStr s)"
  by (auto simp: auth_str_def auth_decision_def auth_time_def split: json.splits)

lemma ids_error_Inr: "ids_error m = Inr x \<longleftrightarrow> m = Inr x"
  by (auto simp: ids_error_def split: sum.splits adv_error.splits)

lemma auth_ids_Inr: "auth_ids r = Inr (i, a, rv) \<longleftrightarrow>
    getn r ''authorization_id'' = JStr i \<and> is_safe_id (JStr i) (Some [''AUTH'']) \<and>
    getn r ''artifact_id'' = JStr a \<and> is_safe_id (JStr a) (Some [''CHG'', ''KB'', ''KBV'', ''KBC'']) \<and>
    getn r ''reviewer_id'' = JStr rv \<and> is_safe_id (JStr rv) (Some [''REV''])"
  unfolding auth_ids_def ids_error_Inr bindE_Inr require_id_Inr by blast

lemma strict_keys_Inr: "strict_keys v req [] f = Inr u \<longleftrightarrow> (\<exists>kvs. v = JObj kvs \<and> set (dkeys kvs) = set req)"
  unfolding strict_keys_def bindE_Inr advcrash_Inr jitems_Inr ensure_Inr by auto

lemma clean_text_Inr: "clean_text v n f = Inr t \<longleftrightarrow> (\<exists>s. v = JStr s \<and> t = clean_str n s)"
  by (auto simp: clean_text_def split: json.splits)

lemma parse_authorization_iff: "parse_authorization iso_ok v = Inr a \<longleftrightarrow> valid_record iso_ok v a"
proof
  assume "parse_authorization iso_ok v = Inr a"
  then show "valid_record iso_ok v a"
    unfolding parse_authorization_def bindE_Inr req_dict_Inr strict_keys_Inr split_paired_Ex case_prod_conv auth_ids_Inr
      clean_text_Inr auth_parts sum.inject valid_record_def
    apply (elim exE conjE)
    apply hypsubst
    apply (unfold authorization.simps)
    apply (intro exI conjI; (assumption | simp only:)?)
    done
next
  assume "valid_record iso_ok v a"
  then show "parse_authorization iso_ok v = Inr a"
    unfolding parse_authorization_def bindE_Inr req_dict_Inr strict_keys_Inr split_paired_Ex case_prod_conv auth_ids_Inr
      clean_text_Inr auth_parts sum.inject valid_record_def
    apply (elim exE conjE)
    apply (cases a)
    apply (simp only: authorization.simps)
    apply (intro exI conjI; (assumption | rule refl)?)
    apply (simp_all only: is_obj_def json.case)
    done
qed

text \<open>
  C12: an authorization is accepted exactly when it is a decision for this artifact. The record has
  exactly the eight required fields, each of its shape; it carries the required decision and names
  this artifact, this digest and this version; and its reviewer is not one of the proposers. The
  declaration is the record's, marked as not proving an identity.
\<close>

theorem authorization_exact:
  "verify_authorization iso_ok v artifact_id digest version proposers required = Inr d \<longleftrightarrow>
     (\<exists>a ps. valid_record iso_ok v a \<and> au_decision a = required \<and> au_artifact a = artifact_id \<and> JStr (au_digest a) = digest \<and>
        au_version a = version \<and> proposers_of proposers = Inr ps \<and> JStr (au_reviewer a) \<notin> set ps \<and> d = auth_decl_of a)"
proof -
  have "\<not> valid_record iso_ok JNull a" for a by (simp add: valid_record_def)
  then show ?thesis
    unfolding verify_authorization_def by (auto simp: bindE_Inr parse_authorization_iff split: if_splits)
qed

text \<open>The facts the store uses.\<close>

lemma verified_names:
  assumes "verify_authorization iso_ok v artifact_id digest version proposers required = Inr d"
  shows "JStr (dc_digest d) = digest \<and> dc_version d = version \<and> dc_decision d = required \<and>
    is_safe_id (JStr (dc_reviewer d)) (Some [''REV'']) \<and>
    (\<forall>ps. proposers_of proposers = Inr ps \<longrightarrow> JStr (dc_reviewer d) \<notin> set ps) \<and> dc_verification d = VERIFICATION_LEVEL"
  using assms unfolding verify_authorization_def
  by (auto simp: bindE_Inr parse_authorization_iff valid_record_def auth_decl_of_def split: if_splits)

end
