(* ===== verification/Knowledge.thy ===== *)
theory Knowledge
  imports Kb_Schema
begin

section \<open>Knowledge candidates: gate and duplicate review (change\_documentation\_knowledge/knowledge.py)\<close>

text \<open>
  Keys and digests of an article, the quality gate that is evaluated at every promotion, and the
  explainable comparison with the entries already stored. An article is decoded JSON; a missing
  key raises. \<open>repr\<close> of a decoded value is the parameter \<open>prepr\<close>, SHA-256 the parameter \<open>sha\<close>.
\<close>

definition ARTICLE_TYPES :: "string list" where
  "ARTICLE_TYPES = [''KNOWN_ISSUE'', ''RUNBOOK'', ''LESSON'', ''DIAGNOSTIC_PATTERN'']"

text \<open>\<open>v[k1][k2]\<close>.\<close>

definition jpath :: "json \<Rightarrow> string list \<Rightarrow> py_exc + json" where
  "jpath v ks = foldE jreq v ks"

text \<open>\<open>a or b\<close> over tests that can raise.\<close>

definition orE :: "'e + bool \<Rightarrow> 'e + bool \<Rightarrow> 'e + bool" where
  "orE a b = bindE a (\<lambda>x. if x then Inr True else b)"

definition py_sorted :: "json \<Rightarrow> py_exc + json list" where
  "py_sorted v = bindE (py_iter v) (sorted_by (py_cmp Less))"

subsection \<open>Input metadata\<close>

record candidate_meta =
  cm_type :: string
  cm_owner :: string
  cm_proposers :: "string list"
  cm_supersedes :: "string option"

definition parse_candidate_input :: "json \<Rightarrow> adv_error + candidate_meta" where
  "parse_candidate_input raw =
     (if raw = JNull then Inr \<lparr> cm_type = ''KNOWN_ISSUE'', cm_owner = ''TO_BE_DEFINED'', cm_proposers = [], cm_supersedes = None \<rparr>
      else bindE (req_dict raw ''candidate_input'') (\<lambda>r.
        bindE (strict_keys r [''schema_version''] [''article_type'', ''owner'', ''proposer_ids'', ''supersedes''] ''candidate_input'') (\<lambda>_.
        bindE (ensure (getn r ''schema_version'' = JStr ''1.0.0'') (field_err E_UNSUPPORTED_SCHEMA_VERSION ''candidate_input.schema_version'')) (\<lambda>_.
        let owner = jget_or r ''owner'' (JStr ''TO_BE_DEFINED'') in
        bindE (if owner = JStr ''TO_BE_DEFINED'' then Inr ''TO_BE_DEFINED''
               else require_id owner (Some [''REV'']) (Some ''candidate_input.owner'')) (\<lambda>own.
        bindE (if getn r ''supersedes'' = JNull then Inr None
               else bindE (require_id (getn r ''supersedes'') (Some [''KB'']) (Some ''candidate_input.supersedes'')) (\<lambda>s. Inr (Some s))) (\<lambda>sp.
        bindE (req_enum (jget_or r ''article_type'' (JStr ''KNOWN_ISSUE'')) ARTICLE_TYPES ''candidate_input.article_type'') (\<lambda>t.
        bindE (bindE (req_list (jget_or r ''proposer_ids'' (JArr [])) ''candidate_input.proposer_ids'' 20)
            (mapE (\<lambda>x. require_id x (Some [''REV'']) (Some ''candidate_input.proposer_ids'')))) (\<lambda>ps.
          Inr \<lparr> cm_type = t, cm_owner = own, cm_proposers = ps, cm_supersedes = sp \<rparr>))))))))"

subsection \<open>Keys and digests\<close>

definition sort_items :: "(string \<times> json) list \<Rightarrow> (string \<times> json) list" where
  "sort_items kvs = sort_key fst kvs"

definition dedup_key :: "json \<Rightarrow> py_exc + json" where
  "dedup_key a =
     bindE (jpath a [''scope'', ''domain'']) (\<lambda>family.
     bindE (jpath a [''provenance'', ''rule_id'']) (\<lambda>rid.
     bindE (bindE (jreq a ''error_codes'') py_sorted) (\<lambda>codes.
     bindE (bindE (jpath a [''scope'', ''oracle_versions'']) py_sorted) (\<lambda>vers.
     bindE (jpath a [''scope'', ''release_update'']) (\<lambda>ru.
     bindE (jpath a [''scope'', ''platform'']) (\<lambda>plat.
     bindE (bindE (jpath a [''scope'', ''architecture'']) jitems) (\<lambda>arch.
     bindE (jpath a [''prerequisites_and_license'', ''license_dependent'']) (\<lambda>lic.
       Inr (JObj [(''family'', family), (''rule_id'', rid), (''error_codes'', JArr codes), (''oracle_versions'', JArr vers),
         (''release_update'', ru), (''platform'', plat), (''architecture'', JObj (sort_items arch)),
         (''license_dependent'', lic)])))))))))"

text \<open>\<open>repr\<close> of a list of pairs.\<close>

definition pairs_repr :: "(json \<Rightarrow> string) \<Rightarrow> (string \<times> json) list \<Rightarrow> string" where
  "pairs_repr prepr kvs = ''['' @ join_on '', '' (map (\<lambda>(k, v). ''('' @ prepr (JStr k) @ '', '' @ prepr v @ '')'') kvs) @ '']''"

definition key_id :: "(string \<Rightarrow> string) \<Rightarrow> (json \<Rightarrow> string) \<Rightarrow> json \<Rightarrow> py_exc + string" where
  "key_id sha prepr key = bindE (jitems key) (\<lambda>kvs.
     Inr (''KB-'' @ take 16 (sha (pairs_repr prepr (sort_items (map (\<lambda>(k, v). (k, JStr (prepr v))) kvs))))))"

definition scope_key :: "(json \<Rightarrow> string) \<Rightarrow> json \<Rightarrow> py_exc + json list" where
  "scope_key prepr key =
     bindE (bindE (jreq key ''oracle_versions'') py_iter) (\<lambda>vers.
     bindE (jreq key ''release_update'') (\<lambda>ru.
     bindE (jreq key ''platform'') (\<lambda>plat.
     bindE (bindE (jreq key ''architecture'') jitems) (\<lambda>arch.
     bindE (jreq key ''license_dependent'') (\<lambda>lic.
       Inr [JArr vers, ru, plat, JStr (pairs_repr prepr (sort_items arch)), lic])))))"

definition recommendation_digest :: "(string \<Rightarrow> string) \<Rightarrow> (json \<Rightarrow> string) \<Rightarrow> json \<Rightarrow> py_exc + string" where
  "recommendation_digest sha prepr a =
     bindE (jpath a [''hypothesis'', ''statement'']) (\<lambda>st.
     bindE (jreq a ''manual_recommendations'') (\<lambda>recs.
       Inr (take 16 (sha (prepr (JObj [(''cause'', st), (''recs'', recs)]))))))"

subsection \<open>The quality gate\<close>

definition reason_if :: "string \<Rightarrow> py_exc + bool \<Rightarrow> py_exc + string list" where
  "reason_if s m = bindE m (\<lambda>b. Inr (if b then [s] else []))"

definition each_rec :: "json \<Rightarrow> (json \<Rightarrow> py_exc + bool) \<Rightarrow> py_exc + bool" where
  "each_rec a f = bindE (bindE (jreq a ''manual_recommendations'') py_iter) (anyE f)"

definition falsy :: "json \<Rightarrow> string list \<Rightarrow> py_exc + bool" where
  "falsy a ks = bindE (jpath a ks) (\<lambda>v. Inr (\<not> truthy v))"

text \<open>The blocking reasons; the status is \<open>PASS\<close> when there is none.\<close>

definition quality_gate :: "json \<Rightarrow> json \<Rightarrow> py_exc + string list" where
  "quality_gate source_refs a =
     bindE (reason_if ''NO_SUPPORTING_EVIDENCE''
       (orE (bindE (jreq source_refs ''incident_id'') (\<lambda>v. Inr (v = JNull))) (falsy a [''provenance'', ''evidence_ids'']))) (\<lambda>r1.
     bindE (reason_if ''RCA_NOT_CONFIRMED''
       (orE (bindE (jpath a [''provenance'', ''rca_state_at_extraction'']) (\<lambda>v. Inr (v \<noteq> JStr ''CONFIRMED'')))
         (falsy a [''hypothesis'', ''publishable_as_fact'']))) (\<lambda>r2.
     bindE (reason_if ''NO_RECOMMENDATION_TO_CURATE'' (falsy a [''manual_recommendations''])) (\<lambda>r3.
     bindE (reason_if ''WORKAROUND_PRESENTED_AS_UNIVERSAL''
       (orE (each_rec a (\<lambda>m. bindE (jreq m ''universal_solution'') (\<lambda>v. Inr (truthy v))))
         (falsy a [''scope'', ''applies_only_within_scope'']))) (\<lambda>r4.
     bindE (reason_if ''EXECUTION_STATUS_NOT_NOT_EXECUTED''
       (each_rec a (\<lambda>m. bindE (jreq m ''execution_status'') (\<lambda>v. Inr (v \<noteq> JStr ''NOT_EXECUTED''))))) (\<lambda>r5.
       Inr (sort (r1 @ r2 @ r3 @ r4 @ r5)))))))"

lemma reason_if_Nil: "reason_if s m = Inr [] \<longleftrightarrow> m = Inr False"
  by (auto simp: reason_if_def bindE_Inr split: if_splits)

lemma orE_False: "orE a b = Inr False \<longleftrightarrow> a = Inr False \<and> b = Inr False"
  by (auto simp: orE_def bindE_Inr)

lemma falsy_False: "falsy a ks = Inr False \<longleftrightarrow> (\<exists>v. jpath a ks = Inr v \<and> truthy v)"
  by (auto simp: falsy_def bindE_Inr)

text \<open>An article that passes the gate: a confirmed cause, evidence and recommendations, none executed, none universal.\<close>

lemma quality_gate_pass [fail_closed]:
  assumes "quality_gate refs a = Inr []"
  shows "jpath a [''provenance'', ''rca_state_at_extraction''] = Inr (JStr ''CONFIRMED'') \<and>
    (\<exists>v. jpath a [''hypothesis'', ''publishable_as_fact''] = Inr v \<and> truthy v) \<and>
    (\<exists>v. jpath a [''provenance'', ''evidence_ids''] = Inr v \<and> truthy v) \<and>
    (\<exists>v. jpath a [''manual_recommendations''] = Inr v \<and> truthy v) \<and>
    (\<exists>v. jpath a [''scope'', ''applies_only_within_scope''] = Inr v \<and> truthy v)"
proof -
  have "sort xs = [] \<longleftrightarrow> xs = []" for xs :: "string list" by (metis set_empty set_sort)
  with assms show ?thesis
    unfolding quality_gate_def bindE_Inr
    by (auto simp: reason_if_Nil orE_False falsy_False bindE_Inr simp del: jreq_Inr)
qed

subsection \<open>Duplicate and conflict review\<close>

record existing_row =
  ex_kb :: string
  ex_version :: string
  ex_state :: json
  ex_key :: json
  ex_digest :: json

datatype dup_result = NEW | SCOPE_DIFFERENCE | SUPERSESSION_PROPOSED | CONFLICT | DUPLICATE

record dup_row =
  du_kb :: string
  du_version :: string
  du_same_scope :: bool
  du_same_cause :: bool

record dup_review =
  dr_result :: dup_result
  dr_matched :: "string list"
  dr_compared :: "dup_row list"
  dr_blocks :: bool

definition dup_action :: "dup_result \<Rightarrow> string" where
  "dup_action r = (case r of
      NEW \<Rightarrow> ''may be added as DRAFT/CANDIDATE''
    | DUPLICATE \<Rightarrow> ''not added; a human may cite the new evidence in a reviewed new version''
    | SCOPE_DIFFERENCE \<Rightarrow> ''added as a separate entry; never merged automatically''
    | CONFLICT \<Rightarrow> ''added only as DRAFT; promotion blocked until a human resolves the conflict''
    | SUPERSESSION_PROPOSED \<Rightarrow> ''added as a new version proposal; the previous version stays current until the new one is '' @
        ''published with authorization'')"

text \<open>The result after one more comparison.\<close>

definition next_result :: "dup_result \<Rightarrow> bool \<Rightarrow> bool \<Rightarrow> bool \<Rightarrow> dup_result" where
  "next_result r same_scope same_cause superseding =
     (if \<not> same_scope then (if r = NEW then SCOPE_DIFFERENCE else r)
      else if same_cause then DUPLICATE
      else if superseding then (if r \<in> set [DUPLICATE, CONFLICT] then r else SUPERSESSION_PROPOSED)
      else if r = DUPLICATE then r else CONFLICT)"

definition same_family :: "json \<Rightarrow> json \<Rightarrow> py_exc + bool" where
  "same_family ek key =
     bindE (mapE (jreq ek) [''family'', ''rule_id'', ''error_codes'']) (\<lambda>xs.
     bindE (mapE (jreq key) [''family'', ''rule_id'', ''error_codes'']) (\<lambda>ys. Inr (py_eq (JArr xs) (JArr ys))))"

definition same_scope :: "(json \<Rightarrow> string) \<Rightarrow> json \<Rightarrow> json \<Rightarrow> py_exc + bool" where
  "same_scope prepr ek key =
     bindE (scope_key prepr ek) (\<lambda>xs. bindE (scope_key prepr key) (\<lambda>ys. Inr (py_eq (JArr xs) (JArr ys))))"

definition review_step :: "(json \<Rightarrow> string) \<Rightarrow> json \<Rightarrow> string \<Rightarrow> json \<Rightarrow> dup_result \<times> dup_row list \<Rightarrow> existing_row
    \<Rightarrow> py_exc + dup_result \<times> dup_row list" where
  "review_step prepr key mine art acc e = (case acc of (r, rows) \<Rightarrow>
     if str_in (ex_state e) [''RETIRED'', ''REJECTED''] then Inr acc
     else bindE (same_family (ex_key e) key) (\<lambda>fam. if \<not> fam then Inr acc
       else bindE (same_scope prepr (ex_key e) key) (\<lambda>sc.
         let cause = (ex_digest e = JStr mine) in
         bindE (if sc \<and> \<not> cause then bindE (jreq art ''supersedes'') (\<lambda>v. Inr (v = JStr (ex_kb e))) else Inr False) (\<lambda>sp.
         Inr (next_result r sc cause sp,
           rows @ [\<lparr> du_kb = ex_kb e, du_version = ex_version e, du_same_scope = sc, du_same_cause = cause \<rparr>])))))"

text \<open>\<open>sorted(existing, key=lambda x: (x["kb_id"], int(x["version"])))\<close>.\<close>

definition sort_existing :: "existing_row list \<Rightarrow> py_exc + existing_row list" where
  "sort_existing es = bindE (mapE (\<lambda>e. bindE (int_of_text (ex_version e)) (\<lambda>n. Inr (ex_kb e, n, e))) es) (\<lambda>ts.
     Inr (map (snd \<circ> snd) (sort_by (\<lambda>(a, m, _) (b, n, _). a < b \<or> a = b \<and> m < n) ts)))"

definition review_duplicates :: "(string \<Rightarrow> string) \<Rightarrow> (json \<Rightarrow> string) \<Rightarrow> json \<Rightarrow> existing_row list \<Rightarrow> py_exc + dup_review" where
  "review_duplicates sha prepr cand existing =
     bindE (jreq cand ''dedup_key'') (\<lambda>key.
     bindE (jreq cand ''article'') (\<lambda>art.
     bindE (recommendation_digest sha prepr art) (\<lambda>mine.
     bindE (sort_existing existing) (\<lambda>es.
     bindE (foldE (review_step prepr key mine art) (NEW, []) es) (\<lambda>(r, rows).
       Inr \<lparr> dr_result = r, dr_matched = sort (remdups (map du_kb rows)), dr_compared = rows, dr_blocks = (r = CONFLICT) \<rparr>)))))"

subsection \<open>The review, without its loop\<close>

text \<open>An entry that is compared: not retired or rejected, and of the same family, rule and codes.\<close>

definition compared :: "json \<Rightarrow> existing_row \<Rightarrow> bool" where
  "compared key e \<longleftrightarrow> \<not> str_in (ex_state e) [''RETIRED'', ''REJECTED''] \<and> same_family (ex_key e) key = Inr True"

text \<open>The decision as a function of the comparisons, whatever their order.\<close>

definition verdict :: "json \<Rightarrow> dup_row list \<Rightarrow> dup_result" where
  "verdict art rows =
     (if \<exists>x \<in> set rows. du_same_scope x \<and> du_same_cause x then DUPLICATE
      else if \<exists>x \<in> set rows. du_same_scope x \<and> jget art ''supersedes'' \<noteq> Some (JStr (du_kb x)) then CONFLICT
      else if \<exists>x \<in> set rows. du_same_scope x then SUPERSESSION_PROPOSED
      else if rows \<noteq> [] then SCOPE_DIFFERENCE else NEW)"

lemma review_stepD:
  assumes "review_step prepr key mine art (r, rows) e = Inr (r', rows')"
  shows "if compared key e then \<exists>x. rows' = rows @ [x] \<and> du_kb x = ex_kb e \<and> du_version x = ex_version e \<and>
      du_same_cause x = (ex_digest e = JStr mine) \<and> same_scope prepr (ex_key e) key = Inr (du_same_scope x) \<and>
      r' = next_result r (du_same_scope x) (du_same_cause x) (jget art ''supersedes'' = Some (JStr (du_kb x)))
    else r' = r \<and> rows' = rows"
proof (cases "compared key e")
  case True
  then have c: "\<not> str_in (ex_state e) [''RETIRED'', ''REJECTED'']" "same_family (ex_key e) key = Inr True"
    by (simp_all add: compared_def)
  with assms obtain sc sp where sc: "same_scope prepr (ex_key e) key = Inr sc"
    and sp: "(if sc \<and> ex_digest e \<noteq> JStr mine then bindE (jreq art ''supersedes'') (\<lambda>v. Inr (v = JStr (ex_kb e))) else Inr False) = Inr sp"
    and r: "r' = next_result r sc (ex_digest e = JStr mine) sp"
    and rows: "rows' = rows @ [\<lparr> du_kb = ex_kb e, du_version = ex_version e, du_same_scope = sc, du_same_cause = (ex_digest e = JStr mine) \<rparr>]"
    unfolding review_step_def by (auto simp: bindE_Inr Let_def)
  from sp r have "r' = next_result r sc (ex_digest e = JStr mine) (jget art ''supersedes'' = Some (JStr (ex_kb e)))"
    by (auto simp: next_result_def bindE_Inr split: if_splits)
  with True sc rows show ?thesis by simp
next
  case False
  with assms show ?thesis
    unfolding review_step_def compared_def by (auto simp: bindE_Inr Let_def split: if_splits)
qed

lemma verdict_snoc:
  "verdict art (rows @ [x]) = next_result (verdict art rows) (du_same_scope x) (du_same_cause x)
     (jget art ''supersedes'' = Some (JStr (du_kb x)))"
  by (auto simp: verdict_def next_result_def)

lemma review_fold:
  "foldE (review_step prepr key mine art) (verdict art rows, rows) es = Inr (r', rows') \<Longrightarrow>
     r' = verdict art rows' \<and>
     (\<exists>new. rows' = rows @ new \<and> map (\<lambda>x. (du_kb x, du_version x)) new = map (\<lambda>e. (ex_kb e, ex_version e)) (filter (compared key) es))"
proof (induction es arbitrary: rows)
  case (Cons e es)
  then obtain r1 rows1 where s: "review_step prepr key mine art (verdict art rows, rows) e = Inr (r1, rows1)"
    and f: "foldE (review_step prepr key mine art) (r1, rows1) es = Inr (r', rows')" by (auto simp: bindE_Inr)
  show ?case
  proof (cases "compared key e")
    case True
    with review_stepD [OF s] obtain x where x: "rows1 = rows @ [x]" "du_kb x = ex_kb e" "du_version x = ex_version e"
      "r1 = verdict art (rows @ [x])" by (auto simp: verdict_snoc)
    from Cons.IH [of rows1] f x True show ?thesis by auto
  next
    case False
    with review_stepD [OF s] have "r1 = verdict art rows" "rows1 = rows" by simp_all
    with Cons.IH [of rows] f False show ?thesis by simp
  qed
qed simp

lemma sort_existing_mset: "sort_existing es = Inr es' \<Longrightarrow> set es' = set es \<and> length es' = length es"
proof -
  assume "sort_existing es = Inr es'"
  then obtain ts where t: "mapE (\<lambda>e. bindE (int_of_text (ex_version e)) (\<lambda>n. Inr (ex_kb e, n, e))) es = Inr ts"
    and e: "es' = map (snd \<circ> snd) (sort_by (\<lambda>(a, m, _) (b, n, _). a < b \<or> a = b \<and> m < n) ts)"
    unfolding sort_existing_def bindE_Inr by blast
  from t have "list_all2 (\<lambda>e x. snd (snd x) = e) es ts"
    unfolding mapE_Inr_iff by (rule list_all2_mono) (auto simp: bindE_Inr)
  then have "map (snd \<circ> snd) ts = es" by (induction rule: list_all2_induct) auto
  then have "set (map (snd \<circ> snd) ts) = set es" "length ts = length es" by auto
  moreover have "length (sort_by lt ts) = length ts" for lt by (simp add: sort_by_def sort_by_fold)
  ultimately show ?thesis unfolding e by simp
qed


definition sample_key :: "string \<Rightarrow> json" where
  "sample_key platform = JObj [(''family'', JStr ''os''), (''rule_id'', JStr ''R1''), (''error_codes'', JArr []), (''oracle_versions'', JArr []),
     (''release_update'', JStr ''UNKNOWN''), (''platform'', JStr platform), (''architecture'', JObj []), (''license_dependent'', JBool False)]"

definition sample_cand :: json where
  "sample_cand = JObj [(''dedup_key'', sample_key ''L''), (''article'', JObj [(''hypothesis'', JObj [(''statement'', JStr ''s'')]),
     (''manual_recommendations'', JArr []), (''supersedes'', JNull)])]"

definition sample_existing :: "existing_row list" where
  "sample_existing = [\<lparr> ex_kb = ''KB-2'', ex_version = ''1'', ex_state = JStr ''PUBLISHED'', ex_key = sample_key ''L'', ex_digest = JStr ''d'' \<rparr>,
     \<lparr> ex_kb = ''KB-1'', ex_version = ''1'', ex_state = JStr ''DRAFT'', ex_key = sample_key ''W'', ex_digest = JStr ''d'' \<rparr>]"

lemma sample_review: "review_duplicates (\<lambda>_. []) (\<lambda>_. []) sample_cand sample_existing = Inr \<lparr> dr_result = CONFLICT,
    dr_matched = [''KB-1'', ''KB-2''],
    dr_compared = [\<lparr> du_kb = ''KB-1'', du_version = ''1'', du_same_scope = False, du_same_cause = False \<rparr>,
      \<lparr> du_kb = ''KB-2'', du_version = ''1'', du_same_scope = True, du_same_cause = False \<rparr>], dr_blocks = True \<rparr>"
  by code_simp


end
