(* ===== verification/Kb_Store.thy ===== *)
theory Kb_Store
  imports Knowledge Authorization
begin

section \<open>The knowledge base (change\_documentation\_knowledge/kb\_store.py)\<close>

text \<open>
  A knowledge base is a directory with a manifest and, for each version of an entry, an immutable
  article and its rendering. The model of the directory is \<open>kb_dir\<close>: what \<open>read_json_file\<close> returns
  for the manifest and for each article, and the texts of the renderings. A value that was
  written is read back with its keys sorted (\<open>dumps_pretty\<close> sorts them); the length of the written
  text is the parameter \<open>kb_size\<close>. Failures of the operating system and symbolic links are not
  modelled. An operation returns the directory it leaves, also when it raises.
\<close>

definition SCHEMA_VERSION :: string where "SCHEMA_VERSION = ''1.0.0''"
definition MAX_ENTRIES :: nat where "MAX_ENTRIES = 2000"
definition MAX_OUTPUT_BYTES :: nat where "MAX_OUTPUT_BYTES = 512000"

definition KB_ID :: rx where "KB_ID = Seq (lit ''KB-'') (Rep 16 0 (Cls low_hex))"
definition KB_VERSION :: rx where "KB_VERSION = Seq (Cls (btw 49 57)) (Rep 0 3 (Cls is_digit))"

definition GATED :: "kb_state list" where "GATED = [PENDING_HUMAN_REVIEW, APPROVED_BY_HUMAN, PUBLISHED]"
definition OPEN_STATES :: "kb_state list" where
  "OPEN_STATES = [CANDIDATE, DRAFT, PENDING_HUMAN_REVIEW, APPROVED_BY_HUMAN, PUBLISHED, REVIEW_DUE]"

record kb_env =
  kb_sha :: "string \<Rightarrow> string"
  kb_frepr :: "rat \<Rightarrow> string"
  kb_repr :: "json \<Rightarrow> string"
  kb_iso :: "string \<Rightarrow> bool"
  kb_size :: "json \<Rightarrow> nat"

record kb_dir =
  kd_exists :: bool
  kd_manifest :: "json option"
  kd_articles :: "(string \<times> string, json) dict"
  kd_pages :: "(string \<times> string, string) dict"

text \<open>What is read back of a value that was written.\<close>

fun reread :: "json \<Rightarrow> json" where
  "reread (JArr xs) = JArr (map reread xs)"
| "reread (JObj kvs) = JObj (sort_key fst (map (\<lambda>kv. (fst kv, reread (snd kv))) kvs))"
| "reread v = v"

definition jset :: "string \<Rightarrow> json \<Rightarrow> json \<Rightarrow> json" where
  "jset k w v = (case v of JObj kvs \<Rightarrow> JObj (dset k w kvs) | _ \<Rightarrow> v)"

definition state_of :: "json \<Rightarrow> kb_state option" where
  "state_of rec = (case jget rec ''state'' of Some (JStr s) \<Rightarrow> state_of_name s | _ \<Rightarrow> None)"

subsection \<open>Loading\<close>

definition empty_manifest :: json where
  "empty_manifest = JObj [(''schema_version'', JStr SCHEMA_VERSION), (''artifact_type'', JStr ''kb_manifest''), (''entries'', JObj [])]"

text \<open>\<open>rec.get("state") not in KbState.ALL\<close>.\<close>

definition check_version :: "string \<times> json \<Rightarrow> adv_error + unit" where
  "check_version x = (case x of (v, rec) \<Rightarrow>
     if \<not> match_dollar KB_VERSION v then adverr E_KB_INTEGRITY
     else bindE (advcrash (jget_attr rec ''state'')) (\<lambda>st.
       bindE (advcrash (str_in_set (or_else st JNull) (map state_name kb_states))) (\<lambda>b. ensure b (AdvErr E_KB_INTEGRITY None))))"

definition check_entry :: "string \<times> json \<Rightarrow> adv_error + unit" where
  "check_entry x = (case x of (kb_id, e) \<Rightarrow>
     if \<not> match_dollar KB_ID kb_id then adverr E_KB_INTEGRITY
     else (case jget e ''versions'' of
         Some (JObj vs) \<Rightarrow> bindE (mapE check_version vs) (\<lambda>_. Inr ())
       | _ \<Rightarrow> adverr E_KB_INTEGRITY))"

definition check_manifest :: "json \<Rightarrow> adv_error + json" where
  "check_manifest m =
     (if is_obj m \<and> getn m ''schema_version'' \<noteq> JStr SCHEMA_VERSION then adverr E_UNSUPPORTED_SCHEMA_VERSION
      else if \<not> is_obj m \<or> getn m ''artifact_type'' \<noteq> JStr ''kb_manifest'' then adverr E_KB_INTEGRITY
      else (case jget m ''entries'' of
          Some (JObj es) \<Rightarrow> if MAX_ENTRIES < length es then adverr E_KB_INTEGRITY
            else bindE (mapE check_entry es) (\<lambda>_. Inr m)
        | _ \<Rightarrow> adverr E_KB_INTEGRITY))"

text \<open>\<open>create\<close> makes the directory and starts with an empty manifest.\<close>

definition load_manifest :: "kb_dir \<Rightarrow> bool \<Rightarrow> adv_error + json" where
  "load_manifest R create =
     (if \<not> create \<and> \<not> kd_exists R then adverr E_KB_NOT_FOUND
      else (case (if kd_exists R then kd_manifest R else None) of
          None \<Rightarrow> if create then Inr empty_manifest else adverr E_KB_NOT_FOUND
        | Some m \<Rightarrow> check_manifest m))"

text \<open>\<open>manifest["entries"]\<close>, \<open>manifest["entries"][kb_id]["versions"]\<close> and one version, absent as \<open>None\<close>.\<close>

definition entries_of :: "json \<Rightarrow> (string \<times> json) list" where
  "entries_of m = (case jget m ''entries'' of Some (JObj es) \<Rightarrow> es | _ \<Rightarrow> [])"

definition versions_of :: "json \<Rightarrow> string \<Rightarrow> (string \<times> json) list" where
  "versions_of m kb_id = (case dget (entries_of m) kb_id of
      Some e \<Rightarrow> (case jget e ''versions'' of Some (JObj vs) \<Rightarrow> vs | _ \<Rightarrow> []) | None \<Rightarrow> [])"

definition version_rec :: "json \<Rightarrow> string \<Rightarrow> string \<Rightarrow> json option" where
  "version_rec m kb_id v = dget (versions_of m kb_id) v"

definition digest_of :: "kb_env \<Rightarrow> json \<Rightarrow> json" where
  "digest_of E a = (case a of JObj kvs \<Rightarrow> JStr (content_digest (kb_sha E) (kb_frepr E) kvs) | _ \<Rightarrow> JNull)"

text \<open>
  Each article is verified against its own digest, the manifest's digest, its identifier and its
  version. A version is a text, so \<open>str(art.get("version"))\<close> is compared as one.
\<close>

definition load_article :: "kb_env \<Rightarrow> kb_dir \<Rightarrow> json \<Rightarrow> string \<Rightarrow> string \<Rightarrow> adv_error + json" where
  "load_article E R m kb_id version = (case version_rec m kb_id version of
      None \<Rightarrow> adverr E_KB_NOT_FOUND
    | Some rec \<Rightarrow> (case dget (kd_articles R) (kb_id, version) of
        None \<Rightarrow> adverr E_KB_INTEGRITY
      | Some art \<Rightarrow>
          if \<not> is_obj art \<or> digest_of E art \<noteq> getn art ''content_digest'' \<or> getn art ''content_digest'' \<noteq> getn rec ''digest''
          then adverr E_KB_INTEGRITY
          else if getn art ''kb_id'' \<noteq> JStr kb_id \<or> fmt (kb_repr E) (getn art ''version'') \<noteq> version then adverr E_KB_INTEGRITY
          else Inr art))"

text \<open>Writing the manifest replaces it, after the audit of its texts.\<close>

definition save_manifest :: "kb_env \<Rightarrow> kb_dir \<Rightarrow> json \<Rightarrow> adv_error + kb_dir" where
  "save_manifest E R m =
     bindE (audit_strings m 0) (\<lambda>_.
     if MAX_OUTPUT_BYTES < kb_size E m then adverr E_OUTPUT_TOO_LARGE_CDK
     else Inr (R\<lparr>kd_manifest := Some (reread m)\<rparr>))"

subsection \<open>The rendering of an article\<close>

text \<open>\<open>str(v)\<close> for Markdown, empty for \<open>None\<close>. A long dash of the source is written as a hyphen.\<close>

definition md_str :: "kb_env \<Rightarrow> json \<Rightarrow> string" where
  "md_str E v = (case v of JNull \<Rightarrow> [] | _ \<Rightarrow> fmt (kb_repr E) v)"

definition esc :: "kb_env \<Rightarrow> json \<Rightarrow> string" where "esc E v = md_escape (md_str E v)"

definition join_texts :: "json \<Rightarrow> py_exc + string" where
  "join_texts v = bindE (bindE (py_iter v) (mapE as_str)) (\<lambda>ts. Inr (join_on '', '' ts))"

definition or_none :: "string \<Rightarrow> string" where "or_none s = (if s = [] then ''none'' else s)"

definition md_row :: "string \<times> string \<Rightarrow> string" where
  "md_row x = ''| '' @ md_escape (fst x) @ '' | '' @ md_escape (snd x) @ '' |''"

definition md_section :: "string \<Rightarrow> string list \<Rightarrow> string list" where
  "md_section title items = [[], ''## '' @ title] @ (if items = [] then [''- _none_''] else map (\<lambda>i. ''- '' @ md_escape i) items)"

definition article_rows :: "kb_env \<Rightarrow> json \<Rightarrow> json \<Rightarrow> py_exc + (string \<times> string) list" where
  "article_rows E art a =
     bindE (jreq a ''article_type'') (\<lambda>t.
     bindE (jpath a [''scope'', ''domain'']) (\<lambda>dom.
     bindE (bindE (jpath a [''scope'', ''oracle_versions'']) join_texts) (\<lambda>vers.
     bindE (jpath a [''scope'', ''release_update'']) (\<lambda>ru.
     bindE (jpath a [''scope'', ''platform'']) (\<lambda>plat.
     bindE (bindE (jreq a ''error_codes'') join_texts) (\<lambda>codes.
     bindE (jreq a ''owner'') (\<lambda>owner.
     bindE (jreq a ''validated_at_utc'') (\<lambda>val.
     bindE (jreq a ''review_due_utc'') (\<lambda>due.
     bindE (jreq a ''supersedes'') (\<lambda>sp.
     bindE (jreq art ''content_digest'') (\<lambda>dg.
       Inr [(''Type'', md_str E t), (''Domain'', md_str E dom), (''Oracle versions'', vers), (''Release update'', md_str E ru),
         (''Platform'', md_str E plat), (''Certified error codes'', or_none codes), (''Owner'', md_str E owner),
         (''Validated (UTC)'', md_str E val), (''Review due (UTC)'', md_str E due),
         (''Supersedes'', if truthy sp then md_str E sp else ''none''), (''Content digest'', md_str E dg)])))))))))))"

text \<open>The items of a list of the article, and the texts built from each of its objects.\<close>

definition item_texts :: "kb_env \<Rightarrow> json \<Rightarrow> string list \<Rightarrow> py_exc + string list" where
  "item_texts E a ks = bindE (bindE (jpath a ks) py_iter) (\<lambda>xs. Inr (map (md_str E) xs))"

definition evidence_lines :: "kb_env \<Rightarrow> json \<Rightarrow> py_exc + string list" where
  "evidence_lines E a =
     bindE (bindE (jpath a [''minimal_reproducible_evidence'', ''evidence_refs'']) py_iter) (\<lambda>refs.
     bindE (item_texts E a [''minimal_reproducible_evidence'', ''required_conditions'']) (\<lambda>req.
     bindE (item_texts E a [''minimal_reproducible_evidence'', ''contradicting_conditions'']) (\<lambda>con.
     let shown = join_on '', '' (map (\<lambda>e. md_code (md_str E e)) refs) in
       Inr ([[], ''## Minimal reproducible evidence'', ''- Evidence references: '' @ (if shown = [] then ''_none_'' else shown)] @
         map (\<lambda>c. ''- Required condition: '' @ md_escape c) req @ map (\<lambda>c. ''- Contradicting condition: '' @ md_escape c) con))))"

definition cause_line :: "kb_env \<Rightarrow> json \<Rightarrow> py_exc + string" where
  "cause_line E a =
     bindE (jreq a ''hypothesis'') (\<lambda>h.
     bindE (mapE (jreq h) [''statement'', ''status'', ''confidence'']) (\<lambda>vs.
     bindE (jreq h ''publishable_as_fact'') (\<lambda>p.
       Inr (fmt (kb_repr E) (vs ! 0) @ '' (status '' @ fmt (kb_repr E) (vs ! 1) @ '', confidence '' @ fmt (kb_repr E) (vs ! 2) @
         '', publishable as fact: '' @ (if truthy p then ''yes'' else ''NO'') @ '')''))))"

definition manual_line :: "kb_env \<Rightarrow> json \<Rightarrow> py_exc + string" where
  "manual_line E m =
     bindE (mapE (jreq m) [''action'', ''risk'', ''postcheck'']) (\<lambda>vs.
       Inr (fmt (kb_repr E) (vs ! 0) @ '' - risk: '' @ fmt (kb_repr E) (vs ! 1) @ ''; post-check: '' @ fmt (kb_repr E) (vs ! 2)))"

definition license_line :: "kb_env \<Rightarrow> json \<Rightarrow> py_exc + string" where
  "license_line E a =
     bindE (jpath a [''prerequisites_and_license'', ''license_dependent'']) (\<lambda>l.
     bindE (jpath a [''prerequisites_and_license'', ''note'']) (\<lambda>n.
       Inr (''License dependent: '' @ (if truthy l then ''yes'' else ''no'') @ ''. '' @ fmt (kb_repr E) n)))"

definition provenance_lines :: "kb_env \<Rightarrow> json \<Rightarrow> py_exc + string list" where
  "provenance_lines E a =
     bindE (jreq a ''provenance'') (\<lambda>p.
     bindE (mapE (jreq p) [''incident_id'', ''rca_id'', ''rule_id'']) (\<lambda>vs.
     bindE (mapE (\<lambda>(label, k). bindE (bindE (jreq p k) join_texts) (\<lambda>t. Inr (label @ t)))
         [(''Hypotheses: '', ''hypothesis_ids''), (''Evidence: '', ''evidence_ids''), (''Findings: '', ''finding_ids''),
          (''Recommendations: '', ''recommendation_ids'')]) (\<lambda>ls.
       Inr ((''Incident '' @ fmt (kb_repr E) (vs ! 0) @ ''; RCA '' @ fmt (kb_repr E) (vs ! 1) @ ''; rule '' @ fmt (kb_repr E) (vs ! 2)) # ls))))"

definition render_article_md :: "kb_env \<Rightarrow> json \<Rightarrow> py_exc + string" where
  "render_article_md E art =
     bindE (jreq art ''article'') (\<lambda>a.
     bindE (mapE (jreq a) [''title'']) (\<lambda>title.
     bindE (mapE (jreq art) [''kb_id'', ''version'']) (\<lambda>ids.
     bindE (article_rows E art a) (\<lambda>rows.
     bindE (item_texts E a [''symptoms_observable'']) (\<lambda>symptoms.
     bindE (evidence_lines E a) (\<lambda>evidence.
     bindE (cause_line E a) (\<lambda>cause.
     bindE (item_texts E a [''readonly_diagnostics'']) (\<lambda>diagnostics.
     bindE (item_texts E a [''interpretation_and_limits'']) (\<lambda>limits.
     bindE (bindE (bindE (jreq a ''manual_recommendations'') py_iter) (mapE (manual_line E))) (\<lambda>manual.
     bindE (license_line E a) (\<lambda>license.
     bindE (provenance_lines E a) (\<lambda>provenance.
       Inr (join_on [newline] (
         [''# '' @ esc E (title ! 0), [], ''KB entry '' @ md_code (md_str E (ids ! 0)) @ '' - version '' @ esc E (ids ! 1), [],
          ''> A KB article does not replace current evidence. Confirm against the current environment before forming an RCA or a recommendation. '' @
          ''State (draft/published/deprecated) is recorded in the KB manifest, not in this file.'', [],
          ''| Field | Value |'', ''|---|---|''] @ map md_row rows @
         md_section ''Observable symptoms'' symptoms @ evidence @ md_section ''Cause and status'' [cause] @
         md_section ''Read-only diagnostics'' diagnostics @ md_section ''Interpretation and limits'' limits @
         md_section ''Manual recommendations (text for a human; never executed by the e-stack)'' manual @
         md_section ''Prerequisites and licensing'' [license] @ md_section ''Provenance'' provenance @ [[]]))))))))))))))"

end
