(* ===== verification/Kb_Lifecycle.thy ===== *)
theory Kb_Lifecycle
  imports Kb_Store
begin

section \<open>Adding and promoting knowledge (change\_documentation\_knowledge/kb\_store.py)\<close>

text \<open>
  The two operations that change a knowledge base. \<open>add_candidate\<close> stores an immutable article
  with its first event; \<open>transition\<close> moves one version along the lifecycle and appends one event to its
  history. The manifest is decoded JSON, updated at the paths the code assigns to.
\<close>

subsection \<open>Updating the manifest\<close>

definition set_versions :: "string \<Rightarrow> (string \<times> json) list \<Rightarrow> json \<Rightarrow> json" where
  "set_versions kb_id vs m = (case dget (entries_of m) kb_id of
      Some e \<Rightarrow> jset ''entries'' (JObj (dset kb_id (jset ''versions'' (JObj vs) e) (entries_of m))) m
    | None \<Rightarrow> m)"

text \<open>\<open>rec["history"]\<close> where it is measured and appended to.\<close>

definition hist_list :: "json \<Rightarrow> py_exc + json list" where
  "hist_list rec = bindE (jreq rec ''history'') (\<lambda>h. (case h of
      JArr hs \<Rightarrow> Inr hs
    | JObj _ \<Rightarrow> Inl AttributeError
    | JStr _ \<Rightarrow> Inl AttributeError
    | _ \<Rightarrow> Inl TypeError))"

subsection \<open>Conflicts and previous decisions\<close>

definition is_open :: "json \<Rightarrow> bool" where
  "is_open rec = (case state_of rec of Some s \<Rightarrow> s \<in> set OPEN_STATES | None \<Rightarrow> False)"

definition conflicting :: "string \<Rightarrow> string \<Rightarrow> string \<Rightarrow> json \<Rightarrow> string \<times> json \<Rightarrow> py_exc + bool" where
  "conflicting kb_id version mine a x = (case x of (v, rec) \<Rightarrow>
     if v = version \<or> \<not> is_open rec then Inr False
     else bindE (jreq rec ''recommendation_digest'') (\<lambda>d. if d = JStr mine then Inr False
       else bindE (jreq a ''supersedes'') (\<lambda>s. Inr (s \<noteq> JStr kb_id))))"

definition open_conflicts :: "kb_env \<Rightarrow> json \<Rightarrow> string \<Rightarrow> string \<Rightarrow> json \<Rightarrow> py_exc + string list" where
  "open_conflicts E m kb_id version art =
     bindE (jreq art ''article'') (\<lambda>a.
     bindE (recommendation_digest (kb_sha E) (kb_repr E) a) (\<lambda>mine.
     bindE (filterE (conflicting kb_id version mine a) (versions_of m kb_id)) (\<lambda>vs. Inr (sort (map fst vs)))))"

text \<open>The truthy values of a field over the events of a history.\<close>

definition event_values :: "string \<Rightarrow> json list \<Rightarrow> py_exc + json list" where
  "event_values k hs =
     bindE (mapE (\<lambda>h. bindE (jget_attr h k) (\<lambda>v. Inr (filter truthy [or_else v JNull]))) hs) (\<lambda>vs. Inr (concat vs))"

definition used_ids :: "json \<Rightarrow> string \<Rightarrow> py_exc + json list" where
  "used_ids m kb_id =
     bindE (mapE (\<lambda>(v, rec). bindE (bindE (jreq rec ''history'') py_iter) (event_values ''authorization_id'')) (versions_of m kb_id)) (\<lambda>vss.
     if list_ex unhashable (concat vss) then Inl TypeError else Inr (concat vss))"

fun py_max :: "json \<Rightarrow> json list \<Rightarrow> py_exc + json" where
  "py_max m [] = Inr m"
| "py_max m (x # xs) = bindE (py_cmp Greater x m) (\<lambda>b. py_max (if b then x else m) xs)"

text \<open>A decision is not earlier than the decisions already in the history.\<close>

definition too_early :: "string \<Rightarrow> json list \<Rightarrow> py_exc + bool" where
  "too_early t hs = bindE (event_values ''decision_at_utc'' hs) (\<lambda>prev. (case prev of
      [] \<Rightarrow> Inr False
    | p # ps \<Rightarrow> bindE (py_max p ps) (\<lambda>m. py_cmp Less (JStr t) m)))"

definition decide :: "kb_env \<Rightarrow> json \<Rightarrow> string \<Rightarrow> string \<Rightarrow> json \<Rightarrow> json \<Rightarrow> adv_error + auth_decl" where
  "decide E m kb_id version rec authorization_raw =
     bindE (advcrash (bindE (jreq rec ''history'') py_iter)) (\<lambda>hs.
     bindE (advcrash (used_ids m kb_id)) (\<lambda>used.
     bindE (dkey rec ''digest'') (\<lambda>digest.
     bindE (dkey rec ''proposer_ids'') (\<lambda>ps.
     bindE (verify_authorization (kb_iso E) authorization_raw kb_id digest version ps ''APPROVED'') (\<lambda>d.
     bindE (ensure (JStr (dc_auth d) \<notin> set used) (field_err E_AUTH_INVALID ''authorization.authorization_id'')) (\<lambda>_.
     bindE (advcrash (too_early (dc_at d) hs)) (\<lambda>early.
     bindE (ensure (\<not> early) (field_err E_AUTH_INVALID ''authorization.decision_at_utc'')) (\<lambda>_. Inr d))))))))"

subsection \<open>Events\<close>

definition decl_str :: "auth_decl option \<Rightarrow> (auth_decl \<Rightarrow> string) \<Rightarrow> json" where
  "decl_str d f = (case d of None \<Rightarrow> JNull | Some x \<Rightarrow> JStr (f x))"

definition mk_event :: "nat \<Rightarrow> kb_state \<Rightarrow> kb_state \<Rightarrow> string \<Rightarrow> auth_decl option \<Rightarrow> json" where
  "mk_event seq frm to_state at_utc d = JObj [(''seq'', JInt (int seq)), (''from'', JStr (state_name frm)), (''to'', JStr (state_name to_state)),
     (''at_utc'', JStr at_utc), (''authorization_id'', decl_str d dc_auth), (''reviewer_id'', decl_str d dc_reviewer),
     (''decision_at_utc'', decl_str d dc_at), (''artifact_digest'', decl_str d dc_digest),
     (''verification'', decl_str d dc_verification), (''review_notes_sanitized'', decl_str d dc_notes)]"

text \<open>The event of a superseded version: always \<open>from\<close> published, with the new version's authorization.\<close>

definition superseding_event :: "nat \<Rightarrow> string \<Rightarrow> json \<Rightarrow> auth_decl \<Rightarrow> json" where
  "superseding_event seq at_utc digest d = JObj [(''seq'', JInt (int seq)), (''from'', JStr (state_name PUBLISHED)),
     (''to'', JStr (state_name SUPERSEDED)), (''at_utc'', JStr at_utc), (''authorization_id'', JStr (dc_auth d)),
     (''reviewer_id'', JStr (dc_reviewer d)), (''decision_at_utc'', JStr (dc_at d)), (''artifact_digest'', digest),
     (''verification'', JStr (dc_verification d)),
     (''review_notes_sanitized'', JStr ''superseded by publication of a newer authorized version'')]"

definition move_rec :: "kb_state \<Rightarrow> kb_state \<Rightarrow> string \<Rightarrow> auth_decl option \<Rightarrow> json \<Rightarrow> adv_error + json" where
  "move_rec frm to_state at_utc d rec =
     bindE (advcrash (hist_list rec)) (\<lambda>hs.
       Inr (jset ''history'' (JArr (hs @ [mk_event (Suc (length hs)) frm to_state at_utc d])) (jset ''state'' (JStr (state_name to_state)) rec)))"

definition supersede_rec :: "string \<Rightarrow> string \<Rightarrow> auth_decl \<Rightarrow> string \<times> json \<Rightarrow> adv_error + string \<times> json" where
  "supersede_rec version at_utc d x = (case x of (v, rec) \<Rightarrow>
     if v \<noteq> version \<and> state_of rec \<in> set [Some PUBLISHED, Some REVIEW_DUE] then
       bindE (advcrash (hist_list rec)) (\<lambda>hs.
       bindE (dkey rec ''digest'') (\<lambda>digest.
         Inr (v, jset ''history'' (JArr (hs @ [superseding_event (Suc (length hs)) at_utc digest d]))
           (jset ''superseded_by_version'' (JStr version) (jset ''state'' (JStr (state_name SUPERSEDED)) rec)))))
     else Inr (v, rec))"

subsection \<open>Transition\<close>

record transition_result =
  tr_kb :: string
  tr_version :: string
  tr_from :: kb_state
  tr_to :: kb_state
  tr_superseded :: "string option"
  tr_verification :: "string option"

text \<open>The gate of a promotion, on the immutable article.\<close>

definition promotion_gate :: "kb_env \<Rightarrow> json \<Rightarrow> string \<Rightarrow> string \<Rightarrow> json \<Rightarrow> adv_error + unit" where
  "promotion_gate E m kb_id version art =
     bindE (dkey art ''source_refs'') (\<lambda>refs.
     bindE (dkey art ''article'') (\<lambda>a.
     bindE (advcrash (quality_gate refs a)) (\<lambda>reasons.
     bindE (ensure (reasons = []) (AdvErr E_QUALITY_GATE None)) (\<lambda>_.
     bindE (advcrash (open_conflicts E m kb_id version art)) (\<lambda>cs. ensure (cs = []) (AdvErr E_CONFLICT None))))))"

definition superseded_version :: "string \<Rightarrow> (string \<times> json) list \<Rightarrow> string option" where
  "superseded_version version vs =
     (case rev (filter (\<lambda>(v, rec). v \<noteq> version \<and> state_of rec \<in> set [Some PUBLISHED, Some REVIEW_DUE]) vs) of
        [] \<Rightarrow> None | (v, _) # _ \<Rightarrow> Some v)"

text \<open>What the checks of \<open>transition\<close> establish: the manifest, the record, the article, both states and the time.\<close>

definition transition_checks :: "kb_env \<Rightarrow> kb_dir \<Rightarrow> string \<Rightarrow> string \<Rightarrow> string \<Rightarrow> json
    \<Rightarrow> adv_error + json \<times> json \<times> json \<times> kb_state \<times> kb_state \<times> string" where
  "transition_checks E R kb_id version to_name at_utc =
     (if \<not> match_dollar KB_ID kb_id \<or> \<not> match_dollar KB_VERSION version then Inl (field_err E_USAGE ''kb_id'')
      else (case (state_of_name to_name, at_utc) of
          (Some to_state, JStr t) \<Rightarrow>
            bindE (ensure (is_utc_timestamp (kb_iso E) at_utc) (field_err E_USAGE ''to_state'')) (\<lambda>_.
            bindE (load_manifest R False) (\<lambda>m. (case version_rec m kb_id version of
                None \<Rightarrow> adverr E_KB_NOT_FOUND
              | Some rec \<Rightarrow> bindE (load_article E R m kb_id version) (\<lambda>art. (case state_of rec of
                    None \<Rightarrow> Inl (AdvCrash KeyError)
                  | Some frm \<Rightarrow> if to_state \<notin> set (KB_TRANSITIONS frm) then Inl (field_err E_TRANSITION_DENIED ''to_state'')
                      else Inr (m, rec, art, frm, to_state, t))))))
        | _ \<Rightarrow> Inl (field_err E_USAGE ''to_state'')))"

text \<open>The new versions of the entry: the moved record, and the versions it supersedes.\<close>

definition moved_versions :: "string \<Rightarrow> string \<Rightarrow> json \<Rightarrow> kb_state \<Rightarrow> string \<Rightarrow> auth_decl option \<Rightarrow> json \<Rightarrow> (string \<times> json) list
    \<Rightarrow> adv_error + (string \<times> json) list \<times> string option" where
  "moved_versions kb_id version art to_state t d rec' vs =
     (let vs1 = dset version rec' vs in
      if to_state = PUBLISHED then
        bindE (bindE (dkey art ''article'') (\<lambda>a. dkey a ''supersedes'')) (\<lambda>sp.
          if sp = JStr kb_id then (case d of
              None \<Rightarrow> Inl (AdvCrash TypeError)
            | Some x \<Rightarrow> bindE (mapE (supersede_rec version t x) vs1) (\<lambda>vs2. Inr (vs2, superseded_version version vs1)))
          else Inr (vs1, None))
      else Inr (vs1, None))"

definition transition :: "kb_env \<Rightarrow> kb_dir \<Rightarrow> string \<Rightarrow> string \<Rightarrow> string \<Rightarrow> json \<Rightarrow> json \<Rightarrow> adv_error + kb_dir \<times> transition_result" where
  "transition E R kb_id version to_name at_utc authorization_raw =
     bindE (transition_checks E R kb_id version to_name at_utc) (\<lambda>(m, rec, art, frm, to_state, t).
     bindE (if to_state \<in> set GATED then promotion_gate E m kb_id version art else Inr ()) (\<lambda>_.
     bindE (if (frm, to_state) \<in> set HUMAN_DECISION_TRANSITIONS
            then bindE (decide E m kb_id version rec authorization_raw) (\<lambda>d. Inr (Some d)) else Inr None) (\<lambda>d.
     bindE (move_rec frm to_state t d rec) (\<lambda>rec'.
     bindE (moved_versions kb_id version art to_state t d rec' (versions_of m kb_id)) (\<lambda>(vs, sp).
     bindE (save_manifest E R (set_versions kb_id vs m)) (\<lambda>R'.
       Inr (R', \<lparr> tr_kb = kb_id, tr_version = version, tr_from = frm, tr_to = to_state, tr_superseded = sp,
         tr_verification = map_option dc_verification d \<rparr>)))))))"

subsection \<open>Adding a candidate\<close>

definition existing_for_review :: "json \<Rightarrow> py_exc + existing_row list" where
  "existing_for_review m =
     bindE (mapE (\<lambda>(kb_id, e). mapE (\<lambda>(v, rec).
       bindE (jreq rec ''state'') (\<lambda>st. bindE (jreq rec ''dedup_key'') (\<lambda>k. bindE (jreq rec ''recommendation_digest'') (\<lambda>d.
         Inr \<lparr> ex_kb = kb_id, ex_version = v, ex_state = st, ex_key = k, ex_digest = d \<rparr>)))) (versions_of m kb_id)) (entries_of m)) (\<lambda>xss.
     Inr (concat xss))"

datatype add_result =
    Not_Added dup_review string
  | Added dup_review string string kb_state bool \<comment> \<open>entry, version, state, open conflict\<close>

text \<open>The checks on the candidate alone: its identifier and state.\<close>

definition check_candidate :: "kb_env \<Rightarrow> json \<Rightarrow> adv_error + string \<times> kb_state" where
  "check_candidate E cand =
     bindE (ensure (getn cand ''artifact_type'' = JStr ''kb_candidate'' \<and> getn cand ''schema_version'' = JStr SCHEMA_VERSION)
         (field_err E_INPUT_INVALID ''candidate'')) (\<lambda>_.
     bindE (ensure (digest_of E cand = getn cand ''content_digest'') (field_err E_INPUT_INVALID ''candidate.content_digest'')) (\<lambda>_.
     bindE (audit_strings cand 0) (\<lambda>_.
     bindE (dkey cand ''lifecycle_state'') (\<lambda>st.
     bindE (ensure (str_in st (map state_name [CANDIDATE, DRAFT])) (AdvErr E_QUALITY_GATE None)) (\<lambda>_.
     bindE (dkey cand ''kb_id'') (\<lambda>k.
     bindE (require_id k (Some [''KB'']) (Some ''candidate.kb_id'')) (\<lambda>kb_id.
       Inr (kb_id, if st = JStr (state_name DRAFT) then DRAFT else CANDIDATE))))))))"

text \<open>The next version number of an entry, and the entries with an empty one for a new identifier.\<close>

definition next_version :: "(string \<times> json) list \<Rightarrow> py_exc + string" where
  "next_version vs = bindE (mapE (int_of_text \<circ> fst) vs) (\<lambda>ns. Inr (str_of_int (Max (set (0 # ns)) + 1)))"

definition with_entry :: "string \<Rightarrow> json \<Rightarrow> json" where
  "with_entry kb_id m = (case dget (entries_of m) kb_id of
      Some _ \<Rightarrow> m
    | None \<Rightarrow> jset ''entries'' (JObj (entries_of m @ [(kb_id, JObj [(''versions'', JObj [])])])) m)"

definition DROPPED_FIELDS :: "string list" where
  "DROPPED_FIELDS = [''lifecycle_state'', ''review_status'', ''kb_candidate_id'', ''quality_gate'', ''content_digest'']"

definition article_of :: "kb_env \<Rightarrow> json \<Rightarrow> string \<Rightarrow> string \<Rightarrow> string \<Rightarrow> adv_error + json" where
  "article_of E cand kb_id version generated_at =
     bindE (advcrash (jitems cand)) (\<lambda>kvs.
     bindE (dkey cand ''kb_candidate_id'') (\<lambda>cid.
     let kept = filter (\<lambda>(k, v). k \<notin> set DROPPED_FIELDS) kvs;
         art = fold (\<lambda>(k, v). dset k v) [(''artifact_type'', JStr ''kb_article''), (''version'', JStr version),
           (''kb_version_id'', JStr (''KBV-'' @ drop 3 kb_id @ ''-V'' @ version)), (''origin_candidate_id'', cid),
           (''generated_at_utc'', JStr generated_at)] kept
     in Inr (jset ''content_digest'' (digest_of E (JObj art)) (JObj art))))"

text \<open>The record of a new version, with its first event.\<close>

definition first_event :: "kb_state \<Rightarrow> string \<Rightarrow> json" where
  "first_event st generated_at = JObj [(''seq'', JInt 1), (''from'', JNull), (''to'', JStr (state_name st)), (''at_utc'', JStr generated_at),
     (''authorization_id'', JNull), (''reviewer_id'', JNull), (''note'', JStr ''added from candidate'')]"

definition new_record :: "kb_env \<Rightarrow> json \<Rightarrow> json \<Rightarrow> json \<Rightarrow> kb_state \<Rightarrow> string \<Rightarrow> py_exc + json" where
  "new_record E cand art a st generated_at =
     bindE (jreq art ''content_digest'') (\<lambda>dg.
     bindE (recommendation_digest (kb_sha E) (kb_repr E) a) (\<lambda>rd.
     bindE (jreq cand ''dedup_key'') (\<lambda>key.
     bindE (mapE (\<lambda>k. bindE (jreq a k) (\<lambda>v. Inr (k, v))) [''title'', ''article_type'', ''review_due_utc'', ''supersedes'']) (\<lambda>meta.
     bindE (bindE (jreq cand ''proposer_ids'') py_iter) (\<lambda>ps.
     bindE (jpath cand [''source_refs'', ''incident_id'']) (\<lambda>inc.
       Inr (JObj ([(''state'', JStr (state_name st)), (''digest'', dg), (''recommendation_digest'', JStr rd), (''dedup_key'', key)] @ meta @
         [(''superseded_by_version'', JNull), (''proposer_ids'', JArr ps), (''origin_incident_id'', inc),
          (''history'', JArr [first_event st generated_at])]))))))))"

text \<open>
  The writes, in the order of the code: the article, its rendering, the manifest. A write that
  fails leaves the earlier ones.
\<close>

definition write_article :: "kb_env \<Rightarrow> kb_dir \<Rightarrow> string \<times> string \<Rightarrow> json \<Rightarrow> adv_error + kb_dir" where
  "write_article E R key art =
     (if MAX_OUTPUT_BYTES < kb_size E art then adverr E_OUTPUT_TOO_LARGE_CDK
      else if dget (kd_articles R) key \<noteq> None then adverr E_OUTPUT_EXISTS
      else Inr (R\<lparr>kd_articles := dset key (reread art) (kd_articles R)\<rparr>))"

definition write_page :: "kb_env \<Rightarrow> kb_dir \<Rightarrow> string \<times> string \<Rightarrow> json \<Rightarrow> adv_error + kb_dir" where
  "write_page E R key art =
     bindE (advcrash (render_article_md E art)) (\<lambda>t.
     if MAX_OUTPUT_BYTES < length t then adverr E_OUTPUT_TOO_LARGE_CDK
     else if dget (kd_pages R) key \<noteq> None then adverr E_OUTPUT_EXISTS
     else Inr (R\<lparr>kd_pages := dset key t (kd_pages R)\<rparr>))"

definition store_version :: "kb_env \<Rightarrow> kb_dir \<Rightarrow> json \<Rightarrow> json \<Rightarrow> string \<Rightarrow> string \<Rightarrow> json \<Rightarrow> json \<Rightarrow> kb_state \<Rightarrow> string
    \<Rightarrow> kb_dir \<times> (adv_error + unit)" where
  "store_version E R m cand kb_id version art a st generated_at =
     (case write_article E R (kb_id, version) art of
        Inl e \<Rightarrow> (R, Inl e)
      | Inr R1 \<Rightarrow> (case write_page E R1 (kb_id, version) art of
          Inl e \<Rightarrow> (R1, Inl e)
        | Inr R2 \<Rightarrow> (case bindE (advcrash (new_record E cand art a st generated_at)) (\<lambda>rec.
              save_manifest E R2 (set_versions kb_id (dset version rec (versions_of m kb_id)) m)) of
            Inl e \<Rightarrow> (R2, Inl e)
          | Inr R3 \<Rightarrow> (R3, Inr ()))))"

text \<open>Everything before the first write.\<close>

definition plan_add :: "kb_env \<Rightarrow> kb_dir \<Rightarrow> json \<Rightarrow> string \<Rightarrow> string
    \<Rightarrow> adv_error + dup_review \<times> (json \<times> string \<times> json \<times> json) option" where
  "plan_add E R cand kb_id generated_at =
     bindE (load_manifest R True) (\<lambda>m.
     bindE (advcrash (existing_for_review m)) (\<lambda>rows.
     bindE (advcrash (review_duplicates (kb_sha E) (kb_repr E) cand rows)) (\<lambda>review.
     if dr_result review = DUPLICATE then Inr (review, None)
     else bindE (dkey cand ''article'') (\<lambda>a.
       bindE (dkey a ''supersedes'') (\<lambda>sp.
       bindE (ensure (sp = JNull \<or> sp = JStr kb_id) (field_err E_INPUT_INVALID ''candidate.supersedes'')) (\<lambda>_.
       let m1 = with_entry kb_id m in
       bindE (ensure (length (entries_of m1) \<le> MAX_ENTRIES) (AdvErr E_KB_INTEGRITY None)) (\<lambda>_.
       bindE (advcrash (next_version (versions_of m1 kb_id))) (\<lambda>version.
       bindE (article_of E cand kb_id version generated_at) (\<lambda>art.
       bindE (audit_strings art 0) (\<lambda>_. Inr (review, Some (m1, version, art, a))))))))))))"

definition add_candidate :: "kb_env \<Rightarrow> kb_dir \<Rightarrow> json \<Rightarrow> string \<Rightarrow> kb_dir \<times> (adv_error + add_result)" where
  "add_candidate E R cand generated_at = (case check_candidate E cand of
      Inl e \<Rightarrow> (R, Inl e)
    | Inr (kb_id, st) \<Rightarrow> let R1 = (if kd_exists R then R else R\<lparr>kd_exists := True, kd_manifest := None\<rparr>) in
        (case plan_add E R1 cand kb_id generated_at of
            Inl e \<Rightarrow> (R1, Inl e)
          | Inr (review, None) \<Rightarrow> (R1, Inr (Not_Added review kb_id))
          | Inr (review, Some (m, version, art, a)) \<Rightarrow>
              (case store_version E R1 m cand kb_id version art a st generated_at of
                  (R2, Inl e) \<Rightarrow> (R2, Inl e)
                | (R2, Inr _) \<Rightarrow> (R2, Inr (Added review kb_id version st (dr_result review = CONFLICT))))))"

subsection \<open>Read-only queries\<close>

definition version_numbers :: "(string \<times> json) list \<Rightarrow> py_exc + (string \<times> json) list" where
  "version_numbers vs = bindE (mapE (\<lambda>(v, rec). bindE (int_of_text v) (\<lambda>n. Inr (n, v, rec))) vs) (\<lambda>ts.
     Inr (map snd (sort_by (\<lambda>a b. fst a < fst b) ts)))"

record due_row =
  dw_kb :: string
  dw_version :: string
  dw_state :: kb_state
  dw_due :: json

definition due_of :: "string \<Rightarrow> string \<Rightarrow> string \<times> json \<Rightarrow> py_exc + due_row list" where
  "due_of as_of kb_id x = (case x of (v, rec) \<Rightarrow> (case state_of rec of
      Some s \<Rightarrow> if s \<in> set CURRENT_GUIDANCE then bindE (jreq rec ''review_due_utc'') (\<lambda>due.
          bindE (py_cmp LessEq due (JStr as_of)) (\<lambda>b. Inr (if b then [\<lparr> dw_kb = kb_id, dw_version = v, dw_state = s, dw_due = due \<rparr>] else [])))
        else Inr []
    | None \<Rightarrow> Inr []))"

definition review_due :: "kb_env \<Rightarrow> kb_dir \<Rightarrow> json \<Rightarrow> adv_error + due_row list" where
  "review_due E R as_of = (case as_of of
      JStr t \<Rightarrow> if \<not> is_utc_timestamp (kb_iso E) as_of then Inl (field_err E_USAGE ''as_of'')
        else bindE (load_manifest R False) (\<lambda>m.
          bindE (advcrash (mapE (\<lambda>kb_id. bindE (version_numbers (versions_of m kb_id)) (\<lambda>vs.
            bindE (mapE (due_of t kb_id) vs) (\<lambda>rows. Inr (concat rows)))) (sort (dkeys (entries_of m))))) (\<lambda>rss. Inr (concat rss)))
    | _ \<Rightarrow> Inl (field_err E_USAGE ''as_of''))"

definition kb_status :: "kb_dir \<Rightarrow> adv_error + (string \<times> (string \<times> json) list) list" where
  "kb_status R = bindE (load_manifest R False) (\<lambda>m.
     advcrash (mapE (\<lambda>(kb_id, e). bindE (version_numbers (versions_of m kb_id)) (\<lambda>vs.
       bindE (mapE (\<lambda>(v, rec). bindE (jreq rec ''state'') (\<lambda>st. Inr (v, st))) vs) (\<lambda>sts. Inr (kb_id, sts)))) (sort_key fst (entries_of m))))"

end
