(* ===== verification/Kb_Safety.thy ===== *)
theory Kb_Safety
  imports Kb_Lifecycle
begin

section \<open>What the knowledge base guarantees\<close>

text \<open>
  The history of a version, up to the order of keys, is the abstraction: \<open>log\<close> gives its state and
  its events. A legal history is an inductive predicate over events; every operation keeps the
  histories legal, only ever appends to them, and never changes an article.
\<close>

subsection \<open>Reading back\<close>

lemma dget_sort: "dget (sort_key fst (kvs :: ('b :: linorder \<times> 'a) list)) k = dget kvs k"
proof -
  have f: "dget xs k = (case filter (\<lambda>x. fst x = k) xs of [] \<Rightarrow> None | x # _ \<Rightarrow> Some (snd x))" for xs :: "('b \<times> 'a) list" and k
    by (induction xs) auto
  show ?thesis unfolding f [of "sort_key fst kvs"] f [of kvs] by (simp only: sort_key_stable)
qed

lemma dget_map: "dget (map (\<lambda>kv. (fst kv, f (snd kv))) kvs) k = map_option f (dget kvs k)"
  by (induction kvs) auto

lemma reread_dget: "dget (sort_key fst (map (\<lambda>kv. (fst kv, reread (snd kv))) kvs)) k = map_option reread (dget kvs k)"
  unfolding dget_sort by (rule dget_map)

lemma jget_reread: "jget (reread v) k = map_option reread (jget v k)"
  by (cases v) (simp_all add: jget_def reread_dget)

lemma reread_idem: "reread (reread v) = reread v"
proof (induction v)
  case (JObj kvs)
  let ?f = "map (\<lambda>kv. (fst kv, reread (snd kv)))"
  have m: "?f (sort_key fst (?f kvs)) = sort_key fst (?f kvs)"
  proof (rule map_idI)
    fix x assume "x \<in> set (sort_key fst (?f kvs))"
    then obtain k w where "(k, w) \<in> set kvs" "x = (k, reread w)" by auto
    with JObj show "(fst x, reread (snd x)) = x" by (auto simp: snds.simps)
  qed
  have "sorted (map fst (sort_key fst (?f kvs)))" by (rule sorted_sort_key)
  then show ?case by (simp only: reread.simps m sort_key_id_if_sorted)
qed simp_all

lemma reread_JStr [simp]: "reread v = JStr s \<longleftrightarrow> v = JStr s"
  by (cases v) auto

subsection \<open>Paths of the manifest\<close>

definition ojget :: "json option \<Rightarrow> string \<Rightarrow> json option" where
  "ojget w k = Option.bind w (\<lambda>v. jget v k)"

lemma version_rec_path: "version_rec m kb v = ojget (ojget (ojget (jget m ''entries'') kb) ''versions'') v"
  by (auto simp: version_rec_def versions_of_def entries_of_def ojget_def jget_def split: option.splits json.splits)

lemma ojget_reread: "ojget (map_option reread w) k = map_option reread (ojget w k)"
  by (cases w) (simp_all add: ojget_def jget_reread)

lemma version_rec_reread: "version_rec (reread m) kb v = map_option reread (version_rec m kb v)"
  unfolding version_rec_path jget_reread ojget_reread ..

text \<open>A manifest that can be updated: every entry is an object with versions.\<close>

definition manifest_wf :: "json \<Rightarrow> bool" where
  "manifest_wf m \<longleftrightarrow> (\<exists>es. jget m ''entries'' = Some (JObj es) \<and> (\<forall>(k, e) \<in> set es. \<exists>vs. jget e ''versions'' = Some (JObj vs)))"

lemma check_entry_ok: "check_entry (k, e) = Inr u \<Longrightarrow> \<exists>vs. jget e ''versions'' = Some (JObj vs)"
  by (auto simp: check_entry_def split: if_splits option.splits json.splits)

lemma check_manifest_ok: "check_manifest m = Inr m' \<Longrightarrow> m' = m \<and> manifest_wf m"
proof -
  assume a: "check_manifest m = Inr m'"
  then obtain es us where e: "jget m ''entries'' = Some (JObj es)" and c: "mapE check_entry es = Inr us" and m: "m' = m"
    by (auto simp: check_manifest_def bindE_Inr split: if_splits option.splits json.splits)
  have "\<exists>vs. jget x ''versions'' = Some (JObj vs)" if "(k, x) \<in> set es" for k x
    using mapE_in [OF c that] check_entry_ok by blast
  with e m show ?thesis by (auto simp: manifest_wf_def)
qed

lemma load_manifest_ok:
  "load_manifest R False = Inr m \<Longrightarrow> kd_exists R \<and> kd_manifest R = Some m \<and> manifest_wf m"
  using check_manifest_ok by (auto simp: load_manifest_def split: if_splits option.splits)

lemma load_manifest_create: "load_manifest R True = Inr m \<Longrightarrow> manifest_wf m \<and>
    (kd_exists R \<and> kd_manifest R = Some m \<or> \<not> (kd_exists R \<and> kd_manifest R \<noteq> None) \<and> m = empty_manifest)"
  using check_manifest_ok [of "the (kd_manifest R)"]
  by (auto simp: load_manifest_def manifest_wf_def empty_manifest_def jget_def split: if_splits option.splits)

lemma jget_jset: "jget (jset k w v) l = (if is_obj v \<and> k = l then Some w else jget v l)"
  by (cases v) (auto simp: jset_def jget_def is_obj_def)

lemma jget_is_obj: "jget v k = Some w \<Longrightarrow> is_obj v"
  by (cases v) (simp_all add: jget_def is_obj_def)

lemma version_rec_set:
  assumes "manifest_wf m" and "kb \<in> set (dkeys (entries_of m))"
  shows "version_rec (set_versions kb vs m) kb' v = (if kb' = kb then dget vs v else version_rec m kb' v)"
proof -
  from assms(1) obtain es where es: "jget m ''entries'' = Some (JObj es)"
    and wf: "\<And>k e. (k, e) \<in> set es \<Longrightarrow> \<exists>ws. jget e ''versions'' = Some (JObj ws)" unfolding manifest_wf_def by fast
  then have E: "entries_of m = es" by (simp add: entries_of_def)
  with assms(2) obtain e where e: "dget es kb = Some e" by (metis dget_None_iff not_None_eq)
  from wf [OF dget_Some_in [OF e]] obtain ws where ws: "jget e ''versions'' = Some (JObj ws)" by blast
  let ?m = "jset ''entries'' (JObj (dset kb (jset ''versions'' (JObj vs) e) es)) m"
  have s: "set_versions kb vs m = ?m" by (simp add: set_versions_def E e)
  have "jget ?m ''entries'' = Some (JObj (dset kb (jset ''versions'' (JObj vs) e) es))"
    using jget_is_obj [OF es] by (simp add: jget_jset)
  then show ?thesis
    unfolding s version_rec_path es using jget_is_obj [OF ws] by (auto simp: ojget_def jget_def [of "JObj x" for x] jget_jset)
qed

lemma version_rec_entry: "version_rec m kb v = Some r \<Longrightarrow> kb \<in> set (dkeys (entries_of m))"
  unfolding version_rec_def versions_of_def by (auto split: option.splits dest: dget_Some_in intro: rev_image_eqI)

subsection \<open>The log of a version\<close>

definition events_of :: "json \<Rightarrow> json list" where
  "events_of rec = (case jget rec ''history'' of Some (JArr hs) \<Rightarrow> hs | _ \<Rightarrow> [])"

definition log_of :: "json \<Rightarrow> kb_state option \<times> json list" where
  "log_of rec = (state_of rec, map reread (events_of rec))"

lemma log_of_reread: "log_of (reread rec) = log_of rec"
proof -
  have "state_of (reread rec) = state_of rec"
    unfolding state_of_def jget_reread by (cases "jget rec ''state''") (simp_all, case_tac a, simp_all)
  moreover have "map reread (events_of (reread rec)) = map reread (events_of rec)"
    unfolding events_of_def jget_reread
    by (cases "jget rec ''history''") (simp_all, case_tac a, simp_all add: reread_idem)
  ultimately show ?thesis by (simp add: log_of_def)
qed

definition kb_log :: "kb_dir \<Rightarrow> string \<Rightarrow> string \<Rightarrow> (kb_state option \<times> json list) option" where
  "kb_log R kb v = Option.bind (kd_manifest R) (\<lambda>m. map_option log_of (version_rec m kb v))"

text \<open>A saved manifest: the log of each version is that of the value that was saved.\<close>

lemma save_manifest_log:
  assumes "save_manifest E R m = Inr R'"
  shows "kd_exists R' = kd_exists R \<and> kd_articles R' = kd_articles R \<and> kd_pages R' = kd_pages R \<and>
    kb_log R' kb v = map_option log_of (version_rec m kb v) \<and> kd_manifest R' \<noteq> None"
proof -
  from assms have R': "R' = R\<lparr>kd_manifest := Some (reread m)\<rparr>" by (auto simp: save_manifest_def bindE_Inr split: if_splits)
  show ?thesis unfolding R' kb_log_def
    by (cases "version_rec m kb v") (simp_all add: version_rec_reread log_of_reread)
qed

lemma state_of_set: "is_obj rec \<Longrightarrow> state_of (jset ''state'' (JStr (state_name s)) rec) = Some s"
  by (simp add: state_of_def jget_jset)

lemma hist_list_Inr: "hist_list rec = Inr hs \<longleftrightarrow> jget rec ''history'' = Some (JArr hs)"
  unfolding hist_list_def bindE_Inr jreq_Inr
proof
  assume "\<exists>h. jget rec ''history'' = Some h \<and> (case h of JArr hs \<Rightarrow> Inr hs | JObj _ \<Rightarrow> Inl AttributeError | JStr _ \<Rightarrow> Inl AttributeError
    | _ \<Rightarrow> Inl TypeError) = Inr hs"
  then obtain h where "jget rec ''history'' = Some h" "(case h of JArr hs \<Rightarrow> Inr hs | JObj _ \<Rightarrow> Inl AttributeError
    | JStr _ \<Rightarrow> Inl AttributeError | _ \<Rightarrow> Inl TypeError) = Inr hs" by blast
  then show "jget rec ''history'' = Some (JArr hs)" by (cases h) simp_all
qed simp

lemma jset_obj [simp]: "is_obj (jset k w v) = is_obj v"
  by (cases v) (simp_all add: jset_def is_obj_def)

text \<open>Appending an event and setting the state.\<close>

lemma log_of_step:
  assumes "jget rec ''history'' = Some (JArr hs)" and "jget r ''history'' = jget rec ''history''" and "is_obj r"
  shows "log_of (jset ''history'' (JArr (hs @ [e])) (jset ''state'' (JStr (state_name s)) r)) = (Some s, snd (log_of rec) @ [reread e])"
  using assms by (simp add: log_of_def state_of_def events_of_def jget_jset)

lemma move_rec_log:
  assumes "move_rec frm to_state t d rec = Inr rec'"
  shows "log_of rec' = (Some to_state, snd (log_of rec) @ [reread (mk_event (Suc (length (events_of rec))) frm to_state t d)])"
proof -
  from assms obtain hs where h: "jget rec ''history'' = Some (JArr hs)"
    and r: "rec' = jset ''history'' (JArr (hs @ [mk_event (Suc (length hs)) frm to_state t d])) (jset ''state'' (JStr (state_name to_state)) rec)"
    by (auto simp: move_rec_def bindE_Inr hist_list_Inr)
  with log_of_step [OF h refl jget_is_obj [OF h]] show ?thesis by (simp add: events_of_def)
qed

lemma supersede_rec_log:
  assumes "supersede_rec version t d (v, rec) = Inr (v', rec')"
  shows "v' = v \<and> (rec' = rec \<or> v \<noteq> version \<and> (state_of rec = Some PUBLISHED \<or> state_of rec = Some REVIEW_DUE) \<and>
    (\<exists>digest. log_of rec' = (Some SUPERSEDED, snd (log_of rec) @ [reread (superseding_event (Suc (length (events_of rec))) t digest d)])))"
proof (cases "v \<noteq> version \<and> state_of rec \<in> set [Some PUBLISHED, Some REVIEW_DUE]")
  case True
  with assms obtain hs digest where h: "jget rec ''history'' = Some (JArr hs)" and v: "v' = v"
    and r: "rec' = jset ''history'' (JArr (hs @ [superseding_event (Suc (length hs)) t digest d]))
       (jset ''superseded_by_version'' (JStr version) (jset ''state'' (JStr (state_name SUPERSEDED)) rec))"
    by (auto simp: supersede_rec_def bindE_Inr hist_list_Inr)
  have o: "is_obj rec" by (rule jget_is_obj [OF h])
  have "log_of rec' = (Some SUPERSEDED, snd (log_of rec) @ [reread (superseding_event (Suc (length hs)) t digest d)])"
    unfolding r using o h by (simp add: log_of_def state_of_def events_of_def jget_jset)
  with True v h show ?thesis by (auto simp: events_of_def)
next
  case False
  with assms show ?thesis by (auto simp: supersede_rec_def split: if_splits)
qed

lemma dget_map2:
  "list_all2 (\<lambda>x y. \<exists>k a b. x = (k, a) \<and> y = (k, b) \<and> P k a b) xs ys \<Longrightarrow> rel_option (P k) (dget xs k) (dget ys k)"
  by (induction rule: list_all2_induct) auto

subsection \<open>One transition\<close>

lemma supersede_all_log:
  assumes m: "mapE (supersede_rec version t d) vs = Inr vs'" and o: "map_option log_of (dget vs v) = L"
  shows "map_option log_of (dget vs' v) = L \<or> v \<noteq> version \<and> (\<exists>s hs digest seq. L = Some (s, hs) \<and> (s = Some PUBLISHED \<or> s = Some REVIEW_DUE) \<and>
     map_option log_of (dget vs' v) = Some (Some SUPERSEDED, hs @ [reread (superseding_event seq t digest d)]))"
proof -
  have "list_all2 (\<lambda>x y. \<exists>k a b. x = (k, a) \<and> y = (k, b) \<and> supersede_rec version t d (k, a) = Inr (k, b)) vs vs'"
    using m unfolding mapE_Inr_iff
  proof (rule list_all2_mono)
    fix x y assume a: "supersede_rec version t d x = Inr y"
    obtain k r where x: "x = (k, r)" by (cases x)
    obtain k' r' where y: "y = (k', r')" by (cases y)
    from a x y supersede_rec_log [of version t d k r k' r'] show "\<exists>k a b. x = (k, a) \<and> y = (k, b) \<and> supersede_rec version t d (k, a) = Inr (k, b)"
      by simp
  qed
  from dget_map2 [OF this] have r: "rel_option (\<lambda>a b. supersede_rec version t d (v, a) = Inr (v, b)) (dget vs v) (dget vs' v)" .
  show ?thesis
  proof (cases "dget vs v")
    case None
    with r o show ?thesis by simp
  next
    case (Some a)
    with r obtain b where b: "dget vs' v = Some b" "supersede_rec version t d (v, a) = Inr (v, b)" by (auto simp: option_rel_Some1)
    have L: "L = Some (state_of a, snd (log_of a))" using o Some by (simp add: log_of_def)
    from supersede_rec_log [OF b(2)] consider "b = a" |
      digest where "v \<noteq> version" "state_of a = Some PUBLISHED \<or> state_of a = Some REVIEW_DUE"
        "log_of b = (Some SUPERSEDED, snd (log_of a) @ [reread (superseding_event (Suc (length (events_of a))) t digest d)])" by blast
    then show ?thesis
    proof cases
      case 1
      with b o Some show ?thesis by simp
    next
      case 2
      with b(1) L show ?thesis by auto
    qed
  qed
qed

lemma transition_checksD:
  assumes "transition_checks E R kb v to_name at_utc = Inr (m, rec, art, frm, to_state, t)"
  shows "kd_exists R \<and> kd_manifest R = Some m \<and> manifest_wf m \<and> version_rec m kb v = Some rec \<and> load_article E R m kb v = Inr art \<and>
    state_of rec = Some frm \<and> to_state \<in> set (KB_TRANSITIONS frm) \<and> state_of_name to_name = Some to_state \<and> at_utc = JStr t"
  using assms load_manifest_ok
  unfolding transition_checks_def
  by (auto simp: bindE_Inr split: if_splits option.splits json.splits)

text \<open>The parts of a successful transition.\<close>

definition decided :: "kb_env \<Rightarrow> json \<Rightarrow> string \<Rightarrow> string \<Rightarrow> json \<Rightarrow> json \<Rightarrow> kb_state \<Rightarrow> kb_state \<Rightarrow> auth_decl option \<Rightarrow> bool" where
  "decided E m kb v rec auth frm to_state d \<longleftrightarrow>
     (if (frm, to_state) \<in> set HUMAN_DECISION_TRANSITIONS then \<exists>x. d = Some x \<and> decide E m kb v rec auth = Inr x else d = None)"

lemma transitionD:
  assumes "transition E R kb v to_name at_utc auth = Inr (R', res)"
  obtains m rec art frm to_state t d rec' vs sp where
    "transition_checks E R kb v to_name at_utc = Inr (m, rec, art, frm, to_state, t)"
    "to_state \<in> set GATED \<longrightarrow> promotion_gate E m kb v art = Inr ()"
    "decided E m kb v rec auth frm to_state d"
    "move_rec frm to_state t d rec = Inr rec'"
    "moved_versions kb v art to_state t d rec' (versions_of m kb) = Inr (vs, sp)"
    "save_manifest E R (set_versions kb vs m) = Inr R'"
    "tr_from res = frm" "tr_to res = to_state"
proof -
  from assms obtain m rec art frm to_state t d rec' vs sp where
    c: "transition_checks E R kb v to_name at_utc = Inr (m, rec, art, frm, to_state, t)"
    and g: "(if to_state \<in> set GATED then promotion_gate E m kb v art else Inr ()) = Inr ()"
    and d: "(if (frm, to_state) \<in> set HUMAN_DECISION_TRANSITIONS
            then bindE (decide E m kb v rec auth) (\<lambda>d. Inr (Some d)) else Inr None) = Inr d"
    and mv: "move_rec frm to_state t d rec = Inr rec'"
    and vs: "moved_versions kb v art to_state t d rec' (versions_of m kb) = Inr (vs, sp)"
    and sv: "save_manifest E R (set_versions kb vs m) = Inr R'"
    and r: "tr_from res = frm" "tr_to res = to_state"
    unfolding transition_def bindE_Inr split_paired_Ex case_prod_conv by fastforce
  from g have "to_state \<in> set GATED \<longrightarrow> promotion_gate E m kb v art = Inr ()" by (auto split: if_splits)
  moreover from d have "decided E m kb v rec auth frm to_state d" by (auto simp: decided_def bindE_Inr split: if_splits)
  ultimately show ?thesis using that c mv vs sv r by blast
qed

text \<open>The logs after a transition: one event more for the version, perhaps one for those it supersedes.\<close>

lemma moved_versions_log:
  assumes "moved_versions kb v art to_state t d rec' vs = Inr (vs', sp)" and "version_rec m kb v' = dget vs v'" and "v' \<noteq> v"
  shows "map_option log_of (dget vs' v') = map_option log_of (dget vs v') \<or>
    (\<exists>s hs digest seq x. map_option log_of (dget vs v') = Some (s, hs) \<and> (s = Some PUBLISHED \<or> s = Some REVIEW_DUE) \<and> to_state = PUBLISHED \<and>
      d = Some x \<and> map_option log_of (dget vs' v') = Some (Some SUPERSEDED, hs @ [reread (superseding_event seq t digest x)]))"
proof -
  have o: "map_option log_of (dget (dset v rec' vs) v') = map_option log_of (dget vs v')" using assms(3) by simp
  from assms(1) consider "vs' = dset v rec' vs" | x where "to_state = PUBLISHED" "d = Some x" "mapE (supersede_rec v t x) (dset v rec' vs) = Inr vs'"
    by (auto simp: moved_versions_def Let_def bindE_Inr split: if_splits option.splits)
  then show ?thesis
  proof cases
    case 1
    with o show ?thesis by simp
  next
    case 2
    from supersede_all_log [OF 2(3) o] 2(1,2) show ?thesis by blast
  qed
qed

lemma moved_versions_self:
  assumes "moved_versions kb v art to_state t d rec' vs = Inr (vs', sp)"
  shows "map_option log_of (dget vs' v) = Some (log_of rec')"
proof -
  have o: "map_option log_of (dget (dset v rec' vs) v) = Some (log_of rec')" by simp
  from assms consider "vs' = dset v rec' vs" | x where "mapE (supersede_rec v t x) (dset v rec' vs) = Inr vs'"
    by (auto simp: moved_versions_def Let_def bindE_Inr split: if_splits option.splits)
  then show ?thesis
  proof cases
    case 1
    with o show ?thesis by simp
  next
    case 2
    from supersede_all_log [OF 2 o] show ?thesis by blast
  qed
qed

lemma transition_logs:
  assumes "transition E R kb v to_name at_utc auth = Inr (R', res)"
  shows "\<exists>m rec t d hs. kd_manifest R = Some m \<and> version_rec m kb v = Some rec \<and> kb_log R kb v = Some (Some (tr_from res), hs) \<and>
    tr_to res \<in> set (KB_TRANSITIONS (tr_from res)) \<and> decided E m kb v rec auth (tr_from res) (tr_to res) d \<and>
    kb_log R' kb v = Some (Some (tr_to res), hs @ [reread (mk_event (Suc (length hs)) (tr_from res) (tr_to res) t d)]) \<and>
    (\<forall>kb' v'. (kb', v') \<noteq> (kb, v) \<longrightarrow> kb_log R' kb' v' = kb_log R kb' v' \<or>
      (\<exists>s old digest seq x. kb_log R kb' v' = Some (s, old) \<and> (s = Some PUBLISHED \<or> s = Some REVIEW_DUE) \<and> kb' = kb \<and> tr_to res = PUBLISHED \<and>
         d = Some x \<and> kb_log R' kb' v' = Some (Some SUPERSEDED, old @ [reread (superseding_event seq t digest x)])))"
proof -
  from assms obtain m rec art t d rec' vs sp where
    c: "transition_checks E R kb v to_name at_utc = Inr (m, rec, art, tr_from res, tr_to res, t)"
    and d: "decided E m kb v rec auth (tr_from res) (tr_to res) d"
    and mv: "move_rec (tr_from res) (tr_to res) t d rec = Inr rec'"
    and vs: "moved_versions kb v art (tr_to res) t d rec' (versions_of m kb) = Inr (vs, sp)"
    and sv: "save_manifest E R (set_versions kb vs m) = Inr R'"
    by (rule transitionD) blast
  note ck = transition_checksD [OF c]
  have L: "kb_log R x y = map_option log_of (version_rec m x y)" for x y using ck by (simp add: kb_log_def)
  have kb: "kb \<in> set (dkeys (entries_of m))" using ck version_rec_entry by blast
  have L': "kb_log R' x y = map_option log_of (if x = kb then dget vs y else version_rec m x y)" for x y
    using save_manifest_log [OF sv] version_rec_set [of m kb vs x y] ck kb by simp
  have own: "kb_log R kb v = Some (Some (tr_from res), snd (log_of rec))" using ck L by (simp add: log_of_def)
  have len: "length (snd (log_of rec)) = length (events_of rec)" by (simp add: log_of_def)
  have "kb_log R' kb v = Some (Some (tr_to res), snd (log_of rec) @ [reread (mk_event (Suc (length (snd (log_of rec)))) (tr_from res) (tr_to res) t d)])"
    using L' [of kb v] moved_versions_self [OF vs] move_rec_log [OF mv] len by simp
  moreover have "kb_log R' kb' v' = kb_log R kb' v' \<or>
      (\<exists>s old digest seq x. kb_log R kb' v' = Some (s, old) \<and> (s = Some PUBLISHED \<or> s = Some REVIEW_DUE) \<and> kb' = kb \<and> tr_to res = PUBLISHED \<and>
         d = Some x \<and> kb_log R' kb' v' = Some (Some SUPERSEDED, old @ [reread (superseding_event seq t digest x)]))"
    if "(kb', v') \<noteq> (kb, v)" for kb' v'
  proof (cases "kb' = kb")
    case True
    with that have "v' \<noteq> v" by simp
    moreover have r: "version_rec m kb v' = dget (versions_of m kb) v'" by (simp add: version_rec_def)
    ultimately show ?thesis using moved_versions_log [OF vs r] L L' True r by fastforce
  qed (simp add: L L')
  ultimately show ?thesis using own ck d by blast
qed

subsection \<open>Legal histories\<close>

definition authorized :: "json \<Rightarrow> bool" where
  "authorized ev \<longleftrightarrow> (\<exists>a. jget ev ''authorization_id'' = Some (JStr a) \<and> is_safe_id (JStr a) (Some [''AUTH'']))"

definition enters :: "json \<Rightarrow> kb_state \<Rightarrow> bool" where
  "enters ev s \<longleftrightarrow> jget ev ''to'' = Some (JStr (state_name s))"

text \<open>
  A history starts as a candidate or a draft; every further event is a step of the lifecycle, and
  carries an authorization when the step is a human decision.
\<close>

inductive legal :: "json list \<Rightarrow> kb_state \<Rightarrow> bool" where
  legal_start: "s \<in> {CANDIDATE, DRAFT} \<Longrightarrow> enters ev s \<Longrightarrow> legal [ev] s"
| legal_step: "legal hs s \<Longrightarrow> t \<in> set (KB_TRANSITIONS s) \<Longrightarrow> enters ev t \<Longrightarrow>
    (s, t) \<in> set HUMAN_DECISION_TRANSITIONS \<longrightarrow> authorized ev \<Longrightarrow> legal (hs @ [ev]) t"

definition decision :: "json list \<Rightarrow> kb_state \<Rightarrow> bool" where
  "decision hs s \<longleftrightarrow> (\<exists>ev \<in> set hs. enters ev s \<and> authorized ev)"

lemma decision_snoc: "decision (hs @ [ev]) s \<longleftrightarrow> decision hs s \<or> enters ev s \<and> authorized ev"
  by (auto simp: decision_def)

text \<open>What was ever public carries the approval and the publication as authorized events.\<close>

lemma legal_decisions:
  "legal hs s \<Longrightarrow> (s \<notin> set unpublished \<longrightarrow> decision hs APPROVED_BY_HUMAN \<and> decision hs PUBLISHED) \<and>
     (s = APPROVED_BY_HUMAN \<longrightarrow> decision hs APPROVED_BY_HUMAN)"
proof (induction rule: legal.induct)
  case (legal_step hs s t ev)
  then show ?case
    by (cases s) (auto simp: decision_snoc unpublished_def HUMAN_DECISION_TRANSITIONS_def)
qed (auto simp: unpublished_def)

lemma enters_reread [simp]: "enters (reread ev) s = enters ev s"
  by (simp add: enters_def jget_reread)

lemma authorized_reread [simp]: "authorized (reread ev) = authorized ev"
  by (simp add: authorized_def jget_reread)

lemma mk_event_fields: "enters (mk_event n frm t at_utc d) t"
  "jget (mk_event n frm t at_utc d) ''authorization_id'' = Some (decl_str d dc_auth)"
  by (simp_all add: enters_def mk_event_def jget_def)

lemma superseding_fields: "enters (superseding_event n at_utc digest x) SUPERSEDED"
  "jget (superseding_event n at_utc digest x) ''authorization_id'' = Some (JStr (dc_auth x))"
  by (simp_all add: enters_def superseding_event_def jget_def)

lemma decide_safe: "decide E m kb v rec auth = Inr x \<Longrightarrow> is_safe_id (JStr (dc_auth x)) (Some [''AUTH''])"
  unfolding decide_def verify_authorization_def bindE_Inr
  by (auto simp: bindE_Inr parse_authorization_iff valid_record_def auth_decl_of_def split: if_splits)

lemma decided_authorized:
  assumes "decided E m kb v rec auth frm to_state d" and "(frm, to_state) \<in> set HUMAN_DECISION_TRANSITIONS"
  shows "authorized (mk_event n frm to_state t d)" "d = Some x \<Longrightarrow> authorized (superseding_event k t digest x)"
proof -
  from assms obtain y where y: "d = Some y" "decide E m kb v rec auth = Inr y" by (auto simp: decided_def)
  then show "authorized (mk_event n frm to_state t d)"
    using decide_safe [OF y(2)] by (simp add: authorized_def mk_event_fields decl_str_def)
  show "authorized (superseding_event k t digest x)" if "d = Some x"
    using that y decide_safe [OF y(2)] by (simp add: authorized_def superseding_fields)
qed

definition kb_inv :: "kb_dir \<Rightarrow> bool" where
  "kb_inv R \<longleftrightarrow> (kd_exists R \<or> kd_manifest R = None) \<and>
     (\<forall>kb v s hs. kb_log R kb v = Some (s, hs) \<longrightarrow> (\<exists>st. s = Some st \<and> legal hs st))"

lemma transition_inv:
  assumes "kb_inv R" and tr: "transition E R kb v to_name at_utc auth = Inr (R', res)"
  shows "kb_inv R'"
proof -
  from transition_logs [OF tr] obtain m rec t d hs where
    old: "kb_log R kb v = Some (Some (tr_from res), hs)" and step: "tr_to res \<in> set (KB_TRANSITIONS (tr_from res))"
    and dec: "decided E m kb v rec auth (tr_from res) (tr_to res) d"
    and new: "kb_log R' kb v = Some (Some (tr_to res), hs @ [reread (mk_event (Suc (length hs)) (tr_from res) (tr_to res) t d)])"
    and oth: "\<And>kb' v'. (kb', v') \<noteq> (kb, v) \<Longrightarrow> kb_log R' kb' v' = kb_log R kb' v' \<or>
      (\<exists>s old digest seq x. kb_log R kb' v' = Some (s, old) \<and> (s = Some PUBLISHED \<or> s = Some REVIEW_DUE) \<and> kb' = kb \<and> tr_to res = PUBLISHED \<and>
         d = Some x \<and> kb_log R' kb' v' = Some (Some SUPERSEDED, old @ [reread (superseding_event seq t digest x)]))" by blast
  have "legal hs (tr_from res)" using assms(1) old by (auto simp: kb_inv_def)
  then have own: "legal (hs @ [reread (mk_event (Suc (length hs)) (tr_from res) (tr_to res) t d)]) (tr_to res)"
    by (rule legal_step [OF _ step]) (simp_all add: mk_event_fields decided_authorized(1) [OF dec])
  have "\<exists>st. s = Some st \<and> legal gs st" if l: "kb_log R' kb' v' = Some (s, gs)" for kb' v' s gs
  proof (cases "(kb', v') = (kb, v)")
    case True
    with l new own show ?thesis by auto
  next
    case False
    from oth [OF False] show ?thesis
    proof
      assume "kb_log R' kb' v' = kb_log R kb' v'"
      with assms(1) l show ?thesis by (auto simp: kb_inv_def)
    next
      assume "\<exists>s old digest seq x. kb_log R kb' v' = Some (s, old) \<and> (s = Some PUBLISHED \<or> s = Some REVIEW_DUE) \<and> kb' = kb \<and> tr_to res = PUBLISHED \<and>
         d = Some x \<and> kb_log R' kb' v' = Some (Some SUPERSEDED, old @ [reread (superseding_event seq t digest x)])"
      then obtain s0 old digest seq x where o: "kb_log R kb' v' = Some (Some s0, old)" "s0 = PUBLISHED \<or> s0 = REVIEW_DUE" "tr_to res = PUBLISHED"
        "d = Some x" "kb_log R' kb' v' = Some (Some SUPERSEDED, old @ [reread (superseding_event seq t digest x)])" by auto
      have h: "(tr_from res, tr_to res) \<in> set HUMAN_DECISION_TRANSITIONS"
        using step o(3) by (cases "tr_from res") (simp_all add: HUMAN_DECISION_TRANSITIONS_def)
      have "legal old s0" using assms(1) o(1) by (auto simp: kb_inv_def)
      then have "legal (old @ [reread (superseding_event seq t digest x)]) SUPERSEDED"
        by (rule legal_step) (use o(2) decided_authorized(2) [OF dec h o(4)] in \<open>auto simp: superseding_fields\<close>)
      with o(5) l show ?thesis by simp
    qed
  qed
  moreover have "kd_exists R' \<or> kd_manifest R' = None"
    using tr transition_checksD save_manifest_log by (elim transitionD) metis
  ultimately show ?thesis by (simp add: kb_inv_def)
qed

subsection \<open>Adding a version\<close>

lemma int_digits_all: "list_all is_digit s \<Longrightarrow> s \<noteq> [] \<Longrightarrow> int_digits s = Some s"
proof (induction s rule: int_digits.induct)
  case (3 c d s)
  then have "d \<noteq> CHR ''_''" by (auto simp: char_defs)
  with 3 show ?case by simp
qed auto

lemma digit_not_space: "is_digit c \<Longrightarrow> \<not> is_space c \<and> c \<noteq> CHR ''-'' \<and> c \<noteq> CHR ''+''"
proof (intro conjI notI)
  assume d: "is_digit c"
  show False if "is_space c" using d that by (auto simp: is_digit_def is_space_def btw_def)
  show False if "c = CHR ''-''" using d that by (simp add: is_digit_code)
  show False if "c = CHR ''+''" using d that by (simp add: is_digit_code)
qed

lemma int_of_digits: "int_of_text (digits_of n) = Inr (int n)"
proof -
  let ?s = "digits_of n"
  have d: "is_digit c" if "c \<in> set ?s" for c using that by (rule digits_of_digits)
  have "strip ?s = ?s" by (rule strip_id) (use d digit_not_space in blast)
  moreover have "\<not> starts_with [x] ?s" if "\<not> is_digit x" for x
    using that d [of x] by (auto simp: starts_with_iff)
  then have "\<not> starts_with ''-'' ?s" "\<not> starts_with ''+'' ?s" using digit_not_space by blast+
  moreover have "int_digits ?s = Some ?s" by (rule int_digits_all) (use d in \<open>auto simp: list_all_iff\<close>)
  ultimately show ?thesis unfolding int_of_text_def Let_def by (simp only: if_False simp_thms option.case digits_roundtrip) simp
qed

text \<open>A new version has a number above all of the entry: its key is not used.\<close>

lemma next_version_fresh: "next_version vs = Inr v \<Longrightarrow> v \<notin> set (dkeys vs)"
proof
  assume "next_version vs = Inr v" and v: "v \<in> set (dkeys vs)"
  then obtain ns where m: "mapE (int_of_text \<circ> fst) vs = Inr ns" and e: "v = str_of_int (Max (set (0 # ns)) + 1)"
    by (auto simp: next_version_def bindE_Inr)
  from v obtain x where "x \<in> set vs" "fst x = v" by auto
  with mapE_in [OF m, of x] obtain n where n: "n \<in> set ns" "int_of_text v = Inr n" by auto
  define k where "k = Max (set (0 # ns))"
  have k: "0 \<le> k" "n \<le> k" unfolding k_def by (rule Max_ge; use n in simp)+
  have "v = digits_of (nat (k + 1))" using e k(1) unfolding k_def [symmetric] by (simp add: str_of_int_def)
  then have "int_of_text v = Inr (k + 1)" using k(1) by (simp add: int_of_digits)
  with k(2) n(2) show False by simp
qed

lemma with_entry_ok:
  assumes "manifest_wf m"
  shows "manifest_wf (with_entry kb m) \<and> kb \<in> set (dkeys (entries_of (with_entry kb m))) \<and>
    version_rec (with_entry kb m) x y = version_rec m x y"
proof (cases "dget (entries_of m) kb")
  case (Some e)
  then have "kb \<in> set (dkeys (entries_of m))" using dget_Some_in by force
  with assms Some show ?thesis by (simp add: with_entry_def)
next
  case None
  from assms obtain es where es: "jget m ''entries'' = Some (JObj es)" and w: "\<forall>(k, e) \<in> set es. \<exists>vs. jget e ''versions'' = Some (JObj vs)"
    by (auto simp: manifest_wf_def)
  have E: "entries_of m = es" using es by (simp add: entries_of_def)
  let ?e = "(kb, JObj [(''versions'', JObj [])])"
  have w': "with_entry kb m = jset ''entries'' (JObj (es @ [?e])) m" using None E by (simp add: with_entry_def)
  have j: "jget (with_entry kb m) ''entries'' = Some (JObj (es @ [?e]))" unfolding w' using jget_is_obj [OF es] by (simp add: jget_jset)
  have n: "dget es kb = None" using None E by simp
  have "version_rec (with_entry kb m) x y = version_rec m x y"
    unfolding version_rec_path j es using n by (auto simp: ojget_def jget_def map_add_def map_of_append split: option.splits)
  moreover have "manifest_wf (with_entry kb m)" using w j by (auto simp: manifest_wf_def jget_def [of "JObj x" for x])
  moreover have "kb \<in> set (dkeys (entries_of (with_entry kb m)))" using j by (simp add: entries_of_def)
  ultimately show ?thesis by blast
qed

lemma new_record_log:
  assumes "new_record E cand art a st t = Inr rec"
  shows "log_of rec = (Some st, [reread (first_event st t)])"
proof -
  from assms obtain dg rd key meta ps inc where
    m: "mapE (\<lambda>k. bindE (jreq a k) (\<lambda>v. Inr (k, v))) [''title'', ''article_type'', ''review_due_utc'', ''supersedes''] = Inr meta"
    and r: "rec = JObj ([(''state'', JStr (state_name st)), (''digest'', dg), (''recommendation_digest'', JStr rd), (''dedup_key'', key)] @ meta @
         [(''superseded_by_version'', JNull), (''proposer_ids'', JArr ps), (''origin_incident_id'', inc),
          (''history'', JArr [first_event st t])])"
    unfolding new_record_def bindE_Inr by blast
  from m obtain a1 a2 a3 a4 where "meta = [(''title'', a1), (''article_type'', a2), (''review_due_utc'', a3), (''supersedes'', a4)]"
    by (auto simp: bindE_Inr)
  then show ?thesis unfolding r log_of_def state_of_def events_of_def by (simp add: jget_def)
qed

lemma check_candidate_state: "check_candidate E cand = Inr (kb, st) \<Longrightarrow> st \<in> {CANDIDATE, DRAFT}"
  by (auto simp: check_candidate_def bindE_Inr split: if_splits)

lemma plan_addD:
  assumes "plan_add E R cand kb t = Inr (review, Some (m1, version, art, a))"
  shows "\<exists>m. load_manifest R True = Inr m \<and> m1 = with_entry kb m \<and> next_version (versions_of m1 kb) = Inr version"
  using assms unfolding plan_add_def Let_def by (auto simp: bindE_Inr split: if_splits)

lemma write_article_ok: "write_article E R key art = Inr R' \<Longrightarrow> kd_exists R' = kd_exists R \<and> kd_manifest R' = kd_manifest R \<and>
    kd_pages R' = kd_pages R \<and> dget (kd_articles R) \<subseteq>\<^sub>m dget (kd_articles R')"
  by (auto simp: write_article_def map_le_def split: if_splits)

lemma write_page_ok: "write_page E R key art = Inr R' \<Longrightarrow> kd_exists R' = kd_exists R \<and> kd_manifest R' = kd_manifest R \<and>
    kd_articles R' = kd_articles R \<and> dget (kd_pages R) \<subseteq>\<^sub>m dget (kd_pages R')"
  by (auto simp: write_page_def bindE_Inr map_le_def split: if_splits)

text \<open>The files a store can only gain.\<close>

definition keeps_files :: "kb_dir \<Rightarrow> kb_dir \<Rightarrow> bool" where
  "keeps_files R R' \<longleftrightarrow> kd_exists R' = kd_exists R \<and> dget (kd_articles R) \<subseteq>\<^sub>m dget (kd_articles R') \<and> dget (kd_pages R) \<subseteq>\<^sub>m dget (kd_pages R')"

lemma store_versionD:
  assumes "store_version E R m cand kb v art a st t = (R', r)"
  shows "keeps_files R R' \<and> (case r of
      Inl _ \<Rightarrow> kd_manifest R' = kd_manifest R
    | Inr _ \<Rightarrow> \<exists>rec. log_of rec = (Some st, [reread (first_event st t)]) \<and>
        save_manifest E (R'\<lparr>kd_manifest := kd_manifest R\<rparr>) (set_versions kb (dset v rec (versions_of m kb)) m) = Inr R')"
proof (cases "write_article E R (kb, v) art")
  case (Inl e)
  with assms show ?thesis by (auto simp: store_version_def keeps_files_def)
next
  case 1: (Inr R1)
  note f1 = write_article_ok [OF 1]
  show ?thesis
  proof (cases "write_page E R1 (kb, v) art")
    case (Inl e)
    with assms 1 f1 show ?thesis by (auto simp: store_version_def keeps_files_def)
  next
    case 2: (Inr R2)
    note f2 = write_page_ok [OF 2]
    let ?s = "bindE (advcrash (new_record E cand art a st t)) (\<lambda>rec. save_manifest E R2 (set_versions kb (dset v rec (versions_of m kb)) m))"
    show ?thesis
    proof (cases ?s)
      case (Inl e)
      with assms 1 2 f1 f2 show ?thesis by (auto simp: store_version_def keeps_files_def)
    next
      case 3: (Inr R3)
      then obtain rec where r: "new_record E cand art a st t = Inr rec"
        and sv: "save_manifest E R2 (set_versions kb (dset v rec (versions_of m kb)) m) = Inr R3" by (auto simp: bindE_Inr)
      from sv have R3: "R3\<lparr>kd_manifest := kd_manifest R\<rparr> = R2" "keeps_files R R3"
        using f1 f2 by (auto simp: save_manifest_def bindE_Inr keeps_files_def split: if_splits)
      from assms 1 2 3 have "R' = R3" "r = Inr ()" by (simp_all add: store_version_def)
      with new_record_log [OF r] sv R3 show ?thesis by auto
    qed
  qed
qed

definition made :: "kb_dir \<Rightarrow> kb_dir" where
  "made R = (if kd_exists R then R else R\<lparr>kd_exists := True, kd_manifest := None\<rparr>)"

lemma made_log: "kb_inv R \<Longrightarrow> kb_log (made R) = kb_log R"
  by (intro ext) (auto simp: made_def kb_inv_def kb_log_def)

text \<open>Adding: the logs stay, and a new version may appear with its first event.\<close>

lemma add_logs:
  assumes inv: "kb_inv R" and add: "add_candidate E R cand t = (R', r)"
  shows "dget (kd_articles R) \<subseteq>\<^sub>m dget (kd_articles R') \<and> dget (kd_pages R) \<subseteq>\<^sub>m dget (kd_pages R') \<and> (kd_exists R' \<or> kd_manifest R' = None) \<and>
    (kb_log R' = kb_log R \<or> (\<exists>kb v st. st \<in> {CANDIDATE, DRAFT} \<and> kb_log R kb v = None \<and>
       (\<forall>x y. kb_log R' x y = (if (x, y) = (kb, v) then Some (Some st, [reread (first_event st t)]) else kb_log R x y))))"
proof (cases "check_candidate E cand")
  case (Inl e)
  with add inv show ?thesis by (auto simp: add_candidate_def kb_inv_def)
next
  case c: (Inr x)
  obtain kb st where x: "x = (kb, st)" by (cases x)
  note st = check_candidate_state [OF c [unfolded x]]
  let ?R1 = "made R"
  have m1: "kd_articles ?R1 = kd_articles R" "kd_pages ?R1 = kd_pages R" "kd_exists ?R1" by (simp_all add: made_def)
  show ?thesis
  proof (cases "\<exists>review m v art a. plan_add E ?R1 cand kb t = Inr (review, Some (m, v, art, a))")
    case False
    with add c x have "R' = ?R1"
      by (auto simp: add_candidate_def made_def [symmetric] Let_def split: sum.splits option.splits)
    with m1 made_log [OF inv] show ?thesis by simp
  next
    case True
    then obtain review m1' v art a where pl: "plan_add E ?R1 cand kb t = Inr (review, Some (m1', v, art, a))" by blast
    from plan_addD [OF pl] obtain m where m: "load_manifest ?R1 True = Inr m" "m1' = with_entry kb m"
      "next_version (versions_of m1' kb) = Inr v" by blast
    obtain R2 r2 where sv: "store_version E ?R1 m1' cand kb v art a st t = (R2, r2)" by (cases "store_version E ?R1 m1' cand kb v art a st t")
    from add c x pl sv have R': "R' = R2" by (cases r2) (simp_all add: add_candidate_def made_def [symmetric] Let_def)
    note sd = store_versionD [OF sv]
    have files: "dget (kd_articles R) \<subseteq>\<^sub>m dget (kd_articles R')" "dget (kd_pages R) \<subseteq>\<^sub>m dget (kd_pages R')" "kd_exists R'"
      using sd m1 R' by (auto simp: keeps_files_def)
    have wf: "manifest_wf m" using load_manifest_create [OF m(1)] by blast
    note we = with_entry_ok [OF wf, of kb]
    have L: "kb_log R x y = map_option log_of (version_rec m x y)" for x y
      using load_manifest_create [OF m(1)] made_log [OF inv] m1(3)
      by (auto simp: kb_log_def [of "made R"] version_rec_def versions_of_def entries_of_def empty_manifest_def jget_def
          simp flip: made_log [OF inv])
    show ?thesis
    proof (cases r2)
      case (Inl e)
      with sd R' have "kd_manifest R' = kd_manifest ?R1" by simp
      then have "kb_log R' = kb_log R" using made_log [OF inv] by (auto simp: kb_log_def fun_eq_iff)
      with files show ?thesis by blast
    next
      case (Inr u)
      with sd obtain rec where lg: "log_of rec = (Some st, [reread (first_event st t)])"
        and s2: "save_manifest E (R2\<lparr>kd_manifest := kd_manifest ?R1\<rparr>) (set_versions kb (dset v rec (versions_of m1' kb)) m1') = Inr R2" by auto
      have fresh: "dget (versions_of m1' kb) v = None" using next_version_fresh [OF m(3)] by (simp add: dget_None_iff)
      then have f: "version_rec m kb v = None" using we m(2) by (simp add: version_rec_def)
      have "kb_log R' x y = (if (x, y) = (kb, v) then Some (Some st, [reread (first_event st t)]) else kb_log R x y)" for x y
        using save_manifest_log [OF s2] version_rec_set [of m1' kb "dset v rec (versions_of m1' kb)" x y] we m(2) lg L [of x y] R'
        by (auto simp: version_rec_def)
      moreover have "kb_log R kb v = None" using f L by simp
      ultimately show ?thesis using files st by blast
    qed
  qed
qed

lemma add_inv:
  assumes "kb_inv R" and "add_candidate E R cand t = (R', r)"
  shows "kb_inv R'"
proof -
  note add = add_logs [OF assms]
  have x: "kd_exists R' \<or> kd_manifest R' = None" using add by (elim conjE)
  have l: "kb_log R' = kb_log R \<or> (\<exists>kb v st. st \<in> {CANDIDATE, DRAFT} \<and> kb_log R kb v = None \<and>
       (\<forall>x y. kb_log R' x y = (if (x, y) = (kb, v) then Some (Some st, [reread (first_event st t)]) else kb_log R x y)))" using add by (elim conjE)
  from l show ?thesis
  proof
    assume "kb_log R' = kb_log R"
    with assms(1) x show ?thesis by (simp add: kb_inv_def)
  next
    assume "\<exists>kb v st. st \<in> {CANDIDATE, DRAFT} \<and> kb_log R kb v = None \<and>
       (\<forall>x y. kb_log R' x y = (if (x, y) = (kb, v) then Some (Some st, [reread (first_event st t)]) else kb_log R x y))"
    then obtain kb v st where st: "st \<in> {CANDIDATE, DRAFT}"
      and L: "\<And>x y. kb_log R' x y = (if (x, y) = (kb, v) then Some (Some st, [reread (first_event st t)]) else kb_log R x y)" by blast
    have "enters (reread (first_event st t)) st" by (simp add: enters_def first_event_def jget_def)
    with st have "legal [reread (first_event st t)] st" by (intro legal_start)
    with assms(1) x L show ?thesis by (auto simp: kb_inv_def split: if_splits)
  qed
qed

subsection \<open>Runs of operations\<close>

datatype kb_op =
    Add json string
  | Move string string string json json

definition kb_apply :: "kb_env \<Rightarrow> kb_dir \<Rightarrow> kb_op \<Rightarrow> kb_dir" where
  "kb_apply E R c = (case c of
      Add cand t \<Rightarrow> fst (add_candidate E R cand t)
    | Move kb v to_name at_utc auth \<Rightarrow> (case transition E R kb v to_name at_utc auth of Inr (R', _) \<Rightarrow> R' | Inl _ \<Rightarrow> R))"

lemma kb_apply_inv: "kb_inv R \<Longrightarrow> kb_inv (kb_apply E R c)"
proof (cases c)
  case (Add cand t)
  assume "kb_inv R"
  with add_inv [of R E cand t] Add show ?thesis by (cases "add_candidate E R cand t") (simp add: kb_apply_def)
next
  case (Move kb v to_name at_utc auth)
  assume "kb_inv R"
  with transition_inv [of R E kb v to_name at_utc auth] Move show ?thesis
    by (auto simp: kb_apply_def split: sum.splits prod.splits)
qed

text \<open>What is observed of a knowledge base, and the order in which it can only grow.\<close>

definition kb_view :: "kb_dir \<Rightarrow> (string \<times> string \<Rightarrow> (kb_state option \<times> json list) option) \<times> (string \<times> string \<Rightarrow> json option)
    \<times> (string \<times> string \<Rightarrow> string option)" where
  "kb_view R = (\<lambda>(kb, v). kb_log R kb v, dget (kd_articles R), dget (kd_pages R))"

definition kb_le where
  "kb_le x y = (case (x, y) of ((L, A, P), (L', A', P')) \<Rightarrow>
     (\<forall>k s hs. L k = Some (s, hs) \<longrightarrow> (\<exists>s' more_events. L' k = Some (s', hs @ more_events))) \<and> A \<subseteq>\<^sub>m A' \<and> P \<subseteq>\<^sub>m P')"

lemma kb_le_refl: "kb_le x x"
  by (auto simp: kb_le_def split: prod.splits)

lemma kb_le_trans: "kb_le x y \<Longrightarrow> kb_le y z \<Longrightarrow> kb_le x z"
  unfolding kb_le_def by (cases x; cases y; cases z) (fastforce intro: map_le_trans)

lemma transition_files: "transition E R kb v to_name at_utc auth = Inr (R', res) \<Longrightarrow>
    kd_articles R' = kd_articles R \<and> kd_pages R' = kd_pages R"
  using save_manifest_log by (elim transitionD) metis

lemma transition_le:
  assumes "transition E R kb v to_name at_utc auth = Inr (R', res)"
  shows "kb_le (kb_view R) (kb_view R')"
proof -
  from transition_logs [OF assms] obtain m rec t d hs where
    old: "kb_log R kb v = Some (Some (tr_from res), hs)"
    and new: "kb_log R' kb v = Some (Some (tr_to res), hs @ [reread (mk_event (Suc (length hs)) (tr_from res) (tr_to res) t d)])"
    and oth: "\<And>kb' v'. (kb', v') \<noteq> (kb, v) \<Longrightarrow> kb_log R' kb' v' = kb_log R kb' v' \<or>
      (\<exists>s old digest seq x. kb_log R kb' v' = Some (s, old) \<and> (s = Some PUBLISHED \<or> s = Some REVIEW_DUE) \<and> kb' = kb \<and> tr_to res = PUBLISHED \<and>
         d = Some x \<and> kb_log R' kb' v' = Some (Some SUPERSEDED, old @ [reread (superseding_event seq t digest x)]))" by blast
  have "\<exists>s' ext. kb_log R' x y = Some (s', gs @ ext)" if "kb_log R x y = Some (s, gs)" for x y s gs
  proof (cases "(x, y) = (kb, v)")
    case True
    with that old new show ?thesis by auto
  next
    case False
    from oth [OF False] that show ?thesis by auto
  qed
  with transition_files [OF assms] show ?thesis by (auto simp: kb_le_def kb_view_def)
qed

lemma add_le:
  assumes "kb_inv R" and "add_candidate E R cand t = (R', r)"
  shows "kb_le (kb_view R) (kb_view R')"
  using add_logs [OF assms] by (auto simp: kb_le_def kb_view_def)

lemma kb_apply_le: "kb_inv R \<Longrightarrow> kb_le (kb_view R) (kb_view (kb_apply E R c))"
proof (cases c)
  case (Add cand t)
  assume "kb_inv R"
  with add_le [of R E cand t] Add show ?thesis by (cases "add_candidate E R cand t") (simp add: kb_apply_def)
next
  case (Move kb v to_name at_utc auth)
  assume "kb_inv R"
  with transition_le [of E R kb v to_name at_utc auth] kb_le_refl [of "kb_view R"] Move show ?thesis
    by (cases "transition E R kb v to_name at_utc auth") (auto simp: kb_apply_def split: prod.splits)
qed

interpretation kb_m: monotone_machine "kb_apply E" kb_inv kb_le kb_view for E
  by unfold_locales (auto simp: kb_apply_inv kb_apply_le kb_le_refl intro: kb_le_trans)

definition no_kb :: kb_dir where
  "no_kb = \<lparr> kd_exists = False, kd_manifest = None, kd_articles = [], kd_pages = [] \<rparr>"

lemma no_kb_inv: "kb_inv no_kb"
  by (simp add: kb_inv_def no_kb_def kb_log_def)

subsection \<open>The guarantees\<close>

lemma promotion_gateD:
  assumes "promotion_gate E m kb v art = Inr ()"
  shows "open_conflicts E m kb v art = Inr [] \<and> (\<exists>a. jget art ''article'' = Some a \<and>
    jpath a [''provenance'', ''rca_state_at_extraction''] = Inr (JStr ''CONFIRMED'') \<and>
    (\<exists>e. jpath a [''provenance'', ''evidence_ids''] = Inr e \<and> truthy e))"
  using assms quality_gate_pass unfolding promotion_gate_def bindE_Inr by auto

text \<open>The authorization a human decision was made with: for this version, unused, and not by a proposer.\<close>

definition approved_by :: "kb_env \<Rightarrow> json \<Rightarrow> string \<Rightarrow> string \<Rightarrow> json \<Rightarrow> json \<Rightarrow> auth_decl \<Rightarrow> bool" where
  "approved_by E m kb v rec auth d \<longleftrightarrow> (\<exists>digest ps used. jget rec ''digest'' = Some digest \<and> jget rec ''proposer_ids'' = Some ps \<and>
     verify_authorization (kb_iso E) auth kb digest v ps ''APPROVED'' = Inr d \<and> used_ids m kb = Inr used \<and> JStr (dc_auth d) \<notin> set used)"

lemma decideD: "decide E m kb v rec auth = Inr d \<Longrightarrow> approved_by E m kb v rec auth d"
  unfolding decide_def approved_by_def bindE_Inr by auto


text \<open>A knowledge base with one deprecated version, and the authorization that retires it.\<close>

definition zeros :: string where "zeros = replicate 64 (CHR ''0'')"
definition sample_kb :: string where "sample_kb = ''KB-0123456789abcdef''"
definition sample_time :: string where "sample_time = ''2026-01-01T00:00:00Z''"

definition sample_env :: kb_env where
  "sample_env = \<lparr> kb_sha = (\<lambda>_. zeros), kb_frepr = (\<lambda>_. []), kb_repr = (\<lambda>_. []), kb_iso = (\<lambda>_. True), kb_size = (\<lambda>_. 0) \<rparr>"

definition sample_rec :: json where
  "sample_rec = JObj [(''state'', JStr ''DEPRECATED''), (''digest'', JStr zeros), (''proposer_ids'', JArr []), (''history'', JArr [])]"

definition sample_manifest_json :: "json \<Rightarrow> json" where
  "sample_manifest_json rec = JObj [(''schema_version'', JStr ''1.0.0''), (''artifact_type'', JStr ''kb_manifest''),
     (''entries'', JObj [(sample_kb, JObj [(''versions'', JObj [(''1'', rec)])])])]"

definition sample_article :: json where
  "sample_article = JObj [(''kb_id'', JStr sample_kb), (''version'', JStr ''1''), (''content_digest'', JStr zeros)]"

definition sample_dir :: kb_dir where
  "sample_dir = \<lparr> kd_exists = True, kd_manifest = Some (sample_manifest_json sample_rec), kd_articles = [((sample_kb, ''1''), sample_article)], kd_pages = [] \<rparr>"

definition sample_auth :: json where
  "sample_auth = JObj [(''authorization_id'', JStr ''AUTH-1''), (''artifact_id'', JStr sample_kb), (''decision'', JStr ''APPROVED''),
     (''reviewer_id'', JStr ''REV-rev001''), (''decision_at_utc'', JStr sample_time), (''artifact_digest'', JStr zeros),
     (''version'', JStr ''1''), (''review_notes_sanitized'', JStr ''ok'')]"

lemma zeros_digest: "match_dollar AUTH_DIGEST zeros" "match_dollar HEX_DIGEST zeros"
proof -
  have "mt None zeros None (Rep 64 0 (Cls f))" if "f (CHR ''0'')" for f
    by (rule mt_Rep_all) (use that in \<open>simp_all add: zeros_def list_all_iff\<close>)
  then show "match_dollar AUTH_DIGEST zeros" "match_dollar HEX_DIGEST zeros"
    by (simp_all add: match_dollar_iff AUTH_DIGEST_def HEX_DIGEST_def low_hex_def is_digit_code)
qed

lemma sample_shapes: "match_dollar KB_ID sample_kb \<and> match_dollar KB_VERSION ''1'' \<and> match_dollar AUTH_VERSION ''1'' \<and> match_dollar UTC_RE sample_time"
  by code_simp

lemma sample_auth_ids: "is_safe_id (JStr ''AUTH-1'') (Some [''AUTH''])" "is_safe_id (JStr sample_kb) (Some [''CHG'', ''KB'', ''KBV'', ''KBC''])"
  "is_safe_id (JStr ''REV-rev001'') (Some [''REV''])"
  by (rule id_check_safe, code_simp)+

definition sample_decl :: auth_decl where
  "sample_decl = \<lparr> dc_auth = ''AUTH-1'', dc_reviewer = ''REV-rev001'', dc_decision = ''APPROVED'', dc_at = sample_time, dc_digest = zeros,
     dc_version = ''1'', dc_notes = clean_str 300 ''ok'', dc_verification = VERIFICATION_LEVEL \<rparr>"

lemma sample_verified: "verify_authorization (kb_iso sample_env) sample_auth sample_kb (JStr zeros) ''1'' (JArr []) ''APPROVED'' = Inr sample_decl"
proof -
  have "valid_record (kb_iso sample_env) sample_auth \<lparr> au_id = ''AUTH-1'', au_artifact = sample_kb, au_decision = ''APPROVED'', au_reviewer = ''REV-rev001'',
     au_at = sample_time, au_digest = zeros, au_version = ''1'', au_notes = clean_str 300 ''ok'', au_flagged = has_instruction_markers (JStr ''ok'') \<rparr>"
    using sample_shapes zeros_digest(1) sample_auth_ids unfolding valid_record_def sample_auth_def
    by (simp add: jget_or_def jget_def or_else_def AUTH_REQUIRED_def is_utc_timestamp_def sample_env_def)
  then show ?thesis
    unfolding verify_authorization_def parse_authorization_iff [symmetric]
    by (simp add: sample_auth_def sample_decl_def auth_decl_of_def proposers_of_def truthy_def advcrash_def)
qed

lemma sample_load: "load_manifest sample_dir False = Inr (sample_manifest_json sample_rec)"
  using sample_shapes
  by (simp add: load_manifest_def sample_dir_def check_manifest_def sample_manifest_json_def json_reads is_obj_def SCHEMA_VERSION_def MAX_ENTRIES_def
      check_entry_def check_version_def sample_rec_def jget_attr_def kb_states_def state_name_def)

lemma sample_version: "version_rec (sample_manifest_json r) sample_kb ''1'' = Some r" "versions_of (sample_manifest_json r) sample_kb = [(''1'', r)]"
  "entries_of (sample_manifest_json r) = [(sample_kb, JObj [(''versions'', JObj [(''1'', r)])])]"
  by (simp_all add: version_rec_def versions_of_def entries_of_def sample_manifest_json_def jget_def)

lemma sample_checks: "transition_checks sample_env sample_dir sample_kb ''1'' ''RETIRED'' (JStr sample_time) =
    Inr (sample_manifest_json sample_rec, sample_rec, sample_article, DEPRECATED, RETIRED, sample_time)"
proof -
  have "load_article sample_env sample_dir (sample_manifest_json sample_rec) sample_kb ''1'' = Inr sample_article"
    by (simp add: load_article_def sample_version) (simp add: sample_dir_def sample_article_def sample_rec_def json_reads is_obj_def digest_of_def
        content_digest_def sample_env_def fmt_def)
  moreover have "state_of_name ''RETIRED'' = Some RETIRED" "state_of sample_rec = Some DEPRECATED"
    by (simp_all add: state_of_def sample_rec_def jget_def state_of_name_def kb_states_def state_name_def)
  ultimately show ?thesis using sample_shapes
    by (simp add: transition_checks_def sample_load sample_version is_utc_timestamp_def sample_env_def ensure_def)
qed

lemma sample_decides: "decide sample_env (sample_manifest_json sample_rec) sample_kb ''1'' sample_rec sample_auth = Inr sample_decl"
  using sample_verified
  by (simp add: decide_def sample_version used_ids_def event_values_def too_early_def ensure_def advcrash_def sample_rec_def jreq_def py_iter_def)

definition retired_rec :: json where
  "retired_rec = JObj [(''state'', JStr ''RETIRED''), (''digest'', JStr zeros), (''proposer_ids'', JArr []),
     (''history'', JArr [mk_event 1 DEPRECATED RETIRED sample_time (Some sample_decl)])]"

lemma sample_moves: "move_rec DEPRECATED RETIRED sample_time (Some sample_decl) sample_rec = Inr retired_rec"
  by (simp add: move_rec_def sample_rec_def retired_rec_def hist_list_def jreq_def advcrash_def jset_def state_name_def)

lemma sample_sets: "set_versions sample_kb [(''1'', r)] (sample_manifest_json q) = sample_manifest_json r"
  by (simp add: set_versions_def sample_version) (simp add: sample_manifest_json_def jset_def)

lemma sample_audit: "audit_strings (sample_manifest_json retired_rec) 0 = Inr ()"
proof (rule audit_passes)
  have "clean_str 300 ''ok'' = ''ok''" by code_simp
  then have "set (jstrings (sample_manifest_json retired_rec)) \<subseteq> insert zeros (set [''schema_version'', ''1.0.0'', ''artifact_type'', ''kb_manifest'',
     ''entries'', sample_kb, ''versions'', ''1'', ''state'', ''RETIRED'', ''digest'', ''proposer_ids'', ''history'', ''seq'', ''from'', ''to'', ''at_utc'',
     ''DEPRECATED'', sample_time, ''authorization_id'', ''AUTH-1'', ''reviewer_id'', ''REV-rev001'', ''decision_at_utc'', ''artifact_digest'',
     ''verification'', VERIFICATION_LEVEL, ''review_notes_sanitized'', ''ok''])"
    by (simp add: sample_manifest_json_def retired_rec_def mk_event_def decl_str_def sample_decl_def state_name_def)
  moreover have "list_all harmless [''schema_version'', ''1.0.0'', ''artifact_type'', ''kb_manifest'',
     ''entries'', sample_kb, ''versions'', ''1'', ''state'', ''RETIRED'', ''digest'', ''proposer_ids'', ''history'', ''seq'', ''from'', ''to'', ''at_utc'',
     ''DEPRECATED'', sample_time, ''authorization_id'', ''AUTH-1'', ''reviewer_id'', ''REV-rev001'', ''decision_at_utc'', ''artifact_digest'',
     ''verification'', VERIFICATION_LEVEL, ''review_notes_sanitized'', ''ok'']"
    by code_simp
  moreover have "\<not> contains_structured_secret zeros" using zeros_digest(2) by (simp add: contains_structured_secret_def)
  ultimately show "\<not> contains_structured_secret s" if "s \<in> set (jstrings (sample_manifest_json retired_rec))" for s
    using that harmless_not_structured_secret unfolding list_all_iff by blast
  have "shallow 12 (sample_manifest_json retired_rec)"
    by (simp add: sample_manifest_json_def retired_rec_def mk_event_def decl_str_def)
  then show "0 + jdepth (sample_manifest_json retired_rec) \<le> 12" using shallow_depth by simp
qed

lemma sample_transition: "\<exists>R' res. transition sample_env sample_dir sample_kb ''1'' ''RETIRED'' (JStr sample_time) sample_auth = Inr (R', res) \<and>
    (tr_from res, tr_to res) = (DEPRECATED, RETIRED)"
proof -
  have "save_manifest sample_env sample_dir (sample_manifest_json retired_rec) = Inr (sample_dir\<lparr>kd_manifest := Some (reread (sample_manifest_json retired_rec))\<rparr>)"
    by (simp add: save_manifest_def sample_audit) (simp add: sample_env_def MAX_OUTPUT_BYTES_def)
  then show ?thesis
    by (simp add: transition_def sample_checks sample_decides sample_moves sample_version moved_versions_def sample_sets
        GATED_def HUMAN_DECISION_TRANSITIONS_def)
qed


text \<open>
  C2: every entry of a knowledge base has a legal history. After any sequence of additions and
  transitions from an empty directory, whatever their arguments, each version is in the state of its
  last event; its history starts as a candidate or a draft and follows the lifecycle, and every
  human decision in it carries an authorization. A version that is or was public has both an
  authorized approval and an authorized publication in its history.
\<close>

theorem knowledge_governed:
  assumes "kb_log (run_steps (kb_apply E) no_kb ops) kb v = Some (s, hs)"
  shows "\<exists>st. s = Some st \<and> legal hs st \<and>
    (st \<notin> set unpublished \<longrightarrow> decision hs APPROVED_BY_HUMAN \<and> decision hs PUBLISHED)"
  using kb_m.run_ok [OF no_kb_inv, of E ops] assms legal_decisions unfolding kb_inv_def by blast

text \<open>Adding a small candidate to an empty directory.\<close>

definition small_article :: json where
  "small_article = JObj [(''article_type'', JStr ''LESSON''), (''title'', JStr ''t''),
     (''scope'', JObj [(''domain'', JStr ''os''), (''oracle_versions'', JArr []), (''release_update'', JStr ''u''), (''platform'', JStr ''p'')]),
     (''error_codes'', JArr []), (''symptoms_observable'', JArr []),
     (''minimal_reproducible_evidence'', JObj [(''evidence_refs'', JArr []), (''required_conditions'', JArr []), (''contradicting_conditions'', JArr [])]),
     (''hypothesis'', JObj [(''statement'', JStr ''s''), (''status'', JStr ''OPEN''), (''confidence'', JStr ''LOW''), (''publishable_as_fact'', JBool False)]),
     (''readonly_diagnostics'', JArr []), (''interpretation_and_limits'', JArr []), (''manual_recommendations'', JArr []),
     (''prerequisites_and_license'', JObj [(''license_dependent'', JBool False), (''note'', JStr ''n'')]),
     (''provenance'', JObj [(''incident_id'', JStr ''i''), (''rca_id'', JStr ''r''), (''rule_id'', JStr ''u''), (''hypothesis_ids'', JArr []),
        (''evidence_ids'', JArr []), (''finding_ids'', JArr []), (''recommendation_ids'', JArr [])]),
     (''validated_at_utc'', JStr ''t''), (''review_due_utc'', JStr ''t''), (''owner'', JStr ''o''), (''supersedes'', JNull)]"

definition small_cand :: json where
  "small_cand = JObj [(''artifact_type'', JStr ''kb_candidate''), (''schema_version'', JStr ''1.0.0''), (''content_digest'', JStr zeros),
     (''lifecycle_state'', JStr ''CANDIDATE''), (''kb_id'', JStr sample_kb), (''kb_candidate_id'', JStr ''c''), (''dedup_key'', JObj []),
     (''proposer_ids'', JArr []), (''source_refs'', JObj [(''incident_id'', JStr ''i'')]), (''article'', small_article)]"

lemma zeros_not_secret: "\<not> contains_structured_secret zeros"
  using zeros_digest(2) by (simp add: contains_structured_secret_def)

lemma audit_zeros: "list_all (\<lambda>s. s = zeros \<or> harmless s) (jstrings v) \<Longrightarrow> shallow 12 v \<Longrightarrow> audit_strings v 0 = Inr ()"
  by (rule audit_passes) (use harmless_not_structured_secret zeros_not_secret shallow_depth in \<open>auto simp: list_all_iff\<close>)

lemma small_audit: "audit_strings small_cand 0 = Inr ()"
  by (rule audit_zeros) code_simp+

lemma small_check: "check_candidate sample_env small_cand = Inr (sample_kb, CANDIDATE)"
proof -
  have "is_safe_id (JStr sample_kb) (Some [''KB''])" by (rule id_check_safe) code_simp
  then show ?thesis
    unfolding check_candidate_def small_audit
    by (simp add: small_cand_def json_reads digest_of_def content_digest_def sample_env_def SCHEMA_VERSION_def state_name_def)
qed

definition small_version :: json where
  "small_version = (case article_of sample_env small_cand sample_kb ''1'' ''t'' of Inr a \<Rightarrow> a | Inl _ \<Rightarrow> JNull)"

lemma small_steps: "article_of sample_env small_cand sample_kb ''1'' ''t'' = Inr small_version \<and> next_version [] = Inr ''1'' \<and>
    existing_for_review empty_manifest = Inr [] \<and> list_all (\<lambda>s. s = zeros \<or> harmless s) (jstrings small_version) \<and> shallow 12 small_version"
  by code_simp

lemma small_review: "case review_duplicates (kb_sha sample_env) (kb_repr sample_env) small_cand [] of Inr r \<Rightarrow> dr_result r = NEW | Inl _ \<Rightarrow> False"
  by code_simp

lemma small_page: "case render_article_md sample_env small_version of Inr t \<Rightarrow> length t < 10000 | Inl _ \<Rightarrow> False"
  by code_simp

lemma small_plan: "\<exists>review. plan_add sample_env (made no_kb) small_cand sample_kb ''t'' =
    Inr (review, Some (with_entry sample_kb empty_manifest, ''1'', small_version, small_article))"
proof -
  from small_review obtain r where r: "review_duplicates (kb_sha sample_env) (kb_repr sample_env) small_cand [] = Inr r" "dr_result r = NEW"
    by (auto split: sum.splits)
  have "load_manifest (made no_kb) True = Inr empty_manifest" by (simp add: load_manifest_def made_def no_kb_def)
  moreover have "jreq small_cand ''article'' = Inr small_article" "jreq small_article ''supersedes'' = Inr JNull"
    unfolding jreq_Inr by (simp_all add: small_cand_def small_article_def jget_def)
  moreover have "entries_of (with_entry sample_kb empty_manifest) = [(sample_kb, JObj [(''versions'', JObj [])])]"
    by (simp add: with_entry_def empty_manifest_def entries_of_def jget_def jset_def)
  moreover have "versions_of (with_entry sample_kb empty_manifest) sample_kb = []"
    by (simp add: with_entry_def empty_manifest_def versions_of_def entries_of_def jget_def jset_def)
  moreover have "audit_strings small_version 0 = Inr ()" using small_steps audit_zeros by blast
  ultimately show ?thesis using r small_steps
    by (intro exI [of _ r]) (simp add: plan_add_def Let_def advcrash_def ensure_def MAX_ENTRIES_def del: jreq_Inr)
qed

lemma small_stored: "\<exists>R'. store_version sample_env (made no_kb) (with_entry sample_kb empty_manifest) small_cand sample_kb ''1'' small_version small_article
    CANDIDATE ''t'' = (R', Inr ())"
proof -
  obtain page where page: "render_article_md sample_env small_version = Inr page" "length page < 10000"
    using small_page by (auto split: sum.splits)
  obtain rec where rec: "new_record sample_env small_cand small_version small_article CANDIDATE ''t'' = Inr rec"
    and a: "audit_strings (set_versions sample_kb [(''1'', rec)] (with_entry sample_kb empty_manifest)) 0 = Inr ()"
  proof -
    let ?n = "new_record sample_env small_cand small_version small_article CANDIDATE ''t''"
    have "case ?n of Inr rec \<Rightarrow> list_all (\<lambda>s. s = zeros \<or> harmless s) (jstrings (set_versions sample_kb [(''1'', rec)] (with_entry sample_kb empty_manifest)))
        \<and> shallow 12 (set_versions sample_kb [(''1'', rec)] (with_entry sample_kb empty_manifest)) | Inl _ \<Rightarrow> False" by code_simp
    then show ?thesis using that audit_zeros by (auto split: sum.splits)
  qed
  have v: "versions_of (with_entry sample_kb empty_manifest) sample_kb = []"
    by (simp add: with_entry_def empty_manifest_def versions_of_def entries_of_def jget_def jset_def)
  show ?thesis
    using page rec a v
    by (simp add: store_version_def write_article_def write_page_def save_manifest_def made_def no_kb_def MAX_OUTPUT_BYTES_def advcrash_def)
      (simp add: sample_env_def)
qed

theorem knowledge_governed_witness:
  "\<exists>R hs. run_steps (kb_apply sample_env) no_kb [Add small_cand ''t''] = R \<and> kb_log R sample_kb ''1'' = Some (Some CANDIDATE, hs) \<and> legal hs CANDIDATE"
proof -
  let ?R = "run_steps (kb_apply sample_env) no_kb [Add small_cand ''t'']"
  from small_plan small_stored obtain review R' where
    p: "plan_add sample_env (made no_kb) small_cand sample_kb ''t'' = Inr (review, Some (with_entry sample_kb empty_manifest, ''1'', small_version, small_article))"
    and s: "store_version sample_env (made no_kb) (with_entry sample_kb empty_manifest) small_cand sample_kb ''1'' small_version small_article CANDIDATE ''t''
      = (R', Inr ())" by blast
  have "?R = R'"
    by (simp add: run_steps_def kb_apply_def add_candidate_def small_check made_def [symmetric] p s)
  moreover have "kb_log R' sample_kb ''1'' = Some (Some CANDIDATE, [reread (first_event CANDIDATE ''t'')])"
  proof -
    from store_versionD [OF s] obtain rec where r: "log_of rec = (Some CANDIDATE, [reread (first_event CANDIDATE ''t'')])"
      and sv: "save_manifest sample_env (R'\<lparr>kd_manifest := kd_manifest (made no_kb)\<rparr>)
        (set_versions sample_kb (dset ''1'' rec (versions_of (with_entry sample_kb empty_manifest) sample_kb)) (with_entry sample_kb empty_manifest)) = Inr R'" by auto
    have "manifest_wf empty_manifest" by (simp add: manifest_wf_def empty_manifest_def jget_def)
    with with_entry_ok [OF this, of sample_kb] r save_manifest_log [OF sv] version_rec_set show ?thesis by simp
  qed
  ultimately have l: "kb_log ?R sample_kb ''1'' = Some (Some CANDIDATE, [reread (first_event CANDIDATE ''t'')])" by simp
  with knowledge_governed [OF l] show ?thesis by auto
qed

text \<open>
  C6: a knowledge base only grows. Of any sequence of operations from an empty directory, whatever
  succeeds or fails, the state after each prefix is kept by the rest: the history of every version
  is extended and never edited, and no article or rendering that was written is changed or removed.
\<close>

theorem knowledge_append_only:
  "kb_le (kb_view (run_steps (kb_apply E) no_kb (take n ops))) (kb_view (run_steps (kb_apply E) no_kb ops))"
proof -
  have "run_steps (kb_apply E) no_kb ops = run_steps (kb_apply E) (run_steps (kb_apply E) no_kb (take n ops)) (drop n ops)"
    unfolding run_steps_def by (simp flip: foldl_append)
  then show ?thesis using kb_m.run_le [OF kb_m.run_ok [OF no_kb_inv]] by simp
qed

text \<open>
  \<open>add_candidate\<close> accepts any safe identifier of an entry; \<open>load_manifest\<close> then refuses the whole
  manifest if it does not have the generated form.
\<close>

lemma short_id_accepted: "is_safe_id (JStr ''KB-abc'') (Some [''KB'']) \<and> \<not> match_dollar KB_ID ''KB-abc''"
proof
  show "is_safe_id (JStr ''KB-abc'') (Some [''KB''])" by (rule id_check_safe) code_simp
  show "\<not> match_dollar KB_ID ''KB-abc''" by code_simp
qed

end
