(* ===== verification/Retrieval.thy ===== *)
theory Retrieval
  imports Kb_Safety
begin

section \<open>Knowledge search (change\_documentation\_knowledge/retrieval.py)\<close>

text \<open>
  A query is reduced to terms and compared as plain text; only articles named by the manifest are
  opened, each verified. The filters of a search are the record \<open>search_query\<close>; an absent option
  is \<open>None\<close>, and an empty text is not a filter.
\<close>

definition MAX_TOP_K :: int where "MAX_TOP_K = 20"
definition DEFAULT_TOP_K :: int where "DEFAULT_TOP_K = 5"
definition MAX_QUERY_LEN :: nat where "MAX_QUERY_LEN = 200"

definition term_char :: "char \<Rightarrow> bool" where "term_char c \<longleftrightarrow> is_lower c \<or> is_digit c"

definition TERM_RX :: rx where
  "TERM_RX = Seq (Cls term_char) (Rep 1 39 (Cls (\<lambda>c. term_char c \<or> c = CHR ''-'')))"

definition NEVER_RETURNED :: "string list" where
  "NEVER_RETURNED = [state_name RETIRED, state_name REJECTED]"

definition ERROR_CODE :: rx where
  "ERROR_CODE = seqs [alts (map lit [''ORA'', ''TNS'', ''RMAN'', ''CRS'', ''LSNR'', ''PLS'']), lit ''-'', Rep 3 3 (Cls is_digit)]"

record search_query =
  sq_query :: "string option"
  sq_domain :: "string option"
  sq_version :: "string option"
  sq_code :: "string option"
  sq_type :: "string option"
  sq_architecture :: "string option"
  sq_exclude_license :: bool
  sq_after :: "string option"
  sq_states :: "string list"
  sq_top_k :: json

text \<open>\<open>x and ...\<close> for an option that is a text.\<close>

definition given :: "string option \<Rightarrow> bool" where "given x \<longleftrightarrow> (case x of None \<Rightarrow> False | Some s \<Rightarrow> s \<noteq> [])"

definition terms :: "string \<Rightarrow> string list" where
  "terms query = take 12 (sort (remdups (findall Longest TERM_RX None (lower (clean_str MAX_QUERY_LEN query)))))"

definition haystack :: "json \<Rightarrow> py_exc + string list" where
  "haystack a =
     bindE (bindE (jreq a ''title'') as_str) (\<lambda>title.
     bindE (bindE (jpath a [''hypothesis'', ''statement'']) as_str) (\<lambda>st.
     bindE (bindE (bindE (jreq a ''symptoms_observable'') py_iter) (mapE as_str)) (\<lambda>sy.
     bindE (bindE (bindE (jreq a ''error_codes'') py_iter) (mapE as_str)) (\<lambda>codes.
       Inr (findall Longest TERM_RX None (lower (join_on '' '' [title, st, join_on '' '' sy, join_on '' '' codes])))))))"

record search_hit =
  sh_kb :: string
  sh_version :: string
  sh_state :: kb_state
  sh_current :: bool
  sh_title :: json
  sh_scope :: json
  sh_type :: json
  sh_codes :: json
  sh_citation :: "json list"
  sh_validated :: json
  sh_due :: json
  sh_matched :: "string list"
  sh_warning :: "string option"

record search_result =
  sr_match :: bool
  sr_terms :: nat
  sr_hits :: "search_hit list"

subsection \<open>Filters\<close>

text \<open>A filter that is not given passes; \<open>and\<close> reads the article only when it is given.\<close>

definition unless :: "bool \<Rightarrow> 'e + bool \<Rightarrow> 'e + bool" where
  "unless used m = (if used then m else Inr True)"

definition passes_filters :: "search_query \<Rightarrow> json \<Rightarrow> json \<Rightarrow> py_exc + bool" where
  "passes_filters Q a sc =
     bindE (unless (given (sq_domain Q)) (bindE (jreq sc ''domain'') (\<lambda>d. Inr (Some d = map_option JStr (sq_domain Q))))) (\<lambda>b1. if \<not> b1 then Inr False else
     bindE (unless (given (sq_version Q)) (bindE (jreq sc ''oracle_versions'') (py_in (JStr (or_else (sq_version Q) []))))) (\<lambda>b2. if \<not> b2 then Inr False else
     bindE (unless (given (sq_type Q)) (bindE (jreq a ''article_type'') (\<lambda>t. Inr (Some t = map_option JStr (sq_type Q))))) (\<lambda>b3. if \<not> b3 then Inr False else
     bindE (unless (given (sq_architecture Q)) (bindE (jreq sc ''architecture'') (\<lambda>ar.
       bindE (jget_attr ar (or_else (sq_architecture Q) [])) (\<lambda>v. Inr (v = Some (JBool True)))))) (\<lambda>b4. if \<not> b4 then Inr False else
     bindE (unless (sq_exclude_license Q) (falsy a [''prerequisites_and_license'', ''license_dependent''])) (\<lambda>b5. if \<not> b5 then Inr False else
     unless (given (sq_after Q)) (bindE (jreq a ''validated_at_utc'') (\<lambda>t.
       bindE (py_cmp Less t (JStr (or_else (sq_after Q) []))) (\<lambda>b. Inr (\<not> b)))))))))"

text \<open>The matches of an article: the code, when one is asked for and certified, and the terms; \<open>None\<close> is no hit.\<close>

definition matches :: "string option \<Rightarrow> string list \<Rightarrow> json \<Rightarrow> py_exc + string list option" where
  "matches code ts a =
     bindE (case code of None \<Rightarrow> Inr True | Some c \<Rightarrow> bindE (jreq a ''error_codes'') (py_in (JStr c))) (\<lambda>certified.
     if \<not> certified then Inr None
     else bindE (haystack a) (\<lambda>hay.
       let term_hits = filter (\<lambda>t. t \<in> set hay) ts in
       Inr (if term_hits = [] \<and> code = None then None
         else Some (sort ((case code of None \<Rightarrow> [] | Some c \<Rightarrow> [''error_code:'' @ c]) @ map ((@) ''term:'') term_hits)))))"

definition citation :: "json \<Rightarrow> py_exc + json list" where
  "citation a = bindE (jreq a ''provenance'') (\<lambda>p.
     mapE (jreq p) [''incident_id'', ''rca_id'', ''evidence_ids'', ''hypothesis_ids'', ''finding_ids''])"

definition make_hit :: "string \<Rightarrow> string \<Rightarrow> kb_state \<Rightarrow> json \<Rightarrow> json \<Rightarrow> string list \<Rightarrow> py_exc + search_hit" where
  "make_hit kb v s a sc matched =
     bindE (mapE (jreq a) [''title'', ''article_type'', ''error_codes'']) (\<lambda>xs.
     bindE (citation a) (\<lambda>cit.
     bindE (mapE (jreq a) [''validated_at_utc'', ''review_due_utc'']) (\<lambda>ys.
     let current = s \<in> set CURRENT_GUIDANCE in
       Inr \<lparr> sh_kb = kb, sh_version = v, sh_state = s, sh_current = current, sh_title = xs ! 0, sh_scope = sc, sh_type = xs ! 1,
         sh_codes = xs ! 2, sh_citation = cit, sh_validated = ys ! 0, sh_due = ys ! 1, sh_matched = matched,
         sh_warning = (if current then None
           else Some (''NOT current guidance: state is '' @ state_name s @ ''; do not apply without human review'')) \<rparr>)))"

text \<open>One version of an entry: no hit, or one.\<close>

definition search_version :: "kb_env \<Rightarrow> kb_dir \<Rightarrow> json \<Rightarrow> search_query \<Rightarrow> string list \<Rightarrow> string option \<Rightarrow> string list \<Rightarrow> string \<Rightarrow> string \<times> json
    \<Rightarrow> adv_error + search_hit list" where
  "search_version E R m Q wanted code ts kb x = (case x of (v, rec) \<Rightarrow> (case state_of rec of
      None \<Rightarrow> Inr []
    | Some s \<Rightarrow> if state_name s \<notin> set wanted then Inr []
        else bindE (load_article E R m kb v) (\<lambda>art.
          bindE (dkey art ''article'') (\<lambda>a.
          bindE (dkey a ''scope'') (\<lambda>sc.
          bindE (advcrash (passes_filters Q a sc)) (\<lambda>ok. if \<not> ok then Inr []
            else bindE (advcrash (matches code ts a)) (\<lambda>mt. (case mt of
                None \<Rightarrow> Inr []
              | Some matched \<Rightarrow> bindE (advcrash (make_hit kb v s a sc matched)) (\<lambda>h. Inr [h])))))))))"

text \<open>More matches first, then current guidance, then the identifier and the version number.\<close>

definition version_number :: "string \<Rightarrow> int" where
  "version_number v = (case int_of_text v of Inr n \<Rightarrow> n | Inl _ \<Rightarrow> 0)"

definition hit_before :: "search_hit \<Rightarrow> search_hit \<Rightarrow> bool" where
  "hit_before x y \<longleftrightarrow> length (sh_matched x) > length (sh_matched y) \<or> length (sh_matched x) = length (sh_matched y) \<and>
     (sh_current x \<and> \<not> sh_current y \<or> sh_current x = sh_current y \<and>
       (sh_kb x < sh_kb y \<or> sh_kb x = sh_kb y \<and> version_number (sh_version x) < version_number (sh_version y)))"

definition wanted_states :: "search_query \<Rightarrow> adv_error + string list" where
  "wanted_states Q = (let ws = (if sq_states Q = [] then map state_name CURRENT_GUIDANCE else sq_states Q) in
     if \<not> set ws \<subseteq> set (map state_name kb_states) then Inl (field_err E_USAGE ''states'')
     else Inr (filter (\<lambda>w. w \<notin> set NEVER_RETURNED) ws))"

definition search_top_k :: "json \<Rightarrow> adv_error + nat" where
  "search_top_k v = (case v of
      JInt i \<Rightarrow> if 1 \<le> i \<and> i \<le> MAX_TOP_K then Inr (nat i) else Inl (field_err E_USAGE ''top_k'')
    | _ \<Rightarrow> Inl (field_err E_USAGE ''top_k''))"

definition search_code :: "search_query \<Rightarrow> adv_error + string option" where
  "search_code Q = (case sq_code Q of None \<Rightarrow> Inr None
     | Some c \<Rightarrow> if match_dollar ERROR_CODE (upper c) then Inr (Some (upper c)) else Inl (field_err E_USAGE ''error_code''))"

definition search_kb :: "kb_env \<Rightarrow> kb_dir \<Rightarrow> search_query \<Rightarrow> adv_error + search_result" where
  "search_kb E R Q =
     bindE (search_top_k (sq_top_k Q)) (\<lambda>k.
     bindE (wanted_states Q) (\<lambda>wanted.
     let ts = (case sq_query Q of None \<Rightarrow> [] | Some q \<Rightarrow> if q = [] then [] else terms q) in
     bindE (search_code Q) (\<lambda>code.
     bindE (ensure (given (sq_query Q) \<or> code \<noteq> None) (field_err E_USAGE ''query'')) (\<lambda>_.
     bindE (load_manifest R False) (\<lambda>m.
     bindE (mapE (\<lambda>kb. bindE (mapE (search_version E R m Q wanted code ts kb) (versions_of m kb)) (\<lambda>hs. Inr (concat hs)))
         (sort (dkeys (entries_of m)))) (\<lambda>hss.
     let hits = take k (sort_by hit_before (concat hss)) in
       Inr \<lparr> sr_match = list_ex sh_current hits, sr_terms = length ts, sr_hits = hits \<rparr>))))))"

subsection \<open>What a search returns\<close>

lemma make_hit_fields: "make_hit kb v s a sc matched = Inr h \<Longrightarrow> sh_kb h = kb \<and> sh_version h = v \<and> sh_state h = s \<and>
    sh_current h = (s \<in> set CURRENT_GUIDANCE) \<and> sh_matched h = matched \<and> (sh_warning h = None) = sh_current h"
  unfolding make_hit_def bindE_Inr Let_def by (elim exE conjE) (simp only: sum.inject, hypsubst, simp)

definition hit_sound :: "kb_env \<Rightarrow> kb_dir \<Rightarrow> json \<Rightarrow> search_query \<Rightarrow> string list \<Rightarrow> search_hit \<Rightarrow> bool" where
  "hit_sound E R m Q wanted h \<longleftrightarrow> state_name (sh_state h) \<in> set wanted \<and> sh_current h = (sh_state h \<in> set CURRENT_GUIDANCE) \<and>
     (sh_warning h = None) = sh_current h \<and> sh_matched h \<noteq> [] \<and>
     (\<exists>rec art a sc. (sh_version h, rec) \<in> set (versions_of m (sh_kb h)) \<and> state_of rec = Some (sh_state h) \<and>
        load_article E R m (sh_kb h) (sh_version h) = Inr art \<and> jget art ''article'' = Some a \<and> jget a ''scope'' = Some sc \<and>
        passes_filters Q a sc = Inr True)"

lemma matches_nonempty: "matches code ts a = Inr (Some ms) \<Longrightarrow> ms \<noteq> []"
proof -
  assume "matches code ts a = Inr (Some ms)"
  then obtain hits where "\<not> (hits = [] \<and> code = None)"
    and "ms = sort ((case code of None \<Rightarrow> [] | Some c \<Rightarrow> [''error_code:'' @ c]) @ map ((@) ''term:'') hits)"
    unfolding matches_def bindE_Inr by (auto simp: Let_def bindE_Inr split: if_splits)
  then have "length ms \<noteq> 0" by (cases code) auto
  then show ?thesis by simp
qed

lemma search_version_sound:
  assumes "search_version E R m Q wanted code ts kb (v, rec) = Inr hs" and "(v, rec) \<in> set (versions_of m kb)" and "h \<in> set hs"
  shows "hit_sound E R m Q wanted h"
proof -
  from assms(1,3) obtain s art a sc ms where s: "state_of rec = Some s" "state_name s \<in> set wanted"
    and l: "load_article E R m kb v = Inr art" "jget art ''article'' = Some a" "jget a ''scope'' = Some sc"
    and p: "passes_filters Q a sc = Inr True" and mt: "matches code ts a = Inr (Some ms)"
    and h: "make_hit kb v s a sc ms = Inr h"
    unfolding search_version_def by (auto simp: bindE_Inr split: option.splits if_splits)
  from make_hit_fields [OF h] matches_nonempty [OF mt] s l p assms(2) show ?thesis
    unfolding hit_sound_def by simp blast
qed

lemma search_all_entries:
  assumes "mapE (\<lambda>kb. bindE (mapE (f kb) (vs kb)) (\<lambda>hs. Inr (concat hs))) kbs = Inr hss" and "h \<in> set hs" and "hs \<in> set hss"
  shows "\<exists>kb hs'. mapE (f kb) (vs kb) = Inr hs' \<and> h \<in> set (concat hs')"
proof -
  from mapE_in_result [OF assms(1,3)] obtain kb where "bindE (mapE (f kb) (vs kb)) (\<lambda>hs. Inr (concat hs)) = Inr hs" by blast
  then obtain hs' where "mapE (f kb) (vs kb) = Inr hs'" "concat hs' = hs" unfolding bindE_Inr by auto
  with assms(2) show ?thesis by blast
qed


text \<open>A knowledge base with one published version, found by its error code.\<close>

definition found_article :: json where
  "found_article = JObj [(''kb_id'', JStr sample_kb), (''version'', JStr ''1''), (''content_digest'', JStr zeros),
     (''article'', JObj [(''scope'', JObj [(''domain'', JStr ''storage'')]), (''title'', JStr ''t''), (''article_type'', JStr ''RUNBOOK''),
       (''hypothesis'', JObj [(''statement'', JStr ''s'')]), (''symptoms_observable'', JArr []), (''error_codes'', JArr [JStr ''ORA-00600'']),
       (''provenance'', JObj [(''incident_id'', JStr ''INC-1''), (''rca_id'', JStr ''RCA-1''), (''evidence_ids'', JArr []),
         (''hypothesis_ids'', JArr []), (''finding_ids'', JArr [])]),
       (''validated_at_utc'', JStr sample_time), (''review_due_utc'', JStr sample_time)])]"

definition found_rec :: json where
  "found_rec = JObj [(''state'', JStr ''PUBLISHED''), (''digest'', JStr zeros), (''proposer_ids'', JArr []), (''history'', JArr [])]"

definition found_dir :: kb_dir where
  "found_dir = \<lparr> kd_exists = True, kd_manifest = Some (sample_manifest_json found_rec), kd_articles = [((sample_kb, ''1''), found_article)], kd_pages = [] \<rparr>"

definition sample_query :: search_query where
  "sample_query = \<lparr> sq_query = None, sq_domain = Some ''storage'', sq_version = None, sq_code = Some ''ora-00600'', sq_type = None,
     sq_architecture = None, sq_exclude_license = False, sq_after = None, sq_states = [], sq_top_k = JInt DEFAULT_TOP_K \<rparr>"

lemma found_load: "load_manifest found_dir False = Inr (sample_manifest_json found_rec)"
  using sample_shapes
  by (simp add: load_manifest_def found_dir_def check_manifest_def sample_manifest_json_def json_reads is_obj_def SCHEMA_VERSION_def MAX_ENTRIES_def
      check_entry_def check_version_def found_rec_def jget_attr_def kb_states_def state_name_def)

lemma found_load_article: "load_article sample_env found_dir (sample_manifest_json found_rec) sample_kb ''1'' = Inr found_article"
  by (simp add: load_article_def sample_version) (simp add: found_dir_def found_article_def found_rec_def json_reads is_obj_def digest_of_def
      content_digest_def sample_env_def fmt_def)

lemma found_haystack: "findall Longest TERM_RX None (lower (join_on '' '' [''t'', ''s'', [], ''ORA-00600''])) = [''ora-00600'']"
  by code_simp

lemma found_code: "match_dollar ERROR_CODE ''ORA-00600'' \<and> upper ''ora-00600'' = ''ORA-00600''"
  by code_simp

lemma found_hit: "\<exists>h. search_version sample_env found_dir (sample_manifest_json found_rec) sample_query [''PUBLISHED'', ''REVIEW_DUE'']
    (Some ''ORA-00600'') [] sample_kb (''1'', found_rec) = Inr [h] \<and> sh_state h = PUBLISHED \<and> sh_current h"
proof -
  have "state_of found_rec = Some PUBLISHED"
    by (simp add: state_of_def found_rec_def jget_def state_of_name_def kb_states_def state_name_def)
  then show ?thesis
    using found_haystack
    by (simp add: search_version_def found_load_article)
      (simp add: found_article_def json_reads passes_filters_def unless_def given_def sample_query_def matches_def make_hit_def citation_def
        haystack_def jpath_def py_in_def py_iter_def as_str_def state_name_def CURRENT_GUIDANCE_def Let_def advcrash_def)
qed


end
