(* ===== verification/Change_Context.thy ===== *)
theory Change_Context
  imports Kb_Adapter Authorization
begin

section \<open>The context of a change (change\_documentation\_knowledge/change.py, first part)\<close>

text \<open>
  The fixed guidance of a domain and the optional operational context a human supplies: the target,
  the four gates, authorizations and reports of manual executions. A gate that the context does not
  mention is unknown, never passed and never inapplicable.
\<close>

definition CHANGE_VERSION :: rx where
  "CHANGE_VERSION = alts ([seqs [Rep 1 1 d_rx, Rep 0 4 (seqs [lit ''.'', Rep 1 1 d_rx])]] @
     map lit [''9i'', ''10g'', ''11g'', ''11gR2'', ''12c'', ''12cR1'', ''12cR2'', ''18c'', ''19c'', ''21c'', ''23ai'', ''23c''])"

definition RU_SHAPE :: rx where "RU_SHAPE = Rep 1 39 (Cls (\<lambda>c. is_alnum c \<or> c \<in> set ''._ -''))"
definition PLATFORM_SHAPE :: rx where "PLATFORM_SHAPE = Rep 1 59 (Cls (\<lambda>c. is_alnum c \<or> c \<in> set ''._ /-''))"

definition word_tail :: rx where "word_tail = Star (Cls is_word)"

definition HAZARD :: rx where
  "HAZARD = seqs [Bnd, alts ([ilit ''restart'', ilit ''reboot'', ilit ''bounce'', ilit ''failover'', ilit ''switchover'',
     Seq (ilit ''relocat'') word_tail, Seq (ilit ''kill'') word_tail, seqs [ilit ''shut'', ws0, ilit ''down''],
     Seq (ilit ''drop'') word_tail, Seq (ilit ''delete'') word_tail, Seq (ilit ''resiz'') word_tail,
     Seq (ilit ''rebalanc'') word_tail, Seq (ilit ''reconfigur'') word_tail, ilit ''rewrite'',
     Seq (ilit ''purge'') word_tail, Seq (ilit ''detach'') word_tail, Seq (ilit ''disable'') word_tail]), Bnd]"

definition GATES :: "string list" where
  "GATES = [''capability'', ''license'', ''privilege'', ''change_window'']"

datatype gate_status = G_PASS | G_FAIL | G_UNKNOWN | G_NOT_APPLICABLE | G_NOT_VERIFIED

definition GATE_STATUSES :: "(string \<times> gate_status) list" where
  "GATE_STATUSES = [(''PASS'', G_PASS), (''FAIL'', G_FAIL), (''UNKNOWN'', G_UNKNOWN), (''NOT_APPLICABLE'', G_NOT_APPLICABLE),
     (''NOT_VERIFIED'', G_NOT_VERIFIED)]"

definition gate_name :: "gate_status \<Rightarrow> string" where
  "gate_name g = (case g of G_PASS \<Rightarrow> ''PASS'' | G_FAIL \<Rightarrow> ''FAIL'' | G_UNKNOWN \<Rightarrow> ''UNKNOWN''
     | G_NOT_APPLICABLE \<Rightarrow> ''NOT_APPLICABLE'' | G_NOT_VERIFIED \<Rightarrow> ''NOT_VERIFIED'')"

definition NON_BLOCKING :: "gate_status list" where "NON_BLOCKING = [G_PASS, G_NOT_APPLICABLE]"

definition EXECUTION_STATUS_NOT_EXECUTED :: string where "EXECUTION_STATUS_NOT_EXECUTED = ''NOT_EXECUTED_BY_ESTACK''"
definition EXECUTION_STATUS_HUMAN_REPORTED :: string where "EXECUTION_STATUS_HUMAN_REPORTED = ''HUMAN_REPORTED_UNVERIFIED''"
definition GENERATOR_VERSION :: string where "GENERATOR_VERSION = ''change_documentation_knowledge/1.0.0''"

subsection \<open>Guidance\<close>

record guidance =
  gd_components :: "string list"
  gd_breadth :: string
  gd_blast :: string
  gd_reversibility :: string
  gd_rollback :: "string list"
  gd_license :: bool
  gd_note :: "string option"

definition DOMAIN_GUIDANCE :: "(string, guidance) dict" where
  "DOMAIN_GUIDANCE = [
    (''oracle'', \<lparr> gd_components = [''Oracle instance / database configuration''], gd_breadth = ''MEDIUM'',
      gd_blast = ''The affected database instance(s); scope must be stated by the reviewer.'',
      gd_reversibility = ''PARTIAL'',
      gd_rollback = [(''Restore the previously recorded configuration value or state (captured in the pre-change step) using '' @
        ''the site's approved procedure.''),
        ''Confirm instance health and an error-free alert log after restoring.''],
      gd_license = False, gd_note = None \<rparr>),
    (''os'', \<lparr> gd_components = [''Operating system configuration of the database host''], gd_breadth = ''MEDIUM'',
      gd_blast = ''The host and every Oracle instance sharing the affected OS limit or resource.'',
      gd_reversibility = ''REVERSIBLE_IF_PRIOR_VALUE_RECORDED'',
      gd_rollback = [''Restore the prior OS setting recorded before the change, following the platform team's procedure.'',
        ''Re-measure the affected resource and confirm the database host is stable.''],
      gd_license = False, gd_note = None \<rparr>),
    (''rac'', \<lparr> gd_components = [''Grid Infrastructure / RAC cluster resources''], gd_breadth = ''HIGH'',
      gd_blast = ''Cluster-wide: more than one node or instance may be affected; do not assume a single-node scope.'',
      gd_reversibility = ''PARTIAL'',
      gd_rollback = [''Revert node by node in the reverse order of the applied change, keeping cluster quorum in mind.'',
        ''Confirm all cluster resources and services are in their expected state on every node.''],
      gd_license = False, gd_note = None \<rparr>),
    (''asm'', \<lparr> gd_components = [''ASM instance / disk groups / storage paths''], gd_breadth = ''HIGH'',
      gd_blast = ''Every database using the affected disk group; rebalance activity may extend the impact window.'',
      gd_reversibility = ''PARTIAL_OR_IRREVERSIBLE_UNKNOWN'',
      gd_rollback = [(''Some storage operations may not be reversible; confirm reversibility with the storage owner before '' @
        ''proceeding.''),
        (''If reversible, restore the prior configuration and confirm disk group health and rebalance '' @
        ''completion.'')],
      gd_license = False, gd_note = None \<rparr>),
    (''dataguard'', \<lparr> gd_components = [''Data Guard configuration (primary and standby databases)''], gd_breadth = ''HIGH'',
      gd_blast = (''Primary and standby databases; transport/apply and role behavior may be affected. Do not assume '' @
        ''symmetry between sites.''),
      gd_reversibility = ''PARTIAL'',
      gd_rollback = [(''Restore the previous transport/apply configuration recorded before the change on each affected '' @
        ''database.''),
        ''Confirm transport and apply status and that no gap was introduced.''],
      gd_license = True, gd_note = Some (''Some Data Guard capabilities (for example Active Data Guard features) require a separate entitlement; '' @
        ''entitlement must be confirmed, never assumed.'') \<rparr>),
    (''multitenant'', \<lparr> gd_components = [''CDB / PDB configuration''], gd_breadth = ''MEDIUM'',
      gd_blast = (''The container database or the named PDB(s); the reviewer must state whether the scope is CDB-wide or '' @
        ''per-PDB.''),
      gd_reversibility = ''PARTIAL'',
      gd_rollback = [''Restore the prior CDB/PDB setting recorded before the change, in the same container scope.'',
        ''Confirm PDB open mode and services after restoring.''],
      gd_license = False, gd_note = None \<rparr>),
    (''rman'', \<lparr> gd_components = [''Backup and recovery configuration (RMAN, FRA, retention)''], gd_breadth = ''MEDIUM'',
      gd_blast = ''Backup schedule and recoverability window; overlap with running backups must be excluded.'',
      gd_reversibility = ''REVERSIBLE_IF_PRIOR_VALUE_RECORDED'',
      gd_rollback = [''Restore the previously recorded backup configuration values.'',
        ''Confirm the next backup completes and recoverability is preserved.''],
      gd_license = False, gd_note = None \<rparr>),
    (''network'', \<lparr> gd_components = [''Listener / SCAN / name resolution / network path''], gd_breadth = ''HIGH'',
      gd_blast = ''New and possibly existing client connections to the affected service endpoints.'',
      gd_reversibility = ''REVERSIBLE_IF_PRIOR_VALUE_RECORDED'',
      gd_rollback = [''Restore the prior listener or network configuration recorded before the change.'',
        ''Confirm that new client connections succeed through every affected endpoint.''],
      gd_license = False, gd_note = None \<rparr>),
    (''security'', \<lparr> gd_components = [''Security posture (accounts, audit, encryption, privileges)''], gd_breadth = ''HIGH'',
      gd_blast = (''Access paths and audit coverage for the affected accounts or components; compliance evidence may be '' @
        ''affected.''),
      gd_reversibility = ''PARTIAL'',
      gd_rollback = [''Restore the previously recorded security setting through the security team's approved procedure.'',
        ''Confirm audit coverage and access for legitimate users is intact.''],
      gd_license = False, gd_note = None \<rparr>),
    (''capacity'', \<lparr> gd_components = [''Capacity of storage, memory, CPU or tablespace resources''], gd_breadth = ''MEDIUM'',
      gd_blast = ''The resource pool being resized and the workloads that depend on it.'',
      gd_reversibility = ''PARTIAL'',
      gd_rollback = [(''A capacity increase is usually additive; if the increase must be undone, follow the storage/platform '' @
        ''owner's procedure and confirm no dependent object is affected.''),
        ''Re-measure utilization after any rollback.''],
      gd_license = False, gd_note = None \<rparr>),
    (''performance'', \<lparr> gd_components = [''Instance or SQL performance configuration''], gd_breadth = ''MEDIUM'',
      gd_blast = ''Workloads on the affected instance; a tuning change can shift behavior for unrelated statements.'',
      gd_reversibility = ''REVERSIBLE_IF_PRIOR_VALUE_RECORDED'',
      gd_rollback = [''Restore the previously recorded setting or plan baseline configuration.'',
        ''Compare the same performance indicators before and after the rollback.''],
      gd_license = True, gd_note = Some (''Use of AWR/ASH/ADDM and some tuning features requires a licensed management pack; entitlement must be '' @
        ''confirmed, never assumed.'') \<rparr>)]"

subsection \<open>The context\<close>

record gate =
  gt_status :: gate_status
  gt_basis :: string

record execution_report =
  xr_change :: string
  xr_by :: string
  xr_at :: string
  xr_outcome :: string

record context_target =
  cx_version :: "string option"
  cx_release :: "string option"
  cx_platform :: "string option"
  cx_architecture :: "(string, bool option) dict"

record change_context =
  cc_target :: context_target
  cc_gates :: "(string, gate) dict"
  cc_authorizations :: "json list"
  cc_reports :: "execution_report list"
  cc_proposers :: "string list"

definition ARCHITECTURE_KEYS :: "string list" where
  "ARCHITECTURE_KEYS = [''cdb'', ''rac'', ''dataguard'', ''asm'']"

definition empty_context :: change_context where
  "empty_context = \<lparr> cc_target = \<lparr> cx_version = None, cx_release = None, cx_platform = None,
       cx_architecture = map (\<lambda>k. (k, None)) ARCHITECTURE_KEYS \<rparr>,
     cc_gates = map (\<lambda>g. (g, \<lparr> gt_status = G_UNKNOWN, gt_basis = ''No context supplied; not assumed.'' \<rparr>)) GATES,
     cc_authorizations = [], cc_reports = [], cc_proposers = [] \<rparr>"

text \<open>A text of the target: absent or null is not given; anything else has the shape, and is cleaned.\<close>

definition target_text :: "rx \<Rightarrow> string \<Rightarrow> json \<Rightarrow> adv_error + string option" where
  "target_text shape key t = (case getn t key of
      JNull \<Rightarrow> Inr None
    | JStr s \<Rightarrow> if match_dollar shape s then Inr (Some (clean_str 60 s)) else Inl (field_err E_INPUT_INVALID (''context.target.'' @ key))
    | _ \<Rightarrow> Inl (field_err E_INPUT_INVALID (''context.target.'' @ key)))"

definition target_version :: "json \<Rightarrow> adv_error + string option" where
  "target_version t = (case getn t ''oracle_version'' of
      JNull \<Rightarrow> Inr None
    | JStr s \<Rightarrow> if match_dollar CHANGE_VERSION s then Inr (Some s) else Inl (field_err E_INPUT_INVALID ''context.target.oracle_version'')
    | _ \<Rightarrow> Inl (field_err E_INPUT_INVALID ''context.target.oracle_version''))"

definition set_architecture :: "(string, bool option) dict \<Rightarrow> string \<times> json \<Rightarrow> adv_error + (string, bool option) dict" where
  "set_architecture d kv = (case kv of (k, v) \<Rightarrow>
     bindE (if v = JNull then Inr None else bindE (req_bool v ''context.target.architecture'') (\<lambda>b. Inr (Some b))) (\<lambda>x. Inr (dset k x d)))"

definition target_architecture :: "json \<Rightarrow> adv_error + (string, bool option) dict" where
  "target_architecture t = (let none = cx_architecture (cc_target empty_context) in case jget t ''architecture'' of
      None \<Rightarrow> Inr none
    | Some v \<Rightarrow> bindE (req_dict v ''context.target.architecture'') (\<lambda>a.
        bindE (strict_keys a [] ARCHITECTURE_KEYS ''context.target.architecture'') (\<lambda>_.
        bindE (advcrash (jitems a)) (foldE set_architecture none))))"

definition parse_target :: "json option \<Rightarrow> adv_error + context_target" where
  "parse_target v0 = (case v0 of
      None \<Rightarrow> Inr (cc_target empty_context)
    | Some v \<Rightarrow>
        bindE (req_dict v ''context.target'') (\<lambda>t.
        bindE (strict_keys t [] [''oracle_version'', ''release_update'', ''platform'', ''architecture''] ''context.target'') (\<lambda>_.
        bindE (target_version t) (\<lambda>ver.
        bindE (target_text RU_SHAPE ''release_update'' t) (\<lambda>ru.
        bindE (target_text PLATFORM_SHAPE ''platform'' t) (\<lambda>pl.
        bindE (target_architecture t) (\<lambda>ar.
          Inr \<lparr> cx_version = ver, cx_release = ru, cx_platform = pl, cx_architecture = ar \<rparr>)))))))"

definition set_gate :: "(string, gate) dict \<Rightarrow> string \<times> json \<Rightarrow> adv_error + (string, gate) dict" where
  "set_gate d kv = (case kv of (name, v) \<Rightarrow>
     bindE (req_dict v (''context.gates.'' @ name)) (\<lambda>spec.
     bindE (strict_keys spec [''status''] [''basis''] (''context.gates.'' @ name)) (\<lambda>_.
     bindE (req_enum (getn spec ''status'') (map fst GATE_STATUSES) (''context.gates.'' @ name @ ''.status'')) (\<lambda>st.
     bindE (clean_text (jget_or spec ''basis'' (JStr ''Declared in the supplied context.'')) 200 (Some ''gate.basis'')) (\<lambda>b.
       Inr (dset name \<lparr> gt_status = or_else (dget GATE_STATUSES st) G_UNKNOWN, gt_basis = b \<rparr> d))))))"

definition parse_gates :: "json option \<Rightarrow> adv_error + (string, gate) dict" where
  "parse_gates v0 = (case v0 of
      None \<Rightarrow> Inr (cc_gates empty_context)
    | Some v \<Rightarrow>
        bindE (req_dict v ''context.gates'') (\<lambda>g.
        bindE (strict_keys g [] GATES ''context.gates'') (\<lambda>_.
        bindE (advcrash (jitems g)) (foldE set_gate (cc_gates empty_context)))))"

definition parse_report :: "(string \<Rightarrow> bool) \<Rightarrow> json \<Rightarrow> adv_error + execution_report" where
  "parse_report iso_ok v =
     bindE (req_dict v ''context.execution_reports'') (\<lambda>r.
     bindE (strict_keys r [''change_id'', ''reported_by'', ''reported_at_utc'', ''outcome''] [] ''context.execution_reports'') (\<lambda>_.
     bindE (require_id (getn r ''change_id'') (Some [''CHG'']) (Some ''execution_report.change_id'')) (\<lambda>c.
     bindE (require_id (getn r ''reported_by'') (Some [''REV'']) (Some ''execution_report.reported_by'')) (\<lambda>b.
     bindE (req_utc iso_ok (getn r ''reported_at_utc'') ''execution_report.reported_at_utc'') (\<lambda>t.
     bindE (clean_text (getn r ''outcome'') 300 (Some ''execution_report.outcome'')) (\<lambda>outcome.
       Inr \<lparr> xr_change = c, xr_by = b, xr_at = t, xr_outcome = outcome \<rparr>))))))"

definition parse_change_context :: "(string \<Rightarrow> bool) \<Rightarrow> json \<Rightarrow> adv_error + change_context" where
  "parse_change_context iso_ok ctx0 =
     (if ctx0 = JNull then Inr empty_context
      else bindE (req_dict ctx0 ''context'') (\<lambda>ctx.
        bindE (strict_keys ctx [] [''schema_version'', ''target'', ''gates'', ''human_authorizations'', ''execution_reports'',
            ''proposer_ids''] ''context'') (\<lambda>_.
        bindE (ensure (jget_or ctx ''schema_version'' (JStr ''1.0.0'') = JStr ''1.0.0'')
            (field_err E_UNSUPPORTED_SCHEMA_VERSION ''context.schema_version'')) (\<lambda>_.
        bindE (parse_target (jget ctx ''target'')) (\<lambda>target.
        bindE (parse_gates (jget ctx ''gates'')) (\<lambda>gates.
        bindE (req_list (jget_or ctx ''human_authorizations'' (JArr [])) ''context.human_authorizations'' 50) (\<lambda>auths.
        bindE (bindE (req_list (jget_or ctx ''execution_reports'' (JArr [])) ''context.execution_reports'' 50)
            (mapE (parse_report iso_ok))) (\<lambda>reports.
        bindE (id_list (jget_or ctx ''proposer_ids'' (JArr [])) [''REV''] ''context.proposer_ids'' 20) (\<lambda>ps.
          Inr \<lparr> cc_target = target, cc_gates = gates, cc_authorizations = auths, cc_reports = reports,
            cc_proposers = ps \<rparr>)))))))))"

subsection \<open>What a context holds\<close>

lemma set_gate_keys: "set_gate d kv = Inr d' \<Longrightarrow> fst kv \<in> set (dkeys d) \<Longrightarrow> dkeys d' = dkeys d"
proof -
  have same: "k \<in> set (dkeys d) \<Longrightarrow> dkeys (dset k v d) = dkeys d" for k v and d :: "(string, gate) dict"
    by (induction d) auto
  assume "set_gate d kv = Inr d'" "fst kv \<in> set (dkeys d)"
  with same show ?thesis by (cases kv) (auto simp: set_gate_def bindE_Inr)
qed

lemma parse_gates_keys: "parse_gates v = Inr d \<Longrightarrow> dkeys d = GATES"
proof -
  have fold: "foldE set_gate d kvs = Inr d' \<Longrightarrow> set (dkeys kvs) \<subseteq> set (dkeys d) \<Longrightarrow> dkeys d' = dkeys d" for d kvs d'
  proof (induction kvs arbitrary: d)
    case (Cons kv kvs)
    then obtain d1 where "set_gate d kv = Inr d1" "foldE set_gate d1 kvs = Inr d'" by (auto simp: bindE_Inr)
    with Cons.prems(2) set_gate_keys Cons.IH [of d1] show ?case by simp
  qed simp
  have init: "dkeys (cc_gates empty_context) = GATES" by (simp add: empty_context_def comp_def)
  assume "parse_gates v = Inr d"
  with init show ?thesis
  proof (cases v)
    case (Some w)
    with \<open>parse_gates v = Inr d\<close> obtain g kvs where "strict_keys g [] GATES ''context.gates'' = Inr ()" "jitems g = Inr kvs"
      and f: "foldE set_gate (cc_gates empty_context) kvs = Inr d"
      by (auto simp: parse_gates_def bindE_Inr)
    then have "set (dkeys kvs) \<subseteq> set GATES" by (auto simp: strict_keys_def bindE_Inr)
    with fold [OF f] init show ?thesis by simp
  qed (simp add: parse_gates_def)
qed

text \<open>A parsed context always has the four gates, in their order.\<close>

lemma context_gates: "parse_change_context iso_ok v = Inr c \<Longrightarrow> dkeys (cc_gates c) = GATES"
proof -
  assume "parse_change_context iso_ok v = Inr c"
  then show ?thesis
  proof (cases "v = JNull")
    case True
    with \<open>parse_change_context iso_ok v = Inr c\<close> show ?thesis
      by (auto simp: parse_change_context_def empty_context_def comp_def)
  next
    case False
    with \<open>parse_change_context iso_ok v = Inr c\<close> obtain w where "parse_gates w = Inr (cc_gates c)"
      by (auto simp: parse_change_context_def bindE_Inr)
    then show ?thesis by (rule parse_gates_keys)
  qed
qed

end
