(* ===== verification/Change.thy ===== *)
theory Change
  imports Change_Context Kb_Store
begin

section \<open>Change advisory (change\_documentation\_knowledge/change.py)\<close>

text \<open>
  The advisory of an incident: for each recommendation a proposed change or a note. A change is a
  record; \<open>change_workflow\<close> and \<open>change_content\<close> together are the dictionary the code builds, with
  all its fixed texts, and the content digest is taken of it. The view is what the adapter returns,
  so its fields are present and typed.
\<close>

datatype readiness = R_BLOCKED | R_INSUFFICIENT_EVIDENCE | R_REVIEW_REQUIRED | R_READY_FOR_HUMAN_REVIEW

definition readiness_name :: "readiness \<Rightarrow> string" where
  "readiness_name r = (case r of R_BLOCKED \<Rightarrow> ''BLOCKED'' | R_INSUFFICIENT_EVIDENCE \<Rightarrow> ''INSUFFICIENT_EVIDENCE''
     | R_REVIEW_REQUIRED \<Rightarrow> ''REVIEW_REQUIRED'' | R_READY_FOR_HUMAN_REVIEW \<Rightarrow> ''READY_FOR_HUMAN_REVIEW'')"

text \<open>The order of the worst state first.\<close>

definition readiness_rank :: "readiness \<Rightarrow> nat" where
  "readiness_rank r = (case r of R_INSUFFICIENT_EVIDENCE \<Rightarrow> 0 | R_BLOCKED \<Rightarrow> 1 | R_REVIEW_REQUIRED \<Rightarrow> 2 | R_READY_FOR_HUMAN_REVIEW \<Rightarrow> 3)"

datatype change_status = C_DRAFT | C_REVIEW_REQUIRED | C_APPROVED_BY_HUMAN | C_REJECTED | C_SUPERSEDED

definition change_status_name :: "change_status \<Rightarrow> string" where
  "change_status_name s = (case s of C_DRAFT \<Rightarrow> ''DRAFT'' | C_REVIEW_REQUIRED \<Rightarrow> ''REVIEW_REQUIRED''
     | C_APPROVED_BY_HUMAN \<Rightarrow> ''APPROVED_BY_HUMAN'' | C_REJECTED \<Rightarrow> ''REJECTED'' | C_SUPERSEDED \<Rightarrow> ''SUPERSEDED'')"

record change_step =
  sp_id :: string
  sp_order :: nat
  sp_phase :: string
  sp_text :: string

record risk_factor =
  rk_dimension :: string
  rk_level :: string
  rk_criterion :: string
  rk_basis :: string
  rk_epistemic :: string

record change =
  ch_id :: string
  ch_rec :: string
  ch_status :: change_status
  ch_review :: string
  ch_readiness :: readiness
  ch_blockers :: "string list"
  ch_reasons :: "string list"
  ch_hyps :: "string list"
  ch_findings :: "string list"
  ch_evidence :: "string list"
  ch_domain :: json
  ch_objective :: string
  ch_steps :: "change_step list"
  ch_guidance :: guidance
  ch_factors :: "risk_factor list"
  ch_benefit :: string
  ch_postcheck :: string
  ch_hazard :: bool
  ch_gates :: "(string, gate) dict"
  ch_report :: "execution_report option"
  ch_declaration :: "auth_decl option"
  ch_digest :: string

record change_note =
  cn_rec :: string
  cn_kind :: string
  cn_text :: string

text \<open>The text fields of a recommendation of the view are strings.\<close>

definition rec_text :: "adapted_rec \<Rightarrow> string \<Rightarrow> string" where
  "rec_text r n = (case dget (ac_fields r) n of Some (JStr s) \<Rightarrow> s | _ \<Rightarrow> [])"

definition jstrs :: "string list \<Rightarrow> json" where "jstrs xs = JArr (map JStr xs)"

subsection \<open>Risk, gates and readiness\<close>

definition risk_factors :: "rca_view \<Rightarrow> adapted_rec \<Rightarrow> guidance \<Rightarrow> bool \<Rightarrow> string list \<Rightarrow> risk_factor list" where
  "risk_factors V r g hazard contradicting =
     (let state = ar_completeness (vw_root V); incomplete = am_completeness (vw_manifest V) \<noteq> ''COMPLETE'' in
      [\<lparr> rk_dimension = ''causal_basis'',
         rk_level = (if state = ''CONFIRMED'' then ''LOW'' else if state = ''PROBABLE'' then ''MEDIUM'' else ''HIGH''),
         rk_criterion = ''RCA state is authoritative: CONFIRMED=LOW, PROBABLE=MEDIUM, anything else=HIGH risk of acting on a wrong cause.'',
         rk_basis = ''RCA completeness is '' @ state @ ''.'', rk_epistemic = ''inferred'' \<rparr>,
       \<lparr> rk_dimension = ''evidence_completeness'', rk_level = (if incomplete then ''HIGH'' else ''LOW''),
         rk_criterion = ''Declared evidence references missing from the manifest raise this factor to HIGH.'',
         rk_basis = (if incomplete then ''Evidence manifest is INCOMPLETE_REFS.'' else ''Evidence manifest is COMPLETE.''),
         rk_epistemic = ''observed'' \<rparr>,
       \<lparr> rk_dimension = ''contradicting_evidence'', rk_level = (if contradicting \<noteq> [] then ''MEDIUM'' else ''LOW''),
         rk_criterion = ''Any contradicting evidence on the linked hypothesis is preserved and raises this factor to at least MEDIUM.'',
         rk_basis = str_of_nat (length contradicting) @ '' contradicting evidence reference(s) on the linked hypothesis(es).'',
         rk_epistemic = ''observed'' \<rparr>,
       \<lparr> rk_dimension = ''service_interruption_potential'',
         rk_level = (if hazard then ''HIGH'' else if ac_requires_change r then ''MEDIUM'' else ''LOW''),
         rk_criterion = ''Action text implying restart/failover/relocation/removal/resize=HIGH; any change=MEDIUM.'',
         rk_basis = (if hazard then ''Action text contains a disruptive verb.'' else ''No disruptive verb detected in the action text.''),
         rk_epistemic = ''inferred'' \<rparr>,
       \<lparr> rk_dimension = ''topology_breadth'', rk_level = gd_breadth g,
         rk_criterion = ''Domain breadth table: RAC/ASM/Data Guard/network/security=HIGH; others=MEDIUM. '' @
           ''The real scope is UNKNOWN until the reviewer states it.'',
         rk_basis = gd_blast g, rk_epistemic = ''inferred'' \<rparr>] @
      (if gd_license g then
        [\<lparr> rk_dimension = ''licensing'', rk_level = ''UNKNOWN'',
           rk_criterion = ''Domains touching licensed options are UNKNOWN until entitlement is confirmed; never assumed from version/default.'',
           rk_basis = or_else (gd_note g) [], rk_epistemic = ''unknown'' \<rparr>]
       else []))"

text \<open>A licence-dependent domain is never inapplicable.\<close>

definition gate_view :: "change_context \<Rightarrow> guidance \<Rightarrow> (string, gate) dict" where
  "gate_view C g = map (\<lambda>(name, x).
     (name, if name = ''license'' \<and> gd_license g \<and> gt_status x = G_NOT_APPLICABLE
       then \<lparr> gt_status = G_UNKNOWN, gt_basis = ''License-dependent domain: NOT_APPLICABLE is not accepted without evidence.'' \<rparr>
       else x)) (cc_gates C)"

definition gate_blockers :: "(string, gate) dict \<Rightarrow> string list" where
  "gate_blockers gates = map (\<lambda>(n, g). ''GATE_FAILED_'' @ upper n) (filter (\<lambda>(n, g). gt_status g = G_FAIL) gates)"

definition gate_reviews :: "(string, gate) dict \<Rightarrow> string list" where
  "gate_reviews gates = map (\<lambda>(n, g). ''GATE_UNRESOLVED_'' @ upper n)
     (filter (\<lambda>(n, g). gt_status g \<noteq> G_FAIL \<and> gt_status g \<notin> set NON_BLOCKING) gates)"

definition assess_readiness :: "rca_view \<Rightarrow> (string, gate) dict \<Rightarrow> bool \<Rightarrow> bool \<Rightarrow> bool \<Rightarrow> readiness \<times> string list \<times> string list" where
  "assess_readiness V gates rollback_ok validation_ok has_evidence =
     (let blockers = (if has_evidence then [] else [''NO_EVIDENCE_REFS'']) @ gate_blockers gates @
            (if rollback_ok then [] else [''ROLLBACK_MISSING'']) @ (if validation_ok then [] else [''VALIDATION_MISSING'']);
          review = gate_reviews gates @ (if ar_completeness (vw_root V) \<noteq> ''CONFIRMED'' then [''CAUSE_NOT_CONFIRMED''] else []) @
            (if am_completeness (vw_manifest V) \<noteq> ''COMPLETE'' then [''EVIDENCE_INCOMPLETE''] else [])
      in (if \<not> has_evidence then R_INSUFFICIENT_EVIDENCE else if blockers \<noteq> [] then R_BLOCKED
          else if review \<noteq> [] then R_REVIEW_REQUIRED else R_READY_FOR_HUMAN_REVIEW,
        sort (remdups blockers), sort (remdups review)))"

subsection \<open>Steps\<close>

definition pad2 :: "nat \<Rightarrow> string" where
  "pad2 n = (let d = digits_of n in replicate (2 - length d) CHR ''0'' @ d)"

definition steps_of :: "string \<Rightarrow> adapted_rec \<Rightarrow> change_step list" where
  "steps_of prefix r =
     (let texts = filter (\<lambda>(p, t). t \<noteq> [])
        [(''PRECHECK'', ''Record the current state/value of the affected setting before any change.''),
         (''PRECHECK'', rec_text r ''precheck''),
         (''MANUAL_ACTION'', ''Proposed for a human administrator, subject to human approval: '' @ rec_text r ''action_summary''),
         (''POSTCHECK'', rec_text r ''postcheck'')]
      in map (\<lambda>(n, p, t). \<lparr> sp_id = prefix @ ''-S'' @ pad2 n, sp_order = n, sp_phase = p, sp_text = t \<rparr>)
        (zip [1..<Suc (length texts)] texts))"

subsection \<open>The dictionary of a change\<close>

definition gate_json :: "gate \<Rightarrow> json" where
  "gate_json g = JObj [(''status'', JStr (gate_name (gt_status g))), (''basis'', JStr (gt_basis g))]"

definition gate_of :: "change \<Rightarrow> string \<Rightarrow> json" where
  "gate_of c n = (case dget (ch_gates c) n of Some g \<Rightarrow> gate_json g | None \<Rightarrow> JNull)"

definition step_json :: "change_step \<Rightarrow> json" where
  "step_json s = JObj [(''step_id'', JStr (sp_id s)), (''order'', JInt (int (sp_order s))), (''phase'', JStr (sp_phase s)),
     (''text'', JStr (sp_text s)), (''executor'', JStr ''TO_BE_DEFINED''), (''execution_status'', JStr EXECUTION_STATUS_NOT_EXECUTED)]"

definition factor_json :: "risk_factor \<Rightarrow> json" where
  "factor_json f = JObj [(''dimension'', JStr (rk_dimension f)), (''level'', JStr (rk_level f)), (''criterion'', JStr (rk_criterion f)),
     (''basis'', JStr (rk_basis f)), (''epistemic'', JStr (rk_epistemic f))]"

definition report_json :: "execution_report option \<Rightarrow> json" where
  "report_json r = (case r of None \<Rightarrow> JNull
     | Some x \<Rightarrow> JObj [(''status'', JStr EXECUTION_STATUS_HUMAN_REPORTED), (''epistemic'', JStr ''human_reported''),
         (''reported_by'', JStr (xr_by x)), (''reported_at_utc'', JStr (xr_at x)), (''outcome'', JStr (xr_outcome x)),
         (''note'', JStr ''Declared externally; not verified by the e-stack. Verification requires read-only evidence.'')])"

definition declaration_json :: "auth_decl \<Rightarrow> json" where
  "declaration_json d = JObj [(''authorization_id'', JStr (dc_auth d)), (''reviewer_id'', JStr (dc_reviewer d)),
     (''decision'', JStr (dc_decision d)), (''decision_at_utc'', JStr (dc_at d)), (''artifact_digest'', JStr (dc_digest d)),
     (''version'', JStr (dc_version d)), (''review_notes_sanitized'', JStr (dc_notes d)), (''verification'', JStr (dc_verification d))]"

text \<open>The fields that reports and decisions change.\<close>

definition change_workflow :: "change \<Rightarrow> (string \<times> json) list" where
  "change_workflow c = [(''status'', JStr (change_status_name (ch_status c))), (''review_status'', JStr (ch_review c)),
     (''external_execution_report'', report_json (ch_report c))] @
     (case ch_declaration c of None \<Rightarrow> [] | Some d \<Rightarrow> [(''approval_declaration'', declaration_json d)])"

definition or_unknown :: "string option \<Rightarrow> json" where
  "or_unknown x = JStr (case x of Some s \<Rightarrow> if s = [] then ''UNKNOWN'' else s | None \<Rightarrow> ''UNKNOWN'')"

definition topology :: "change_context \<Rightarrow> json" where
  "topology C = JObj (map (\<lambda>(k, v). (k, case v of None \<Rightarrow> JStr ''UNKNOWN'' | Some b \<Rightarrow> JBool b)) (cx_architecture (cc_target C)))"

definition open_questions :: "change \<Rightarrow> json" where
  "open_questions c = jstrs (map (\<lambda>(n, g). ''Gate '' @ upper n @ '': '' @ gate_name (gt_status g))
     (filter (\<lambda>(n, g). gt_status g \<notin> set NON_BLOCKING) (ch_gates c)) @ [''Which exact instances/PDBs/nodes are in scope?''])"

text \<open>Identification, scope and plan.\<close>

definition change_plan :: "rca_view \<Rightarrow> change \<Rightarrow> (string \<times> json) list" where
  "change_plan V c =
     [(''change_id'', JStr (ch_id c)), (''change_type'', JStr ''OPERATIONAL_MANUAL''),
      (''readiness'', JStr (readiness_name (ch_readiness c))), (''blockers'', jstrs (ch_blockers c)), (''review_reasons'', jstrs (ch_reasons c)),
      (''source_refs'', JObj [(''incident_id'', JStr (vw_incident V)), (''rca_id'', JStr (ar_id (vw_root V))),
        (''hypothesis_ids'', jstrs (ch_hyps c)), (''finding_ids'', jstrs (ch_findings c))]),
      (''evidence_refs'', jstrs (ch_evidence c)), (''recommendation_refs'', jstrs [ch_rec c]),
      (''context'', JObj [(''rca_state'', JStr (ar_completeness (vw_root V))),
        (''rca_state_authority'', JStr ''rca_engine (Phase 11); never re-derived here''), (''domain'', ch_domain c)]),
      (''objective'', JStr (ch_objective c)),
      (''scope'', JObj [(''statement'', JStr ''Scope of the target to be defined by the human reviewer.''), (''status'', JStr ''TO_BE_DEFINED''),
        (''target_token'', case vw_target V of None \<Rightarrow> JNull | Some t \<Rightarrow> JStr t)]),
      (''out_of_scope'', jstrs [''Execution of this change by the e-stack'', ''Any change not listed in proposed_manual_steps'',
        ''Application-level or business-data changes'']),
      (''assumptions'', jstrs [''No assumption of compatibility, entitlement or privilege is made; see the gates.'',
        ''The advisory reflects sanitized evidence available at generation time only.'']),
      (''proposed_manual_steps'', JArr (map step_json (ch_steps c))),
      (''entry_criteria'', jstrs [''All gates PASS or NOT_APPLICABLE with a stated basis'', ''Human approval recorded outside the e-stack'',
        ''Rollback plan reviewed by the executing administrator'']),
      (''exit_criteria'', jstrs [''Validation plan checks are satisfied'', ''Result recorded by the human administrator'']),
      (''suggested_window'', JObj [(''status'', JStr ''TO_BE_DEFINED''),
        (''note'', JStr ''A window is a human decision; none is proposed by the engine.'')]),
      (''responsible'', JStr ''TO_BE_DEFINED''),
      (''dependencies'', JArr (map (\<lambda>d. JObj [(''dependency'', JStr d), (''status'', JStr ''TO_BE_DEFINED'')])
        [''Service owners notified'', ''Platform/infrastructure owners coordinated'']))]"

text \<open>Impact, rollback, validation, gates and target.\<close>

definition change_impact :: "change_context \<Rightarrow> change \<Rightarrow> (string \<times> json) list" where
  "change_impact C c = (let g = ch_guidance c in
     [(''impact'', JObj [(''affected_scope'', JStr (gd_blast g)), (''epistemic'', JStr ''inferred'')]),
      (''risk_factors'', JArr (map factor_json (ch_factors c))),
      (''affected_components'', jstrs (gd_components g)),
      (''blast_radius'', JObj [(''statement'', JStr (gd_blast g)), (''status'', JStr ''UNKNOWN_UNTIL_SCOPE_DEFINED'')]),
      (''service_dependencies'', JStr ''UNKNOWN''),
      (''expected_benefit_as_hypothesis'', JStr (ch_benefit c)),
      (''reversibility'', JStr (gd_reversibility g)),
      (''rollback_plan'', JObj [(''status'', JStr (if gd_rollback g \<noteq> [] then ''DEFINED_GENERIC'' else ''MISSING'')),
        (''steps'', jstrs (gd_rollback g)), (''epistemic'', JStr ''proposed'')]),
      (''rollback_preconditions'', jstrs [''Pre-change value/state was recorded'', ''The executing administrator is authorized for the rollback'']),
      (''rollback_risks'', jstrs [''Rollback may itself interrupt service'', ''A generic rollback does not replace a site-specific plan'']),
      (''validation_plan'', JObj [(''status'', JStr (if ch_postcheck c \<noteq> [] then ''DEFINED'' else ''MISSING'')),
        (''checks'', jstrs (if ch_postcheck c \<noteq> [] then [ch_postcheck c] else []))]),
      (''stop_conditions'', jstrs ([''Any unexpected error during the manual steps'',
        ''Any gate is found to be FAIL or UNKNOWN at execution time''] @
        (if ch_hazard c then [''Unplanned service interruption is observed''] else []))),
      (''observability'', jstrs [''Alert log and monitoring of the affected component during and after the change'']),
      (''open_questions'', open_questions c),
      (''oracle_version'', or_unknown (cx_version (cc_target C))),
      (''release_update'', or_unknown (cx_release (cc_target C))),
      (''platform'', or_unknown (cx_platform (cc_target C))),
      (''topology'', topology C),
      (''capability_gate'', gate_of c ''capability''), (''license_gate'', gate_of c ''license''),
      (''privilege_gate'', gate_of c ''privilege''), (''change_window_gate'', gate_of c ''change_window''),
      (''license_note'', case gd_note g of None \<Rightarrow> JNull | Some n \<Rightarrow> JStr n),
      (''execution_status'', JStr EXECUTION_STATUS_NOT_EXECUTED), (''epistemic'', JStr ''proposed'')])"

definition change_content :: "rca_view \<Rightarrow> change_context \<Rightarrow> change \<Rightarrow> (string \<times> json) list" where
  "change_content V C c = change_plan V c @ change_impact C c"

definition change_digest :: "kb_env \<Rightarrow> rca_view \<Rightarrow> change_context \<Rightarrow> change \<Rightarrow> string" where
  "change_digest E V C c = content_digest (kb_sha E) (kb_frepr E) (change_workflow c @ change_content V C c)"

definition change_json :: "rca_view \<Rightarrow> change_context \<Rightarrow> change \<Rightarrow> json" where
  "change_json V C c = JObj (change_workflow c @ change_content V C c @ [(''content_digest'', JStr (ch_digest c))])"

subsection \<open>Building the changes\<close>

text \<open>\<open>{h["hypothesis_id"]: h}\<close>, and the hypotheses of the view a recommendation rests on.\<close>

definition hyp_table :: "adapted_hyp list \<Rightarrow> (string, adapted_hyp) dict" where
  "hyp_table hs = fold (\<lambda>h. dset (ah_id h) h) hs []"

definition change_hyps :: "rca_view \<Rightarrow> adapted_rec \<Rightarrow> string list" where
  "change_hyps V r = (if ac_hyps r \<noteq> [] then ac_hyps r else ar_confirmed (vw_root V))"

definition linked_hyps :: "rca_view \<Rightarrow> adapted_rec \<Rightarrow> adapted_hyp list" where
  "linked_hyps V r = List.map_filter (dget (hyp_table (vw_hyps V))) (change_hyps V r)"

definition change_domain :: "rca_view \<Rightarrow> adapted_rec \<Rightarrow> json" where
  "change_domain V r = (case linked_hyps V r of
      h # _ \<Rightarrow> ah_domain h
    | [] \<Rightarrow> (case vw_domains V of d # _ \<Rightarrow> JStr d | [] \<Rightarrow> JStr ''oracle''))"

definition domain_guidance :: "json \<Rightarrow> adv_error + guidance" where
  "domain_guidance d = (case d of
      JStr s \<Rightarrow> (case dget DOMAIN_GUIDANCE s of Some g \<Rightarrow> Inr g | None \<Rightarrow> Inl (AdvCrash KeyError))
    | _ \<Rightarrow> Inl (AdvCrash (if unhashable d then TypeError else KeyError)))"

definition sorted_set :: "string list \<Rightarrow> string list" where
  "sorted_set xs = sort (remdups xs)"

definition supporting_of :: "adapted_hyp list \<Rightarrow> string list" where
  "supporting_of hs = sorted_set (concat (map ah_supporting hs))"

definition contradicting_of :: "adapted_hyp list \<Rightarrow> string list" where
  "contradicting_of hs = sorted_set (concat (map ah_contradicting hs))"

definition findings_on :: "rca_view \<Rightarrow> string list \<Rightarrow> string list" where
  "findings_on V evidence = map fn_id (filter (\<lambda>f. \<not> disjoint (ae_evidence (fn_event f)) evidence) (vw_findings V))"

definition benefit :: "adapted_hyp list \<Rightarrow> adv_error + string" where
  "benefit linked = bindE (case linked of h # _ \<Rightarrow> advcrash (as_str (ah_statement h)) | [] \<Rightarrow> Inr ''no linked hypothesis'') (\<lambda>t.
     Inr (''Hypothesis (not a guarantee): addressing the linked cause may resolve the reported symptom: '' @ t))"

definition initial_status :: "readiness \<Rightarrow> change_status" where
  "initial_status r = (if r \<in> set [R_BLOCKED, R_INSUFFICIENT_EVIDENCE] then C_DRAFT else C_REVIEW_REQUIRED)"

definition change_number :: "rca_view \<Rightarrow> nat \<Rightarrow> string" where
  "change_number V n = ''CHG-'' @ vw_incident V @ ''-'' @ pad3 n"

text \<open>The change before its digest is taken, with the guidance of its domain and the benefit as text.\<close>

definition draft_change :: "rca_view \<Rightarrow> change_context \<Rightarrow> nat \<Rightarrow> adapted_rec \<Rightarrow> guidance \<Rightarrow> string \<Rightarrow> change" where
  "draft_change V C n r g b =
     (let linked = linked_hyps V r; supporting = supporting_of linked; hazard = search HAZARD (rec_text r ''action_summary'');
          gates = gate_view C g in
      case assess_readiness V gates (gd_rollback g \<noteq> []) (rec_text r ''postcheck'' \<noteq> []) (supporting \<noteq> []) of
        (ready, blockers, reviews) \<Rightarrow>
          \<lparr> ch_id = change_number V n, ch_rec = ac_id r, ch_status = initial_status ready, ch_review = ''REVIEW_REQUIRED'',
            ch_readiness = ready, ch_blockers = blockers, ch_reasons = reviews, ch_hyps = sort (change_hyps V r),
            ch_findings = sort (findings_on V supporting), ch_evidence = supporting, ch_domain = change_domain V r,
            ch_objective = rec_text r ''action_summary'', ch_steps = steps_of (change_number V n) r, ch_guidance = g,
            ch_factors = risk_factors V r g hazard (contradicting_of linked), ch_benefit = b, ch_postcheck = rec_text r ''postcheck'',
            ch_hazard = hazard, ch_gates = gates, ch_report = None, ch_declaration = None, ch_digest = [] \<rparr>)"

definition build_change :: "kb_env \<Rightarrow> rca_view \<Rightarrow> change_context \<Rightarrow> nat \<Rightarrow> adapted_rec \<Rightarrow> adv_error + change" where
  "build_change E V C n r =
     bindE (domain_guidance (change_domain V r)) (\<lambda>g.
     bindE (ensure (list_all (\<lambda>s. \<not> has_executable_content (JStr (sp_text s))) (steps_of (change_number V n) r))
         (field_err E_UNSAFE_CONTENT ''proposed_manual_steps'')) (\<lambda>_.
     bindE (benefit (linked_hyps V r)) (\<lambda>b.
     let c = draft_change V C n r g b in Inr (c\<lparr>ch_digest := change_digest E V C c\<rparr>))))"

definition actionable :: "rca_view \<Rightarrow> bool" where
  "actionable V \<longleftrightarrow> ar_completeness (vw_root V) \<in> set [''CONFIRMED'', ''PROBABLE'']"

definition note_of :: "adapted_rec \<Rightarrow> change_note" where
  "note_of r = \<lparr> cn_rec = ac_id r, cn_kind = (if ac_requires_change r then ''DEFERRED_NO_CONFIRMED_CAUSE'' else ''INVESTIGATION_NOTE''),
     cn_text = rec_text r ''action_summary'' \<rparr>"

definition advise_step :: "kb_env \<Rightarrow> rca_view \<Rightarrow> change_context \<Rightarrow> change list \<times> change_note list \<Rightarrow> adapted_rec
    \<Rightarrow> adv_error + change list \<times> change_note list" where
  "advise_step E V C acc r = (case acc of (cs, ns) \<Rightarrow>
     if \<not> actionable V \<or> \<not> ac_requires_change r then Inr (cs, ns @ [note_of r])
     else bindE (build_change E V C (Suc (length cs)) r) (\<lambda>c. Inr (cs @ [c], ns)))"

subsection \<open>External declarations\<close>

definition find_change :: "change list \<Rightarrow> string \<Rightarrow> change option" where
  "find_change cs i = List.find (\<lambda>c. ch_id c = i) cs"

definition update_change :: "string \<Rightarrow> (change \<Rightarrow> change) \<Rightarrow> change list \<Rightarrow> change list" where
  "update_change i f cs = map (\<lambda>c. if ch_id c = i then f c else c) cs"

definition apply_report :: "change list \<Rightarrow> execution_report \<Rightarrow> adv_error + change list" where
  "apply_report cs x = (case find_change cs (xr_change x) of
      None \<Rightarrow> Inl (field_err E_REFERENCE ''execution_report.change_id'')
    | Some _ \<Rightarrow> Inr (update_change (xr_change x) (ch_report_update (\<lambda>_. Some x)) cs))"

definition decided_change :: "change_status \<Rightarrow> string \<Rightarrow> auth_decl \<Rightarrow> change \<Rightarrow> change" where
  "decided_change st review d c = c\<lparr>ch_status := st, ch_review := review, ch_declaration := Some d\<rparr>"

text \<open>One authorization: it names a change, fits its digest, and a blocked change cannot be approved.\<close>

definition decide_change :: "kb_env \<Rightarrow> string list \<Rightarrow> change list \<Rightarrow> json \<Rightarrow> string \<Rightarrow> change \<Rightarrow> adv_error + change list" where
  "decide_change E proposers cs raw decision c =
     (if decision = ''REJECTED'' then
        bindE (verify_authorization (kb_iso E) raw (ch_id c) (JStr (ch_digest c)) ''1'' (jstrs proposers) ''REJECTED'') (\<lambda>d.
          Inr (update_change (ch_id c) (decided_change C_REJECTED ''REJECTED'' d) cs))
      else if ch_readiness c \<in> set [R_BLOCKED, R_INSUFFICIENT_EVIDENCE] then Inl (field_err E_TRANSITION_DENIED ''change.status'')
      else bindE (verify_authorization (kb_iso E) raw (ch_id c) (JStr (ch_digest c)) ''1'' (jstrs proposers) ''APPROVED'') (\<lambda>d.
          Inr (update_change (ch_id c) (decided_change C_APPROVED_BY_HUMAN ''APPROVED_BY_HUMAN'' d) cs)))"

definition apply_authorization :: "kb_env \<Rightarrow> string list \<Rightarrow> change list \<Rightarrow> json \<Rightarrow> adv_error + change list" where
  "apply_authorization E proposers cs raw =
     bindE (parse_authorization (kb_iso E) raw) (\<lambda>a. case find_change cs (au_artifact a) of
        None \<Rightarrow> Inl (field_err E_REFERENCE ''authorization.artifact_id'')
      | Some c \<Rightarrow> decide_change E proposers cs raw (au_decision a) c)"

subsection \<open>The advisory\<close>

record advisory =
  ad_id :: string
  ad_readiness :: readiness
  ad_warnings :: "string list"
  ad_changes :: "change list"
  ad_notes :: "change_note list"
  ad_digest :: string

fun worst :: "readiness list \<Rightarrow> readiness" where
  "worst [] = R_READY_FOR_HUMAN_REVIEW"
| "worst [r] = r"
| "worst (r # s # rs) = worst ((if readiness_rank s < readiness_rank r then s else r) # rs)"

definition note_json :: "change_note \<Rightarrow> json" where
  "note_json n = JObj [(''rec_id'', JStr (cn_rec n)), (''kind'', JStr (cn_kind n)), (''text'', JStr (cn_text n)),
     (''execution_status'', JStr EXECUTION_STATUS_NOT_EXECUTED), (''epistemic'', JStr ''proposed'')]"

definition advisory_fields :: "rca_view \<Rightarrow> change_context \<Rightarrow> string \<Rightarrow> advisory \<Rightarrow> (string \<times> json) list" where
  "advisory_fields V C generated_at A =
     [(''schema_version'', JStr SCHEMA_VERSION), (''artifact_type'', JStr ''change_advisory''), (''advisory_id'', JStr (ad_id A)),
      (''change_type'', JStr ''OPERATIONAL_MANUAL''), (''generated_at_utc'', JStr generated_at), (''generator_version'', JStr GENERATOR_VERSION),
      (''sanitization_status'', JStr ''SANITIZED''), (''review_status'', JStr ''REVIEW_REQUIRED''),
      (''source_refs'', JObj [(''incident_id'', JStr (vw_incident V)), (''rca_id'', JStr (ar_id (vw_root V))),
        (''recommendation_ids'', jstrs (map ac_id (vw_recs V))), (''hypothesis_ids'', jstrs (map ah_id (vw_hyps V))),
        (''evidence_ids'', jstrs (am_present (vw_manifest V))), (''finding_ids'', jstrs (map fn_id (vw_findings V)))]),
      (''target_token'', case vw_target V of None \<Rightarrow> JNull | Some t \<Rightarrow> JStr t),
      (''rca_state'', JObj [(''completeness'', JStr (ar_completeness (vw_root V))),
        (''confirmed_hypothesis_ids'', jstrs (ar_confirmed (vw_root V))), (''competing_hypothesis_ids'', jstrs (ar_competing (vw_root V))),
        (''authority'', JStr ''rca_engine (Phase 11)'')]),
      (''readiness'', JStr (readiness_name (ad_readiness A))), (''warnings'', jstrs (ad_warnings A)),
      (''limitations'', jstrs (vw_limitations V @
        [''Advisory only: nothing here was executed, scheduled, approved or promoted by the e-stack.'',
         ''Compatibility, licensing and privilege are never inferred from version or defaults; unresolved gates are UNKNOWN.'',
         ''An approval declaration, if present, is an external declaration whose identity is not verified by the e-stack.''])),
      (''changes'', JArr (map (change_json V C) (ad_changes A))), (''non_change_notes'', JArr (map note_json (ad_notes A))),
      (''execution_status'', JStr EXECUTION_STATUS_NOT_EXECUTED)]"

definition advisory_warnings :: "rca_view \<Rightarrow> change list \<Rightarrow> string list" where
  "advisory_warnings V cs = sorted_set (vw_warnings V @
     (if actionable V then (if cs = [] then [''NO_CHANGE_REQUIRED_BY_RECOMMENDATIONS''] else []) else [''RCA_NOT_CONFIRMED_NO_CAUSE_ASSERTED'']))"

definition advisory_readiness :: "rca_view \<Rightarrow> change list \<Rightarrow> readiness" where
  "advisory_readiness V cs = (if cs \<noteq> [] then worst (map ch_readiness cs)
     else if actionable V then R_REVIEW_REQUIRED else R_INSUFFICIENT_EVIDENCE)"

definition build_change_advisory :: "kb_env \<Rightarrow> rca_view \<Rightarrow> json \<Rightarrow> string \<Rightarrow> adv_error + change_context \<times> advisory" where
  "build_change_advisory E V context_raw generated_at =
     bindE (parse_change_context (kb_iso E) context_raw) (\<lambda>C.
     bindE (foldE (advise_step E V C) ([], []) (vw_recs V)) (\<lambda>(cs, ns).
     bindE (foldE apply_report cs (cc_reports C)) (\<lambda>cs1.
     bindE (foldE (apply_authorization E (cc_proposers C)) cs1 (cc_authorizations C)) (\<lambda>cs2.
     let A = \<lparr> ad_id = ''ADV-'' @ vw_incident V, ad_readiness = advisory_readiness V cs2, ad_warnings = advisory_warnings V cs2,
           ad_changes = cs2, ad_notes = ns, ad_digest = [] \<rparr>
     in Inr (C, A\<lparr>ad_digest := content_digest (kb_sha E) (kb_frepr E) (advisory_fields V C generated_at A)\<rparr>)))))"

end
