(* ===== verification/Safe_Words.thy ===== *)
theory Safe_Words
  imports Safe_Ids
begin

section \<open>Texts without executable content\<close>

text \<open>
  Every executable pattern needs one of a few literal texts. A text that contains none of them is
  not executable, whatever the rest of the patterns; this is how concrete texts are evaluated.
\<close>

definition needs :: "string list \<Rightarrow> rx \<Rightarrow> bool" where
  "needs ts r \<longleftrightarrow> (\<forall>p s q. mt p s q r \<longrightarrow> (\<exists>t \<in> set ts. contains t (lower s)))"

lemma contains_part: "contains t w \<Longrightarrow> contains t (u @ w @ v)"
  by (auto simp: contains_iff) (metis append.assoc)

lemma needs_Seq: "needs ts r \<or> needs ts s \<Longrightarrow> needs ts (Seq r s)"
proof -
  have "contains t (lower u) \<Longrightarrow> contains t (lower (u @ v))" "contains t (lower v) \<Longrightarrow> contains t (lower (u @ v))" for t u v
    using contains_part [of t "lower u" "[]" "lower v"] contains_part [of t "lower v" "lower u" "[]"] by (simp_all add: lower_def)
  then show "needs ts r \<or> needs ts s \<Longrightarrow> needs ts (Seq r s)" unfolding needs_def mt_Seq_iff by metis
qed

lemma needs_seqs: "list_ex (needs ts) rs \<Longrightarrow> needs ts (seqs rs)"
  by (induction rs rule: seqs.induct) (auto intro: needs_Seq)

lemma needs_alts: "list_all (needs ts) rs \<Longrightarrow> needs ts (alts rs)"
  unfolding needs_def mt_alts list_all_iff by blast

lemma needs_ilit: "list_ex (\<lambda>t. contains t (lower l)) ts \<Longrightarrow> needs ts (ilit l)"
  unfolding needs_def mt_ilit list_ex_iff by auto

lemma needs_lit: "list_ex (\<lambda>t. contains t (lower l)) ts \<Longrightarrow> needs ts (lit l)"
  unfolding needs_def mt_lit list_ex_iff by auto

lemma needs_words: "list_all (\<lambda>l. list_ex (\<lambda>t. contains t (lower l)) ts) ls \<Longrightarrow> needs ts (words ls)"
  unfolding words_def by (rule needs_alts) (simp add: list_all_iff needs_ilit)

lemma needs_chars:
  assumes "\<And>c. f c \<Longrightarrow> \<exists>t \<in> set ts. contains t [lower_char c]"
  shows "needs ts (Cls f)"
  unfolding needs_def
proof (intro allI impI)
  fix p s q
  assume "mt p s q (Cls f)"
  then obtain c where "s = [c]" "f c" by (auto simp: mt_Cls_iff)
  then show "\<exists>t \<in> set ts. contains t (lower s)" using assms by (simp add: lower_def del: contains.simps)
qed

lemma search_needs: "search r s \<Longrightarrow> needs ts r \<Longrightarrow> list_ex (\<lambda>t. contains t (lower s)) ts"
proof -
  assume "search r s" "needs ts r"
  from \<open>search r s\<close> obtain u v w p q where s: "s = u @ v @ w" and m: "mt p v q r"
    unfolding search_iff by blast
  from \<open>needs ts r\<close> m have "\<exists>t \<in> set ts. contains t (lower v)" unfolding needs_def by (elim allE impE)
  then obtain t where "t \<in> set ts" and c: "contains t (lower v)" by blast
  moreover have "lower s = lower u @ lower v @ lower w" by (simp add: s lower_def)
  ultimately have "contains t (lower s)" using contains_part [OF c, of "lower u" "lower w"] by simp
  with \<open>t \<in> set ts\<close> show ?thesis unfolding list_ex_iff by (rule bexI [rotated])
qed

text \<open>The texts of the patterns, one for each alternative at least.\<close>

definition COMMAND_WORDS :: "string list" where
  "COMMAND_WORDS = [''sudo'', ''srvctl'', ''crsctl'', ''lsnrctl'', ''asmcmd'', ''sqlplus'', ''dgmgrl'', ''tnsping'',
     ''systemctl'', ''pkill'', ''killall'', ''chmod'', ''chown'', ''chattr'', ''mkfs'', ''fdisk'', ''umount'', ''iptables'',
     ''ifconfig'', ''nmcli'', ''os.system'', ''subprocess'', ''rman'', ''service'', ''-'', ''-w'', ''-c'', ''wget'', ''cmd'', ''python'', ''('',
     ''alter'', ''drop'', ''truncate'', ''create'', ''grant'', ''revoke'', ''shutdown'', ''startup'', ''switchover'', ''failover'', ''`'',
     ''```'', ''$('', ''|'', ''&&'', '';'', ''$'']"

lemma lower_words: "list_all (\<lambda>t. lower t = t) COMMAND_WORDS"
  by code_simp

lemma contains_self: "contains t t"
  unfolding contains_iff by (metis append.left_neutral append.right_neutral)

lemma needs_known:
  "list_all (\<lambda>l. needs COMMAND_WORDS (ilit l)) COMMAND_WORDS"
  "list_all (\<lambda>l. needs COMMAND_WORDS (lit l)) COMMAND_WORDS"
  using lower_words contains_self
  by (auto simp: list_all_iff list_ex_iff intro!: needs_ilit needs_lit bexI)

lemmas known_needs = needs_known [unfolded COMMAND_WORDS_def list.pred_inject, folded COMMAND_WORDS_def]

lemma needs_sql: "needs COMMAND_WORDS (words [''drop'', ''truncate'', ''create'', ''grant'', ''revoke''])"
  unfolding words_def by (rule needs_alts) (simp add: known_needs)

lemma needs_end: "needs COMMAND_WORDS (Cls (\<lambda>c. c = CHR '';'' \<or> c = CHR ''$''))"
proof (rule needs_chars)
  have "'';'' \<in> set COMMAND_WORDS" "''$'' \<in> set COMMAND_WORDS" by (simp_all add: COMMAND_WORDS_def)
  moreover have "lower_char (CHR '';'') = CHR '';''" "lower_char (CHR ''$'') = CHR ''$''" by code_simp+
  ultimately show "\<exists>t \<in> set COMMAND_WORDS. contains t [lower_char c]" if "c = CHR '';'' \<or> c = CHR ''$''" for c
    using that contains_self [of "'';''"] contains_self [of "''$''"] by metis
qed

lemma command_words: "list_all (needs COMMAND_WORDS) EXECUTABLE_PATTERNS"
proof -
  have seq: "needs COMMAND_WORDS (seqs rs)" if "list_ex (needs COMMAND_WORDS) rs" for rs using that by (rule needs_seqs)
  have alt: "needs COMMAND_WORDS (seqs [Bnd, alts as, Bnd])" if "list_all (needs COMMAND_WORDS) as" for as
    using needs_alts [OF that] by (intro needs_seqs) simp
  show ?thesis
    unfolding EXECUTABLE_PATTERNS_def list.pred_inject
    apply (intro conjI)
           apply (rule alt, unfold list.map append.simps list.pred_inject, intro conjI; (simp only: known_needs)?; (intro TrueI)?; (rule seq)?; (simp add: known_needs del: lit.simps)?)
          apply (rule seq, simp add: known_needs)
         apply (rule seq, simp add: needs_sql)
        apply (rule alt, unfold list.pred_inject, intro conjI list.pred_inject(1); rule seq; simp add: known_needs)
       apply (rule seq, simp add: needs_end)
      apply (rule needs_alts, unfold list.pred_inject, intro conjI list.pred_inject(1); rule seq; simp add: known_needs)
     apply (rule needs_alts, unfold list.pred_inject, intro conjI list.pred_inject(1); (simp only: known_needs)?; (rule seq, simp add: known_needs del: lit.simps)?)
    apply (rule needs_alts, unfold list.pred_inject, intro conjI list.pred_inject(1); (simp only: known_needs)?; (rule seq, simp add: known_needs del: lit.simps)?)
   apply (rule list.pred_inject(1))
    done
qed

lemma not_executable: "list_all (\<lambda>t. \<not> contains t (lower s)) COMMAND_WORDS \<Longrightarrow> \<not> has_executable_content (JStr s)"
  using command_words search_needs unfolding has_executable_content_def by (fastforce simp: list_ex_iff list_all_iff)

end
