(* ===== verification/Change_Safety.thy ===== *)
theory Change_Safety
  imports Change Safe_Words
begin

section \<open>Correctness of the change advisory\<close>

text \<open>
  What a change of an advisory is known to satisfy (\<open>change_ok\<close>) is established when it is built
  and kept by the reports and the authorizations that are applied afterwards, because they touch the
  workflow fields only; the content digest does not cover those.
\<close>

subsection \<open>Readiness\<close>

text \<open>The conditions of readiness, without the order of the checks.\<close>

definition ready_for_review :: "rca_view \<Rightarrow> (string, gate) dict \<Rightarrow> bool \<Rightarrow> bool \<Rightarrow> bool \<Rightarrow> bool" where
  "ready_for_review V gates rollback_ok validation_ok has_evidence \<longleftrightarrow>
     has_evidence \<and> rollback_ok \<and> validation_ok \<and> (\<forall>x \<in> set gates. gt_status (snd x) \<in> set NON_BLOCKING) \<and>
     ar_completeness (vw_root V) = ''CONFIRMED'' \<and> am_completeness (vw_manifest V) = ''COMPLETE''"

lemma gates_clear:
  "gate_blockers gates = [] \<longleftrightarrow> (\<forall>x \<in> set gates. gt_status (snd x) \<noteq> G_FAIL)"
  "gate_blockers gates = [] \<Longrightarrow> gate_reviews gates = [] \<longleftrightarrow> (\<forall>x \<in> set gates. gt_status (snd x) \<in> set NON_BLOCKING)"
  by (auto simp: gate_blockers_def gate_reviews_def filter_empty_conv split_beta NON_BLOCKING_def)

lemma assess_ready:
  "fst (assess_readiness V gates rb va ev) = R_READY_FOR_HUMAN_REVIEW \<longleftrightarrow> ready_for_review V gates rb va ev"
proof -
  have "\<forall>x \<in> set gates. gt_status (snd x) \<noteq> G_FAIL" if "\<forall>x \<in> set gates. gt_status (snd x) \<in> set NON_BLOCKING"
    using that by (auto simp: NON_BLOCKING_def)
  then show ?thesis
    using gates_clear [of gates] unfolding assess_readiness_def ready_for_review_def split_beta Let_def by auto
qed

lemma assess_open:
  "fst (assess_readiness V gates rb va ev) \<notin> {R_BLOCKED, R_INSUFFICIENT_EVIDENCE} \<longleftrightarrow>
     ev \<and> rb \<and> va \<and> (\<forall>x \<in> set gates. gt_status (snd x) \<noteq> G_FAIL)"
  using gates_clear(1) [of gates] unfolding assess_readiness_def Let_def by auto

lemma guidance_rollback: "domain_guidance d = Inr g \<Longrightarrow> gd_rollback g \<noteq> []"
proof -
  have "list_all (\<lambda>(k, g). gd_rollback g \<noteq> []) DOMAIN_GUIDANCE" by (simp add: DOMAIN_GUIDANCE_def)
  then show "domain_guidance d = Inr g \<Longrightarrow> gd_rollback g \<noteq> []"
    by (auto simp: domain_guidance_def list_all_iff split: json.splits option.splits if_splits dest: map_of_SomeD)
qed

subsection \<open>The digest does not cover the workflow\<close>

lemma workflow_excluded: "filter (\<lambda>(k, v). k \<notin> set DIGEST_EXCLUDED_FIELDS) (change_workflow c) = []"
  by (simp add: change_workflow_def DIGEST_EXCLUDED_FIELDS_def split: option.split)

lemma change_digest_content: "change_digest E V C c = content_digest (kb_sha E) (kb_frepr E) (change_content V C c)"
  unfolding change_digest_def content_digest_def filter_append workflow_excluded by simp

text \<open>The digest that is embedded can be recomputed from the published change.\<close>

lemma change_json_digest: "digest_of E (change_json V C c) = JStr (change_digest E V C c)"
  unfolding change_json_def digest_of_def json.case change_digest_def content_digest_def filter_append workflow_excluded
  by (simp add: DIGEST_EXCLUDED_FIELDS_def)

lemma content_workflow:
  "change_content V C (ch_report_update f c) = change_content V C c"
  "change_content V C (decided_change st rv d c) = change_content V C c"
  "change_content V C (ch_digest_update g c) = change_content V C c"
  by (simp_all add: change_content_def change_plan_def change_impact_def Let_def open_questions_def gate_of_def decided_change_def)

subsection \<open>What holds of a change\<close>

definition change_ok :: "kb_env \<Rightarrow> rca_view \<Rightarrow> change_context \<Rightarrow> change \<Rightarrow> bool" where
  "change_ok E V C c \<longleftrightarrow> actionable V \<and> ch_digest c = change_digest E V C c \<and>
     (\<exists>r \<in> set (vw_recs V). ch_rec c = ac_id r \<and> ac_requires_change r \<and> ch_objective c = rec_text r ''action_summary'') \<and>
     ch_readiness c = fst (assess_readiness V (ch_gates c) True (ch_postcheck c \<noteq> []) (ch_evidence c \<noteq> [])) \<and>
     ch_gates c = gate_view C (ch_guidance c) \<and> domain_guidance (ch_domain c) = Inr (ch_guidance c) \<and>
     (\<forall>s \<in> set (ch_steps c). \<not> has_executable_content (JStr (sp_text s)))"

lemma build_change_ok:
  assumes "build_change E V C n r = Inr c" and "r \<in> set (vw_recs V)" and "ac_requires_change r" and "actionable V"
  shows "change_ok E V C c \<and> ch_id c = change_number V n \<and> ch_rec c = ac_id r \<and>
    ch_declaration c = None \<and> ch_status c = initial_status (ch_readiness c)"
proof -
  from assms(1) obtain g b where g: "domain_guidance (change_domain V r) = Inr g"
    and x: "list_all (\<lambda>s. \<not> has_executable_content (JStr (sp_text s))) (steps_of (change_number V n) r)"
    and c: "c = draft_change V C n r g b\<lparr>ch_digest := change_digest E V C (draft_change V C n r g b)\<rparr>"
    unfolding build_change_def Let_def bindE_Inr by auto
  have "change_digest E V C c = change_digest E V C (draft_change V C n r g b)" unfolding c change_digest_content content_workflow ..
  with guidance_rollback [OF g] g x assms(2-4) show ?thesis
    unfolding change_ok_def c by (auto simp: draft_change_def Let_def list_all_iff split: prod.splits)
qed

subsection \<open>Building all changes\<close>

lemma pad3_inj: "pad3 m = pad3 n \<Longrightarrow> m = n"
proof -
  have z: "nat_of_digits (replicate k (CHR ''0'') @ d) = nat_of_digits d" for k d
    by (induction k) (simp_all add: nat_of_digits_def digit_val_def ord_def)
  have "nat_of_digits (pad3 k) = k" for k by (simp add: pad3_def Let_def z digits_roundtrip)
  then show "pad3 m = pad3 n \<Longrightarrow> m = n" by metis
qed

definition fresh_changes :: "kb_env \<Rightarrow> rca_view \<Rightarrow> change_context \<Rightarrow> change list \<Rightarrow> bool" where
  "fresh_changes E V C cs \<longleftrightarrow> map ch_id cs = map (change_number V) [1..<Suc (length cs)] \<and>
     (\<forall>c \<in> set cs. change_ok E V C c \<and> ch_declaration c = None \<and> ch_status c = initial_status (ch_readiness c))"

lemma fresh_distinct: "fresh_changes E V C cs \<Longrightarrow> distinct (map ch_id cs)"
  using pad3_inj by (auto simp: fresh_changes_def distinct_map inj_on_def change_number_def)

text \<open>Every recommendation becomes one change or one note.\<close>

lemma advise_fold:
  assumes "foldE (advise_step E V C) (cs, ns) rs = Inr (cs', ns')" and "set rs \<subseteq> set (vw_recs V)" and "fresh_changes E V C cs"
  shows "fresh_changes E V C cs' \<and>
    mset (map ch_rec cs') + mset (map cn_rec ns') = mset (map ch_rec cs) + mset (map cn_rec ns) + mset (map ac_id rs)"
  using assms
proof (induction rs arbitrary: cs ns)
  case (Cons r rs)
  from Cons.prems(1) obtain cs1 ns1 where st: "advise_step E V C (cs, ns) r = Inr (cs1, ns1)"
    and f: "foldE (advise_step E V C) (cs1, ns1) rs = Inr (cs', ns')" by (auto simp: bindE_Inr)
  have "fresh_changes E V C cs1 \<and> mset (map ch_rec cs1) + mset (map cn_rec ns1) = mset (map ch_rec cs) + mset (map cn_rec ns) + {#ac_id r#}"
  proof (cases "actionable V \<and> ac_requires_change r")
    case True
    with st obtain c where b: "build_change E V C (Suc (length cs)) r = Inr c" and u: "cs1 = cs @ [c]" "ns1 = ns"
      by (auto simp: advise_step_def bindE_Inr)
    from build_change_ok [OF b] True Cons.prems(2,3) u show ?thesis by (auto simp: fresh_changes_def)
  next
    case False
    with st Cons.prems(3) show ?thesis by (auto simp: advise_step_def note_of_def)
  qed
  with Cons.IH [OF f] Cons.prems(2) show ?case by (simp add: ac_simps)
qed simp

subsection \<open>Reports and decisions\<close>

definition decided_by :: "kb_env \<Rightarrow> change_context \<Rightarrow> change \<Rightarrow> json \<Rightarrow> string \<Rightarrow> auth_decl \<Rightarrow> bool" where
  "decided_by E C c raw decision d \<longleftrightarrow>
     verify_authorization (kb_iso E) raw (ch_id c) (JStr (ch_digest c)) ''1'' (jstrs (cc_proposers C)) decision = Inr d"

definition decision_ok :: "kb_env \<Rightarrow> change_context \<Rightarrow> change \<Rightarrow> bool" where
  "decision_ok E C c \<longleftrightarrow> ch_declaration c = None \<and> ch_status c = initial_status (ch_readiness c) \<or>
     (\<exists>raw \<in> set (cc_authorizations C). \<exists>d. ch_declaration c = Some d \<and>
        (ch_status c = C_REJECTED \<and> decided_by E C c raw ''REJECTED'' d \<or>
         ch_status c = C_APPROVED_BY_HUMAN \<and> ch_readiness c \<notin> {R_BLOCKED, R_INSUFFICIENT_EVIDENCE} \<and> decided_by E C c raw ''APPROVED'' d))"

definition all_ok :: "kb_env \<Rightarrow> rca_view \<Rightarrow> change_context \<Rightarrow> change list \<Rightarrow> bool" where
  "all_ok E V C cs \<longleftrightarrow> (\<forall>c \<in> set cs. change_ok E V C c \<and> decision_ok E C c)"

lemma change_ok_workflow:
  "change_ok E V C (ch_report_update f c) = change_ok E V C c"
  "change_ok E V C (decided_change st rv d c) = change_ok E V C c"
  unfolding change_ok_def change_digest_content content_workflow by (simp_all add: decided_change_def)

lemma decision_ok_report: "decision_ok E C (ch_report_update f c) = decision_ok E C c"
  by (simp add: decision_ok_def decided_by_def)

lemma update_recs: "(\<And>c. ch_rec (f c) = ch_rec c) \<Longrightarrow> map ch_rec (update_change i f cs) = map ch_rec cs"
  by (simp add: update_change_def)

lemma apply_report_ok: "apply_report cs x = Inr cs' \<Longrightarrow> all_ok E V C cs \<Longrightarrow> all_ok E V C cs' \<and> map ch_rec cs' = map ch_rec cs"
  by (auto simp: apply_report_def all_ok_def update_change_def change_ok_workflow decision_ok_report split: option.splits)

lemma apply_authorization_ok:
  assumes "apply_authorization E (cc_proposers C) cs raw = Inr cs'" and "raw \<in> set (cc_authorizations C)" and "all_ok E V C cs"
    and "distinct (map ch_id cs)"
  shows "all_ok E V C cs' \<and> map ch_rec cs' = map ch_rec cs \<and> map ch_id cs' = map ch_id cs"
proof -
  from assms(1) obtain a :: authorization and c where fc: "find_change cs (au_artifact a) = Some c"
    and k: "decide_change E (cc_proposers C) cs raw (au_decision a) c = Inr cs'"
    unfolding apply_authorization_def bindE_Inr by (auto split: option.splits)
  from fc have c: "c \<in> set cs" unfolding find_change_def by (auto simp: find_Some_iff)
  from k obtain st rv d where u: "cs' = update_change (ch_id c) (decided_change st rv d) cs"
    and dec: "st = C_REJECTED \<and> decided_by E C c raw ''REJECTED'' d \<or>
      st = C_APPROVED_BY_HUMAN \<and> ch_readiness c \<notin> {R_BLOCKED, R_INSUFFICIENT_EVIDENCE} \<and> decided_by E C c raw ''APPROVED'' d"
    by (auto simp: decide_change_def bindE_Inr decided_by_def split: if_splits)
  have "decision_ok E C (decided_change st rv d c)"
    using dec assms(2) by (auto simp: decision_ok_def decided_change_def decided_by_def)
  moreover have "c' = c" if "c' \<in> set cs" "ch_id c' = ch_id c" for c'
    using assms(4) c that by (auto simp: distinct_map inj_on_def)
  ultimately show ?thesis
    using assms(3) unfolding u update_change_def all_ok_def by (auto simp: change_ok_workflow) (auto simp: decided_change_def)
qed

lemma apply_all:
  assumes "foldE apply_report cs rs = Inr cs1" and "foldE (apply_authorization E (cc_proposers C)) cs1 (cc_authorizations C) = Inr cs2"
    and "fresh_changes E V C cs"
  shows "all_ok E V C cs2 \<and> map ch_rec cs2 = map ch_rec cs"
proof -
  have start: "all_ok E V C cs" using assms(3) by (auto simp: fresh_changes_def all_ok_def decision_ok_def)
  have ids: "apply_report t x = Inr t' \<Longrightarrow> map ch_id t' = map ch_id t" for t x t'
    by (auto simp: apply_report_def update_change_def split: option.splits)
  have "all_ok E V C cs1 \<and> map ch_rec cs1 = map ch_rec cs \<and> map ch_id cs1 = map ch_id cs"
    by (rule foldE_invariant [OF assms(1)]) (use start apply_report_ok ids in auto)
  moreover from this have "all_ok E V C cs2 \<and> map ch_rec cs2 = map ch_rec cs1 \<and> map ch_id cs2 = map ch_id cs1"
    using fresh_distinct [OF assms(3)]
    by (intro foldE_invariant [OF assms(2), of "\<lambda>t. all_ok E V C t \<and> map ch_rec t = map ch_rec cs1 \<and> map ch_id t = map ch_id cs1"])
      (auto dest: apply_authorization_ok)
  ultimately show ?thesis by simp
qed

lemma advisory_stages:
  assumes "build_change_advisory E V ctx at_utc = Inr (C, A)"
  shows "parse_change_context (kb_iso E) ctx = Inr C \<and> all_ok E V C (ad_changes A) \<and>
    mset (map ch_rec (ad_changes A)) + mset (map cn_rec (ad_notes A)) = mset (map ac_id (vw_recs V)) \<and>
    ad_readiness A = advisory_readiness V (ad_changes A)"
proof -
  from assms obtain cs ns cs1 where p: "parse_change_context (kb_iso E) ctx = Inr C"
    and f: "foldE (advise_step E V C) ([], []) (vw_recs V) = Inr (cs, ns)" and r: "foldE apply_report cs (cc_reports C) = Inr cs1"
    and a: "foldE (apply_authorization E (cc_proposers C)) cs1 (cc_authorizations C) = Inr (ad_changes A)" and n: "ad_notes A = ns"
    and w: "ad_readiness A = advisory_readiness V (ad_changes A)"
    unfolding build_change_advisory_def Let_def bindE_Inr by (auto simp: bindE_Inr)
  have "fresh_changes E V C []" by (simp add: fresh_changes_def)
  from advise_fold [OF f order_refl this] have fresh: "fresh_changes E V C cs"
    and m: "mset (map ch_rec cs) + mset (map cn_rec ns) = mset (map ac_id (vw_recs V))" by simp_all
  from apply_all [OF r a fresh] m p n w show ?thesis by (simp del: mset_map)
qed

text \<open>A small view: one recommendation that needs a change, on a confirmed cause with complete evidence.\<close>

definition small_rec :: adapted_rec where
  "small_rec = \<lparr> ac_id = ''REC-1'', ac_linked = ''RCA-1'', ac_hyps = [],
     ac_fields = [(''action_summary'', JStr ''Add space''), (''precheck'', JStr []), (''risk'', JStr []), (''postcheck'', JStr ''Check space'')],
     ac_requires_change = True, ac_execution = ''NOT_EXECUTED'', ac_provenance = ''CATALOGUED'' \<rparr>"

definition small_hyp :: adapted_hyp where
  "small_hyp = \<lparr> ah_id = ''HYP-1'', ah_rule = ''R1'', ah_domain = JStr ''capacity'', ah_statement = JStr ''s'', ah_chain = [],
     ah_status = ''CONFIRMED'', ah_supporting = [''EVD-1''], ah_contradicting = [], ah_unresolved = False, ah_missing = [], ah_sources = 2,
     ah_temporal = False, ah_confidence = ''HIGH'' \<rparr>"

definition small_view :: rca_view where
  "small_view = \<lparr> vw_incident = ''INC-1'', vw_target = None, vw_contract = ''1.0.0'', vw_rules_version = [],
     vw_manifest = \<lparr> am_completeness = ''COMPLETE'', am_declared = [], am_present = [''EVD-1''], am_missing = [] \<rparr>, vw_events = [],
     vw_degraded = False, vw_reasons = [], vw_findings = [], vw_hyps = [small_hyp],
     vw_root = \<lparr> ar_id = ''RCA-1'', ar_completeness = ''CONFIRMED'', ar_confirmed = [''HYP-1''], ar_competing = [] \<rparr>, vw_recs = [small_rec],
     vw_domains = [], vw_limitations = [], vw_warnings = [] \<rparr>"

definition plain_env :: kb_env where
  "plain_env = \<lparr> kb_sha = (\<lambda>_. ''d''), kb_frepr = (\<lambda>_. []), kb_repr = (\<lambda>_. []), kb_iso = (\<lambda>_. True), kb_size = (\<lambda>_. 0) \<rparr>"

text \<open>Three gates passed, the fourth not applicable.\<close>

definition ready_context :: json where
  "ready_context = JObj [(''gates'', JObj (map (\<lambda>n. (n, JObj [(''status'', JStr (if n = ''license'' then ''NOT_APPLICABLE'' else ''PASS''))])) GATES))]"

lemma ready_gates: "\<exists>C. parse_change_context (\<lambda>_. True) ready_context = Inr C \<and> cc_authorizations C = [] \<and> cc_reports C = [] \<and>
    (\<forall>x \<in> set (cc_gates C). gt_status (snd x) \<in> set NON_BLOCKING)"
proof -
  obtain b where "clean_str 200 ''Declared in the supplied context.'' = b" by blast
  then show ?thesis
    by (simp add: parse_change_context_def ready_context_def GATES_def json_reads strict_keys_def jitems_def ensure_def parse_target_def
        empty_context_def parse_gates_def set_gate_def req_enum_def GATE_STATUSES_def advcrash_def clean_text_def req_dict_def NON_BLOCKING_def)
qed

lemma small_texts: "list_all (\<lambda>s. \<not> has_executable_content (JStr (sp_text s))) (steps_of (change_number small_view 1) small_rec)"
proof -
  have "list_all (\<lambda>s. list_all (\<lambda>t. \<not> contains t (lower (sp_text s))) COMMAND_WORDS) (steps_of (change_number small_view 1) small_rec)"
    by code_simp
  then show ?thesis using not_executable by (auto simp: list_all_iff)
qed

lemma small_domain: "linked_hyps small_view small_rec = [small_hyp] \<and> change_domain small_view small_rec = JStr ''capacity''"
  by (simp add: linked_hyps_def change_hyps_def small_view_def small_rec_def hyp_table_def small_hyp_def map_filter_simps change_domain_def)

lemma capacity_guidance: "\<exists>g. domain_guidance (JStr ''capacity'') = Inr g \<and> \<not> gd_license g"
  unfolding domain_guidance_def DOMAIN_GUIDANCE_def json.case by (simp del: split_paired_Ex)

lemma small_advised: "\<exists>C A c. build_change_advisory plain_env small_view ready_context ''t'' = Inr (C, A) \<and> ad_changes A = [c] \<and>
    ch_readiness c = R_READY_FOR_HUMAN_REVIEW"
proof -
  obtain C where C: "parse_change_context (\<lambda>_. True) ready_context = Inr C" "cc_authorizations C = []" "cc_reports C = []"
    and g: "\<forall>x \<in> set (cc_gates C). gt_status (snd x) \<in> set NON_BLOCKING"
    using ready_gates by (elim exE conjE) (rule that; assumption)
  from capacity_guidance small_domain obtain gd where gd: "domain_guidance (change_domain small_view small_rec) = Inr gd" "\<not> gd_license gd"
    and l: "linked_hyps small_view small_rec = [small_hyp]" by auto
  have "\<forall>x \<in> set (gate_view C gd). gt_status (snd x) \<in> set NON_BLOCKING"
    using g gd(2) by (simp add: gate_view_def split_beta)
  then have a: "fst (assess_readiness small_view (gate_view C gd) True True True) = R_READY_FOR_HUMAN_REVIEW"
    by (simp add: assess_ready ready_for_review_def small_view_def)
  obtain b where b: "benefit (linked_hyps small_view small_rec) = Inr b"
    unfolding l by (simp add: benefit_def small_hyp_def advcrash_def as_str_def)
  let ?d = "draft_change small_view C 1 small_rec gd b"
  have "rec_text small_rec ''postcheck'' \<noteq> []" by (simp add: rec_text_def small_rec_def)
  moreover have "supporting_of [small_hyp] \<noteq> []" by (simp add: supporting_of_def sorted_set_def small_hyp_def)
  ultimately have r: "ch_readiness ?d = R_READY_FOR_HUMAN_REVIEW"
    using a guidance_rollback [OF gd(1)] l
    by (cases "assess_readiness small_view (gate_view C gd) True True True") (simp add: draft_change_def Let_def)
  have "actionable small_view" "ac_requires_change small_rec" "vw_recs small_view = [small_rec]"
    by (simp_all add: actionable_def small_view_def small_rec_def)
  with gd(1) b small_texts C show ?thesis
    by (simp add: build_change_advisory_def plain_env_def advise_step_def build_change_def Let_def ensure_def r [unfolded One_nat_def])
qed



lemma gates_by_name:
  assumes "dkeys gates = GATES"
  shows "(\<forall>x \<in> set gates. P (snd x)) \<longleftrightarrow> (\<forall>n \<in> set GATES. \<exists>g. dget gates n = Some g \<and> P g)"
proof -
  have d: "distinct (dkeys gates)" unfolding assms by (simp add: GATES_def)
  show ?thesis
  proof
    assume a: "\<forall>x \<in> set gates. P (snd x)"
    show "\<forall>n \<in> set GATES. \<exists>g. dget gates n = Some g \<and> P g"
    proof
      fix n
      assume "n \<in> set GATES"
      then obtain g where "(n, g) \<in> set gates" unfolding assms [symmetric] by auto
      with a d show "\<exists>g. dget gates n = Some g \<and> P g" by (intro exI [of _ g]) (auto simp: map_of_eq_Some_iff)
    qed
  next
    assume a: "\<forall>n \<in> set GATES. \<exists>g. dget gates n = Some g \<and> P g"
    show "\<forall>x \<in> set gates. P (snd x)"
    proof
      fix x
      assume x: "x \<in> set gates"
      then have "fst x \<in> set GATES" unfolding assms [symmetric] by auto
      with a obtain g where "dget gates (fst x) = Some g" "P g" by blast
      moreover from x d have "dget gates (fst x) = Some (snd x)" by (simp add: map_of_is_SomeI)
      ultimately show "P (snd x)" by simp
    qed
  qed
qed

lemma worst_least: "rs \<noteq> [] \<Longrightarrow> worst rs \<in> set rs \<and> (\<forall>r \<in> set rs. readiness_rank (worst rs) \<le> readiness_rank r)"
proof (induction rs rule: worst.induct)
  case (3 r s rs)
  let ?w = "if readiness_rank s < readiness_rank r then s else r"
  have "worst (?w # rs) \<in> set (?w # rs)" "readiness_rank (worst (?w # rs)) \<le> readiness_rank ?w"
    "\<forall>x \<in> set rs. readiness_rank (worst (?w # rs)) \<le> readiness_rank x" using 3 by auto
  moreover have "readiness_rank ?w \<le> readiness_rank r" "readiness_rank ?w \<le> readiness_rank s" "?w \<in> {r, s}" by auto
  ultimately show ?case unfolding worst.simps(3) by auto
qed simp_all



end
