(* ===== verification/Estack.thy ===== *)
theory Estack
  imports Change
begin

section \<open>Governance of changes to the repository (change\_documentation\_knowledge/change.py, plane B)\<close>

text \<open>
  A request reports the stages of the change workflow and the compatibility checks. The engine derives
  a governance state from them and never runs a stage: the last stage, PROMOTE, must not have been
  run. A request may carry the authorization of a human, who is not its proposer.
\<close>

definition ESTACK_WORKFLOW_STAGES :: "string list" where
  "ESTACK_WORKFLOW_STAGES = [''DETECT_GAP'', ''CHANGE_REQUEST'', ''GAP_ANALYSIS'', ''IMPACT_ANALYSIS'', ''PROPOSAL'', ''IMPLEMENT'', ''TEST'',
     ''SECURITY_VALIDATION'', ''REGRESSION_VALIDATION'', ''DOCUMENT'', ''HUMAN_REVIEW'', ''PROMOTE'']"

definition ESTACK_ARTIFACT_TYPES :: "string list" where
  "ESTACK_ARTIFACT_TYPES = [''skill'', ''agent'', ''query'', ''workflow'', ''policy'', ''knowledge'', ''compatibility'', ''documentation'',
     ''security'', ''rule'', ''schema'', ''template'']"

definition ESTACK_COMPAT_CHECKS :: "string list" where
  "ESTACK_COMPAT_CHECKS = [''version_coverage'', ''query_contract'', ''dictionary_columns'', ''architecture'', ''cost_and_license'',
     ''test_coverage'']"

definition STAGE_STATUS :: "string list" where "STAGE_STATUS = [''PASS'', ''FAIL'', ''NOT_RUN'']"
definition COMPAT_STATUS :: "string list" where "COMPAT_STATUS = [''PASS'', ''FAIL'', ''UNKNOWN'']"

datatype governance = RETURNED_TO_PROPOSAL | PENDING_REVIEW | IN_PROGRESS | STAGE_BLOCKED

definition governance_name :: "governance \<Rightarrow> string" where
  "governance_name g = (case g of RETURNED_TO_PROPOSAL \<Rightarrow> ''RETURNED_TO_PROPOSAL'' | PENDING_REVIEW \<Rightarrow> ''PENDING_HUMAN_REVIEW''
     | IN_PROGRESS \<Rightarrow> ''IN_PROGRESS'' | STAGE_BLOCKED \<Rightarrow> ''BLOCKED'')"

record stage =
  sg_name :: string
  sg_status :: string
  sg_note :: string

record estack_change =
  es_id :: string
  es_status :: change_status
  es_review :: string
  es_state :: governance
  es_current :: string
  es_title :: string
  es_gap :: string
  es_types :: "string list"
  es_proposer :: string
  es_stages :: "stage list"
  es_compat :: "(string \<times> string) list"
  es_blockers :: "string list"
  es_flagged :: bool
  es_declaration :: "auth_decl option"
  es_digest :: string

subsection \<open>Reading the request\<close>

definition read_stage :: "json \<Rightarrow> string \<Rightarrow> adv_error + stage" where
  "read_stage stages_in st =
     bindE (req_dict (jget_or stages_in st (JObj [(''status'', JStr ''NOT_RUN'')])) ''estack_request.stages'') (\<lambda>spec.
     bindE (strict_keys spec [''status''] [''evidence_note''] ''estack_request.stages'') (\<lambda>_.
     bindE (req_enum (getn spec ''status'') STAGE_STATUS ''estack_request.stages.status'') (\<lambda>status.
     bindE (clean_text (jget_or spec ''evidence_note'' (JStr [])) 200 (Some ''stage.evidence_note'')) (\<lambda>note.
       Inr \<lparr> sg_name = st, sg_status = status, sg_note = note \<rparr>))))"

text \<open>Passed stages form a prefix.\<close>

fun contiguous :: "bool \<Rightarrow> stage list \<Rightarrow> bool" where
  "contiguous gap [] = True"
| "contiguous gap (s # ss) = (if sg_status s \<noteq> ''PASS'' then contiguous True ss else if gap then False else contiguous gap ss)"

definition read_stages :: "json \<Rightarrow> adv_error + stage list" where
  "read_stages v =
     bindE (req_dict v ''estack_request.stages'') (\<lambda>stages_in.
     bindE (strict_keys stages_in [] ESTACK_WORKFLOW_STAGES ''estack_request.stages'') (\<lambda>_.
     bindE (mapE (read_stage stages_in) ESTACK_WORKFLOW_STAGES) (\<lambda>stages.
     bindE (ensure (sg_status (last stages) = ''NOT_RUN'') (field_err E_TRANSITION_DENIED ''estack_request.stages.PROMOTE'')) (\<lambda>_.
     bindE (ensure (contiguous False stages) (field_err E_INPUT_INVALID ''estack_request.stages'')) (\<lambda>_.
       Inr stages)))))"

definition read_check :: "json \<Rightarrow> string \<Rightarrow> adv_error + string \<times> string" where
  "read_check compat_in c = bindE (req_enum (jget_or compat_in c (JStr ''UNKNOWN'')) COMPAT_STATUS ''estack_request.compatibility'') (\<lambda>s.
     Inr (c, s))"

definition read_compat :: "json \<Rightarrow> adv_error + (string \<times> string) list" where
  "read_compat v =
     bindE (req_dict v ''estack_request.compatibility'') (\<lambda>compat_in.
     bindE (strict_keys compat_in [] ESTACK_COMPAT_CHECKS ''estack_request.compatibility'') (\<lambda>_.
       mapE (read_check compat_in) ESTACK_COMPAT_CHECKS))"

definition read_types :: "json \<Rightarrow> adv_error + string list" where
  "read_types v = bindE (text_list v ''estack_request.artifact_types'' 12 30) (\<lambda>types.
     if types = [] \<or> \<not> set types \<subseteq> set ESTACK_ARTIFACT_TYPES then Inl (field_err E_INPUT_INVALID ''estack_request.artifact_types'')
     else Inr types)"

subsection \<open>The governance state\<close>

definition failed_stages :: "stage list \<Rightarrow> string list" where
  "failed_stages stages = map sg_name (filter (\<lambda>s. sg_status s = ''FAIL'') stages)"

definition estack_blockers :: "stage list \<Rightarrow> (string \<times> string) list \<Rightarrow> string list" where
  "estack_blockers stages checks = map (\<lambda>x. ''STAGE_FAILED_'' @ x) (failed_stages stages) @
     map (\<lambda>(k, v). ''COMPATIBILITY_'' @ upper k @ ''_'' @ v) (filter (\<lambda>(k, v). v \<noteq> ''PASS'') checks)"

definition before_review :: "string list" where
  "before_review = takeWhile (\<lambda>s. s \<noteq> ''HUMAN_REVIEW'') ESTACK_WORKFLOW_STAGES"

definition docs_done :: "stage list \<Rightarrow> bool" where
  "docs_done stages \<longleftrightarrow> list_all (\<lambda>s. sg_status s = ''PASS'') (filter (\<lambda>s. sg_name s \<in> set before_review) stages)"

definition governance_of :: "stage list \<Rightarrow> (string \<times> string) list \<Rightarrow> governance" where
  "governance_of stages checks =
     (if list_ex (\<lambda>x. x \<in> set (failed_stages stages)) [''SECURITY_VALIDATION'', ''REGRESSION_VALIDATION''] then RETURNED_TO_PROPOSAL
      else if docs_done stages \<and>
        filter (\<lambda>b. starts_with ''COMPATIBILITY'' b \<or> starts_with ''STAGE_FAILED'' b) (estack_blockers stages checks) = [] then PENDING_REVIEW
      else if failed_stages stages = [] then IN_PROGRESS else STAGE_BLOCKED)"

definition current_stage :: "stage list \<Rightarrow> string" where
  "current_stage stages = (case List.find (\<lambda>s. sg_status s \<noteq> ''PASS'') stages of Some s \<Rightarrow> sg_name s | None \<Rightarrow> ''PROMOTE'')"

subsection \<open>The change and its report\<close>

definition stage_json :: "stage \<Rightarrow> json" where
  "stage_json s = JObj [(''stage'', JStr (sg_name s)), (''status'', JStr (sg_status s)), (''evidence_note'', JStr (sg_note s))]"

text \<open>The fields a decision changes, and the rest.\<close>

definition estack_workflow :: "estack_change \<Rightarrow> (string \<times> json) list" where
  "estack_workflow c = [(''status'', JStr (change_status_name (es_status c))), (''review_status'', JStr (es_review c))] @
     (case es_declaration c of None \<Rightarrow> [] | Some d \<Rightarrow> [(''approval_declaration'', declaration_json d)])"

definition estack_content :: "estack_change \<Rightarrow> (string \<times> json) list" where
  "estack_content c =
     [(''change_id'', JStr (es_id c)), (''change_type'', JStr ''ESTACK_DEVELOPMENT''),
      (''governance_state'', JStr (governance_name (es_state c))), (''current_stage'', JStr (es_current c)),
      (''title'', JStr (es_title c)), (''gap_description'', JStr (es_gap c)),
      (''artifact_types'', jstrs (es_types c)), (''proposer_id'', JStr (es_proposer c)), (''stages'', JArr (map stage_json (es_stages c))),
      (''compatibility'', JObj (map (\<lambda>(k, v). (k, JStr v)) (es_compat c))),
      (''blockers'', jstrs (es_blockers c)), (''promote_status'', JStr ''HUMAN_ACTION_REQUIRED''),
      (''policy'', jstrs [''Changes are implemented only on the development branch.'',
         ''The engine never promotes, merges, tags, pushes or publishes.'',
         ''The proposer cannot be the human reviewer of its own change.'']),
      (''execution_status'', JStr EXECUTION_STATUS_NOT_EXECUTED), (''epistemic'', JStr ''proposed'')] @
     (if es_flagged c then [(''warnings'', jstrs [''INSTRUCTION_LIKE_TEXT_TREATED_AS_DATA''])] else [])"

definition estack_json :: "estack_change \<Rightarrow> json" where
  "estack_json c = JObj (estack_workflow c @ estack_content c @ [(''content_digest'', JStr (es_digest c))])"

definition estack_digest :: "kb_env \<Rightarrow> estack_change \<Rightarrow> string" where
  "estack_digest E c = content_digest (kb_sha E) (kb_frepr E) (estack_workflow c @ estack_content c)"

definition estack_report :: "kb_env \<Rightarrow> string \<Rightarrow> estack_change \<Rightarrow> json" where
  "estack_report E generated_at c = JObj
     [(''schema_version'', JStr SCHEMA_VERSION), (''artifact_type'', JStr ''estack_change_governance''),
      (''generated_at_utc'', JStr generated_at), (''generator_version'', JStr GENERATOR_VERSION),
      (''sanitization_status'', JStr ''SANITIZED''), (''review_status'', JStr (es_review c)),
      (''source_refs'', JObj [(''change_request_id'', JStr (es_id c))]), (''change'', estack_json c),
      (''limitations'', jstrs [''Governance report only; no repository change, tag, merge, push or promotion was performed.'']),
      (''content_digest'', digest_of E (estack_json c))]"

definition draft_estack :: "string \<Rightarrow> string list \<Rightarrow> string \<Rightarrow> stage list \<Rightarrow> (string \<times> string) list \<Rightarrow> string \<Rightarrow> string \<Rightarrow> bool
    \<Rightarrow> estack_change" where
  "draft_estack crq types proposer stages checks title gap flagged =
     (let state = governance_of stages checks in
      \<lparr> es_id = crq, es_status = (if state \<noteq> PENDING_REVIEW then C_DRAFT else C_REVIEW_REQUIRED),
        es_review = (if state = PENDING_REVIEW then ''PENDING_HUMAN_REVIEW'' else ''REVIEW_REQUIRED''),
        es_state = state, es_current = current_stage stages, es_title = title, es_gap = gap, es_types = sort types,
        es_proposer = proposer, es_stages = stages, es_compat = checks, es_blockers = sorted_set (estack_blockers stages checks),
        es_flagged = flagged, es_declaration = None, es_digest = [] \<rparr>)"

text \<open>The authorization of the request, when it has one.\<close>

definition authorize_estack :: "kb_env \<Rightarrow> json option \<Rightarrow> estack_change \<Rightarrow> adv_error + estack_change" where
  "authorize_estack E auth c = (case auth of
      None \<Rightarrow> Inr c
    | Some v \<Rightarrow>
        if es_state c \<noteq> PENDING_REVIEW then Inl (field_err E_TRANSITION_DENIED ''estack_request.authorization'')
        else bindE (verify_authorization (kb_iso E) v (es_id c) (JStr (es_digest c)) ''1'' (jstrs [es_proposer c]) ''APPROVED'') (\<lambda>d.
          Inr (c\<lparr>es_declaration := Some d, es_review := ''APPROVED_BY_HUMAN'', es_status := C_APPROVED_BY_HUMAN\<rparr>)))"

definition estack_change_of :: "kb_env \<Rightarrow> json \<Rightarrow> adv_error + estack_change" where
  "estack_change_of E request =
     bindE (req_dict request ''estack_request'') (\<lambda>req.
     bindE (strict_keys req [''schema_version'', ''change_request_id'', ''title'', ''gap_description'', ''artifact_types'', ''proposer_id'',
         ''stages'', ''compatibility''] [''authorization''] ''estack_request'') (\<lambda>_.
     bindE (ensure (getn req ''schema_version'' = JStr SCHEMA_VERSION)
         (field_err E_UNSUPPORTED_SCHEMA_VERSION ''estack_request.schema_version'')) (\<lambda>_.
     bindE (require_id (getn req ''change_request_id'') (Some [''CHG'']) (Some ''estack_request.change_request_id'')) (\<lambda>crq.
     bindE (read_types (getn req ''artifact_types'')) (\<lambda>types.
     bindE (require_id (getn req ''proposer_id'') (Some [''REV'']) (Some ''estack_request.proposer_id'')) (\<lambda>proposer.
     bindE (read_stages (getn req ''stages'')) (\<lambda>stages.
     bindE (read_compat (getn req ''compatibility'')) (\<lambda>checks.
     bindE (clean_text (getn req ''title'') 120 (Some ''title'')) (\<lambda>title.
     bindE (clean_text (getn req ''gap_description'') 300 (Some ''gap'')) (\<lambda>gap.
     let c = draft_estack crq types proposer stages checks title gap
           (has_instruction_markers (getn req ''title'') \<or> has_instruction_markers (getn req ''gap_description''))
     in authorize_estack E (jget req ''authorization'') (c\<lparr>es_digest := estack_digest E c\<rparr>)))))))))))"

definition build_estack_change :: "kb_env \<Rightarrow> json \<Rightarrow> string \<Rightarrow> adv_error + json" where
  "build_estack_change E request generated_at = bindE (estack_change_of E request) (\<lambda>c. Inr (estack_report E generated_at c))"

subsection \<open>What the report establishes\<close>

lemma mapE_keys: "mapE f xs = Inr ys \<Longrightarrow> (\<And>x y. f x = Inr y \<Longrightarrow> g y = x) \<Longrightarrow> map g ys = xs"
  unfolding mapE_Inr_iff by (induction rule: list_all2_induct) auto

lemma read_stages_ok:
  assumes "read_stages v = Inr ss"
  shows "map sg_name ss = ESTACK_WORKFLOW_STAGES \<and> sg_status (last ss) = ''NOT_RUN'' \<and> contiguous False ss"
proof -
  have "read_stage w x = Inr y \<Longrightarrow> sg_name y = x" for w x y by (auto simp: read_stage_def bindE_Inr)
  with mapE_keys [of "read_stage w" _ ss sg_name for w] assms show ?thesis
    by (auto simp: read_stages_def bindE_Inr)
qed

lemma read_compat_ok: "read_compat v = Inr cs \<Longrightarrow> map fst cs = ESTACK_COMPAT_CHECKS"
proof -
  have "read_check w x = Inr y \<Longrightarrow> fst y = x" for w x y by (auto simp: read_check_def bindE_Inr)
  with mapE_keys [of "read_check w" _ cs fst for w] show "read_compat v = Inr cs \<Longrightarrow> ?thesis"
    by (auto simp: read_compat_def bindE_Inr)
qed

lemma contiguous_gap: "contiguous True ss \<longleftrightarrow> (\<forall>s \<in> set ss. sg_status s \<noteq> ''PASS'')"
  by (induction ss) auto

lemma contiguous_prefix:
  "contiguous False ss \<longleftrightarrow> (\<forall>s \<in> set (dropWhile (\<lambda>s. sg_status s = ''PASS'') ss). sg_status s \<noteq> ''PASS'')"
  by (induction ss) (simp_all add: contiguous_gap)

lemma pending_iff: "governance_of ss cs = PENDING_REVIEW \<longleftrightarrow>
    docs_done ss \<and> (\<forall>s \<in> set ss. sg_status s \<noteq> ''FAIL'') \<and> (\<forall>x \<in> set cs. snd x = ''PASS'')"
proof -
  have f: "failed_stages ss = [] \<longleftrightarrow> (\<forall>s \<in> set ss. sg_status s \<noteq> ''FAIL'')"
    by (auto simp: failed_stages_def filter_empty_conv)
  have "starts_with ''COMPATIBILITY'' (''COMPATIBILITY_'' @ x)" "starts_with ''STAGE_FAILED'' (''STAGE_FAILED_'' @ x)" for x
    by (simp_all add: starts_with_def)
  then have "filter (\<lambda>b. starts_with ''COMPATIBILITY'' b \<or> starts_with ''STAGE_FAILED'' b) (estack_blockers ss cs) = estack_blockers ss cs"
    unfolding estack_blockers_def by (auto simp: filter_id_conv)
  moreover have "estack_blockers ss cs = [] \<longleftrightarrow> failed_stages ss = [] \<and> (\<forall>x \<in> set cs. snd x = ''PASS'')"
    by (auto simp: estack_blockers_def filter_empty_conv split_beta)
  ultimately show ?thesis using f by (auto simp: governance_of_def)
qed

lemma docs_done_iff: "map sg_name ss = ESTACK_WORKFLOW_STAGES \<Longrightarrow>
    docs_done ss \<longleftrightarrow> (\<forall>s \<in> set (take 10 ss). sg_status s = ''PASS'')"
proof -
  assume n: "map sg_name ss = ESTACK_WORKFLOW_STAGES"
  then obtain u a b where s: "ss = u @ [a, b]" and u: "take 10 ss = u" and ab: "sg_name a = ''HUMAN_REVIEW''" "sg_name b = ''PROMOTE''"
    and t: "map sg_name u = before_review"
    by (auto simp: ESTACK_WORKFLOW_STAGES_def before_review_def map_eq_Cons_conv)
  have n: "''HUMAN_REVIEW'' \<notin> set before_review" "''PROMOTE'' \<notin> set before_review"
    by (simp_all add: before_review_def ESTACK_WORKFLOW_STAGES_def)
  have "\<forall>s \<in> set u. sg_name s \<in> set before_review" unfolding t [symmetric] by simp
  then have "filter (\<lambda>s. sg_name s \<in> set before_review) u = u" by (simp add: filter_id_conv)
  with ab n have "filter (\<lambda>s. sg_name s \<in> set before_review) ss = u" unfolding s by simp
  then show ?thesis by (simp add: docs_done_def list_all_iff u)
qed

lemma estack_digest_kept:
  "digest_of E (estack_json c) = JStr (content_digest (kb_sha E) (kb_frepr E) (estack_content c))"
  "estack_digest E c = content_digest (kb_sha E) (kb_frepr E) (estack_content c)"
proof -
  have "filter (\<lambda>(k, v). k \<notin> set DIGEST_EXCLUDED_FIELDS) (estack_workflow c) = []"
    by (simp add: estack_workflow_def DIGEST_EXCLUDED_FIELDS_def split: option.split)
  then show "estack_digest E c = content_digest (kb_sha E) (kb_frepr E) (estack_content c)"
    "digest_of E (estack_json c) = JStr (content_digest (kb_sha E) (kb_frepr E) (estack_content c))"
    unfolding estack_digest_def estack_json_def digest_of_def json.case content_digest_def filter_append
    by (simp_all add: DIGEST_EXCLUDED_FIELDS_def)
qed

lemma estack_built:
  assumes "estack_change_of E req = Inr c"
  shows "\<exists>c0. authorize_estack E (jget req ''authorization'') c0 = Inr c \<and>
    map sg_name (es_stages c0) = ESTACK_WORKFLOW_STAGES \<and> sg_status (last (es_stages c0)) = ''NOT_RUN'' \<and> contiguous False (es_stages c0) \<and>
    map fst (es_compat c0) = ESTACK_COMPAT_CHECKS \<and> es_state c0 = governance_of (es_stages c0) (es_compat c0) \<and>
    es_current c0 = current_stage (es_stages c0) \<and> es_digest c0 = estack_digest E c0 \<and> es_status c0 \<noteq> C_APPROVED_BY_HUMAN"
proof -
  from assms obtain crq types proposer ss cs title gap flagged c0 where ss: "read_stages (getn req ''stages'') = Inr ss"
    and cs: "read_compat (getn req ''compatibility'') = Inr cs"
    and c0: "c0 = draft_estack crq types proposer ss cs title gap flagged"
    and a: "authorize_estack E (jget req ''authorization'') (c0\<lparr>es_digest := estack_digest E c0\<rparr>) = Inr c"
    unfolding estack_change_of_def Let_def bindE_Inr req_dict_Inr by (elim exE conjE) (rule that; (assumption | rule refl | simp))
  have keep: "estack_digest E (c0\<lparr>es_digest := d\<rparr>) = estack_digest E c0" for d
    unfolding estack_digest_kept(2) by (simp add: estack_content_def)
  have "es_stages c0 = ss" "es_compat c0 = cs" "es_state c0 = governance_of ss cs" "es_current c0 = current_stage ss"
    "es_status c0 \<noteq> C_APPROVED_BY_HUMAN" by (simp_all add: c0 draft_estack_def Let_def)
  with a read_stages_ok [OF ss] read_compat_ok [OF cs] show ?thesis
    by (intro exI [of _ "c0\<lparr>es_digest := estack_digest E c0\<rparr>"]) (simp add: keep)
qed

text \<open>A request whose workflow is done up to the review, with the approval of a reviewer.\<close>

definition done_sha :: string where "done_sha = replicate 64 (CHR ''a'')"

definition done_env :: kb_env where
  "done_env = \<lparr> kb_sha = (\<lambda>_. done_sha), kb_frepr = (\<lambda>_. []), kb_repr = (\<lambda>_. []), kb_iso = (\<lambda>_. True), kb_size = (\<lambda>_. 0) \<rparr>"

definition done_approval :: json where
  "done_approval = JObj [(''authorization_id'', JStr ''AUTH-20260102-001''), (''artifact_id'', JStr ''CHG-20260102-001''),
     (''decision'', JStr ''APPROVED''), (''reviewer_id'', JStr ''REV-rev001''), (''decision_at_utc'', JStr ''2026-01-02T00:00:00Z''),
     (''artifact_digest'', JStr (done_sha)), (''version'', JStr ''1''), (''review_notes_sanitized'', JStr ''ok'')]"

definition done_request :: json where
  "done_request = JObj [(''schema_version'', JStr ''1.0.0''), (''change_request_id'', JStr ''CHG-20260102-001''), (''title'', JStr ''Add a query''),
     (''gap_description'', JStr ''none yet''), (''artifact_types'', JArr [JStr ''query'']), (''proposer_id'', JStr ''REV-rev002''),
     (''stages'', JObj (map (\<lambda>s. (s, JObj [(''status'', JStr ''PASS'')])) before_review)),
     (''compatibility'', JObj (map (\<lambda>c. (c, JStr ''PASS'')) ESTACK_COMPAT_CHECKS)), (''authorization'', done_approval)]"

lemma done_ids:
  "is_safe_id (JStr ''AUTH-20260102-001'') (Some [''AUTH''])" "is_safe_id (JStr ''CHG-20260102-001'') (Some [''CHG''])"
  "is_safe_id (JStr ''CHG-20260102-001'') (Some [''CHG'', ''KB'', ''KBV'', ''KBC''])"
  "is_safe_id (JStr ''REV-rev001'') (Some [''REV''])" "is_safe_id (JStr ''REV-rev002'') (Some [''REV''])"
  by (rule id_check_safe, code_simp)+

lemma done_approved: "\<exists>d. verify_authorization (\<lambda>_. True) done_approval ''CHG-20260102-001'' (JStr (done_sha)) ''1''
    (jstrs [''REV-rev002'']) ''APPROVED'' = Inr d"
proof -
  let ?a = "\<lparr> au_id = ''AUTH-20260102-001'', au_artifact = ''CHG-20260102-001'', au_decision = ''APPROVED'', au_reviewer = ''REV-rev001'',
     au_at = ''2026-01-02T00:00:00Z'', au_digest = done_sha, au_version = ''1'', au_notes = clean_str 300 ''ok'',
     au_flagged = has_instruction_markers (JStr ''ok'') \<rparr> :: authorization"
  have m: "is_utc_timestamp (\<lambda>_. True) (JStr ''2026-01-02T00:00:00Z'')" "match_dollar AUTH_DIGEST (done_sha)"
    "match_dollar AUTH_VERSION ''1''" by code_simp+
  then have "valid_record (\<lambda>_. True) done_approval ?a"
    using done_ids unfolding valid_record_def done_approval_def
    by (simp add: jget_or_def jget_def or_else_def AUTH_REQUIRED_def is_utc_timestamp_def)
  then have "parse_authorization (\<lambda>_. True) done_approval = Inr ?a" unfolding parse_authorization_iff .
  moreover have "done_approval \<noteq> JNull" by (simp add: done_approval_def)
  ultimately show ?thesis unfolding verify_authorization_def
    by (simp add: proposers_of_def jstrs_def py_set_of_def py_iter_def unhashable_def is_arr_def is_obj_def advcrash_def truthy_def)
qed

lemma done_types: "read_types (JArr [JStr ''query'']) = Inr [''query'']"
proof -
  have "clean_str 30 ''query'' = ''query''" by code_simp
  then show ?thesis by (simp add: read_types_def text_list_def req_list_def clean_text_def ESTACK_ARTIFACT_TYPES_def)
qed

lemma done_stages: "\<exists>ss. read_stages (JObj (map (\<lambda>s. (s, JObj [(''status'', JStr ''PASS'')])) before_review)) = Inr ss \<and>
    governance_of ss (map (\<lambda>c. (c, ''PASS'')) ESTACK_COMPAT_CHECKS) = PENDING_REVIEW"
proof -
  define n where "n = clean_str 200 []"
  have "read_stage (JObj (map (\<lambda>s. (s, JObj [(''status'', JStr ''PASS'')])) before_review)) st =
      Inr \<lparr> sg_name = st, sg_status = (if st \<in> set before_review then ''PASS'' else ''NOT_RUN''), sg_note = n \<rparr>" for st
  proof -
    have "jget (JObj (map (\<lambda>s. (s, v)) xs)) st = (if st \<in> set xs then Some v else None)" for v xs
      by (induction xs) (auto simp: jget_def)
    then show ?thesis
      by (simp add: read_stage_def jget_or_def or_else_def req_dict_def strict_keys_def jitems_def advcrash_def jget_def req_enum_def
          STAGE_STATUS_def clean_text_def n_def ensure_def)
  qed
  then have m: "mapE (read_stage (JObj (map (\<lambda>s. (s, JObj [(''status'', JStr ''PASS'')])) before_review))) xs =
      Inr (map (\<lambda>st. \<lparr> sg_name = st, sg_status = (if st \<in> set before_review then ''PASS'' else ''NOT_RUN''), sg_note = n \<rparr>) xs)" for xs
    by (induction xs) simp_all
  have b: "before_review = take 10 ESTACK_WORKFLOW_STAGES" "set before_review \<subseteq> set ESTACK_WORKFLOW_STAGES" by code_simp+
  let ?ss = "map (\<lambda>st. \<lparr> sg_name = st, sg_status = (if st \<in> set before_review then ''PASS'' else ''NOT_RUN''), sg_note = n \<rparr>) ESTACK_WORKFLOW_STAGES"
  have c: "contiguous False ?ss" "sg_status (last ?ss) = ''NOT_RUN''" by (simp_all add: before_review_def ESTACK_WORKFLOW_STAGES_def)
  have "read_stages (JObj (map (\<lambda>s. (s, JObj [(''status'', JStr ''PASS'')])) before_review)) = Inr ?ss"
    unfolding read_stages_def using b(2) by (simp add: m c req_dict_def strict_keys_def jitems_def advcrash_def image_image ensure_def)
  moreover have "governance_of ?ss (map (\<lambda>c. (c, ''PASS'')) ESTACK_COMPAT_CHECKS) = PENDING_REVIEW"
    unfolding pending_iff docs_done_def list_all_iff set_filter by (intro conjI ballI) (auto split: if_splits)
  ultimately show ?thesis by blast
qed

lemma done_compat: "read_compat (JObj (map (\<lambda>c. (c, JStr ''PASS'')) ESTACK_COMPAT_CHECKS)) = Inr (map (\<lambda>c. (c, ''PASS'')) ESTACK_COMPAT_CHECKS)"
  by (simp add: read_compat_def ESTACK_COMPAT_CHECKS_def read_check_def json_reads strict_keys_def jitems_def req_enum_def COMPAT_STATUS_def)



end
