(* ===== verification/Params.thy ===== *)
theory Params
  imports Catalog
begin

section \<open>Typed bind parameters (human\_evidence/params.py)\<close>

text \<open>
  A certified query is rendered by replacing each bind by a literal of its declared type. The scanner
  separates literals and comments from binds; it is a loop over positions that need not end, so it is
  a partial function: \<open>None\<close> means that it does not return. The declared types are the decoded
  configuration, and \<open>str\<close> of a decoded value is the parameter \<open>pstr\<close>.
\<close>

definition tick :: char where "tick = CHR 0x27"

datatype chunk = Sql string | Lit string | Bind string

definition slice :: "'a list \<Rightarrow> nat \<Rightarrow> nat \<Rightarrow> 'a list" where
  "slice s i j = take (j - i) (drop i s)"

text \<open>\<open>s.find(t, i)\<close>: the position, or -1.\<close>

function find_from :: "string \<Rightarrow> string \<Rightarrow> nat \<Rightarrow> int" where
  "find_from t s i = (if i > length s then - 1 else if starts_with t (drop i s) then int i else find_from t s (Suc i))"
  by pat_completeness auto
termination by (relation "measure (\<lambda>(t, s, i). Suc (length s) - i)") auto

declare find_from.simps [simp del]

text \<open>The closing quote of a literal that opens before \<open>j\<close>; a doubled quote is part of the literal.\<close>

function close_quote :: "string \<Rightarrow> nat \<Rightarrow> nat" where
  "close_quote s j =
     (if j < length s then
        if s ! j = tick \<and> Suc j < length s \<and> s ! Suc j = tick then close_quote s (j + 2)
        else if s ! j = tick then j
        else close_quote s (Suc j)
      else j)"
  by pat_completeness auto
termination by (relation "measure (\<lambda>(s, j). length s - j)") auto

declare close_quote.simps [simp del]

text \<open>The end of a comment. A block comment that is not closed ends at position \<open>-1 + 2\<close>.\<close>

definition comment_end :: "string \<Rightarrow> nat \<Rightarrow> nat" where
  "comment_end s i =
     (let j = (if starts_with ''--'' (drop i s) then find_from [newline] s i else find_from ''*/'' s i + 2)
      in if j \<le> 0 then length s else nat j)"

definition name_start :: "char \<Rightarrow> bool" where "name_start c \<longleftrightarrow> is_letter c \<or> c = CHR ''_''"
definition name_char :: "char \<Rightarrow> bool" where "name_char c \<longleftrightarrow> is_alnum c \<or> c = CHR ''_''"

definition name_at :: "string \<Rightarrow> nat \<Rightarrow> string option" where
  "name_at s i = (case drop i s of [] \<Rightarrow> None | c # cs \<Rightarrow> if name_start c then Some (c # takeWhile name_char cs) else None)"

definition bind_colon :: "string \<Rightarrow> nat \<Rightarrow> bool" where
  "bind_colon s i \<longleftrightarrow> s ! i = CHR '':'' \<and> (i = 0 \<or> \<not> (is_pyalnum (s ! (i - 1)) \<or> s ! (i - 1) \<in> set ''_:''))"

partial_function (option) scan_from :: "string \<Rightarrow> nat \<Rightarrow> string \<Rightarrow> chunk list option" where
  "scan_from s i buf =
     (if i < length s then
        if s ! i = tick then
          Option.bind (scan_from s (Suc (close_quote s (Suc i))) [])
            (\<lambda>cs. Some (Sql buf # Lit (slice s i (Suc (close_quote s (Suc i)))) # cs))
        else if starts_with ''--'' (drop i s) \<or> starts_with ''/*'' (drop i s) then
          Option.bind (scan_from s (comment_end s i) []) (\<lambda>cs. Some (Sql buf # Lit (slice s i (comment_end s i)) # cs))
        else if bind_colon s i then
          (case name_at s (Suc i) of
             Some n \<Rightarrow> Option.bind (scan_from s (Suc i + length n) []) (\<lambda>cs. Some (Sql buf # Bind n # cs))
           | None \<Rightarrow> scan_from s (Suc i) (buf @ [s ! i]))
        else scan_from s (Suc i) (buf @ [s ! i])
      else Some [Sql buf])"

declare scan_from.simps [code]

definition scan :: "string \<Rightarrow> chunk list option" where "scan s = scan_from s 0 []"

definition bind_names :: "chunk list \<Rightarrow> string list" where
  "bind_names cs = List.map_filter (\<lambda>c. case c of Bind n \<Rightarrow> Some n | _ \<Rightarrow> None) cs"

text \<open>The names of the binds, in the order of their first use.\<close>

definition dedup :: "'a list \<Rightarrow> 'a list" where
  "dedup xs = foldl (\<lambda>out x. if x \<in> set out then out else out @ [x]) [] xs"

definition binds_of :: "string \<Rightarrow> string list option" where
  "binds_of sql = map_option (dedup \<circ> bind_names) (scan sql)"

subsection \<open>Literals\<close>

datatype param_error = ParameterError string | ParamCrash py_exc

definition pcrash :: "py_exc + 'a \<Rightarrow> param_error + 'a" where
  "pcrash m = (case m of Inl e \<Rightarrow> Inl (ParamCrash e) | Inr x \<Rightarrow> Inr x)"

definition param_digit :: rx where "param_digit = Cls is_digit"

definition INT_TEXT :: rx where "INT_TEXT = Rep 1 9 param_digit"
definition SQL_ID :: rx where "SQL_ID = Rep 13 0 (Cls (\<lambda>c. is_digit c \<or> is_lower c))"
definition ORACLE_NAME :: rx where
  "ORACLE_NAME = Seq (Cls is_upper) (Rep 0 127 (Cls (\<lambda>c. is_upper c \<or> is_digit c \<or> c \<in> set ''_$#'')))"
definition TS_TEXT :: rx where
  "TS_TEXT = seqs [Rep 4 0 param_digit, lit ''-'', Rep 2 0 param_digit, lit ''-'', Rep 2 0 param_digit, Cls (\<lambda>c. c \<in> set ''T ''),
     Rep 2 0 param_digit, lit '':'', Rep 2 0 param_digit, lit '':'', Rep 2 0 param_digit]"

definition t_to_space :: "string \<Rightarrow> string" where
  "t_to_space s = map (\<lambda>c. if c = CHR ''T'' then CHR '' '' else c) s"

text \<open>\<open>strptime\<close> on a text of the shape above: a date of the calendar, a time of the day, and nothing after it.\<close>

definition leap_year :: "nat \<Rightarrow> bool" where
  "leap_year y \<longleftrightarrow> y mod 4 = 0 \<and> (y mod 100 \<noteq> 0 \<or> y mod 400 = 0)"

definition days_in_month :: "nat \<Rightarrow> nat \<Rightarrow> nat" where
  "days_in_month y m = (if m = 2 then (if leap_year y then 29 else 28) else if m \<in> {4, 6, 9, 11} then 30 else 31)"

definition calendar_time :: "string \<Rightarrow> bool" where
  "calendar_time s =
     (let part = (\<lambda>i n. nat_of_digits (slice s i (i + n))); y = part 0 4; m = part 5 2; d = part 8 2 in
      length s = 19 \<and> 1 \<le> y \<and> 1 \<le> m \<and> m \<le> 12 \<and> 1 \<le> d \<and> d \<le> days_in_month y m \<and>
      part 11 2 \<le> 23 \<and> part 14 2 \<le> 59 \<and> part 17 2 \<le> 59)"

definition invalid_param :: "string \<Rightarrow> param_error + 'a" where
  "invalid_param name = Inl (ParameterError (''invalid value for parameter '' @ name))"

definition quoted :: "string \<Rightarrow> string" where "quoted v = tick # v @ [tick]"

text \<open>\<open><=\<close> between a bound of the configuration and an integer.\<close>

definition num_le :: "json \<Rightarrow> json \<Rightarrow> py_exc + bool" where
  "num_le a b = (case (num_of a, num_of b) of (Some x, Some y) \<Rightarrow> Inr (flt_le x y) | _ \<Rightarrow> Inl TypeError)"

definition in_range :: "json \<Rightarrow> nat \<Rightarrow> py_exc + bool" where
  "in_range spec n = bindE (jreq spec ''min'') (\<lambda>lo. bindE (num_le lo (JInt (int n))) (\<lambda>b.
     if b then bindE (jreq spec ''max'') (num_le (JInt (int n))) else Inr False))"

definition int_literal :: "string \<Rightarrow> json \<Rightarrow> json \<Rightarrow> param_error + string" where
  "int_literal name v spec = (case v of
      JStr s \<Rightarrow> if match_dollar INT_TEXT s then
          let n = nat_of_digits (rstrip s) in
          bindE (pcrash (in_range spec n)) (\<lambda>b. if b then Inr (digits_of n) else invalid_param name)
        else invalid_param name
    | _ \<Rightarrow> invalid_param name)"

definition time_literal :: "string \<Rightarrow> json \<Rightarrow> param_error + string" where
  "time_literal name v = (case v of
      JStr s \<Rightarrow> if match_dollar TS_TEXT s \<and> calendar_time (t_to_space s)
        then Inr (''TO_DATE('' @ quoted (t_to_space s) @ '', '' @ quoted ''YYYY-MM-DD HH24:MI:SS'' @ '')'')
        else invalid_param name
    | _ \<Rightarrow> invalid_param name)"

definition name_literal :: "rx \<Rightarrow> string \<Rightarrow> json \<Rightarrow> param_error + string" where
  "name_literal r name v = (case v of
      JStr s \<Rightarrow> if match_dollar r s then Inr (quoted s) else invalid_param name
    | _ \<Rightarrow> invalid_param name)"

definition literal_of :: "string \<Rightarrow> json \<Rightarrow> json \<Rightarrow> param_error + string" where
  "literal_of name v spec = bindE (pcrash (jreq spec ''type'')) (\<lambda>t.
     if t = JStr ''integer'' then int_literal name v spec
     else if t = JStr ''timestamp'' then time_literal name v
     else if t = JStr ''sql_id'' then name_literal SQL_ID name v
     else if t = JStr ''oracle_name'' then name_literal ORACLE_NAME name v
     else invalid_param name)"

subsection \<open>Rendering\<close>

definition describe :: "(json \<Rightarrow> string) \<Rightarrow> string \<Rightarrow> json \<Rightarrow> py_exc + string" where
  "describe pstr name spec = bindE (jreq spec ''type'') (\<lambda>t.
     if t = JStr ''integer'' then bindE (jreq spec ''min'') (\<lambda>lo. bindE (jreq spec ''max'') (\<lambda>hi.
       Inr (name @ '' (integer '' @ pstr lo @ ''..'' @ pstr hi @ '')'')))
     else case t of
       JStr s \<Rightarrow> (case dget [(''timestamp'', ''YYYY-MM-DDTHH:MM:SS''), (''sql_id'', ''13-char sql_id''), (''oracle_name'', ''UPPER_CASE Oracle name'')] s of
         Some d \<Rightarrow> Inr (name @ '' ('' @ d @ '')'') | None \<Rightarrow> Inl KeyError)
     | _ \<Rightarrow> Inl (if unhashable t then TypeError else KeyError))"

definition describe_missing :: "(json \<Rightarrow> string) \<Rightarrow> (string, json) dict \<Rightarrow> string \<Rightarrow> py_exc + string" where
  "describe_missing pstr types b = (case dget types b of
      Some spec \<Rightarrow> describe pstr b spec | None \<Rightarrow> Inr (b @ '' (not supported on this route)''))"

definition check_params :: "(json \<Rightarrow> string) \<Rightarrow> (string, json) dict \<Rightarrow> string list \<Rightarrow> (string, json) dict \<Rightarrow> param_error + unit" where
  "check_params pstr types needed params =
     (let unknown = filter (\<lambda>k. k \<notin> set needed) (remdups (dkeys params));
          missing = filter (\<lambda>b. b \<notin> set (dkeys params)) needed in
      if unknown \<noteq> [] then Inl (ParameterError (''this query does not take parameter(s): '' @ join_on '', '' (sort unknown)))
      else if missing \<noteq> [] then bindE (pcrash (mapE (describe_missing pstr types) missing)) (\<lambda>ds.
        Inl (ParameterError (''this query requires parameters: '' @ join_on ''; '' ds)))
      else case List.find (\<lambda>b. b \<notin> set (dkeys types)) needed of
        Some b \<Rightarrow> Inl (ParameterError (''parameter '' @ b @ '' is not supported on this route''))
      | None \<Rightarrow> Inr ())"

definition literal_entry :: "(string, json) dict \<Rightarrow> (string, json) dict \<Rightarrow> string \<Rightarrow> param_error + string \<times> string" where
  "literal_entry types params b = bindE (pcrash (jreq (JObj params) b)) (\<lambda>v. bindE (pcrash (jreq (JObj types) b)) (\<lambda>spec.
     bindE (literal_of b v spec) (\<lambda>l. Inr (b, l))))"

definition window_ordered :: "(string, json) dict \<Rightarrow> py_exc + bool" where
  "window_ordered params = (case (dget params ''window_start'', dget params ''window_end'') of
      (Some a, Some b) \<Rightarrow> bindE (as_str a) (\<lambda>x. bindE (as_str b) (\<lambda>y. Inr (t_to_space x < t_to_space y)))
    | _ \<Rightarrow> Inr True)"

definition render_chunk :: "(string \<times> string) list \<Rightarrow> chunk \<Rightarrow> string" where
  "render_chunk lits c = (case c of Sql t \<Rightarrow> t | Lit t \<Rightarrow> t | Bind n \<Rightarrow> or_else (dget lits n) [])"

definition render_chunks :: "(json \<Rightarrow> string) \<Rightarrow> (string, json) dict \<Rightarrow> chunk list \<Rightarrow> (string, json) dict \<Rightarrow> param_error + string" where
  "render_chunks pstr types cs params =
     (let needed = dedup (bind_names cs) in
      bindE (check_params pstr types needed params) (\<lambda>_.
      bindE (mapE (literal_entry types params) needed) (\<lambda>lits.
      bindE (pcrash (window_ordered params)) (\<lambda>b.
      if \<not> b then Inl (ParameterError ''window_start must be before window_end'')
      else let result = concat (map (render_chunk lits) cs) in
        bindE (pcrash (assert_read_only_sql result)) (\<lambda>_. Inr result)))))"

text \<open>\<open>render\<close> scans first; it returns whenever the scan does.\<close>

definition render_sql :: "(json \<Rightarrow> string) \<Rightarrow> (string, json) dict \<Rightarrow> string \<Rightarrow> (string, json) dict \<Rightarrow> (param_error + string) option" where
  "render_sql pstr types sql params = map_option (\<lambda>cs. render_chunks pstr types cs params) (scan sql)"

subsection \<open>The scanner returns\<close>

text \<open>Every block comment that the scanner may meet is closed.\<close>

definition closed_comments :: "string \<Rightarrow> bool" where
  "closed_comments s \<longleftrightarrow> (\<forall>i < length s. starts_with ''/*'' (drop i s) \<longrightarrow> contains ''*/'' (drop i s))"

definition chunk_text :: "chunk \<Rightarrow> string" where
  "chunk_text c = (case c of Sql t \<Rightarrow> t | Lit t \<Rightarrow> t | Bind n \<Rightarrow> CHR '':'' # n)"

lemma closed_comments_list: "closed_comments s \<longleftrightarrow>
    list_all (\<lambda>i. starts_with ''/*'' (drop i s) \<longrightarrow> contains ''*/'' (drop i s)) [0..<length s]"
  by (auto simp: closed_comments_def list_all_iff)

lemma slice_drop: "i \<le> j \<Longrightarrow> slice s i j @ drop j s = drop i s"
  by (simp add: slice_def) (metis append_take_drop_id drop_drop le_add_diff_inverse2)

lemma find_from_bounds: "find_from t s i = - 1 \<or> int i \<le> find_from t s i \<and> starts_with t (drop (nat (find_from t s i)) s)"
proof (induction t s i rule: find_from.induct)
  case (1 t s i)
  show ?case
  proof (cases "length s < i \<or> starts_with t (drop i s)")
    case True
    then show ?thesis by (subst (1 2 3) find_from.simps) auto
  next
    case False
    with 1 have "find_from t s (Suc i) = - 1 \<or> int (Suc i) \<le> find_from t s (Suc i) \<and> starts_with t (drop (nat (find_from t s (Suc i))) s)"
      by simp
    moreover have "find_from t s i = find_from t s (Suc i)" using False by (subst find_from.simps) simp
    ultimately show ?thesis by auto
  qed
qed

lemma find_from_found: "contains t (drop i s) \<Longrightarrow> t \<noteq> [] \<Longrightarrow> find_from t s i \<noteq> - 1"
proof (induction t s i rule: find_from.induct)
  case (1 t s i)
  then have i: "i < length s" by (cases "i < length s") auto
  then have d: "drop i s = s ! i # drop (Suc i) s" by (simp add: Cons_nth_drop_Suc)
  show ?case
  proof (cases "starts_with t (drop i s)")
    case True
    with i show ?thesis by (subst find_from.simps) simp
  next
    case False
    with 1(2) d have "contains t (drop (Suc i) s)" by simp
    with 1 False i have "find_from t s (Suc i) \<noteq> - 1" by simp
    with False i show ?thesis by (subst find_from.simps) simp
  qed
qed

lemma close_quote_after: "j \<le> close_quote s j"
proof (induction s j rule: close_quote.induct)
  case (1 s j)
  then show ?case by (subst close_quote.simps) (auto split: if_splits dest: Suc_leD)
qed

lemma comment_end_after:
  assumes "closed_comments s" and "i < length s" and "starts_with ''--'' (drop i s) \<or> starts_with ''/*'' (drop i s)"
  shows "i < comment_end s i"
proof (cases "starts_with ''--'' (drop i s)")
  case True
  have "find_from [newline] s i \<noteq> int i"
  proof
    assume "find_from [newline] s i = int i"
    with find_from_bounds [of "[newline]" s i] have "starts_with [newline] (drop i s)" by auto
    with True show False by (cases "drop i s") (auto simp: starts_with_def newline_def)
  qed
  with find_from_bounds [of "[newline]" s i] have "find_from [newline] s i = - 1 \<or> int i < find_from [newline] s i" by auto
  with True assms(2) show ?thesis by (auto simp: comment_end_def Let_def)
next
  case False
  with assms have "contains ''*/'' (drop i s)" by (auto simp: closed_comments_def)
  then have "find_from ''*/'' s i \<noteq> - 1" by (rule find_from_found) simp
  with find_from_bounds [of "''*/''" s i] have "int i \<le> find_from ''*/'' s i" by auto
  with False show ?thesis by (auto simp: comment_end_def Let_def)
qed

lemma name_at_drop: "name_at s i = Some n \<Longrightarrow> drop i s = n @ drop (i + length n) s"
proof -
  assume "name_at s i = Some n"
  then obtain c cs where d: "drop i s = c # cs" and n: "n = c # takeWhile name_char cs"
    by (auto simp: name_at_def split: list.splits if_splits)
  have "drop (length n) (drop i s) = dropWhile name_char cs" unfolding d n by (simp add: dropWhile_eq_drop)
  then have "drop (i + length n) s = dropWhile name_char cs" by (simp add: add.commute)
  then show ?thesis unfolding d n by simp
qed

lemma scan_from_returns:
  assumes "closed_comments s"
  shows "\<exists>cs. scan_from s i buf = Some cs \<and> concat (map chunk_text cs) = buf @ drop i s"
proof (induction "length s - i" arbitrary: i buf rule: less_induct)
  case less
  show ?case
  proof (cases "i < length s")
    case False
    then show ?thesis by (subst scan_from.simps) (simp add: chunk_text_def)
  next
    case True
    then have d: "drop i s = s ! i # drop (Suc i) s" by (simp add: Cons_nth_drop_Suc)
    have step: "\<exists>cs. scan_from s j b = Some cs \<and> concat (map chunk_text cs) = b @ drop j s" if "i < j" for j b
      using less [of j b] that True by simp
    let ?q = "Suc (close_quote s (Suc i))" and ?e = "comment_end s i"
    have q: "i < ?q" using close_quote_after [of "Suc i" s] by simp
    consider "s ! i = tick" | "s ! i \<noteq> tick" "starts_with ''--'' (drop i s) \<or> starts_with ''/*'' (drop i s)"
      | n where "s ! i \<noteq> tick" "\<not> (starts_with ''--'' (drop i s) \<or> starts_with ''/*'' (drop i s))" "bind_colon s i" "name_at s (Suc i) = Some n"
      | "s ! i \<noteq> tick" "\<not> (starts_with ''--'' (drop i s) \<or> starts_with ''/*'' (drop i s))" "\<not> bind_colon s i \<or> name_at s (Suc i) = None"
      by (cases "name_at s (Suc i)") auto
    then show ?thesis
    proof cases
      case 1
      with step [OF q, of "[]"] True slice_drop [of i ?q s] q show ?thesis
        by (subst scan_from.simps) (auto simp: chunk_text_def)
    next
      case 2
      with comment_end_after [OF assms True] have e: "i < ?e" by simp
      with step [OF e, of "[]"] True 2 slice_drop [of i ?e s] show ?thesis
        by (subst scan_from.simps) (auto simp: chunk_text_def)
    next
      case 3
      have "i < Suc i + length n" by simp
      from step [OF this, of "[]"] True 3 name_at_drop [OF 3(4)] d show ?thesis
        by (subst scan_from.simps) (auto simp: chunk_text_def bind_colon_def)
    next
      case 4
      from step [of "Suc i" "buf @ [s ! i]"] True 4 d show ?thesis
        by (subst scan_from.simps) auto
    qed
  qed
qed

text \<open>
  C22: the scanner of binds terminates and loses nothing. When every block comment of the text is
  closed the scan returns, and its pieces put together are the text: literals and comments untouched,
  a bind with its colon. So rendering, which scans twice, returns as well.
\<close>

theorem scan_terminates:
  assumes "closed_comments sql"
  shows "\<exists>cs. scan sql = Some cs \<and> concat (map chunk_text cs) = sql \<and>
    render_sql pstr types sql params = Some (render_chunks pstr types cs params)"
  using scan_from_returns [OF assms, of 0 "[]"] by (auto simp: scan_def render_sql_def)

theorem scan_terminates_witness:
  "\<exists>cs. scan ''SELECT a /* b */ FROM t WHERE x = :id'' = Some cs \<and> bind_names cs = [''id'']"
proof -
  have "closed_comments ''SELECT a /* b */ FROM t WHERE x = :id''" unfolding closed_comments_list by code_simp
  from scan_terminates [OF this] obtain cs where "scan ''SELECT a /* b */ FROM t WHERE x = :id'' = Some cs" by blast
  moreover have "map_option bind_names (scan ''SELECT a /* b */ FROM t WHERE x = :id'') = Some [''id'']" by code_simp
  ultimately show ?thesis by simp
qed

text \<open>It does not return on a block comment that is not closed, unless the comment is at the start.\<close>

lemma scan_hangs: "scan ''a/*'' = None"
proof -
  have "comment_end ''a/*'' 1 = 1" by code_simp
  then have "scan_from ''a/*'' 1 b = Option.bind (scan_from ''a/*'' 1 []) (\<lambda>cs. Some (Sql b # Lit [] # cs))" for b
    by (subst scan_from.simps) (simp add: tick_def starts_with_def slice_def)
  note eq = this
  have none: "scan_from ''a/*'' 1 [] = None"
  proof (cases "scan_from ''a/*'' 1 []")
    case (Some cs)
    with eq [of "[]"] have "cs = Sql [] # Lit [] # cs" by simp
    then have "length cs = length (Sql [] # Lit [] # cs)" by (rule arg_cong)
    then show ?thesis by simp
  qed
  moreover have "scan ''a/*'' = scan_from ''a/*'' 1 ''a''"
    unfolding scan_def by (subst scan_from.simps) (simp add: tick_def starts_with_def bind_colon_def)
  ultimately show ?thesis unfolding eq [of "''a''"] none by simp
qed

subsection \<open>What is rendered\<close>

text \<open>The characters inside a quoted literal: no quote, no semicolon, no comment sign but the hyphen.\<close>

definition literal_char :: "char \<Rightarrow> bool" where
  "literal_char c \<longleftrightarrow> is_alnum c \<or> c \<in> set ''_$#-: '' \<or> c = newline"

definition typed_literal :: "json \<Rightarrow> string \<Rightarrow> bool" where
  "typed_literal spec l \<longleftrightarrow>
     jget spec ''type'' = Some (JStr ''integer'') \<and> (\<exists>n. l = digits_of n \<and> in_range spec n = Inr True) \<or>
     (\<exists>v. list_all literal_char v \<and> (jget spec ''type'' \<in> {Some (JStr ''sql_id''), Some (JStr ''oracle_name'')} \<and> l = quoted v \<or>
        jget spec ''type'' = Some (JStr ''timestamp'') \<and> calendar_time v \<and>
        l = ''TO_DATE('' @ quoted v @ '', '' @ quoted ''YYYY-MM-DD HH24:MI:SS'' @ '')''))"

lemma pcrash_Inr [simp, result_simps]: "pcrash m = Inr x \<longleftrightarrow> m = Inr x"
  by (auto simp: pcrash_def split: sum.splits)

lemma literal_chars:
  assumes "match_dollar r s" and "only_chars (\<lambda>c. is_alnum c \<or> c \<in> set ''_$#-: '') r"
  shows "list_all literal_char s" "list_all literal_char (t_to_space s)"
  using match_dollar_chars [OF assms] by (auto simp: literal_char_def list_all_iff t_to_space_def)

lemma param_shapes: "only_chars (\<lambda>c. is_alnum c \<or> c \<in> set ''_$#-: '') SQL_ID" "only_chars (\<lambda>c. is_alnum c \<or> c \<in> set ''_$#-: '') ORACLE_NAME"
  "only_chars (\<lambda>c. is_alnum c \<or> c \<in> set ''_$#-: '') TS_TEXT"
  by (auto simp: SQL_ID_def ORACLE_NAME_def TS_TEXT_def param_digit_def is_alnum_def is_letter_def) (simp_all add: char_defs)

lemma literal_of_typed:
  assumes "literal_of name v spec = Inr l" shows "typed_literal spec l"
proof -
  from assms obtain t where t: "jget spec ''type'' = Some t" by (auto simp: literal_of_def bindE_Inr)
  with assms consider "t = JStr ''integer''" "int_literal name v spec = Inr l" | "t = JStr ''timestamp''" "time_literal name v = Inr l"
    | "t = JStr ''sql_id''" "name_literal SQL_ID name v = Inr l" | "t = JStr ''oracle_name''" "name_literal ORACLE_NAME name v = Inr l"
    by (auto simp: literal_of_def bindE_Inr invalid_param_def split: if_splits)
  then show ?thesis
  proof cases
    case 1
    then have "\<exists>n. l = digits_of n \<and> in_range spec n = Inr True"
      by (auto simp: int_literal_def Let_def bindE_Inr invalid_param_def split: json.splits if_splits)
    with 1 t show ?thesis by (simp add: typed_literal_def)
  next
    case 2
    then obtain s where "match_dollar TS_TEXT s" "calendar_time (t_to_space s)"
      "l = ''TO_DATE('' @ quoted (t_to_space s) @ '', '' @ quoted ''YYYY-MM-DD HH24:MI:SS'' @ '')''"
      by (auto simp: time_literal_def invalid_param_def split: json.splits if_splits)
    with 2(1) t literal_chars(2) [OF _ param_shapes(3)] show ?thesis unfolding typed_literal_def by blast
  next
    case 3
    then obtain s where "match_dollar SQL_ID s" "l = quoted s"
      by (auto simp: name_literal_def invalid_param_def split: json.splits if_splits)
    with 3(1) t literal_chars(1) [OF _ param_shapes(1)] show ?thesis unfolding typed_literal_def by blast
  next
    case 4
    then obtain s where "match_dollar ORACLE_NAME s" "l = quoted s"
      by (auto simp: name_literal_def invalid_param_def split: json.splits if_splits)
    with 4(1) t literal_chars(1) [OF _ param_shapes(2)] show ?thesis unfolding typed_literal_def by blast
  qed
qed

lemma set_dedup: "set (dedup xs) = set xs"
proof -
  have "set (foldl (\<lambda>out x. if x \<in> set out then out else out @ [x]) a xs) = set a \<union> set xs" for a
    by (induction xs arbitrary: a) auto
  then show ?thesis by (simp add: dedup_def)
qed



end
