(* ===== verification/Classify.thy ===== *)
theory Classify
  imports Rca_Sanitize
begin

section \<open>Classification of reported columns (human\_evidence/classify.py)\<close>

text \<open>
  The policy of a column of a reported table, from its name and its values, and the predicates that
  stop a single value whatever the policy is. The patterns that end in \<open>$\<close> accept one line end after
  the text; patterns that mix anchored and free alternatives are split into the two kinds.
\<close>

definition COLUMN_POLICIES :: "string list" where
  "COLUMN_POLICIES = [''KEEP'', ''MASK'', ''HASH'', ''TOKENIZE'', ''DROP'']"

text \<open>\<open>^w$\<close> and \<open>w$\<close> for a literal \<open>w\<close>.\<close>

definition whole :: "string \<Rightarrow> string \<Rightarrow> bool" where "whole w s \<longleftrightarrow> s = w \<or> s = w @ [newline]"
definition at_end :: "string \<Rightarrow> string \<Rightarrow> bool" where "at_end w s \<longleftrightarrow> ends_with w s \<or> ends_with (w @ [newline]) s"

definition has_word :: "string list \<Rightarrow> string \<Rightarrow> bool" where
  "has_word ws s \<longleftrightarrow> list_ex (\<lambda>w. contains w s) ws"

definition DROP_WORDS :: "string list" where
  "DROP_WORDS = [''passw'', ''passwd'', ''pwd'', ''secret'', ''token'', ''wallet'', ''credential'', ''private'', ''bind'', ''sql_text'',
     ''sql_fulltext'', ''verifier'']"

definition drop_name :: "string \<Rightarrow> bool" where
  "drop_name name \<longleftrightarrow> (let n = lower name in has_word DROP_WORDS n \<or> whole ''key'' n \<or> at_end ''_key'' n \<or> at_end ''_text'' n \<or>
     list_ex (\<lambda>w. whole w n) [''text'', ''source'', ''data'', ''payload'', ''message''] \<or>
     search (Seq (lit ''spare'') (Cls is_digit)) n)"

definition MASK_WORDS :: "string list" where
  "MASK_WORDS = [''owner'', ''schema'', ''user'', ''grantee'', ''grantor'', ''proxy'', ''client'', ''host'', ''machine'', ''terminal'',
     ''program'', ''module'', ''osuser'', ''instance_name'', ''db_name'', ''db_unique_name'', ''dbname'', ''service'', ''pdb_name'',
     ''con_name'', ''tablespace'', ''file_name'', ''filename'', ''path'', ''directory'', ''dest'', ''device_name'', ''diskgroup'',
     ''object_name'', ''segment_name'', ''table_name'', ''index_name'', ''job_name'', ''profile'', ''asm_instance'', ''cluster_name'',
     ''network_name'', ''ip_address'', ''address'', ''email'', ''mail'']"

definition mask_name :: "string \<Rightarrow> bool" where
  "mask_name name \<longleftrightarrow> (let n = lower name in has_word MASK_WORDS n \<or> at_end ''role'' n \<or> whole ''name'' n)"

definition KEEP_WORDS :: "string list" where
  "KEEP_WORDS = [''status'', ''state'', ''type'', ''mode'', ''class'', ''event'', ''stat_name'', ''statistic'', ''metric'', ''parameter'',
     ''name_space'']"

definition keep_name :: "string \<Rightarrow> bool" where
  "keep_name name \<longleftrightarrow> (let n = lower name in has_word KEEP_WORDS n \<or> whole ''name'' n)"

subsection \<open>Values\<close>

definition dig :: rx where "dig = Cls is_digit"
definition sign_rx :: rx where "sign_rx = opt (Cls (\<lambda>c. c \<in> set ''+-''))"

definition NUM :: rx where
  "NUM = seqs [sign_rx, Alt (Seq (plus1 dig) (opt (Seq (lit ''.'') (Star dig)))) (Seq (lit ''.'') (plus1 dig)),
     opt (seqs [Cls (\<lambda>c. c \<in> set ''eE''), sign_rx, plus1 dig])]"

definition ENUM :: rx where "ENUM = Rep 1 63 (Cls (\<lambda>c. is_alnum c \<or> c \<in> set ''_ .:()#$%+/-''))"

definition CONNECT :: rx where
  "CONNECT = seqs [plus1 nonspace_rx, lit ''/'', plus1 nonspace_rx, lit ''@'', plus1 nonspace_rx]"

definition slash :: "char \<Rightarrow> bool" where "slash c \<longleftrightarrow> c = CHR ''/'' \<or> c = CHR 0x5C"

definition path_like :: "string \<Rightarrow> bool" where
  "path_like v \<longleftrightarrow>
     match_prefix (seqs [Cls (\<lambda>c. slash c \<or> c = CHR ''+''), Star nonspace_rx, Cls slash]) v \<or>
     match_prefix (seqs [Cls is_letter, lit '':'', lit [CHR 0x5C]]) v \<or> contains [CHR 0x5C, CHR 0x5C] v"

definition IPLIKE :: rx where
  "IPLIKE = seqs [Bnd, Rep 1 2 dig, Rep 3 0 (Seq (lit ''.'') (Rep 1 2 dig)), Bnd]"

text \<open>The look-ahead: a letter before the first dot.\<close>

definition host_like :: "string \<Rightarrow> bool" where
  "host_like v \<longleftrightarrow> list_ex is_letter (takeWhile (\<lambda>c. c \<noteq> CHR ''.'') v) \<and>
     (let label = plus1 (Cls (\<lambda>c. is_alnum c \<or> c = CHR ''-'')) in
      match_dollar (seqs [label, Seq (lit ''.'') label, plus1 (Seq (lit ''.'') label)]) v)"

definition EMAIL :: rx where
  "EMAIL = (let part = plus1 (Cls (\<lambda>c. c \<noteq> CHR ''@'' \<and> \<not> is_space c)) in
     seqs [part, lit ''@'', part, lit ''.'', Rep 2 0 (Cls is_letter), Star (Cls is_letter)])"

definition IDENT_WORD :: rx where
  "IDENT_WORD = Seq (Rep 0 2 (lit ''_'')) (alts (map (\<lambda>f. seqs [Cls f, Rep 0 19 (Cls (\<lambda>c. f c \<or> is_digit c)),
     plus1 (Seq (lit ''_'') (Rep 1 19 (Cls (\<lambda>c. f c \<or> is_digit c))))]) [is_lower, is_upper]))"

definition MAX_TEXT :: nat where "MAX_TEXT = 128"

definition number_text :: "string \<Rightarrow> bool" where "number_text v \<longleftrightarrow> match_dollar NUM (strip v)"

definition identifier_word :: "string \<Rightarrow> bool" where
  "identifier_word w \<longleftrightarrow> match_dollar IDENT_WORD w \<and> length (filter is_pydigit w) * 4 \<le> length w"

text \<open>A path is judged component by component.\<close>

lemma split_shorter: "x \<in> set (split_on c w) \<Longrightarrow> length x \<le> length w \<and> (c \<in> set w \<longrightarrow> length x < length w)"
  by (induction w arbitrary: x) (fastforce split: if_splits list.splits)+

function bare_secret :: "string \<Rightarrow> bool" where
  "bare_secret w =
     (if w \<noteq> [] \<and> hd w \<in> set ''/+'' \<and> CHR ''/'' \<in> set (tl w)
      then list_ex bare_secret (filter (\<lambda>x. x \<noteq> []) (split_on (CHR ''/'') w))
      else looks_like_bare_secret w \<and> \<not> identifier_word w)"
  by pat_completeness auto
termination
  by (relation "measure length") (auto dest: split_shorter list.set_sel(2) simp del: split_on.simps)

declare bare_secret.simps [simp del]

definition value_is_sensitive :: "string \<Rightarrow> bool" where
  "value_is_sensitive v \<longleftrightarrow> v \<noteq> [] \<and>
     (structured_secret v \<or> search CONNECTION_STRING_CREDENTIALS v \<or> search CONNECT v \<or> search EMAIL v \<or>
      list_ex bare_secret (findall Longest BARE_TOKEN_WORD None v))"

definition value_is_identifying :: "string \<Rightarrow> bool" where
  "value_is_identifying v \<longleftrightarrow> path_like v \<or> search IPLIKE v \<or> host_like v"

subsection \<open>Columns\<close>

text \<open>\<open>classify_column\<close>: the policy and its reason, or \<open>ValueError\<close> for an unknown policy.\<close>

definition classify_column :: "string \<Rightarrow> string option list \<Rightarrow> string option \<Rightarrow> py_exc + string \<times> string" where
  "classify_column name vals override =
     (let given = (case override of Some p \<Rightarrow> if p = [] then None else Some p | None \<Rightarrow> None);
          present = filter (\<lambda>v. v \<noteq> []) (List.map_filter id vals) in
      if (case given of Some p \<Rightarrow> p \<notin> set COLUMN_POLICIES | None \<Rightarrow> False) then Inl ValueError
      else if drop_name name then Inr (''DROP'', ''name:sensitive'')
      else case given of
        Some p \<Rightarrow> Inr (p, ''override'')
      | None \<Rightarrow>
          if present \<noteq> [] \<and> list_all number_text present then Inr (''KEEP'', ''numeric'')
          else if mask_name name \<and> \<not> (lower name = ''name'' \<and> present \<noteq> [] \<and> list_all (\<lambda>v. match_dollar ENUM v \<and> v = lower v) present)
          then Inr (''MASK'', ''name:identity'')
          else if list_ex (\<lambda>v. MAX_TEXT < length v) present then Inr (''DROP'', ''long_text'')
          else if keep_name name \<or> list_all (match_dollar ENUM) present then Inr (''KEEP'', ''enum_like'')
          else Inr (''TOKENIZE'', ''unclassified_text''))"

end
