(* ===== verification/Ingest.thy ===== *)
theory Ingest
  imports Params Classify
begin

section \<open>Human-reported evidence (human\_evidence/cli.py)\<close>

text \<open>
  A request asks a person to run one certified query; the reported table is ingested field by field.
  Parameters of the model: the resolution of the certified query (\<open>sqlsource\<close>), the digest and the
  keyed digest of the scope, \<open>float\<close> and \<open>json.dumps\<close>, the clock and the random suffix. The table is
  what \<open>csv.reader\<close> returns. Files are written by the caller from the returned documents. A rendering
  that does not return makes the operation not return: \<open>None\<close>.
\<close>

datatype human_error = Refused string | HumanCrash py_exc

definition hcrash :: "py_exc + 'a \<Rightarrow> human_error + 'a" where
  "hcrash m = (case m of Inl e \<Rightarrow> Inl (HumanCrash e) | Inr x \<Rightarrow> Inr x)"

lemma hcrash_Inr [simp, result_simps]: "hcrash m = Inr x \<longleftrightarrow> m = Inr x"
  by (auto simp: hcrash_def split: sum.splits)

definition demand :: "bool \<Rightarrow> string \<Rightarrow> human_error + unit" where
  "demand b msg = (if b then Inr () else Inl (Refused msg))"

lemma demand_Inr [simp, result_simps]: "demand b msg = Inr u \<longleftrightarrow> b"
  by (simp add: demand_def)

definition MAX_REPORTED_ROWS :: int where "MAX_REPORTED_ROWS = 5000"

definition REQ_ID :: rx where
  "REQ_ID = seqs [lit ''ER-'', Rep 8 0 dig, lit ''-'', Rep 6 0 dig, lit ''-'', Rep 6 0 (Cls (\<lambda>c. is_digit c \<or> btw 97 102 c))]"
definition ALIAS_SHAPE :: rx where
  "ALIAS_SHAPE = Seq (Cls is_lower) (Rep 2 38 (Cls (\<lambda>c. is_lower c \<or> is_digit c \<or> c = CHR ''-'')))"
definition SCOPE_SHAPE :: rx where
  "SCOPE_SHAPE = seqs [alts (map lit [''ANA'', ''INC'', ''SES'']), lit ''-'', Rep 3 37 (Cls (\<lambda>c. is_alnum c \<or> c = CHR ''-''))]"
definition REPORTER_SHAPE :: rx where "REPORTER_SHAPE = Rep 2 62 (Cls (\<lambda>c. is_alnum c \<or> c \<in> set ''._-''))"

definition FAMILY_TO_VERSION :: "(string, string) dict" where
  "FAMILY_TO_VERSION = [(''10g'', ''10.2''), (''11g'', ''11.2''), (''12c'', ''12.2''), (''18c'', ''18.0''), (''19c'', ''19.0''),
     (''21c'', ''21.0''), (''23ai'', ''23.0'')]"

record certified =
  ce_sql :: string
  ce_variant :: string
  ce_sha :: string
  ce_max_rows :: int

record evidence_request =
  er_id :: string
  er_created :: string
  er_scope :: string
  er_target :: string
  er_family :: string
  er_query :: string
  er_variant :: string
  er_sql_sha :: string
  er_max_rows :: int
  er_params :: "(string, json) dict"
  er_license :: "(string list \<times> string) option"
  er_rendered_sha :: string

record human_env =
  hu_types :: "(string, json) dict"
  hu_str :: "json \<Rightarrow> string"
  hu_pylist :: "string list \<Rightarrow> string"
  hu_sha :: "string \<Rightarrow> string"
  hu_query :: "string \<Rightarrow> string option"
  hu_resolve :: "string \<Rightarrow> string \<Rightarrow> certified option"
  hu_mac :: "string \<Rightarrow> string \<Rightarrow> string"
  hu_float :: "string \<Rightarrow> pyfloat"
  hu_dumps :: "json list \<Rightarrow> string"

subsection \<open>Requests\<close>

text \<open>\<open>str\<close> of a value of the front matter.\<close>

definition fm_str :: "human_env \<Rightarrow> fm_val \<Rightarrow> string" where
  "fm_str E v = (case v of FStr s \<Rightarrow> s | FList xs \<Rightarrow> hu_pylist E xs)"

definition no_license :: "string \<Rightarrow> bool" where
  "no_license lic \<longleftrightarrow> strip_chars (\<lambda>c. c = CHR ''['' \<or> c = CHR '']'' \<or> c = CHR 0x22 \<or> c = CHR 0x27 \<or> c = CHR '' '') (lower lic)
     \<in> set [''none'', ''n/a'', []]"

text \<open>A licensed query needs every required key confirmed, by a named reviewer.\<close>

definition confirm_license :: "string \<Rightarrow> string list \<Rightarrow> string \<Rightarrow> human_error + (string list \<times> string) option" where
  "confirm_license lic confirmed by =
     (if no_license lic then Inr None
      else let needed = sort (license_keys lic) in
        bindE (demand (set needed \<subseteq> set confirmed \<and> match_dollar REPORTER_SHAPE by)
            (''this query requires a confirmed Oracle license ('' @ join_on '', '' needed @ '') for the target: pass '' @
             join_on '' '' (map (\<lambda>k. ''--license-confirmed '' @ k) needed) @ '' --confirmed-by <reviewer id>'')) (\<lambda>_.
          Inr (Some (needed, by))))"

definition query_license :: "human_env \<Rightarrow> string \<Rightarrow> human_error + string" where
  "query_license E query = (case find_query_file (hu_query E) query of
      None \<Rightarrow> Inl (Refused ''unknown certified query'')
    | Some text \<Rightarrow> let fm = parse_front_matter text; field = (\<lambda>k d. strip (fm_str E (dget_or fm k (FStr d)))) in
        bindE (demand (field ''status'' [] = ''active'' \<and> field ''execution_mode'' [] = ''READ_ONLY'')
            ''query is not an active READ_ONLY certified query'') (\<lambda>_. Inr (field ''license_requirements'' ''none'')))"

text \<open>The rendering, with its errors reported as refusals.\<close>

definition rendered_or :: "(param_error \<Rightarrow> string) \<Rightarrow> param_error + string \<Rightarrow> human_error + string" where
  "rendered_or msg m = (case m of
      Inr s \<Rightarrow> Inr s
    | Inl (ParamCrash e) \<Rightarrow> if e = RuntimeError then Inl (Refused (msg (ParamCrash e))) else Inl (HumanCrash e)
    | Inl e \<Rightarrow> Inl (Refused (msg e)))"

definition request_message :: "param_error \<Rightarrow> string" where
  "request_message e = (case e of ParameterError s \<Rightarrow> s | _ \<Rightarrow> ''rendered SQL refused by the read-only guard'')"

definition check_request :: "human_env \<Rightarrow> string \<Rightarrow> string \<Rightarrow> string \<Rightarrow> string \<Rightarrow> string list \<Rightarrow> string
    \<Rightarrow> human_error + string \<times> (string list \<times> string) option \<times> certified" where
  "check_request E query target version scope confirmed by =
     bindE (demand (match_dollar ALIAS_SHAPE target \<and> match_dollar SCOPE_SHAPE scope) ''invalid target alias or scope'') (\<lambda>_.
     bindE (case family_of (JStr version) of Some f \<Rightarrow> if f \<in> set (dkeys FAMILY_TO_VERSION) then Inr f
         else Inl (Refused ''oracle_version must be a family such as 19c'')
       | None \<Rightarrow> Inl (Refused ''oracle_version must be a family such as 19c'')) (\<lambda>fam.
     bindE (query_license E query) (\<lambda>lic.
     bindE (confirm_license lic confirmed by) (\<lambda>conf.
     case hu_resolve E query (dget_or FAMILY_TO_VERSION fam []) of
       None \<Rightarrow> Inl (Refused ''no certified read-only variant for this query and version'')
     | Some c \<Rightarrow> Inr (fam, conf, c)))))"

definition request_of :: "human_env \<Rightarrow> string \<Rightarrow> string \<Rightarrow> string \<Rightarrow> string \<Rightarrow> (string, json) dict \<Rightarrow> string \<Rightarrow> string
    \<Rightarrow> (string list \<times> string) option \<Rightarrow> certified \<Rightarrow> string \<Rightarrow> evidence_request" where
  "request_of E rid created query target params scope fam conf c rendered =
     \<lparr> er_id = rid, er_created = created, er_scope = scope, er_target = target, er_family = fam, er_query = query,
       er_variant = ce_variant c, er_sql_sha = ce_sha c, er_max_rows = min (ce_max_rows c) MAX_REPORTED_ROWS, er_params = params,
       er_license = conf, er_rendered_sha = hu_sha E rendered \<rparr>"

definition make_request :: "human_env \<Rightarrow> string \<Rightarrow> string \<Rightarrow> string \<Rightarrow> string \<Rightarrow> string \<Rightarrow> string \<Rightarrow> (string, json) dict \<Rightarrow> string list
    \<Rightarrow> string \<Rightarrow> (human_error + evidence_request) option" where
  "make_request E rid created query target version scope params confirmed by =
     (case check_request E query target version scope confirmed by of
        Inl e \<Rightarrow> Some (Inl e)
      | Inr (fam, conf, c) \<Rightarrow> map_option (\<lambda>m. bindE (rendered_or request_message m) (\<lambda>rendered.
          Inr (request_of E rid created query target params scope fam conf c rendered)))
          (render_sql (hu_str E) (hu_types E) (ce_sql c) params))"

subsection \<open>The request is still the one that was issued\<close>

definition recheck_request :: "human_env \<Rightarrow> string \<Rightarrow> string \<Rightarrow> evidence_request option \<Rightarrow> (human_error + evidence_request) option" where
  "recheck_request E rid reporter found =
     (if \<not> (match_dollar REQ_ID rid \<and> match_dollar REPORTER_SHAPE reporter) then Some (Inl (Refused ''invalid request id or reporter id''))
      else case found of
        None \<Rightarrow> Some (Inl (Refused ''unknown request''))
      | Some q \<Rightarrow> (case dget FAMILY_TO_VERSION (er_family q) of
          None \<Rightarrow> Some (Inl (HumanCrash KeyError))
        | Some v \<Rightarrow> (case hu_resolve E (er_query q) v of
            None \<Rightarrow> Some (Inl (Refused ''the certified query can no longer be resolved''))
          | Some c \<Rightarrow>
              if ce_sha c \<noteq> er_sql_sha q then Some (Inl (Refused ''certified SQL changed since the request: issue a new request''))
              else map_option (\<lambda>m.
                bindE (rendered_or (\<lambda>_. ''the request parameters are no longer valid: issue a new request'') m) (\<lambda>rendered.
                bindE (demand (er_rendered_sha q = [] \<or> hu_sha E rendered = er_rendered_sha q)
                  ''the SQL the DBA ran is not the one this request rendered: issue a new request'') (\<lambda>_. Inr q)))
                (render_sql (hu_str E) (hu_types E) (ce_sql c) (er_params q)))))"

subsection \<open>The table\<close>

definition HEADER_SHAPE :: rx where
  "HEADER_SHAPE = Rep 1 63 (Cls (\<lambda>c. is_lower c \<or> is_digit c \<or> c \<in> set ''_#$''))"

definition read_table :: "int \<Rightarrow> string list list \<Rightarrow> human_error + string list \<times> string list list \<times> string list" where
  "read_table max_rows table = (case filter (list_ex (\<lambda>c. strip c \<noteq> [])) table of
      [] \<Rightarrow> Inl (Refused ''empty CSV (no header)'')
    | h # body \<Rightarrow>
        let header = map (\<lambda>x. lower (strip x)) h; over = max_rows < int (length body);
            kept = (if over then take (nat max_rows) body else body) in
        bindE (demand (distinct header \<and> list_all (match_dollar HEADER_SHAPE) header) ''unexpected CSV header'') (\<lambda>_.
        bindE (demand (list_all (\<lambda>r. length r = length header) kept) ''ragged CSV rows'') (\<lambda>_.
          Inr (header, kept, if over then [''ROWS_TRUNCATED_TO_LIMIT''] else []))))"

record column =
  cl_name :: string
  cl_policy :: string
  cl_reason :: string
  cl_prefix :: json
  cl_enum :: json
  cl_shape :: json

definition plain_column :: "string \<Rightarrow> string \<Rightarrow> string \<Rightarrow> column" where
  "plain_column n p r = \<lparr> cl_name = n, cl_policy = p, cl_reason = r, cl_prefix = JNull, cl_enum = JNull, cl_shape = JNull \<rparr>"

text \<open>A column of a query that has a collector: its field is authoritative. A column without one is dropped.\<close>

definition spec_column :: "(string, json) dict \<Rightarrow> string \<Rightarrow> string option list \<Rightarrow> human_error + column" where
  "spec_column spec name vals = (case dget spec name of
      None \<Rightarrow> Inr (plain_column name ''DROP'' ''not_in_collector_spec'')
    | Some f \<Rightarrow> bindE (hcrash (bindE (jreq f ''policy'') as_str)) (\<lambda>given.
        bindE (hcrash (classify_column name vals (Some given))) (\<lambda>(p, _).
          Inr \<lparr> cl_name = name, cl_policy = p, cl_reason = (if p = given then ''collector_spec'' else ''name:sensitive''),
            cl_prefix = jget_or f ''alias_prefix'' JNull,
            cl_enum = (if jget f ''type'' = Some (JStr ''enum'') then jget_or f ''values'' JNull else JNull),
            cl_shape = jget_or f ''type'' JNull \<rparr>)))"

definition free_column :: "(string, string) dict \<Rightarrow> string \<Rightarrow> string option list \<Rightarrow> human_error + column" where
  "free_column overrides name vals =
     bindE (hcrash (classify_column name vals (dget overrides name))) (\<lambda>(p, r). Inr (plain_column name p r))"

definition column_values :: "string list list \<Rightarrow> nat \<Rightarrow> string option list" where
  "column_values body i = map (\<lambda>r. if r ! i = [] then None else Some (r ! i)) body"

definition make_columns :: "(string, json) dict option \<Rightarrow> (string, string) dict \<Rightarrow> string list \<Rightarrow> string list list \<Rightarrow> human_error + column list" where
  "make_columns spec overrides header body = mapE (\<lambda>(i, name). case spec of
      Some s \<Rightarrow> spec_column s name (column_values body i)
    | None \<Rightarrow> free_column overrides name (column_values body i)) (zip [0..<length header] header)"

subsection \<open>The values\<close>

definition SPEC_SHAPE :: "(string, string \<Rightarrow> bool) dict" where
  "SPEC_SHAPE = (let int_text = match_dollar (Seq sign_rx (Rep 1 14 dig)) in
     [(''integer'', int_text), (''integer_or_unlimited'', \<lambda>v. int_text v \<or> v = ''UNLIMITED''), (''number'', number_text),
      (''parameter_name'', match_dollar (seqs [Rep 0 2 (lit ''_''), Cls is_lower, Rep 0 79 (Cls (\<lambda>c. is_lower c \<or> is_digit c \<or> c = CHR ''_''))])),
      (''version_string'', match_dollar (Seq (Rep 1 1 dig) (Rep 1 4 (Seq (lit ''.'') (Rep 1 2 dig)))))])"

definition shape_of :: "column \<Rightarrow> (string \<Rightarrow> bool) option" where
  "shape_of c = (case cl_shape c of JStr s \<Rightarrow> dget SPEC_SHAPE s | _ \<Rightarrow> None)"

definition alias_of :: "(string \<Rightarrow> string) \<Rightarrow> string \<Rightarrow> string \<Rightarrow> string \<Rightarrow> string" where
  "alias_of mac col v prefix = prefix @ ''-'' @ take 10 (mac (lower col @ [CHR 0x00] @ v))"

definition prefix_of :: "string \<Rightarrow> string" where
  "prefix_of col = (let c = take 3 (filter is_lower (lower col)) in if length c = 3 then c else ''val'')"

definition column_prefix :: "column \<Rightarrow> human_error + string" where
  "column_prefix c = (if \<not> truthy (cl_prefix c) then Inr (prefix_of (cl_name c)) else hcrash (as_str (cl_prefix c)))"

text \<open>\<open>raw in col["enum"]\<close>.\<close>

definition in_enum :: "string \<Rightarrow> json \<Rightarrow> py_exc + bool" where
  "in_enum raw e = (case e of JArr xs \<Rightarrow> Inr (JStr raw \<in> set xs) | JObj kvs \<Rightarrow> Inr (raw \<in> set (dkeys kvs))
     | JStr s \<Rightarrow> Inr (contains raw s) | _ \<Rightarrow> Inl TypeError)"

definition number_value :: "(string \<Rightarrow> pyfloat) \<Rightarrow> string \<Rightarrow> py_exc + json" where
  "number_value flt raw = (if match_dollar (Seq sign_rx (plus1 dig)) raw then bindE (int_of_text raw) (\<lambda>i. Inr (JInt i))
     else Inr (JFloat (flt raw)))"

record cell_state =
  cs_row :: "(string \<times> json) list"
  cs_tokens :: "(string, string) dict"
  cs_dropped :: nat

definition put_value :: "column \<Rightarrow> json \<Rightarrow> cell_state \<Rightarrow> cell_state" where
  "put_value c v s = s\<lparr>cs_row := dset (cl_name c) v (cs_row s)\<rparr>"

definition drop_value :: "cell_state \<Rightarrow> cell_state" where
  "drop_value s = s\<lparr>cs_dropped := Suc (cs_dropped s)\<rparr>"

text \<open>The policy that applies to one value: an identifying text is masked in a kept column.\<close>

definition value_policy :: "column \<Rightarrow> string \<Rightarrow> string" where
  "value_policy c raw = (if cl_policy c = ''KEEP'' \<and> \<not> (truthy (cl_enum c) \<or> shape_of c \<noteq> None) \<and> \<not> number_text raw \<and> value_is_identifying raw
     then ''MASK'' else cl_policy c)"

definition apply_policy :: "(string \<Rightarrow> string) \<Rightarrow> (string \<Rightarrow> pyfloat) \<Rightarrow> column \<Rightarrow> string \<Rightarrow> cell_state \<Rightarrow> human_error + cell_state" where
  "apply_policy mac flt c raw s = (let p = value_policy c raw in
     if p = ''KEEP'' then bindE (if number_text raw then hcrash (number_value flt raw) else Inr (JStr raw)) (\<lambda>v. Inr (put_value c v s))
     else if p = ''MASK'' then bindE (column_prefix c) (\<lambda>pre. Inr (put_value c (JStr (alias_of mac (cl_name c) raw pre)) s))
     else if p = ''HASH'' then Inr (put_value c (JStr (alias_of mac (cl_name c) raw ''h'')) s)
     else if p = ''TOKENIZE'' \<and> number_text raw then bindE (hcrash (number_value flt raw)) (\<lambda>v. Inr (put_value c v s))
     else if p = ''TOKENIZE'' then
       (let t = alias_of mac (cl_name c) raw ''tok'' in Inr ((put_value c (JStr t) s)\<lparr>cs_tokens := dset t raw (cs_tokens s)\<rparr>))
     else Inr s)"

definition clean_cell :: "(string \<Rightarrow> string) \<Rightarrow> (string \<Rightarrow> pyfloat) \<Rightarrow> cell_state \<Rightarrow> column \<times> string \<Rightarrow> human_error + cell_state" where
  "clean_cell mac flt s cr = (case cr of (c, raw) \<Rightarrow>
     if raw = [] \<or> cl_policy c = ''DROP'' then Inr s
     else if value_is_sensitive raw then Inr (drop_value s)
     else bindE (if truthy (cl_enum c) then hcrash (in_enum raw (cl_enum c)) else Inr True) (\<lambda>listed.
       if \<not> listed then Inr (drop_value s)
       else if (case shape_of c of Some f \<Rightarrow> \<not> f raw | None \<Rightarrow> False) then Inr (drop_value s)
       else apply_policy mac flt c raw s))"

definition clean_row :: "(string \<Rightarrow> string) \<Rightarrow> (string \<Rightarrow> pyfloat) \<Rightarrow> column list \<Rightarrow> json list \<times> cell_state \<Rightarrow> string list
    \<Rightarrow> human_error + json list \<times> cell_state" where
  "clean_row mac flt cols acc r = (case acc of (rows, s) \<Rightarrow>
     bindE (foldE (clean_cell mac flt) (s\<lparr>cs_row := []\<rparr>) (zip cols r)) (\<lambda>s1. Inr (rows @ [JObj (cs_row s1)], s1)))"

definition clean_rows :: "(string \<Rightarrow> string) \<Rightarrow> (string \<Rightarrow> pyfloat) \<Rightarrow> column list \<Rightarrow> string list list \<Rightarrow> human_error + json list \<times> cell_state" where
  "clean_rows mac flt cols body =
     foldE (clean_row mac flt cols) ([], \<lparr> cs_row = [], cs_tokens = [], cs_dropped = 0 \<rparr>) body"

subsection \<open>Ingestion\<close>

record reported =
  rp_columns :: "column list"
  rp_rows :: "json list"
  rp_limitations :: "string list"
  rp_tokens :: "(string, string) dict"

definition rename_header :: "(string, json) dict option \<Rightarrow> (string, string) dict \<Rightarrow> string list \<Rightarrow> human_error + string list" where
  "rename_header spec aliases header = (case spec of
      None \<Rightarrow> Inr header
    | Some _ \<Rightarrow> let h = map (\<lambda>x. dget_or aliases x x) header in
        bindE (demand (distinct h) ''unexpected CSV header'') (\<lambda>_. Inr h))"

definition drop_notes :: "column list \<Rightarrow> nat \<Rightarrow> string list" where
  "drop_notes cols dropped = (if dropped \<noteq> 0 then [''SENSITIVE_VALUES_DROPPED:'' @ digits_of dropped] else []) @
     (let names = map cl_name (filter (\<lambda>c. cl_policy c = ''DROP'') cols) in
      if names \<noteq> [] then [''COLUMNS_DROPPED:'' @ join_on '','' names] else [])"

definition ingest_table :: "human_env \<Rightarrow> evidence_request \<Rightarrow> (string, json) dict option \<Rightarrow> (string, string) dict \<Rightarrow> (string, string) dict
    \<Rightarrow> string list list \<Rightarrow> human_error + reported" where
  "ingest_table E q spec overrides aliases table =
     bindE (read_table (er_max_rows q) table) (\<lambda>(header0, body, notes).
     bindE (rename_header spec aliases header0) (\<lambda>header.
     bindE (make_columns spec overrides header body) (\<lambda>cols.
     bindE (clean_rows (hu_mac E (er_scope q)) (hu_float E) cols body) (\<lambda>(rows, s).
     bindE (demand (\<not> value_is_sensitive (hu_dumps E rows)) ''sanitized output still contains a secret-shaped value'') (\<lambda>_.
       Inr \<lparr> rp_columns = cols, rp_rows = rows, rp_limitations = notes @ drop_notes cols (cs_dropped s), rp_tokens = cs_tokens s \<rparr>)))))"

definition column_json :: "column \<Rightarrow> json" where
  "column_json c = JObj [(''name'', JStr (cl_name c)), (''policy'', JStr (cl_policy c)), (''reason'', JStr (cl_reason c))]"

definition evidence_doc :: "string \<Rightarrow> evidence_request \<Rightarrow> string \<Rightarrow> string \<Rightarrow> reported \<Rightarrow> json" where
  "evidence_doc rid q reporter reported_at r = JObj
     [(''schema_version'', JStr ''1.0.0''), (''evidence_id'', JStr (''EVD-HR-'' @ drop 3 rid)),
      (''provenance'', JObj [(''kind'', JStr ''HUMAN_REPORTED''), (''real_observation'', JBool True), (''observed_by_estack'', JBool False),
        (''reporter_id'', JStr reporter), (''reported_at_utc'', JStr reported_at), (''request_id'', JStr rid),
        (''scope'', JStr (er_scope q)), (''target_alias'', JStr (er_target q)), (''oracle_version'', JStr (er_family q)),
        (''query_id'', JStr (er_query q)), (''variant_id'', JStr (er_variant q)), (''sql_sha256'', JStr (er_sql_sha q)),
        (''license_confirmation'', case er_license q of None \<Rightarrow> JNull
           | Some (keys, by) \<Rightarrow> JObj [(''keys'', JArr (map JStr keys)), (''confirmed_by'', JStr by)])]),
      (''validation_level'', JStr ''HUMAN_REPORTED''), (''confidence_ceiling'', JStr ''PROBABLE_CAUSE''),
      (''columns'', JArr (map column_json (rp_columns r))), (''rows'', JArr (rp_rows r)),
      (''row_count'', JInt (int (length (rp_rows r)))), (''limitations'', JArr (map JStr (rp_limitations r)))]"

definition ingest :: "human_env \<Rightarrow> string \<Rightarrow> string \<Rightarrow> string \<Rightarrow> evidence_request option \<Rightarrow> string list list option
    \<Rightarrow> (string, json) dict option \<Rightarrow> (string, string) dict \<Rightarrow> (string, string) dict \<Rightarrow> (human_error + json \<times> (string, string) dict) option" where
  "ingest E rid reporter reported_at found table spec overrides aliases =
     map_option (\<lambda>m. bindE m (\<lambda>q.
       case table of None \<Rightarrow> Inl (Refused ''CSV missing or too large'')
       | Some t \<Rightarrow> bindE (ingest_table E q spec (if spec = None then overrides else []) aliases t) (\<lambda>r.
           Inr (evidence_doc rid q reporter reported_at r, rp_tokens r)))) (recheck_request E rid reporter found)"

end
