(* ===== verification/Ingest_Safety.thy ===== *)
theory Ingest_Safety
  imports Ingest
begin

section \<open>What is ingested and what a request was checked for\<close>

subsection \<open>Values\<close>

text \<open>A value of a row, from the reported text of its column.\<close>

definition released :: "(string \<Rightarrow> string) \<Rightarrow> (string \<Rightarrow> pyfloat) \<Rightarrow> column \<Rightarrow> string \<Rightarrow> json \<Rightarrow> bool" where
  "released mac flt c raw v \<longleftrightarrow> cl_policy c \<noteq> ''DROP'' \<and> \<not> value_is_sensitive raw \<and>
     (number_text raw \<and> number_value flt raw = Inr v \<and> cl_policy c \<in> {''KEEP'', ''TOKENIZE''} \<or>
      (\<exists>prefix. v = JStr (alias_of mac (cl_name c) raw prefix)) \<or>
      v = JStr raw \<and> cl_policy c = ''KEEP'' \<and>
        (value_is_identifying raw \<longrightarrow> truthy (cl_enum c) \<and> in_enum raw (cl_enum c) = Inr True \<or> (\<exists>f. shape_of c = Some f \<and> f raw)))"

lemma apply_policy_released:
  assumes "apply_policy mac flt c raw s = Inr t" and "cl_policy c \<noteq> ''DROP''" and "\<not> value_is_sensitive raw"
    and "truthy (cl_enum c) \<longrightarrow> in_enum raw (cl_enum c) = Inr True" and "\<forall>f. shape_of c = Some f \<longrightarrow> f raw"
  shows "cs_row t = cs_row s \<or> (\<exists>v. cs_row t = dset (cl_name c) v (cs_row s) \<and> released mac flt c raw v)"
proof -
  consider (keep) "value_policy c raw = ''KEEP''" | (mask) "value_policy c raw = ''MASK''" | (hash) "value_policy c raw = ''HASH''"
    | (token) "value_policy c raw = ''TOKENIZE''" | (other) "value_policy c raw \<notin> {''KEEP'', ''MASK'', ''HASH'', ''TOKENIZE''}" by blast
  then show ?thesis
  proof cases
    case keep
    then have k: "cl_policy c = ''KEEP''" "truthy (cl_enum c) \<or> shape_of c \<noteq> None \<or> number_text raw \<or> \<not> value_is_identifying raw"
      unfolding value_policy_def by (auto split: if_splits)
    from keep assms(1) obtain v where t: "cs_row t = dset (cl_name c) v (cs_row s)"
      and v: "if number_text raw then number_value flt raw = Inr v else v = JStr raw"
      unfolding apply_policy_def Let_def by (auto simp: bindE_Inr put_value_def split: if_splits)
    have "released mac flt c raw v"
    proof (cases "number_text raw")
      case True
      with v k(1) assms(2,3) show ?thesis by (simp add: released_def)
    next
      case False
      with v k assms(2-5) show ?thesis by (auto simp: released_def)
    qed
    with t show ?thesis by blast
  next
    case mask
    with assms(1) obtain pre where "cs_row t = dset (cl_name c) (JStr (alias_of mac (cl_name c) raw pre)) (cs_row s)"
      unfolding apply_policy_def Let_def by (auto simp: bindE_Inr put_value_def)
    with assms(2,3) show ?thesis unfolding released_def by blast
  next
    case hash
    with assms(1) have "cs_row t = dset (cl_name c) (JStr (alias_of mac (cl_name c) raw ''h'')) (cs_row s)"
      unfolding apply_policy_def Let_def by (auto simp: put_value_def)
    with assms(2,3) show ?thesis unfolding released_def by blast
  next
    case token
    then have p: "cl_policy c = ''TOKENIZE''" unfolding value_policy_def by (auto split: if_splits)
    show ?thesis
    proof (cases "number_text raw")
      case True
      with token assms(1) obtain v where "cs_row t = dset (cl_name c) v (cs_row s)" "number_value flt raw = Inr v"
        unfolding apply_policy_def Let_def by (auto simp: bindE_Inr put_value_def)
      with True p assms(2,3) show ?thesis unfolding released_def by blast
    next
      case False
      with token assms(1) have "cs_row t = dset (cl_name c) (JStr (alias_of mac (cl_name c) raw ''tok'')) (cs_row s)"
        unfolding apply_policy_def Let_def by (auto simp: put_value_def)
      with assms(2,3) show ?thesis unfolding released_def by blast
    qed
  next
    case other
    with assms(1) show ?thesis unfolding apply_policy_def Let_def by simp
  qed
qed

lemma clean_cell_released:
  assumes "clean_cell mac flt s (c, raw) = Inr t"
  shows "cs_row t = cs_row s \<or> (\<exists>v. cs_row t = dset (cl_name c) v (cs_row s) \<and> released mac flt c raw v)"
proof (cases "raw = [] \<or> cl_policy c = ''DROP'' \<or> value_is_sensitive raw")
  case True
  with assms show ?thesis by (auto simp: clean_cell_def drop_value_def split: if_splits)
next
  case False
  with assms consider "t = drop_value s"
    | "apply_policy mac flt c raw s = Inr t" "truthy (cl_enum c) \<longrightarrow> in_enum raw (cl_enum c) = Inr True" "\<forall>f. shape_of c = Some f \<longrightarrow> f raw"
    unfolding clean_cell_def by (auto simp: bindE_Inr split: if_splits option.splits)
  then show ?thesis
  proof cases
    case 1
    then show ?thesis by (simp add: drop_value_def)
  next
    case 2
    with False show ?thesis by (intro apply_policy_released) auto
  qed
qed

text \<open>Every value of a row comes from a cell of its column.\<close>

definition row_ok :: "(string \<Rightarrow> string) \<Rightarrow> (string \<Rightarrow> pyfloat) \<Rightarrow> column list \<Rightarrow> string list \<Rightarrow> (string \<times> json) list \<Rightarrow> bool" where
  "row_ok mac flt cols r kvs \<longleftrightarrow> (\<forall>(k, v) \<in> set kvs. \<exists>(c, raw) \<in> set (zip cols r). cl_name c = k \<and> released mac flt c raw v)"

lemma clean_row_ok:
  assumes "foldE (clean_cell mac flt) (s\<lparr>cs_row := []\<rparr>) (zip cols r) = Inr t"
  shows "row_ok mac flt cols r (cs_row t)"
proof (rule foldE_invariant [OF assms])
  show "row_ok mac flt cols r (cs_row (s\<lparr>cs_row := []\<rparr>))" by (simp add: row_ok_def)
next
  fix u x u'
  assume x: "x \<in> set (zip cols r)" and ok: "row_ok mac flt cols r (cs_row u)" and step: "clean_cell mac flt u x = Inr u'"
  obtain c raw where xc: "x = (c, raw)" by (cases x)
  from clean_cell_released [OF step [unfolded xc]] show "row_ok mac flt cols r (cs_row u')"
  proof
    assume "cs_row u' = cs_row u"
    with ok show ?thesis by simp
  next
    assume "\<exists>v. cs_row u' = dset (cl_name c) v (cs_row u) \<and> released mac flt c raw v"
    then obtain v where v: "cs_row u' = dset (cl_name c) v (cs_row u)" "released mac flt c raw v" by blast
    show ?thesis unfolding row_ok_def v(1)
    proof
      fix kv
      assume "kv \<in> set (dset (cl_name c) v (cs_row u))"
      then consider "kv = (cl_name c, v)" | "kv \<in> set (cs_row u)" using in_dset by fastforce
      then show "case kv of (k, v) \<Rightarrow> \<exists>(c, raw) \<in> set (zip cols r). cl_name c = k \<and> released mac flt c raw v"
      proof cases
        case 1
        with v(2) x xc show ?thesis by (auto intro!: bexI [of _ "(c, raw)"])
      next
        case 2
        with ok show ?thesis unfolding row_ok_def by blast
      qed
    qed
  qed
qed

lemma clean_rows_ok:
  assumes "clean_rows mac flt cols body = Inr (rows, s)"
  shows "length rows = length body \<and> (\<forall>row \<in> set rows. \<exists>r \<in> set body. \<exists>kvs. row = JObj kvs \<and> row_ok mac flt cols r kvs)"
proof -
  have "foldE (clean_row mac flt cols) (rs0, s0) body' = Inr (rs, s1) \<Longrightarrow> length rs = length rs0 + length body' \<and>
      (\<forall>row \<in> set rs. row \<in> set rs0 \<or> (\<exists>r \<in> set body'. \<exists>kvs. row = JObj kvs \<and> row_ok mac flt cols r kvs))" for rs0 s0 body' rs s1
  proof (induction body' arbitrary: rs0 s0)
    case (Cons r body')
    then obtain x where x: "clean_row mac flt cols (rs0, s0) r = Inr x" and g: "foldE (clean_row mac flt cols) x body' = Inr (rs, s1)"
      by (auto simp: bindE_Inr)
    from x obtain t where t: "foldE (clean_cell mac flt) (s0\<lparr>cs_row := []\<rparr>) (zip cols r) = Inr t" and "x = (rs0 @ [JObj (cs_row t)], t)"
      by (auto simp: clean_row_def bindE_Inr)
    with g have f: "foldE (clean_row mac flt cols) (rs0 @ [JObj (cs_row t)], t) body' = Inr (rs, s1)" by simp
    from Cons.IH [OF f] clean_row_ok [OF t] show ?case by auto
  qed simp
  from this [OF assms [unfolded clean_rows_def]] show ?thesis by simp
qed

subsection \<open>Columns\<close>

lemma drop_name_dropped: "classify_column name vals given = Inr (p, r) \<Longrightarrow> drop_name name \<Longrightarrow> p = ''DROP''"
  by (simp add: classify_column_def Let_def split: if_splits)

lemma made_columns: "make_columns spec overrides header body = Inr cols \<Longrightarrow> map cl_name cols = header \<and>
    (\<forall>c \<in> set cols. drop_name (cl_name c) \<longrightarrow> cl_policy c = ''DROP'')"
proof -
  define mk where "mk = (\<lambda>(i, name). case spec of Some s \<Rightarrow> spec_column s name (column_values body i)
    | None \<Rightarrow> free_column overrides name (column_values body i))"
  have one: "cl_name c = snd x \<and> (drop_name (cl_name c) \<longrightarrow> cl_policy c = ''DROP'')" if "mk x = Inr c" for x c
    using that drop_name_dropped
    by (auto simp: mk_def spec_column_def free_column_def plain_column_def bindE_Inr split: option.splits prod.splits)
  assume "make_columns spec overrides header body = Inr cols"
  then have "list_all2 (\<lambda>x c. mk x = Inr c) (zip [0..<length header] header) cols"
    unfolding make_columns_def mk_def [symmetric] mapE_Inr_iff .
  then have "map cl_name cols = map snd (zip [0..<length header] header) \<and> (\<forall>c \<in> set cols. drop_name (cl_name c) \<longrightarrow> cl_policy c = ''DROP'')"
    by (induction rule: list_all2_induct) (auto dest: one)
  then show ?thesis by simp
qed

subsection \<open>The table\<close>

lemma read_table_ok: "read_table m table = Inr (header, body, nts) \<Longrightarrow> set body \<subseteq> set table \<and> length body \<le> nat m"
proof -
  assume "read_table m table = Inr (header, body, nts)"
  then obtain h rest where f: "filter (list_ex (\<lambda>c. strip c \<noteq> [])) table = h # rest"
    and b: "body = (if m < int (length rest) then take (nat m) rest else rest)"
    by (auto simp: read_table_def Let_def bindE_Inr split: list.splits)
  have "set rest \<subseteq> set table" using arg_cong [OF f, of set] by auto
  with b show ?thesis by (auto dest: in_set_takeD)
qed


subsection \<open>Requests\<close>

lemma rendered_or_Inr: "rendered_or f m = Inr s \<longleftrightarrow> m = Inr s"
  by (auto simp: rendered_or_def split: sum.splits param_error.splits if_splits)

lemma rendered_read_only: "render_sql pstr types sql params = Some (Inr s) \<Longrightarrow> assert_read_only_sql s = Inr ()"
  by (auto simp: render_sql_def render_chunks_def Let_def bindE_Inr split: if_splits)

definition licensed :: "string \<Rightarrow> string list \<Rightarrow> string \<Rightarrow> (string list \<times> string) option \<Rightarrow> bool" where
  "licensed lic confirmed by conf \<longleftrightarrow> no_license lic \<and> conf = None \<or>
     \<not> no_license lic \<and> set (license_keys lic) \<subseteq> set confirmed \<and> match_dollar REPORTER_SHAPE by \<and> conf = Some (sort (license_keys lic), by)"

lemma confirm_license_ok: "confirm_license lic confirmed by = Inr conf \<Longrightarrow> licensed lic confirmed by conf"
  by (auto simp: confirm_license_def licensed_def Let_def bindE_Inr split: if_splits)

lemma recheck_ok:
  "recheck_request E rid reporter (Some q) = Some (Inr q') \<Longrightarrow> \<exists>c s. hu_resolve E (er_query q) (dget_or FAMILY_TO_VERSION (er_family q) []) = Some c \<and>
     ce_sha c = er_sql_sha q \<and> render_sql (hu_str E) (hu_types E) (ce_sql c) (er_params q) = Some (Inr s) \<and>
     (hu_sha E s = er_rendered_sha q \<or> er_rendered_sha q = [])"
  by (auto simp: recheck_request_def dget_or_def bindE_Inr rendered_or_Inr split: option.splits if_splits)

text \<open>
  C20: a request is issued for a licensed query only with every required option confirmed by a named
  reviewer, and it can be ingested as long as nothing changed. The request that is issued records the
  digest of the SQL rendered for it, which passed the read-only guard; the check made at ingestion
  accepts it and renders the same SQL, and it refuses the request as soon as the certified SQL or the
  rendering has another digest.
\<close>

theorem request_roundtrip:
  assumes "make_request E rid created query target version scope params confirmed by = Some (Inr q)"
    and "match_dollar REQ_ID rid" and "match_dollar REPORTER_SHAPE reporter"
  shows "recheck_request E rid reporter (Some q) = Some (Inr q) \<and> er_max_rows q \<le> MAX_REPORTED_ROWS \<and>
    (\<exists>lic. query_license E query = Inr lic \<and> licensed lic confirmed by (er_license q)) \<and>
    (\<exists>(c :: certified) rendered. render_sql (hu_str E) (hu_types E) (ce_sql c) params = Some (Inr rendered) \<and> assert_read_only_sql rendered = Inr () \<and>
       er_rendered_sha q = hu_sha E rendered \<and> ce_sha c = er_sql_sha q) \<and>
    (\<forall>E' q'. recheck_request E' rid reporter (Some q) = Some (Inr q') \<longrightarrow>
       (\<exists>c s. hu_resolve E' query (dget_or FAMILY_TO_VERSION (er_family q) []) = Some c \<and> ce_sha c = er_sql_sha q \<and>
          render_sql (hu_str E') (hu_types E') (ce_sql c) params = Some (Inr s) \<and> (hu_sha E' s = er_rendered_sha q \<or> er_rendered_sha q = [])))"
proof -
  from assms(1) obtain fam conf c m where k: "check_request E query target version scope confirmed by = Inr (fam, conf, c)"
    and r: "render_sql (hu_str E) (hu_types E) (ce_sql c) params = Some m"
    and b: "bindE (rendered_or request_message m) (\<lambda>rendered. Inr (request_of E rid created query target params scope fam conf c rendered)) = Inr q"
    by (auto simp: make_request_def split: sum.splits)
  from b obtain rendered where m: "m = Inr rendered" and q: "q = request_of E rid created query target params scope fam conf c rendered"
    by (auto simp: bindE_Inr rendered_or_Inr)
  from k obtain lic where fam: "fam \<in> set (dkeys FAMILY_TO_VERSION)" and lic: "query_license E query = Inr lic"
    and conf: "confirm_license lic confirmed by = Inr conf" and c: "hu_resolve E query (dget_or FAMILY_TO_VERSION fam []) = Some c"
    unfolding check_request_def bindE_Inr by (auto split: option.splits if_splits)
  from fam obtain v where v: "dget FAMILY_TO_VERSION fam = Some v" by (metis dget_None_iff option.exhaust)
  have sel: "er_family q = fam" "er_query q = query" "er_params q = params" "er_sql_sha q = ce_sha c" "er_rendered_sha q = hu_sha E rendered"
    "er_license q = conf" "er_max_rows q \<le> MAX_REPORTED_ROWS" by (simp_all add: q request_of_def)
  have "recheck_request E rid reporter (Some q) = Some (Inr q)"
    using assms(2,3) v c r m by (simp add: recheck_request_def sel dget_or_def rendered_or_def demand_def)
  moreover have "\<exists>c s. hu_resolve E' query (dget_or FAMILY_TO_VERSION (er_family q) []) = Some c \<and> ce_sha c = er_sql_sha q \<and>
      render_sql (hu_str E') (hu_types E') (ce_sql c) params = Some (Inr s) \<and> (hu_sha E' s = er_rendered_sha q \<or> er_rendered_sha q = [])"
    if "recheck_request E' rid reporter (Some q) = Some (Inr q')" for E' q'
    using recheck_ok [OF that] sel(1-3) by simp
  moreover have "\<exists>lic. query_license E query = Inr lic \<and> licensed lic confirmed by (er_license q)"
    using lic confirm_license_ok [OF conf] sel(6) by auto
  moreover have "\<exists>(c :: certified) rendered. render_sql (hu_str E) (hu_types E) (ce_sql c) params = Some (Inr rendered) \<and> assert_read_only_sql rendered = Inr () \<and>
      er_rendered_sha q = hu_sha E rendered \<and> ce_sha c = er_sql_sha q"
  proof -
    have d: "render_sql (hu_str E) (hu_types E) (ce_sql c) params = Some (Inr rendered)" using r m by simp
    with rendered_read_only [OF d] sel(4,5) show ?thesis by (intro exI [of _ c] exI [of _ rendered] conjI) simp_all
  qed
  ultimately show ?thesis using sel(7) by (intro conjI allI impI)
qed

text \<open>A licensed query with one bind, and a table of two columns.\<close>

definition licensed_query :: string where
  "licensed_query = join_on [newline] [''---'', ''status: active'', ''execution_mode: READ_ONLY'', ''license_requirements: diagnostics_pack'', ''---'', []]"

definition human_example :: human_env where
  "human_example = \<lparr> hu_types = [], hu_str = (\<lambda>_. []), hu_pylist = (\<lambda>_. []), hu_sha = (\<lambda>s. s), hu_query = (\<lambda>_. Some licensed_query),
     hu_resolve = (\<lambda>_ _. Some \<lparr> ce_sql = ''select 1'', ce_variant = ''V'', ce_sha = ''h'', ce_max_rows = 100 \<rparr>), hu_mac = (\<lambda>_ _. ''0123456789''),
     hu_float = (\<lambda>_. Fin 0), hu_dumps = (\<lambda>_. []) \<rparr>"

theorem request_roundtrip_witness:
  "\<exists>q. make_request human_example ''ER-20260102-000000-abcdef'' ''t'' ''Q-ORA-1'' ''lab-db'' ''19c'' ''INC-001'' [] [''diagnostics_pack''] ''REV-1'' = Some (Inr q) \<and>
     er_license q = Some ([''diagnostics_pack''], ''REV-1'') \<and> recheck_request human_example ''ER-20260102-000000-abcdef'' ''dba1'' (Some q) = Some (Inr q)"
proof -
  have l: "query_license human_example ''Q-ORA-1'' = Inr ''diagnostics_pack''"
  proof -
    have "find_query_file (\<lambda>_. Some licensed_query) ''Q-ORA-1'' = Some licensed_query" by code_simp
    moreover have "parse_front_matter licensed_query = [(''status'', FStr ''active''), (''execution_mode'', FStr ''READ_ONLY''),
      (''license_requirements'', FStr ''diagnostics_pack'')]" by code_simp
    moreover have "strip ''active'' = ''active''" "strip ''READ_ONLY'' = ''READ_ONLY''" "strip ''diagnostics_pack'' = ''diagnostics_pack''" by code_simp+
    ultimately show ?thesis by (simp add: query_license_def human_example_def dget_or_def fm_str_def demand_def)
  qed
  have n: "\<not> no_license ''diagnostics_pack''" "sort (license_keys ''diagnostics_pack'') = [''diagnostics_pack'']" "match_dollar REPORTER_SHAPE ''REV-1''"
    "match_dollar ALIAS_SHAPE ''lab-db''" "match_dollar SCOPE_SHAPE ''INC-001''" "family_of (JStr ''19c'') = Some ''19c''"
    "scan ''select 1'' = Some [Sql ''select 1'']" "assert_read_only_sql ''select 1'' = Inr ()" "match_dollar REQ_ID ''ER-20260102-000000-abcdef''"
    "match_dollar REPORTER_SHAPE ''dba1''" by code_simp+
  have s: "set (license_keys ''diagnostics_pack'') = {''diagnostics_pack''}" using arg_cong [OF n(2), of set] by simp
  have e: "hu_types human_example = []" "hu_str human_example = (\<lambda>_. [])" "hu_sha human_example = (\<lambda>s. s)"
    "hu_resolve human_example = (\<lambda>_ _. Some \<lparr> ce_sql = ''select 1'', ce_variant = ''V'', ce_sha = ''h'', ce_max_rows = 100 \<rparr>)"
    by (simp_all add: human_example_def)
  have "\<exists>q. make_request human_example ''ER-20260102-000000-abcdef'' ''t'' ''Q-ORA-1'' ''lab-db'' ''19c'' ''INC-001'' [] [''diagnostics_pack''] ''REV-1'' = Some (Inr q) \<and>
     er_license q = Some ([''diagnostics_pack''], ''REV-1'')"
    by (simp add: make_request_def check_request_def n s l confirm_license_def demand_def FAMILY_TO_VERSION_def e dget_or_def
        render_sql_def render_chunks_def dedup_def bind_names_def map_filter_simps check_params_def window_ordered_def render_chunk_def pcrash_def
        rendered_or_def request_of_def)
  then obtain q where q: "make_request human_example ''ER-20260102-000000-abcdef'' ''t'' ''Q-ORA-1'' ''lab-db'' ''19c'' ''INC-001'' [] [''diagnostics_pack''] ''REV-1'' = Some (Inr q)"
    and k: "er_license q = Some ([''diagnostics_pack''], ''REV-1'')" by blast
  from request_roundtrip [OF q n(9) n(10)] q k show ?thesis by blast
qed

definition example_request :: evidence_request where
  "example_request = \<lparr> er_id = ''ER-20260102-000000-abcdef'', er_created = [], er_scope = ''INC-001'', er_target = ''lab-db'', er_family = ''19c'',
     er_query = ''Q-ORA-1'', er_variant = ''V'', er_sql_sha = ''h'', er_max_rows = 10, er_params = [], er_license = None, er_rendered_sha = [] \<rparr>"


end
