(* ===== verification/Audit_Words.thy ===== *)
theory Audit_Words
  imports Safe_Words
begin

section \<open>Texts that pass the audit for secrets\<close>

text \<open>
  The patterns of the audit need one of a few words or a long run of hexadecimal digits. These are
  cheap sufficient conditions for a concrete text, beside \<open>harmless\<close>, which looks at letters only.
\<close>



definition SECRET_WORDS :: "string list" where
  "SECRET_WORDS = [''password'', ''pwd'', ''passwd'', ''secret'', ''api'', ''apikey'', ''token'', ''authorization'']"

definition MARK_WORDS :: "string list" where
  "MARK_WORDS = [''bearer'', ''akia'', ''-----begin '', ''://'']"

lemma needs_word: "lower t \<in> set ts \<Longrightarrow> needs ts (ilit t) \<and> needs ts (lit t)"
  using contains_self [of "lower t"] by (intro conjI needs_ilit needs_lit) (auto simp: list_ex_iff)

lemma key_value_words: "needs SECRET_WORDS KEY_VALUE_SECRET"
proof -
  have "list_all (\<lambda>t. lower t \<in> set SECRET_WORDS) SECRET_WORDS" by code_simp
  then have w: "\<forall>t \<in> set SECRET_WORDS. needs SECRET_WORDS (ilit t)" using needs_word unfolding list_all_iff by blast
  then have "needs SECRET_WORDS (ilit ''api'')" by (simp add: SECRET_WORDS_def)
  then have "needs SECRET_WORDS (seqs [ilit ''api'', opt (Cls (\<lambda>c. c \<in> set ''_-'')), ilit ''key''])" by (intro needs_seqs) simp
  with w have "list_all (needs SECRET_WORDS) [ilit ''password'', ilit ''pwd'', ilit ''passwd'', ilit ''secret'',
      seqs [ilit ''api'', opt (Cls (\<lambda>c. c \<in> set ''_-'')), ilit ''key''], ilit ''apikey'', ilit ''token'', ilit ''authorization'']"
    by (simp add: SECRET_WORDS_def)
  from needs_alts [OF this] show ?thesis
    unfolding KEY_VALUE_SECRET_def by (intro needs_seqs) (simp add: list_ex_iff del: seqs.simps alts.simps)
qed

lemma mark_words: "list_all (needs MARK_WORDS) [BEARER_TOKEN, AWS_ACCESS_KEY, PEM_PRIVATE_KEY, CONNECTION_STRING_CREDENTIALS]"
proof -
  have "list_all (\<lambda>t. lower t \<in> set MARK_WORDS) [''Bearer'', ''AKIA'', ''-----BEGIN '', ''://'']" by code_simp
  then have "\<forall>t \<in> set [''Bearer'', ''AKIA'', ''-----BEGIN '', ''://'']. needs MARK_WORDS (ilit t) \<and> needs MARK_WORDS (lit t)"
    using needs_word unfolding list_all_iff by blast
  then have "needs MARK_WORDS (ilit ''Bearer'')" "needs MARK_WORDS (lit ''AKIA'')" "needs MARK_WORDS (lit ''-----BEGIN '')" "needs MARK_WORDS (lit ''://'')"
    by (simp_all del: lit.simps)
  then show ?thesis
    unfolding list.pred_inject BEARER_TOKEN_def AWS_ACCESS_KEY_def PEM_PRIVATE_KEY_def CONNECTION_STRING_CREDENTIALS_def Let_def
    by (intro conjI TrueI needs_seqs; simp del: lit.simps)
qed

lemma findall_part: "w \<in> set (findall e r p s) \<Longrightarrow> \<exists>u v. s = u @ w @ v"
proof (induction s arbitrary: p rule: length_induct)
  case (1 s)
  show ?case
  proof (cases s)
    case Nil
    with 1 show ?thesis by (simp add: findall_steps)
  next
    case (Cons c t)
    show ?thesis
    proof (cases "match_at e r p s")
      case None
      with 1 Cons obtain u v where "t = u @ w @ v" by (fastforce simp: findall_steps)
      with Cons show ?thesis by (metis append_Cons)
    next
      case (Some m)
      show ?thesis
      proof (cases m)
        case 0
        with 1 Cons Some obtain u v where "t = u @ w @ v" by (fastforce simp: findall_steps)
        with Cons show ?thesis by (metis append_Cons)
      next
        case (Suc n)
        have split: "s = (c # take n t) @ drop n t" using Cons by simp
        have "w = c # take n t \<or> w \<in> set (findall e r (Some (last (c # take n t))) (drop n t))"
          using 1(2) Some unfolding Cons Suc by (simp only: findall_steps(4) list.set insert_iff)
        then show ?thesis
        proof
          assume "w = c # take n t"
          then show ?thesis using split by (metis append_Nil)
        next
          assume "w \<in> set (findall e r (Some (last (c # take n t))) (drop n t))"
          moreover have "length (drop n t) < length s" using Cons by simp
          ultimately obtain u v where "drop n t = u @ w @ v" using 1(1) by blast
          then show ?thesis using split by (metis append.assoc)
        qed
      qed
    qed
  qed
qed

lemma no_key_value:
  assumes "list_all (\<lambda>t. \<not> contains t (lower s)) SECRET_WORDS"
  shows "findall Longest KEY_VALUE_SECRET None s = []"
proof (rule ccontr)
  assume "findall Longest KEY_VALUE_SECRET None s \<noteq> []"
  then obtain w where w: "w \<in> set (findall Longest KEY_VALUE_SECRET None s)" by (meson last_in_set)
  from findall_match [OF w] key_value_words obtain t where t: "t \<in> set SECRET_WORDS" "contains t (lower w)" unfolding needs_def by blast
  from findall_part [OF w] obtain u v where "lower s = lower u @ lower w @ lower v" by (auto simp: lower_def)
  with contains_part [OF t(2), of "lower u" "lower v"] t(1) assms show False by (auto simp: list_all_iff)
qed

text \<open>Every run of other characters than blanks is shorter than \<open>n\<close>, then than 32.\<close>

fun spaced :: "nat \<Rightarrow> string \<Rightarrow> bool" where
  "spaced n [] = True"
| "spaced n (c # s) = (if c = CHR '' '' then spaced 31 s else 0 < n \<and> spaced (n - 1) s)"

lemma spaced_runs: "spaced n s \<Longrightarrow> n \<le> 31 \<Longrightarrow> length (takeWhile is_hex s) \<le> n \<and> runs_below is_hex 32 s"
proof (induction n s rule: spaced.induct)
  case (2 n c s)
  have "\<not> is_hex (CHR '' '')" by code_simp
  show ?case
  proof (cases "c = CHR '' ''")
    case False
    with 2 have "length (takeWhile is_hex s) \<le> n - 1 \<and> runs_below is_hex 32 s" "0 < n" by simp_all
    with 2(4) show ?thesis by auto
  qed (use 2 \<open>\<not> is_hex (CHR '' '')\<close> in simp)
qed simp

lemma clear_of_secrets:
  assumes "findall Longest KEY_VALUE_SECRET None s = []" and "list_all (\<lambda>t. \<not> contains t (lower s)) MARK_WORDS"
    and "spaced 31 s \<or> runs_below is_hex 32 s"
  shows "\<not> contains_structured_secret s"
proof -
  have "\<not> search LONG_HEX_HASH s"
  proof
    assume "search LONG_HEX_HASH s"
    then obtain a b c where b: "s = a @ b @ c" "32 \<le> length b" "list_all is_hex b"
      unfolding search_iff LONG_HEX_HASH_def by (auto simp: mt_Bnd_Seq mt_Seq_Bnd mt_run)
    from runs_below_no_match [of is_hex 32, OF _ _ b(1,2)] spaced_runs [of 31 s] assms(3) b(3) show False by auto
  qed
  moreover have "\<not> search r s" if "needs MARK_WORDS r" for r
    using search_needs [OF _ that] assms(2) by (auto simp: list_all_iff list_ex_iff)
  ultimately show ?thesis using assms(1) mark_words by (simp add: contains_structured_secret_def)
qed

lemma clear_of_words:
  "list_all (\<lambda>t. \<not> contains t (lower s)) SECRET_WORDS \<Longrightarrow> list_all (\<lambda>t. \<not> contains t (lower s)) MARK_WORDS \<Longrightarrow>
    spaced 31 s \<or> runs_below is_hex 32 s \<Longrightarrow>
    \<not> contains_structured_secret s"
  by (intro clear_of_secrets no_key_value)

text \<open>The tests of \<open>harmless\<close> on letters, without the one on runs.\<close>

definition soft :: "string \<Rightarrow> bool" where
  "soft s \<longleftrightarrow> (list_all (\<lambda>c. c \<notin> set '':='') s \<or> list_all (\<lambda>c. lower_char c \<notin> set ''pso'') s) \<and>
     \<not> list_all (\<lambda>x. x \<in> set s) ''@:/'' \<and> \<not> list_all (\<lambda>x. x \<in> set s) ''-BEGIN'' \<and>
     (list_all (\<lambda>c. \<not> is_space c) s \<or> \<not> list_all (\<lambda>x. x \<in> set (lower s)) ''bear'') \<and> \<not> list_all (\<lambda>x. x \<in> set s) ''KI''"

lemma soft_harmless: "soft s \<Longrightarrow> spaced 31 s \<or> runs_below is_hex 32 s \<Longrightarrow> harmless s"
  using spaced_runs [of 31 s] unfolding soft_def harmless_def by blast

end
