(* ===== verification/Candidate.thy ===== *)
theory Candidate
  imports Change_Safety Knowledge Audit_Words
begin

section \<open>Extraction of a knowledge candidate (change\_documentation\_knowledge/knowledge.py)\<close>

text \<open>
  \<open>build_kb_candidate\<close>: from the view of an analysis, the versioned rules catalog, the change context
  and the metadata of the candidate. The date of the next review is the parameter \<open>due\<close> (the time of
  generation and 365 days); \<open>str\<close> of a value that is not a text is \<open>kb_repr\<close>.
\<close>

definition KB_CODE :: rx where
  "KB_CODE = seqs [alts (map lit [''ORA'', ''TNS'', ''RMAN'', ''CRS'', ''LSNR'', ''PLS'']), lit ''-'', Rep 3 3 (Cls is_digit)]"

text \<open>The supported hypothesis with the least identifier, or else the one with the least identifier.\<close>

definition leading_hyp :: "adapted_hyp list \<Rightarrow> adapted_hyp option" where
  "leading_hyp hs = (case sort_key ah_id (filter (\<lambda>h. ah_status h = ''SUPPORTED'') hs) @ sort_key ah_id (filter (\<lambda>h. ah_status h \<noteq> ''SUPPORTED'') hs) of
      h # _ \<Rightarrow> Some h | [] \<Rightarrow> None)"

definition subject_of :: "rca_view \<Rightarrow> adv_error + adapted_hyp" where
  "subject_of V = (case ar_confirmed (vw_root V) of
      i # _ \<Rightarrow> (case dget (hyp_table (vw_hyps V)) i of Some h \<Rightarrow> Inr h | None \<Rightarrow> Inl (AdvCrash KeyError))
    | [] \<Rightarrow> (case leading_hyp (vw_hyps V) of Some h \<Rightarrow> Inr h | None \<Rightarrow> Inl (field_err E_QUALITY_GATE ''kb.hypothesis'')))"

subsection \<open>Codes, symptoms and conditions\<close>

definition in_domain :: "adapted_hyp \<Rightarrow> finding \<Rightarrow> bool" where
  "in_domain h f \<longleftrightarrow> JStr (ae_domain (fn_event f)) = ah_domain h \<or> ae_domain (fn_event f) = ''oracle''"

definition finding_codes :: "rca_view \<Rightarrow> adapted_hyp \<Rightarrow> string list" where
  "finding_codes V h = map (\<lambda>f. or_else (ae_canonical (fn_event f)) []) (filter (\<lambda>f. ae_sig (fn_event f) = ''CERTIFIED'' \<and>
     match_dollar KB_CODE (or_else (ae_canonical (fn_event f)) []) \<and> in_domain h f) (vw_findings V))"

definition rule_codes :: "rca_view \<Rightarrow> json \<Rightarrow> py_exc + string list" where
  "rule_codes V rule =
     bindE (jreq rule ''symptom_match'') (\<lambda>sm. bindE (jget_attr sm ''signature_any'') (\<lambda>sigs.
     bindE (py_iter (or_else sigs (JArr []))) (\<lambda>cs. bindE (mapE as_str cs) (\<lambda>texts.
       Inr (filter (\<lambda>c. match_dollar KB_CODE c \<and> list_ex (\<lambda>f. ae_canonical (fn_event f) = Some c) (vw_findings V)) texts)))))"

definition dropped_signatures :: "rca_view \<Rightarrow> nat" where
  "dropped_signatures V = length (filter (\<lambda>f. ae_sig (fn_event f) \<noteq> ''CERTIFIED'' \<and> or_else (ae_token (fn_event f)) [] \<noteq> []) (vw_findings V))"

definition symptom_text :: "finding \<Rightarrow> string" where
  "symptom_text f = ae_domain (fn_event f) @ ''/'' @ ae_type (fn_event f) @
     (case ae_canonical (fn_event f) of Some c \<Rightarrow> if c = [] then [] else '' ('' @ c @ '')'' | None \<Rightarrow> [])"

definition symptoms :: "rca_view \<Rightarrow> adapted_hyp \<Rightarrow> string list" where
  "symptoms V h = sorted_set (map symptom_text (filter (in_domain h) (vw_findings V)))"

definition cond_text :: "(json \<Rightarrow> string) \<Rightarrow> json \<Rightarrow> py_exc + string" where
  "cond_text pstr c = bindE (jreq c ''attribute'') (\<lambda>a. bindE (jreq c ''op'') (\<lambda>o'. bindE (jreq c ''value'') (\<lambda>v.
     Inr (fmt pstr a @ '' '' @ fmt pstr o' @ '' '' @ fmt pstr v))))"

definition cond_texts :: "(json \<Rightarrow> string) \<Rightarrow> json \<Rightarrow> string \<Rightarrow> py_exc + string list" where
  "cond_texts pstr rule k = bindE (bindE (jreq rule k) py_iter) (mapE (cond_text pstr))"

definition curated_recs :: "rca_view \<Rightarrow> adapted_hyp \<Rightarrow> adapted_rec list" where
  "curated_recs V h = filter (\<lambda>r. ah_id h \<in> set (ac_hyps r) \<or> ac_hyps r = []) (vw_recs V)"

definition diagnostics :: "adapted_rec list \<Rightarrow> string list" where
  "diagnostics rs = filter (\<lambda>t. t \<noteq> []) (map (\<lambda>r. rec_text r ''precheck'') rs)"

subsection \<open>The article\<close>

record article_parts =
  pt_title :: string
  pt_codes :: "string list"
  pt_required :: "string list"
  pt_contradicting :: "string list"
  pt_due :: string

definition scope_json :: "change_context \<Rightarrow> adapted_hyp \<Rightarrow> json" where
  "scope_json C h = (let t = cc_target C in JObj
     [(''domain'', ah_domain h), (''oracle_versions'', JArr [or_unknown (cx_version t)]), (''release_update'', or_unknown (cx_release t)),
      (''platform'', or_unknown (cx_platform t)), (''architecture'', topology C), (''applies_only_within_scope'', JBool True),
      (''scope_note'', JStr (''Scope is explicit; UNKNOWN means not established and is never read as '' @ [CHR 0x27] @ ''applies everywhere'' @
        [CHR 0x27] @ ''.''))])"

definition curated_json :: "adapted_rec \<Rightarrow> json" where
  "curated_json r = JObj [(''rec_id'', JStr (ac_id r)), (''action'', JStr (rec_text r ''action_summary'')), (''risk'', JStr (rec_text r ''risk'')),
     (''postcheck'', JStr (rec_text r ''postcheck'')), (''execution_status'', JStr ''NOT_EXECUTED''), (''epistemic'', JStr ''proposed''),
     (''universal_solution'', JBool False)]"

definition publishable :: "rca_view \<Rightarrow> adapted_hyp \<Rightarrow> bool" where
  "publishable V h \<longleftrightarrow> ar_completeness (vw_root V) = ''CONFIRMED'' \<and> ah_status h = ''CONFIRMED''"

definition article_json :: "rca_view \<Rightarrow> change_context \<Rightarrow> candidate_meta \<Rightarrow> adapted_hyp \<Rightarrow> guidance \<Rightarrow> article_parts \<Rightarrow> string \<Rightarrow> json" where
  "article_json V C m h g p generated_at = (let recs = curated_recs V h; evidence = sort (ah_supporting h) in JObj
     [(''article_type'', JStr (cm_type m)), (''title'', JStr (pt_title p)), (''scope'', scope_json C h),
      (''error_codes'', jstrs (pt_codes p)), (''symptoms_observable'', jstrs (symptoms V h)),
      (''unrecognized_signatures_dropped'', JInt (int (dropped_signatures V))),
      (''minimal_reproducible_evidence'', JObj [(''evidence_refs'', jstrs evidence), (''required_conditions'', jstrs (pt_required p)),
         (''contradicting_conditions'', jstrs (pt_contradicting p))]),
      (''hypothesis'', JObj [(''hypothesis_id'', JStr (ah_id h)), (''statement'', ah_statement h), (''status'', JStr (ah_status h)),
         (''confidence'', JStr (ah_confidence h)), (''epistemic'', JStr ''inferred''), (''publishable_as_fact'', JBool (publishable V h))]),
      (''readonly_diagnostics'', jstrs (diagnostics recs)),
      (''interpretation_and_limits'', jstrs
         [''Interpretation holds only when the required conditions are observed in the CURRENT environment.'',
          ''This article does not replace current evidence: confirm against the environment before forming an RCA or recommendation.'',
          ''A correlation in time is not proof of cause; only the linked, confirmed hypothesis is asserted.'']),
      (''manual_recommendations'', JArr (map curated_json recs)),
      (''prerequisites_and_license'', JObj [(''license_dependent'', JBool (gd_license g)),
         (''note'', JStr (or_else (gd_note g) ''No licensing dependency identified for this domain; not verified for the target.''))]),
      (''provenance'', JObj [(''incident_id'', JStr (vw_incident V)), (''rca_id'', JStr (ar_id (vw_root V))), (''rule_id'', JStr (ah_rule h)),
         (''hypothesis_ids'', jstrs [ah_id h]), (''evidence_ids'', jstrs evidence),
         (''finding_ids'', jstrs (findings_on V evidence)), (''recommendation_ids'', jstrs (map ac_id recs)),
         (''rca_state_at_extraction'', JStr (ar_completeness (vw_root V)))]),
      (''validated_at_utc'', JStr generated_at), (''review_due_utc'', JStr (pt_due p)),
      (''owner'', JStr (cm_owner m)), (''supersedes'', case cm_supersedes m of None \<Rightarrow> JNull | Some s \<Rightarrow> JStr s), (''superseded_by'', JNull)])"

definition article_parts_of :: "kb_env \<Rightarrow> (string \<Rightarrow> py_exc + string) \<Rightarrow> rca_view \<Rightarrow> adapted_hyp \<Rightarrow> json \<Rightarrow> string \<Rightarrow> adv_error + article_parts" where
  "article_parts_of E due V h rule generated_at =
     bindE (advcrash (rule_codes V rule)) (\<lambda>codes.
     bindE (clean_text (JStr (fmt (kb_repr E) (ah_domain h) @ '': '' @ fmt (kb_repr E) (ah_statement h))) 160 None) (\<lambda>title.
     bindE (advcrash (cond_texts (kb_repr E) rule ''supporting_conditions'')) (\<lambda>req.
     bindE (advcrash (cond_texts (kb_repr E) rule ''contradicting_conditions'')) (\<lambda>con.
     bindE (advcrash (due generated_at)) (\<lambda>d.
       Inr \<lparr> pt_title = title, pt_codes = sorted_set (finding_codes V h @ codes), pt_required = req, pt_contradicting = con, pt_due = d \<rparr>)))))"

subsection \<open>The candidate\<close>

definition candidate_reasons :: "rca_view \<Rightarrow> adapted_hyp \<Rightarrow> string \<Rightarrow> string list" where
  "candidate_reasons V h title =
     (let recs = curated_recs V h; if_reason = (\<lambda>b s. if b then [s] else []) in
      if_reason (ar_completeness (vw_root V) \<noteq> ''CONFIRMED'') ''RCA_NOT_CONFIRMED'' @
      if_reason (ah_supporting h = []) ''NO_SUPPORTING_EVIDENCE'' @
      if_reason (am_completeness (vw_manifest V) \<noteq> ''COMPLETE'') ''EVIDENCE_MANIFEST_INCOMPLETE'' @
      if_reason (ah_unresolved h) ''UNRESOLVED_CRITICAL_CONTRADICTION'' @
      if_reason (recs = []) ''NO_RECOMMENDATION_TO_CURATE'' @
      if_reason (has_instruction_markers (JStr (join_on '' '' (title # diagnostics recs)))) ''INSTRUCTION_LIKE_TEXT'')"

definition candidate_state :: "string list \<Rightarrow> kb_state \<times> string" where
  "candidate_state reasons = (if ''RCA_NOT_CONFIRMED'' \<in> set reasons then (REJECTED, ''REJECTED'')
     else if reasons \<noteq> [] then (DRAFT, ''REVIEW_REQUIRED'') else (CANDIDATE, ''REVIEW_REQUIRED''))"

definition source_refs_json :: "rca_view \<Rightarrow> adapted_hyp \<Rightarrow> json" where
  "source_refs_json V h = JObj [(''incident_id'', JStr (vw_incident V)), (''rca_id'', JStr (ar_id (vw_root V))),
     (''hypothesis_ids'', jstrs [ah_id h]), (''evidence_ids'', jstrs (sort (ah_supporting h))),
     (''recommendation_ids'', jstrs (map ac_id (curated_recs V h)))]"

definition candidate_fields :: "rca_view \<Rightarrow> candidate_meta \<Rightarrow> adapted_hyp \<Rightarrow> string list \<Rightarrow> string \<Rightarrow> json \<Rightarrow> json \<Rightarrow> string \<Rightarrow> (string \<times> json) list" where
  "candidate_fields V m h reasons kb_id key article generated_at =
     [(''schema_version'', JStr SCHEMA_VERSION), (''artifact_type'', JStr ''kb_candidate''),
      (''kb_candidate_id'', JStr (''KBC-'' @ vw_incident V @ ''-001'')), (''kb_id'', JStr kb_id), (''version'', JStr ''1''),
      (''generated_at_utc'', JStr generated_at), (''generator_version'', JStr GENERATOR_VERSION), (''sanitization_status'', JStr ''SANITIZED''),
      (''review_status'', JStr (snd (candidate_state reasons))), (''lifecycle_state'', JStr (state_name (fst (candidate_state reasons)))),
      (''source_refs'', source_refs_json V h),
      (''quality_gate'', JObj [(''status'', JStr (if reasons = [] then ''PASS'' else ''FAIL'')), (''blocking_reasons'', jstrs (sorted_set reasons))]),
      (''proposer_ids'', jstrs (cm_proposers m)), (''dedup_key'', key), (''article'', article),
      (''limitations'', jstrs (vw_limitations V @
         [''A candidate is not knowledge: it requires human review and an externally provided authorization record before publication.'',
          ''The engine cannot verify the identity of a reviewer.'']))]"

text \<open>The subject with its rule and guidance.\<close>

definition candidate_subject :: "json \<Rightarrow> rca_view \<Rightarrow> adv_error + adapted_hyp \<times> json \<times> guidance" where
  "candidate_subject rules_catalog V =
     bindE (catalog_index rules_catalog) (\<lambda>catalog.
     bindE (subject_of V) (\<lambda>h.
     bindE (case rule_of catalog (ah_rule h) of Some r \<Rightarrow> Inr r | None \<Rightarrow> Inl (AdvCrash KeyError)) (\<lambda>rule.
     bindE (domain_guidance (ah_domain h)) (\<lambda>g. Inr (h, rule, g)))))"

definition no_commands :: "rca_view \<Rightarrow> adapted_hyp \<Rightarrow> string \<Rightarrow> bool" where
  "no_commands V h title \<longleftrightarrow> list_all (\<lambda>t. \<not> has_executable_content (JStr t))
     (title # diagnostics (curated_recs V h) @ map (\<lambda>r. rec_text r ''action_summary'') (curated_recs V h))"

definition build_kb_candidate :: "kb_env \<Rightarrow> (string \<Rightarrow> py_exc + string) \<Rightarrow> rca_view \<Rightarrow> json \<Rightarrow> json \<Rightarrow> json \<Rightarrow> string \<Rightarrow> adv_error + json" where
  "build_kb_candidate E due V rules_catalog context_raw candidate_raw generated_at =
     bindE (parse_change_context (kb_iso E) context_raw) (\<lambda>C.
     bindE (parse_candidate_input candidate_raw) (\<lambda>m.
     bindE (candidate_subject rules_catalog V) (\<lambda>(h, rule, g).
     bindE (article_parts_of E due V h rule generated_at) (\<lambda>p.
     bindE (ensure (no_commands V h (pt_title p)) (field_err E_UNSAFE_CONTENT ''kb.article'')) (\<lambda>_.
     let article = article_json V C m h g p generated_at in
     bindE (advcrash (dedup_key article)) (\<lambda>key.
     bindE (advcrash (key_id (kb_sha E) (kb_repr E) key)) (\<lambda>kid.
     let fields = candidate_fields V m h (candidate_reasons V h (pt_title p)) kid key article generated_at in
     bindE (audit_strings (JObj fields) 0) (\<lambda>_.
       Inr (JObj (fields @ [(''content_digest'', JStr (content_digest (kb_sha E) (kb_frepr E) fields))]))))))))))"

subsection \<open>The state of a candidate\<close>

lemma jpath_simps [simp]: "jpath v [] = Inr v" "jpath v (k # ks) = bindE (jreq v k) (\<lambda>w. jpath w ks)"
  by (simp_all add: jpath_def)

lemma sort_Nil_iff: "sort xs = [] \<longleftrightarrow> xs = []"
  by (metis set_empty set_sort)

text \<open>The reasons that the gate finds again in the article.\<close>

definition gate_reasons :: "rca_view \<Rightarrow> adapted_hyp \<Rightarrow> string list" where
  "gate_reasons V h = (if publishable V h then [] else [''RCA_NOT_CONFIRMED'']) @
     (if ah_supporting h = [] then [''NO_SUPPORTING_EVIDENCE''] else []) @
     (if curated_recs V h = [] then [''NO_RECOMMENDATION_TO_CURATE''] else [])"

lemma anyE_recs:
  assumes "\<And>r. f (curated_json r) = Inr False"
  shows "anyE f (map curated_json rs) = Inr False"
  using assms by (induction rs) simp_all

lemma article_paths:
  assumes "a = article_json V C m h g p t"
  shows "jpath a [''provenance'', ''rca_state_at_extraction''] = Inr (JStr (ar_completeness (vw_root V)))"
    "jpath a [''hypothesis'', ''publishable_as_fact''] = Inr (JBool (publishable V h))"
    "jpath a [''provenance'', ''evidence_ids''] = Inr (jstrs (sort (ah_supporting h)))"
    "jpath a [''manual_recommendations''] = Inr (JArr (map curated_json (curated_recs V h)))"
    "jpath a [''scope'', ''applies_only_within_scope''] = Inr (JBool True)"
  unfolding assms article_json_def scope_json_def Let_def by (simp_all add: jreq_def)

lemma article_recs:
  assumes "a = article_json V C m h g p t"
  shows "each_rec a (\<lambda>m. bindE (jreq m ''universal_solution'') (\<lambda>v. Inr (truthy v))) = Inr False"
    "each_rec a (\<lambda>m. bindE (jreq m ''execution_status'') (\<lambda>v. Inr (v \<noteq> JStr ''NOT_EXECUTED''))) = Inr False"
proof -
  have "jreq a ''manual_recommendations'' = Inr (JArr (map curated_json (curated_recs V h)))"
    unfolding assms article_json_def Let_def by (simp add: jreq_def)
  then have each: "each_rec a f = anyE f (map curated_json (curated_recs V h))" for f
    by (simp add: each_rec_def py_iter_def del: jreq_Inr)
  show "each_rec a (\<lambda>m. bindE (jreq m ''universal_solution'') (\<lambda>v. Inr (truthy v))) = Inr False"
    "each_rec a (\<lambda>m. bindE (jreq m ''execution_status'') (\<lambda>v. Inr (v \<noteq> JStr ''NOT_EXECUTED''))) = Inr False"
    unfolding each by (rule anyE_recs, simp add: curated_json_def jreq_def truthy_def)+
qed

lemma gate_of_article:
  "quality_gate (source_refs_json V h) (article_json V C m h g p t) = Inr (sort (gate_reasons V h))"
proof -
  have i: "jreq (source_refs_json V h) ''incident_id'' = Inr (JStr (vw_incident V))" by (simp add: source_refs_json_def jreq_def)
  note paths = article_paths [OF refl, of V C m h g p t]
  show ?thesis
    unfolding quality_gate_def reason_if_def falsy_def paths i article_recs [OF refl] gate_reasons_def orE_def
    by (simp add: truthy_def jstrs_def sort_Nil_iff publishable_def)
qed

lemma list_all2_in: "list_all2 P xs ys \<Longrightarrow> x \<in> set xs \<Longrightarrow> \<exists>y. P x y"
  by (induction rule: list_all2_induct) auto

lemma hyp_table_in: "dget (hyp_table hs) i = Some h \<Longrightarrow> h \<in> set hs \<and> ah_id h = i"
proof -
  have "dget (fold (\<lambda>h. dset (ah_id h) h) hs d) i = Some h \<Longrightarrow> h \<in> set hs \<and> ah_id h = i \<or> dget d i = Some h" for d
  proof (induction hs arbitrary: d)
    case (Cons a hs)
    from Cons.prems have "dget (fold (\<lambda>h. dset (ah_id h) h) hs (dset (ah_id a) a d)) i = Some h" by simp
    from Cons.IH [OF this] show ?case by (auto split: if_splits)
  qed simp
  from this [of "[]"] show "dget (hyp_table hs) i = Some h \<Longrightarrow> ?thesis" by (simp add: hyp_table_def)
qed

lemma leading_in: "leading_hyp hs = Some h \<Longrightarrow> h \<in> set hs"
proof -
  have "set (sort_key ah_id (filter P hs)) \<subseteq> set hs" for P by auto
  then show "leading_hyp hs = Some h \<Longrightarrow> ?thesis"
    unfolding leading_hyp_def by (auto split: list.splits dest!: arg_cong [where f = set])
qed

lemma subject_in: "subject_of V = Inr h \<Longrightarrow> h \<in> set (vw_hyps V) \<and> (\<forall>i is. ar_confirmed (vw_root V) = i # is \<longrightarrow> ah_id h = i)"
  unfolding subject_of_def by (auto dest: hyp_table_in leading_in split: list.splits option.splits)

text \<open>A candidate of a confirmed analysis is about a confirmed hypothesis.\<close>

lemma subject_confirmed:
  assumes "adapt_rca_result sha pstr rca catalog = Inr V" and "subject_of V = Inr h"
  shows "publishable V h \<longleftrightarrow> ar_completeness (vw_root V) = ''CONFIRMED''"
proof
  assume c: "ar_completeness (vw_root V) = ''CONFIRMED''"
  from adapt_stages [OF assms(1)] obtain cat inc w1 where
    h: "adapt_hypotheses cat inc (known_evidence (vw_manifest V) (vw_events V)) (jget_or rca ''hypotheses'' (JArr [])) = Inr (vw_hyps V, w1)"
    and r: "adapt_root inc (vw_hyps V) (am_completeness (vw_manifest V)) (getn rca ''root_cause'') = Inr (vw_root V)" by blast
  from adapt_root_ok [OF r] c obtain i "is" where i: "ar_confirmed (vw_root V) = i # is"
    and s: "status_of_hyp (vw_hyps V) i = Some ''CONFIRMED''"
    by (cases "ar_confirmed (vw_root V)") (simp_all add: root_state_ok_def)
  from status_of_hyp_in [OF s] obtain h' where h': "h' \<in> set (vw_hyps V)" "ah_id h' = i" "ah_status h' = ''CONFIRMED''" by blast
  from subject_in [OF assms(2)] i have "h \<in> set (vw_hyps V)" "ah_id h = ah_id h'" using h'(2) by simp_all
  moreover from adapt_hypotheses_ok [OF h] have "inj_on ah_id (set (vw_hyps V))" by (auto simp: distinct_map)
  ultimately have "h = h'" using h'(1) by (auto dest: inj_onD)
  with h' c show "publishable V h" by (simp add: publishable_def)
qed (simp add: publishable_def)

lemma build_candidate_stages:
  assumes "build_kb_candidate E due V rules context_raw candidate_raw generated_at = Inr cand"
  shows "\<exists>C m h g p key kid fields. subject_of V = Inr h \<and> no_commands V h (pt_title p) \<and>
    fields = candidate_fields V m h (candidate_reasons V h (pt_title p)) kid key (article_json V C m h g p generated_at) generated_at \<and>
    cand = JObj (fields @ [(''content_digest'', JStr (content_digest (kb_sha E) (kb_frepr E) fields))])"
  using assms
  unfolding build_kb_candidate_def bindE_Inr Let_def candidate_subject_def ensure_Inr split_paired_Ex case_prod_conv sum.inject prod.inject
  apply (elim exE conjE)
  apply hypsubst
  apply (intro exI conjI; (assumption | rule refl))
  done

lemma recorded_reasons:
  assumes "publishable V h \<longleftrightarrow> ar_completeness (vw_root V) = ''CONFIRMED''"
  shows "sort (gate_reasons V h) = filter (\<lambda>r. r \<in> set [''NO_SUPPORTING_EVIDENCE'', ''RCA_NOT_CONFIRMED'', ''NO_RECOMMENDATION_TO_CURATE''])
    (sorted_set (candidate_reasons V h title))"
  unfolding sorted_set_def filter_sort gate_reasons_def assms candidate_reasons_def Let_def
  by (rule arg_cong [where f = sort]) (cases "ah_supporting h = []"; cases "ar_completeness (vw_root V) = ''CONFIRMED''"; cases "curated_recs V h = []"; simp)

lemma rejected_iff: "fst (candidate_state (candidate_reasons V h title)) = REJECTED \<longleftrightarrow> ar_completeness (vw_root V) \<noteq> ''CONFIRMED''"
  unfolding candidate_state_def candidate_reasons_def Let_def by (simp split: if_splits)

lemma candidate_iff: "fst (candidate_state rs) = CANDIDATE \<longleftrightarrow> rs = []"
  unfolding candidate_state_def by simp

lemma no_reasons:
  assumes "candidate_reasons V h title = []"
  shows "ar_completeness (vw_root V) = ''CONFIRMED'' \<and> am_completeness (vw_manifest V) = ''COMPLETE'' \<and> ah_supporting h \<noteq> [] \<and> \<not> ah_unresolved h \<and> curated_recs V h \<noteq> []"
  using assms unfolding candidate_reasons_def Let_def by (simp split: if_splits)

lemma candidate_reads:
  "jget (JObj (candidate_fields V m h rs kid key art t @ rest)) ''article'' = Some art"
  "jget (JObj (candidate_fields V m h rs kid key art t @ rest)) ''source_refs'' = Some (source_refs_json V h)"
  "jget (JObj (candidate_fields V m h rs kid key art t @ rest)) ''lifecycle_state'' = Some (JStr (state_name (fst (candidate_state rs))))"
  "jget (JObj (candidate_fields V m h rs kid key art t @ rest)) ''quality_gate'' =
     Some (JObj [(''status'', JStr (if rs = [] then ''PASS'' else ''FAIL'')), (''blocking_reasons'', jstrs (sorted_set rs))])"
  by (simp_all add: candidate_fields_def jget_def)

text \<open>
  C16: the state of a candidate says how far its analysis goes. A candidate extracted from an accepted
  RCA result is rejected exactly when the result does not declare its root cause confirmed; it is a
  candidate exactly when nothing blocks it, which needs a complete manifest, a confirmed hypothesis with
  evidence and without an unresolved critical contradiction, and a recommendation. The quality gate,
  evaluated again on the article as it is at every promotion, finds exactly the recorded reasons that
  it knows. The cited evidence is known to the result, and the digest of the candidate is the digest of
  its other fields.
\<close>

theorem candidate_state_sound:
  assumes "adapt_rca_result sha pstr rca catalog = Inr V"
    and "build_kb_candidate E due V rules context_raw candidate_raw generated_at = Inr cand"
  shows "\<exists>h reasons art refs fields. h \<in> set (vw_hyps V) \<and> jget cand ''article'' = Some art \<and> jget cand ''source_refs'' = Some refs \<and>
    jget refs ''evidence_ids'' = Some (jstrs (sort (ah_supporting h))) \<and>
    set (ah_supporting h) \<subseteq> set (known_evidence (vw_manifest V) (vw_events V)) \<and>
    jget cand ''quality_gate'' = Some (JObj [(''status'', JStr (if reasons = [] then ''PASS'' else ''FAIL'')), (''blocking_reasons'', jstrs (sorted_set reasons))]) \<and>
    (jget cand ''lifecycle_state'' = Some (JStr ''REJECTED'') \<longleftrightarrow>
       jget (getn rca ''root_cause'') ''completeness'' \<noteq> Some (JStr ''CONFIRMED'')) \<and>
    (jget cand ''lifecycle_state'' = Some (JStr ''CANDIDATE'') \<longleftrightarrow> reasons = []) \<and>
    (reasons = [] \<longrightarrow> am_completeness (vw_manifest V) = ''COMPLETE'' \<and> ah_status h = ''CONFIRMED'' \<and> ah_supporting h \<noteq> [] \<and>
       \<not> ah_unresolved h \<and> curated_recs V h \<noteq> []) \<and>
    quality_gate refs art = Inr (filter (\<lambda>r. r \<in> set [''NO_SUPPORTING_EVIDENCE'', ''RCA_NOT_CONFIRMED'', ''NO_RECOMMENDATION_TO_CURATE'']) (sorted_set reasons)) \<and>
    cand = JObj (fields @ [(''content_digest'', JStr (content_digest (kb_sha E) (kb_frepr E) fields))])"
proof -
  from build_candidate_stages [OF assms(2)] obtain C m h g p key kid fields where
    h: "subject_of V = Inr h"
    and f: "fields = candidate_fields V m h (candidate_reasons V h (pt_title p)) kid key (article_json V C m h g p generated_at) generated_at"
    and c: "cand = JObj (fields @ [(''content_digest'', JStr (content_digest (kb_sha E) (kb_frepr E) fields))])" by blast
  let ?rs = "candidate_reasons V h (pt_title p)" and ?st = "fst (candidate_state (candidate_reasons V h (pt_title p)))"
  note pub = subject_confirmed [OF assms(1) h]
  from adapt_stages [OF assms(1)] obtain cat inc w1 where
    a: "adapt_hypotheses cat inc (known_evidence (vw_manifest V) (vw_events V)) (jget_or rca ''hypotheses'' (JArr [])) = Inr (vw_hyps V, w1)"
    and r: "adapt_root inc (vw_hyps V) (am_completeness (vw_manifest V)) (getn rca ''root_cause'') = Inr (vw_root V)" by blast
  have mem: "h \<in> set (vw_hyps V)" using subject_in [OF h] by blast
  from adapt_hypotheses_ok [OF a] obtain js where "list_all2 (hyp_faithful (known_evidence (vw_manifest V) (vw_events V))) (vw_hyps V) js" by blast
  from list_all2_in [OF this mem] have known: "set (ah_supporting h) \<subseteq> set (known_evidence (vw_manifest V) (vw_events V))"
    unfolding hyp_faithful_def by blast
  note reads = candidate_reads [of V m h ?rs kid key "article_json V C m h g p generated_at" generated_at
      "[(''content_digest'', JStr (content_digest (kb_sha E) (kb_frepr E) fields))]", folded f, folded c]
  have ev: "jget (source_refs_json V h) ''evidence_ids'' = Some (jstrs (sort (ah_supporting h)))" by (simp add: source_refs_json_def jget_def)
  have names: "state_name ?st = ''REJECTED'' \<longleftrightarrow> ?st = REJECTED" "state_name ?st = ''CANDIDATE'' \<longleftrightarrow> ?st = CANDIDATE"
    by (cases ?st; simp add: state_name_def)+
  have root: "jget (getn rca ''root_cause'') ''completeness'' = Some (JStr (ar_completeness (vw_root V)))" using adapt_root_ok [OF r] by blast
  have clear: "?rs = [] \<longrightarrow> am_completeness (vw_manifest V) = ''COMPLETE'' \<and> ah_status h = ''CONFIRMED'' \<and> ah_supporting h \<noteq> [] \<and>
      \<not> ah_unresolved h \<and> curated_recs V h \<noteq> []"
    using pub [unfolded publishable_def] no_reasons [of V h "pt_title p"] by metis
  show ?thesis
    apply (rule exI [of _ h], rule exI [of _ ?rs], rule exI [of _ "article_json V C m h g p generated_at"],
        rule exI [of _ "source_refs_json V h"], rule exI [of _ fields])
    using mem known ev clear unfolding gate_of_article recorded_reasons [OF pub, of "pt_title p"] reads root
    by (intro conjI c) (simp_all add: names rejected_iff candidate_iff)
qed

text \<open>A confirmed analysis with one catalogued recommendation.\<close>

definition curated_action :: json where
  "curated_action = JObj [(''action_summary'', JStr ''Add disk''), (''precheck'', JStr ''Look''), (''risk'', JStr ''Low''), (''postcheck'', JStr ''Look'')]"

definition proposed_rec :: json where
  "proposed_rec = JObj [(''rec_id'', JStr ''REC-RCA-INC-20260101-001-001-001''), (''linked_to'', JStr ''RCA-INC-20260101-001-001''),
        (''execution_status'', JStr ''NOT_EXECUTED''), (''action_summary'', JStr ''Add disk''), (''precheck'', JStr ''Look''),
        (''risk'', JStr ''Low''), (''postcheck'', JStr ''Look'')]"

definition curated_rule :: json where
  "curated_rule = JObj [(''rule_id'', JStr ''R1''), (''domain'', JStr ''os''), (''statement'', JStr ''s''), (''causal_chain'', JArr [JStr ''a'']),
     (''symptom_match'', JObj []), (''supporting_conditions'', JArr []), (''contradicting_conditions'', JArr []),
     (''manual_actions'', JArr [curated_action])]"

definition curated_rca :: json where
  "curated_rca = JObj [(''contract_version'', JStr ''1.0.0''), (''incident_id'', JStr ''INC-20260101-001''),
     (''evidence_manifest'', JObj [(''completeness'', JStr ''COMPLETE''), (''present_refs'', JArr [JStr ''EVD-a1''])]),
     (''hypotheses'', JArr [JObj [(''rule_id'', JStr ''R1''), (''hypothesis_id'', JStr ''HYP-INC-20260101-001-R1''),
        (''domain'', JStr ''os''), (''status'', JStr ''CONFIRMED''), (''confidence'', JStr ''HIGH''),
        (''supporting_evidence_ids'', JArr [JStr ''EVD-a1''])]]),
     (''root_cause'', JObj [(''rca_id'', JStr ''RCA-INC-20260101-001-001''), (''completeness'', JStr ''CONFIRMED''),
        (''confirmed_hypothesis_ids'', JArr [JStr ''HYP-INC-20260101-001-R1''])]),
     (''recommendations'', JArr [proposed_rec])]"

definition curated_rules :: json where
  "curated_rules = JObj [(''rules_version'', JStr ''1''), (''rules'', JArr [curated_rule])]"

definition curated_rec :: adapted_rec where
  "curated_rec = \<lparr> ac_id = ''REC-RCA-INC-20260101-001-001-001'', ac_linked = ''RCA-INC-20260101-001-001'', ac_hyps = [''HYP-INC-20260101-001-R1''],
     ac_fields = [(''action_summary'', JStr ''Add disk''), (''precheck'', JStr ''Look''), (''risk'', JStr ''Low''), (''postcheck'', JStr ''Look'')],
     ac_requires_change = False, ac_execution = ''NOT_EXECUTED'', ac_provenance = ''CATALOGUED'' \<rparr>"

definition curated_view :: rca_view where
  "curated_view = \<lparr> vw_incident = ''INC-20260101-001'', vw_target = None, vw_contract = ''1.0.0'', vw_rules_version = ''1'',
     vw_manifest = \<lparr> am_completeness = ''COMPLETE'', am_declared = [], am_present = [''EVD-a1''], am_missing = [] \<rparr>, vw_events = [],
     vw_degraded = False, vw_reasons = [], vw_findings = [], vw_hyps = [sample_hyp],
     vw_root = \<lparr> ar_id = ''RCA-INC-20260101-001-001'', ar_completeness = ''CONFIRMED'', ar_confirmed = [''HYP-INC-20260101-001-R1''], ar_competing = [] \<rparr>,
     vw_recs = [curated_rec], vw_domains = [], vw_limitations = [], vw_warnings = [''HYPOTHESIS_TEXT_REANCHORED_ON_CATALOG''] \<rparr>"

lemma curated_catalog: "catalog_index curated_rules = Inr [(JStr ''R1'', curated_rule)]"
  "collect_certified_signatures curated_rules = Inr []"
  "catalog_actions [(JStr ''R1'', curated_rule)] = Inr [(JStr ''R1'', JStr ''Add disk'', curated_action)]"
  by code_simp+

lemma curated_hyps: "adapt_hypotheses [(JStr ''R1'', curated_rule)] ''INC-20260101-001'' [''EVD-a1'']
    (JArr [JObj [(''rule_id'', JStr ''R1''), (''hypothesis_id'', JStr ''HYP-INC-20260101-001-R1''),
        (''domain'', JStr ''os''), (''status'', JStr ''CONFIRMED''), (''confidence'', JStr ''HIGH''),
        (''supporting_evidence_ids'', JArr [JStr ''EVD-a1''])]])
  = Inr ([sample_hyp], [''HYPOTHESIS_TEXT_REANCHORED_ON_CATALOG''])"
  by (simp add: sample_hyp_def adapt_hypotheses_def hyp_step_def adapt_hypothesis_def hyp_identity_def hyp_evidence_def reanchored_def curated_rule_def
      rule_of_def sample_ids json_reads HYP_STATUSES_def CONFIDENCES_def ALLOWED_DOMAINS_def req_bool_def req_int_def py_iter_def
      py_eq.simps num_of_def)

lemma curated_texts: "\<not> has_executable_content (JStr s)" if "s \<in> {''os: s'', ''Add disk'', ''Look'', ''Low''}"
proof -
  have "list_all (\<lambda>t. \<not> contains t (lower s)) COMMAND_WORDS" using that by (elim insertE emptyE; hypsubst) code_simp+
  then show ?thesis by (rule not_executable)
qed

lemma curated_markers: "\<not> has_instruction_markers (JStr ''Add disk Look Low Look'')" "\<not> has_instruction_markers (JStr ''os: s Look'')"
  by code_simp+

lemma curated_rec_id: "is_safe_id (JStr ''REC-RCA-INC-20260101-001-001-001'') (Some [''REC''])"
  "match_dollar (seqs [lit (''REC-'' @ ''RCA-INC-20260101-001-001'' @ ''-''), Rep 3 0 d_rx]) ''REC-RCA-INC-20260101-001-001-001''"
  by (rule id_check_safe, code_simp) code_simp

lemma curated_identity: "rec_identity ''RCA-INC-20260101-001-001'' proposed_rec = Inr ''REC-RCA-INC-20260101-001-001-001''"
proof -
  have "getn proposed_rec ''rec_id'' = JStr ''REC-RCA-INC-20260101-001-001-001''" by code_simp
  moreover have "getn proposed_rec ''linked_to'' = JStr ''RCA-INC-20260101-001-001''" "getn proposed_rec ''execution_status'' = JStr ''NOT_EXECUTED''" by code_simp+
  ultimately show ?thesis
    unfolding rec_identity_def ensure_def by (simp only: json.case curated_rec_id simp_thms if_True bindE_simps)
qed

lemma curated_fields:
  "rec_fields [(JStr ''R1'', JStr ''Add disk'', curated_action)] proposed_rec = Inr (ac_fields curated_rec, True)"
  "hyp_refs [(JStr ''R1'', JStr ''Add disk'', curated_action)] [sample_hyp] (getn proposed_rec ''action_summary'') = [''HYP-INC-20260101-001-R1'']"
  "mapE as_str (map snd (ac_fields curated_rec)) = Inr [''Add disk'', ''Look'', ''Low'', ''Look'']"
  "join_on '' '' [''Add disk'', ''Look'', ''Low'', ''Look''] = ''Add disk Look Low Look''"
  "jget_or proposed_rec ''requires_change'' (JBool False) = JBool False"
  by code_simp+

lemma curated_safe: "no_executable (ac_fields curated_rec) = Inr ()"
  by (simp add: no_executable_def curated_rec_def ensure_def curated_texts)

lemma curated_recommendations: "adapt_recommendations ''RCA-INC-20260101-001-001'' [(JStr ''R1'', JStr ''Add disk'', curated_action)] [sample_hyp]
    (JArr [proposed_rec]) = Inr ([curated_rec], [])"
proof -
  have "req_dict proposed_rec ''rca.recommendations'' = Inr proposed_rec" by (simp add: proposed_rec_def req_dict_def)
  then have "adapt_recommendation ''RCA-INC-20260101-001-001'' [(JStr ''R1'', JStr ''Add disk'', curated_action)] [sample_hyp] proposed_rec = Inr (curated_rec, [])"
    using curated_identity curated_fields curated_safe curated_markers(1)
    by (simp add: adapt_recommendation_def req_bool_def advcrash_def) (simp add: curated_rec_def)
  then show ?thesis by (simp add: adapt_recommendations_def req_list_def ensure_def)
qed

lemma curated_version: "clean_str 32 (fmt (\<lambda>_. []) (jget_or curated_rules ''rules_version'' (JStr []))) = ''1''"
  by code_simp

lemma curated_adapts: "adapt_rca_result id (\<lambda>_. []) curated_rca curated_rules = Inr curated_view"
  using curated_catalog curated_hyps curated_recommendations curated_version
  by (simp add: adapt_rca_result_def curated_rca_def json_reads SUPPORTED_RCA_CONTRACT_VERSIONS_def sample_ids sample_manifest
    sample_root adapt_timeline_def known_evidence_def text_list_def adapt_domains_def
    clean_text_def jitems_def curated_view_def KNOWN_RCA_FIELDS_def findings_of_def truthy_def strings_among_def)

definition curated_parts :: article_parts where
  "curated_parts = \<lparr> pt_title = ''os: s'', pt_codes = [], pt_required = [], pt_contradicting = [], pt_due = ''d'' \<rparr>"

definition curated_guidance :: guidance where
  "curated_guidance = (case dget DOMAIN_GUIDANCE ''os'' of Some g \<Rightarrow> g | None \<Rightarrow> snd (hd DOMAIN_GUIDANCE))"

lemma curated_subject: "candidate_subject curated_rules curated_view = Inr (sample_hyp, curated_rule, curated_guidance)"
proof -
  have s: "subject_of curated_view = Inr sample_hyp" by (simp add: subject_of_def curated_view_def hyp_table_def sample_hyp_def)
  have r: "rule_of [(JStr ''R1'', curated_rule)] (ah_rule sample_hyp) = Some curated_rule" by code_simp
  have "dget DOMAIN_GUIDANCE ''os'' = Some curated_guidance" unfolding curated_guidance_def DOMAIN_GUIDANCE_def by (simp del: split_paired_Ex)
  then have g: "domain_guidance (ah_domain sample_hyp) = Inr curated_guidance" by (simp add: domain_guidance_def sample_hyp_def)
  show ?thesis unfolding candidate_subject_def curated_catalog bindE_simps s r g option.case ..
qed

lemma curated_article: "article_parts_of plain_env (\<lambda>_. Inr ''d'') curated_view sample_hyp curated_rule ''t'' = Inr curated_parts"
  by code_simp

lemma curated_commands: "no_commands curated_view sample_hyp ''os: s''"
  by (simp add: no_commands_def curated_view_def curated_recs_def sample_hyp_def curated_rec_def diagnostics_def rec_text_def curated_texts)

lemma curated_reasons: "candidate_reasons curated_view sample_hyp ''os: s'' = []"
  by code_simp

definition plain_meta :: candidate_meta where
  "plain_meta = \<lparr> cm_type = ''KNOWN_ISSUE'', cm_owner = ''TO_BE_DEFINED'', cm_proposers = [], cm_supersedes = None \<rparr>"

lemma article_guidance:
  "gd_license g = gd_license g' \<Longrightarrow> gd_note g = gd_note g' \<Longrightarrow> article_json V C m h g p t = article_json V C m h g' p t"
  by (simp add: article_json_def)

definition free_guidance :: guidance where
  "free_guidance = \<lparr> gd_components = [], gd_breadth = [], gd_blast = [], gd_reversibility = [], gd_rollback = [], gd_license = False, gd_note = None \<rparr>"

definition curated_article_json :: json where
  "curated_article_json = article_json curated_view empty_context plain_meta sample_hyp free_guidance curated_parts ''t''"

lemma curated_article_eq: "article_json curated_view empty_context plain_meta sample_hyp curated_guidance curated_parts ''t'' = curated_article_json"
proof -
  have "gd_license curated_guidance = gd_license free_guidance \<and> gd_note curated_guidance = gd_note free_guidance"
    unfolding curated_guidance_def DOMAIN_GUIDANCE_def free_guidance_def by (simp del: split_paired_Ex)
  then show ?thesis unfolding curated_article_json_def by (intro article_guidance) simp_all
qed

definition curated_key :: json where
  "curated_key = JObj [(''family'', JStr ''os''), (''rule_id'', JStr ''R1''), (''error_codes'', JArr []), (''oracle_versions'', JArr [JStr ''UNKNOWN'']),
     (''release_update'', JStr ''UNKNOWN''), (''platform'', JStr ''UNKNOWN''),
     (''architecture'', JObj (map (\<lambda>k. (k, JStr ''UNKNOWN'')) [''asm'', ''cdb'', ''dataguard'', ''rac''])), (''license_dependent'', JBool False)]"

lemma curated_key: "dedup_key curated_article_json = Inr curated_key" "key_id (kb_sha plain_env) (kb_repr plain_env) curated_key = Inr ''KB-d''"
  by code_simp+

definition curated_content :: "(string \<times> json) list" where
  "curated_content = candidate_fields curated_view plain_meta sample_hyp [] ''KB-d'' curated_key curated_article_json ''t''"

definition authorization_note :: string where
  "authorization_note = ''A candidate is not knowledge: it requires human review and an externally provided authorization record before publication.''"

text \<open>The texts of the example whose letters alone do not settle the audit.\<close>

definition long_texts :: "string list" where
  "long_texts = [''KBC-INC-20260101-001-001'', ''KNOWN_ISSUE'', ''os: s'',
     ''Scope is explicit; UNKNOWN means not established and is never read as '' @ [CHR 0x27] @ ''applies everywhere'' @ [CHR 0x27] @ ''.'',
     ''Interpretation holds only when the required conditions are observed in the CURRENT environment.'',
     ''This article does not replace current evidence: confirm against the environment before forming an RCA or recommendation.'']"

lemma long_texts_clear: "list_all (\<lambda>s. \<not> contains_structured_secret s) (authorization_note # long_texts)"
proof -
  have "\<not> contains_structured_secret authorization_note"
  proof (rule clear_of_secrets)
    show "findall Longest KEY_VALUE_SECRET None authorization_note = []" by code_simp
  qed code_simp+
  moreover have "list_all (\<lambda>s. list_all (\<lambda>t. \<not> contains t (lower s)) SECRET_WORDS \<and> list_all (\<lambda>t. \<not> contains t (lower s)) MARK_WORDS \<and> spaced 31 s) long_texts"
    by code_simp
  ultimately show ?thesis using clear_of_words by (simp add: list_all_iff)
qed

lemma curated_audit: "audit_strings (JObj curated_content) 0 = Inr ()"
proof (rule audit_passes)
  have "list_all (\<lambda>s. list_ex (\<lambda>t. t = s) (authorization_note # long_texts) \<or> soft s \<and> (spaced 31 s \<or> runs_below is_hex 32 s))
      (jstrings (JObj curated_content))" by code_simp
  then show "\<not> contains_structured_secret s" if "s \<in> set (jstrings (JObj curated_content))" for s
    using that long_texts_clear soft_harmless harmless_not_structured_secret unfolding list_all_iff list_ex_iff by blast
  have "shallow 12 (JObj curated_content)" by code_simp
  from shallow_depth [OF this] show "0 + jdepth (JObj curated_content) \<le> 12" by simp
qed

lemma curated_built: "\<exists>cand. build_kb_candidate plain_env (\<lambda>_. Inr ''d'') curated_view curated_rules JNull JNull ''t'' = Inr cand \<and>
    jget cand ''lifecycle_state'' = Some (JStr ''CANDIDATE'')"
proof -
  have m: "parse_candidate_input JNull = Inr plain_meta" by (simp add: parse_candidate_input_def plain_meta_def)
  have t: "pt_title curated_parts = ''os: s''" by (simp add: curated_parts_def)
  have "build_kb_candidate plain_env (\<lambda>_. Inr ''d'') curated_view curated_rules JNull JNull ''t'' =
      Inr (JObj (curated_content @ [(''content_digest'', JStr (content_digest (kb_sha plain_env) (kb_frepr plain_env) curated_content))]))"
    using curated_commands curated_audit
    by (simp add: build_kb_candidate_def parse_change_context_def m curated_subject curated_article t ensure_def Let_def curated_article_eq
        curated_key advcrash_def curated_reasons curated_content_def [symmetric])
  then show ?thesis by (simp add: curated_content_def candidate_reads(3)) (simp add: candidate_state_def state_name_def)
qed

theorem candidate_state_sound_witness:
  "\<exists>cand art refs. build_kb_candidate plain_env (\<lambda>_. Inr ''d'') curated_view curated_rules JNull JNull ''t'' = Inr cand \<and>
     jget cand ''article'' = Some art \<and> jget cand ''source_refs'' = Some refs \<and> jget cand ''lifecycle_state'' = Some (JStr ''CANDIDATE'') \<and>
     quality_gate refs art = Inr []"
proof -
  from curated_built obtain cand where b: "build_kb_candidate plain_env (\<lambda>_. Inr ''d'') curated_view curated_rules JNull JNull ''t'' = Inr cand"
    and s: "jget cand ''lifecycle_state'' = Some (JStr ''CANDIDATE'')" by blast
  from candidate_state_sound [OF curated_adapts b] show ?thesis
    apply (elim exE conjE)
    subgoal premises p for h reasons art refs fields
    proof -
      from p(8) s have "reasons = []" by (simp only: simp_thms)
      with p(10) have "quality_gate refs art = Inr []" by (simp add: sorted_set_def)
      with b s p(2,3) show ?thesis by (intro exI conjI)
    qed
    done
qed

end
