(* ===== verification/Spec2Isabelle.thy ===== *)
theory Spec2Isabelle
  imports Prelude Regex PyValue PyOps Gw_Common Versions Schemas Catalog Architecture Field_Validation
    Text_Sub Rca_Sanitize Canonical_Json Kb_Common Safety Evidence Json_Input Adapters Gw_Tools Gateway
    Gateway_Safety Server Rca_Rules Rca_Hypothesis Rca_Timeline Rca_Intake Rca_Engine
    Safe_Ids Kb_Schema Kb_Adapter Authorization Knowledge Kb_Store Kb_Lifecycle Kb_Safety Retrieval
    Change_Context Change Safe_Words Change_Safety Estack Params
    Classify Ingest Ingest_Safety Audit_Words Candidate
begin

text \<open>
  A model of the core of the Oracle diagnostic stack: the read-only evidence gateway
  (\<open>src/mcp_gateway\<close>), the root-cause engine (\<open>src/rca_engine\<close>) and the
  knowledge base with its human authorizations (\<open>src/change_documentation_knowledge\<close>).

  The parts of the program and the theories that model them:

  \<^item> \<open>Prelude\<close>, \<open>Regex\<close>, \<open>Text_Sub\<close>, \<open>PyValue\<close>, \<open>PyOps\<close>: the fragment of Python the sources use. A
    fallible operation is a sum (\<open>Inl\<close> the exception), a \<open>dict\<close> an association list in insertion
    order, a string a list of Latin-1 code points, decoded JSON a datatype whose floats are exact
    rationals or the three special values; regular expressions are matched by derivatives, and
    substitution scans from the left.
  \<^item> \<open>Gw_Common\<close>, \<open>Versions\<close>, \<open>Schemas\<close> (\<open>common.py\<close>, \<open>versions.py\<close>, \<open>schemas.py\<close> of the gateway):
    error codes, limits that an operator can only lower, version families, the closed JSON Schema
    subset every tool argument passes.
  \<^item> \<open>Catalog\<close>, \<open>Architecture\<close>, \<open>Field_Validation\<close>: the collector catalog with its certified query
    files and default-deny output fields, the targets, \<open>evaluate_capability\<close>, the observed
    dimensions of a target and the registry of validations against real databases.
  \<^item> \<open>Evidence\<close> (\<open>evidence.py\<close>): aliases and keyed hashes of a session, field by field sanitization of
    the rows an adapter returns, and the evidence store as a state machine over puts, reads and
    session ends.
  \<^item> \<open>Json_Input\<close>, \<open>Adapters\<close> (\<open>read_json_file\<close>, \<open>adapters.py\<close>): strict parsing of untrusted JSON, the
    adapter registry and the deadline of a call.
  \<^item> \<open>Gw_Tools\<close>, \<open>Gateway\<close>, \<open>Gateway_Safety\<close> (\<open>gateway.py\<close>): the published tools, the sessions with
    their budgets, the five tools as operations on one state that keep the changes made before an
    error, the answer and the audit record of a call; sequences of calls are a machine with an
    invariant.
  \<^item> \<open>Server\<close> (\<open>server.py\<close>): the JSON-RPC server, from bytes to messages; its lifecycle is an inductive
    step relation that every handled line follows.
  \<^item> \<open>Rca_Sanitize\<close> (\<open>sanitize.py\<close>, \<open>tokenization.py\<close>): redaction, secret detection, opaque tokens.
  \<^item> \<open>Rca_Rules\<close>, \<open>Rca_Hypothesis\<close>, \<open>Rca_Timeline\<close>, \<open>Rca_Intake\<close>, \<open>Rca_Engine\<close> (\<open>rules.py\<close>,
    \<open>hypothesis.py\<close> and \<open>causality.py\<close>, \<open>timeline.py\<close>, \<open>intake.py\<close>, \<open>engine.py\<close>): the root-cause
    engine, from a fixture and a decoded rules file to a result, each stage raising what Python raises.
  \<^item> \<open>Canonical_Json\<close>, \<open>Kb_Common\<close>, \<open>Safety\<close> (\<open>common.py\<close>, \<open>safety.py\<close> of the knowledge package):
    canonical serialisation, the lifecycle of an entry as a step relation, content digests, safe
    identifiers, cleaned texts, audits of artifacts and path confinement.
  \<^item> \<open>Safe_Ids\<close>: when the detectors of \<open>Safety\<close> cannot fire, by the characters a text contains; the
    examples of the knowledge theories are evaluated with it.
  \<^item> \<open>Kb_Schema\<close>, \<open>Kb_Adapter\<close> (\<open>schema.py\<close>): strict validators and the adapter from an RCA result to the
    view the knowledge package works on; it verifies states and never raises one.
  \<^item> \<open>Authorization\<close>, \<open>Knowledge\<close> (\<open>authorization.py\<close>, \<open>knowledge.py\<close>): the external approval of a human,
    the quality gate, and the duplicate review with a verdict that does not depend on its loop.
  \<^item> \<open>Kb_Store\<close>, \<open>Kb_Lifecycle\<close>, \<open>Kb_Safety\<close> (\<open>kb_store.py\<close>): the knowledge base as a directory of
    decoded JSON, its additions and transitions; sequences of operations are a machine with an
    invariant (legal histories) and an order in which it only grows.
  \<^item> \<open>Retrieval\<close> (\<open>retrieval.py\<close>): search over verified articles.
  \<^item> \<open>Change_Context\<close>, \<open>Change\<close>, \<open>Change_Safety\<close> (\<open>change.py\<close>): the operational context with its four
    gates, the readiness of a proposed change, the advisory with external reports and decisions. A
    change is a record and a rendering to the dictionary the code builds; its digest is taken of the
    rendering, and the properties follow one change through the stages of the advisory. \<open>Estack\<close> is
    the governance of changes to the repository itself.
  \<^item> \<open>Params\<close> (\<open>human_evidence/params.py\<close>): the binds of a certified query and the typed literals that replace
    them; the scanner is a partial function, with a proof of when it returns.
  \<^item> \<open>Classify\<close>, \<open>Ingest\<close>, \<open>Ingest_Safety\<close> (\<open>classify.py\<close>, \<open>cli.py\<close> of \<open>human_evidence\<close>): requests for a person to run
    a certified query, and the ingestion of the reported table cell by cell.
  \<^item> \<open>Candidate\<close> (\<open>build_kb_candidate\<close> of \<open>knowledge.py\<close>): the knowledge candidate of an analysis, its article
    and its state, which the quality gate finds again in the article.
  \<^item> \<open>Safe_Words\<close>, \<open>Audit_Words\<close>: when a text contains no executable content and when it passes the audit
    for secrets, by its words.

  Each theory states its component's properties next to its definitions; a property is introduced
  by a text block with its number, and followed by a witness that applies it to concrete data.

  Parameters of the model, not definitions: SHA-256 and HMAC, random tokens, clocks, the file
  system, \<open>datetime.fromisoformat\<close>, the shortest decimal text of a float.

  Not modelled: command lines, file writing and symbolic-link checks, the live database driver of
  \<open>mcp_gateway_lab\<close>, developer scripts, Markdown templates, and the parsers of Oracle tool output.
\<close>

end
